(* ===== verification/Prelude.thy ===== *)
theory Prelude
  imports Main "HOL-Library.Char_ord" "HOL-Library.List_Lexorder" "HOL-Library.Code_Target_Numeral"
begin

text \<open>
  Shared ground of the development: the collections of rewrite rules, and the parts of Rust's
  standard library that the bank node uses on strings and integers.

  A Rust \<open>String\<close> is a sequence of UTF-8 bytes and an Isabelle \<open>string\<close> is a list of 8-bit
  characters, so a string is modelled by its byte list: \<open>length\<close> is Rust's \<open>len()\<close>, and the
  linear order of \<open>List_Lexorder\<close> is the byte order that both \<open>str\<close> and SQLite's TEXT
  comparison use. A character boundary is a position that is not inside a multi-byte
  sequence. A Rust operation that panics returns \<open>None\<close> here.
\<close>

named_theorems store_simps \<open>definitions of the table layer, unfolded by the store lemmas\<close>
named_theorems handler_simps \<open>definitions of handlers and their helpers\<close>

section \<open>Results\<close>

abbreviation is_ok :: "'e + 'a \<Rightarrow> bool" where
  "is_ok r \<equiv> (case r of Inl _ \<Rightarrow> False | Inr _ \<Rightarrow> True)"

definition unwrap_or :: "'a option \<Rightarrow> 'a \<Rightarrow> 'a" where
  "unwrap_or x d = (case x of None \<Rightarrow> d | Some v \<Rightarrow> v)"

definition or_else :: "'a option \<Rightarrow> 'a option \<Rightarrow> 'a option" where
  "or_else x y = (case x of None \<Rightarrow> y | Some v \<Rightarrow> Some v)"

definition filter_opt :: "('a \<Rightarrow> bool) \<Rightarrow> 'a option \<Rightarrow> 'a option" where
  "filter_opt P x = (case x of None \<Rightarrow> None | Some v \<Rightarrow> if P v then Some v else None)"

lemma unwrap_or_simps [simp]: "unwrap_or None d = d" "unwrap_or (Some v) d = v"
  by (simp_all add: unwrap_or_def)

lemma or_else_simps [simp]: "or_else None y = y" "or_else (Some v) y = Some v"
  by (simp_all add: or_else_def)

lemma filter_opt_simps [simp]:
  "filter_opt P None = None" "filter_opt P (Some v) = (if P v then Some v else None)"
  by (simp_all add: filter_opt_def)

lemma filter_opt_SomeD: "filter_opt P x = Some v \<Longrightarrow> x = Some v \<and> P v"
  by (auto simp: filter_opt_def split: option.splits if_splits)

section \<open>Bytes and characters\<close>

definition byte :: "nat \<Rightarrow> char" where
  "byte n = char_of n"

definition byte_val :: "char \<Rightarrow> nat" where
  "byte_val c = of_char c"

text \<open>A UTF-8 continuation byte: \<open>0b10xxxxxx\<close>.\<close>

definition is_cont_byte :: "char \<Rightarrow> bool" where
  "is_cont_byte c \<longleftrightarrow> 128 \<le> byte_val c \<and> byte_val c < 192"

definition is_ascii :: "string \<Rightarrow> bool" where
  "is_ascii s \<longleftrightarrow> list_all (\<lambda>c. byte_val c < 128) s"

text \<open>Rust's \<open>str::is_char_boundary\<close>.\<close>

definition is_char_boundary :: "string \<Rightarrow> nat \<Rightarrow> bool" where
  "is_char_boundary s i \<longleftrightarrow>
     i = 0 \<or> i = length s \<or> (i < length s \<and> \<not> is_cont_byte (s ! i))"

lemma is_ascii_boundary: "is_ascii s \<Longrightarrow> i \<le> length s \<Longrightarrow> is_char_boundary s i"
proof -
  assume "is_ascii s" and "i \<le> length s"
  then have "i < length s \<Longrightarrow> byte_val (s ! i) < 128"
    by (simp add: is_ascii_def list_all_length)
  with \<open>i \<le> length s\<close> show ?thesis
    by (cases "i = length s") (simp_all add: is_char_boundary_def is_cont_byte_def)
qed

lemma is_ascii_simps [simp]:
  "is_ascii []" "is_ascii (c # s) \<longleftrightarrow> byte_val c < 128 \<and> is_ascii s"
  "is_ascii (s @ t) \<longleftrightarrow> is_ascii s \<and> is_ascii t"
  by (simp_all add: is_ascii_def)

text \<open>\<open>&s[..n]\<close> and \<open>String::truncate\<close>: both panic inside a character.\<close>

definition slice_to :: "string \<Rightarrow> nat \<Rightarrow> string option" where
  "slice_to s n = (if n \<le> length s \<and> is_char_boundary s n then Some (take n s) else None)"

definition truncate_at :: "string \<Rightarrow> nat \<Rightarrow> string option" where
  "truncate_at s n =
     (if length s \<le> n then Some s
      else if is_char_boundary s n then Some (take n s) else None)"

text \<open>The horizontal ellipsis U+2026, three bytes in UTF-8.\<close>

definition ellipsis :: string where
  "ellipsis = [byte 226, byte 128, byte 166]"

section \<open>Trimming\<close>

text \<open>
  \<open>str::trim\<close> removes characters with the Unicode property White\_Space; these are their
  UTF-8 encodings.
\<close>

definition white_space :: "string list" where
  "white_space =
     [[byte 9], [byte 10], [byte 11], [byte 12], [byte 13], [byte 32],
      [byte 194, byte 133], [byte 194, byte 160], [byte 225, byte 154, byte 128],
      [byte 226, byte 128, byte 168], [byte 226, byte 128, byte 169],
      [byte 226, byte 128, byte 175], [byte 226, byte 129, byte 159],
      [byte 227, byte 128, byte 128]]
     @ map (\<lambda>n. [byte 226, byte 128, byte n]) [128..<139]"

definition starts_with :: "string \<Rightarrow> string \<Rightarrow> bool" where
  "starts_with p s \<longleftrightarrow> take (length p) s = p"

fun strip_any :: "string list \<Rightarrow> string \<Rightarrow> string option" where
  "strip_any [] s = None"
| "strip_any (p # ps) s =
     (if p \<noteq> [] \<and> starts_with p s then Some (drop (length p) s) else strip_any ps s)"

text \<open>\<open>str::find\<close> on a pattern, as a byte position.\<close>

fun find_at :: "string \<Rightarrow> string \<Rightarrow> nat option" where
  "find_at p [] = (if p = [] then Some 0 else None)"
| "find_at p (c # s) =
     (if starts_with p (c # s) then Some 0 else map_option Suc (find_at p s))"

lemma strip_any_shorter: "strip_any ps s = Some r \<Longrightarrow> length r < length s"
proof (induction ps)
  case Nil
  then show ?case by simp
next
  case (Cons p ps)
  show ?case
  proof (cases "p \<noteq> [] \<and> starts_with p s")
    case True
    moreover from True have "s \<noteq> []" by (auto simp: starts_with_def)
    ultimately show ?thesis using Cons.prems by auto
  next
    case False
    with Cons show ?thesis by auto
  qed
qed

function strip_while :: "string list \<Rightarrow> string \<Rightarrow> string" where
  "strip_while ps s = (case strip_any ps s of None \<Rightarrow> s | Some r \<Rightarrow> strip_while ps r)"
  by pat_completeness auto
termination
  by (relation "measure (\<lambda>(ps, s). length s)") (auto dest: strip_any_shorter)

declare strip_while.simps [simp del]

definition trim_start :: "string \<Rightarrow> string" where
  "trim_start s = strip_while white_space s"

definition trim_end :: "string \<Rightarrow> string" where
  "trim_end s = rev (strip_while (map rev white_space) (rev s))"

definition trim :: "string \<Rightarrow> string" where
  "trim s = trim_end (trim_start s)"

definition is_blank :: "string \<Rightarrow> bool" where
  "is_blank s \<longleftrightarrow> trim s = []"

lemma strip_while_Nil [simp]: "strip_while ps [] = []"
proof -
  have "strip_any ps [] = None"
    by (induction ps) (auto simp: starts_with_def)
  then show ?thesis by (simp add: strip_while.simps [of ps "[]"])
qed

lemma trim_Nil [simp]: "trim [] = []"
  by (simp add: trim_def trim_start_def trim_end_def)

lemma is_blank_Nil [simp]: "is_blank []"
  by (simp add: is_blank_def)

text \<open>Nothing is stripped where no white-space sequence starts.\<close>

lemma strip_any_None:
  "s \<noteq> [] \<Longrightarrow> hd s \<notin> hd ` (set ps - {[]}) \<Longrightarrow> strip_any ps s = None"
proof (induction ps)
  case Nil
  then show ?case by simp
next
  case (Cons p ps)
  have "\<not> (p \<noteq> [] \<and> starts_with p s)"
  proof
    assume p: "p \<noteq> [] \<and> starts_with p s"
    with Cons.prems(1) have "hd s = hd p"
      by (cases p; cases s) (auto simp: starts_with_def)
    with p Cons.prems(2) show False by auto
  qed
  moreover have "hd s \<notin> hd ` (set ps - {[]})" using Cons.prems(2) by auto
  ultimately show ?case using Cons by simp
qed

lemma strip_while_id:
  "s \<noteq> [] \<Longrightarrow> hd s \<notin> hd ` (set ps - {[]}) \<Longrightarrow> strip_while ps s = s"
  by (simp add: strip_while.simps [of ps s] strip_any_None)


section \<open>Splitting, case and decimal numbers\<close>

text \<open>\<open>str::split_once\<close> on a one-byte separator: the parts before and after its first occurrence.\<close>

definition split_once :: "char \<Rightarrow> string \<Rightarrow> (string \<times> string) option" where
  "split_once c s =
     (if c \<in> set s then Some (takeWhile (\<lambda>x. x \<noteq> c) s, tl (dropWhile (\<lambda>x. x \<noteq> c) s)) else None)"

definition to_ascii_upper :: "char \<Rightarrow> char" where
  "to_ascii_upper c = (if 97 \<le> byte_val c \<and> byte_val c \<le> 122 then byte (byte_val c - 32) else c)"

definition to_ascii_lower :: "char \<Rightarrow> char" where
  "to_ascii_lower c = (if 65 \<le> byte_val c \<and> byte_val c \<le> 90 then byte (byte_val c + 32) else c)"

definition to_ascii_uppercase :: "string \<Rightarrow> string" where
  "to_ascii_uppercase s = map to_ascii_upper s"

definition to_ascii_lowercase :: "string \<Rightarrow> string" where
  "to_ascii_lowercase s = map to_ascii_lower s"

definition eq_ignore_ascii_case :: "string \<Rightarrow> string \<Rightarrow> bool" where
  "eq_ignore_ascii_case s t \<longleftrightarrow> to_ascii_lowercase s = to_ascii_lowercase t"

lemma eq_ignore_ascii_case_refl [simp]: "eq_ignore_ascii_case s s"
  by (simp add: eq_ignore_ascii_case_def)

lemma split_once_first:
  "c \<notin> set s \<Longrightarrow> split_once c (s @ c # t) = Some (s, t)"
  by (induction s) (auto simp: split_once_def)

lemma split_once_none: "c \<notin> set s \<Longrightarrow> split_once c s = None"
  by (simp add: split_once_def)

definition digit_val :: "char \<Rightarrow> nat option" where
  "digit_val c = (if 48 \<le> byte_val c \<and> byte_val c \<le> 57 then Some (byte_val c - 48) else None)"

definition is_digit :: "char \<Rightarrow> bool" where
  "is_digit c \<longleftrightarrow> digit_val c \<noteq> None"

definition digit_char :: "nat \<Rightarrow> char" where
  "digit_char d = byte (48 + d)"

fun digits_val :: "nat \<Rightarrow> string \<Rightarrow> nat option" where
  "digits_val acc [] = Some acc"
| "digits_val acc (c # s) =
     (case digit_val c of None \<Rightarrow> None | Some d \<Rightarrow> digits_val (10 * acc + d) s)"

text \<open>
  \<open><uN as FromStr>::from_str\<close>: one leading plus sign is accepted, a lone sign or the empty
  string is an error, any other non-digit (a minus sign too) is an error, and so is a value
  of \<open>2 ^ bits\<close> or more.
\<close>

definition parse_unsigned :: "nat \<Rightarrow> string \<Rightarrow> nat option" where
  "parse_unsigned bits s =
     (let t = (case s of [] \<Rightarrow> [] | c # r \<Rightarrow> if c = CHR ''+'' then r else s)
      in if t = [] then None
         else filter_opt (\<lambda>v. v < 2 ^ bits) (digits_val 0 t))"

text \<open>\<open>join\<close> of a list of strings with a separator.\<close>

fun join_with :: "string \<Rightarrow> string list \<Rightarrow> string" where
  "join_with sep [] = []"
| "join_with sep [x] = x"
| "join_with sep (x # xs) = x @ sep @ join_with sep xs"

text \<open>\<open>to_string()\<close> of an unsigned integer.\<close>

fun show_nat :: "nat \<Rightarrow> string" where
  "show_nat n = (if n < 10 then [digit_char n] else show_nat (n div 10) @ [digit_char (n mod 10)])"

declare show_nat.simps [simp del]

definition show_int :: "int \<Rightarrow> string" where
  "show_int i = (if i < 0 then CHR ''-'' # show_nat (nat (- i)) else show_nat (nat i))"

text \<open>A digit of \<open>{:x}\<close>.\<close>

definition hex_digit :: "nat \<Rightarrow> char" where
  "hex_digit n = (if n < 10 then byte (48 + n) else byte (87 + n))"

lemma byte_val_byte [simp]: "n < 256 \<Longrightarrow> byte_val (byte n) = n"
  by (simp add: byte_val_def byte_def)

lemma digit_val_digit_char [simp]: "d < 10 \<Longrightarrow> digit_val (digit_char d) = Some d"
  by (simp add: digit_val_def digit_char_def)

lemma digits_val_append:
  "digits_val acc (s @ t) = (case digits_val acc s of None \<Rightarrow> None | Some v \<Rightarrow> digits_val v t)"
  by (induction s arbitrary: acc) (auto split: option.splits)

lemma digits_val_show_nat: "digits_val 0 (show_nat n) = Some n"
proof (induction n rule: show_nat.induct)
  case (1 n)
  show ?case
  proof (cases "n < 10")
    case True
    then show ?thesis by (simp add: show_nat.simps [of n])
  next
    case False
    with "1.IH" show ?thesis
      by (simp add: show_nat.simps [of n] digits_val_append)
  qed
qed

lemma digits_val_is_digit: "digits_val acc s = Some v \<Longrightarrow> list_all is_digit s"
  by (induction s arbitrary: acc) (auto simp: is_digit_def split: option.splits)

lemma digits_val_Some: "list_all is_digit s \<Longrightarrow> \<exists>v. digits_val acc s = Some v"
  by (induction s arbitrary: acc) (auto simp: is_digit_def)

lemma digits_val_bound:
  "digits_val acc s = Some v \<Longrightarrow> v < (acc + 1) * 10 ^ length s"
proof (induction s arbitrary: acc)
  case Nil
  then show ?case by simp
next
  case (Cons c s)
  then obtain d where d: "digit_val c = Some d" "digits_val (10 * acc + d) s = Some v"
    by (auto split: option.splits)
  from d(1) have "d < 10" by (auto simp: digit_val_def split: if_splits)
  have "v < (10 * acc + d + 1) * 10 ^ length s" using Cons.IH [OF d(2)] .
  also have "\<dots> \<le> ((acc + 1) * 10) * 10 ^ length s"
    using \<open>d < 10\<close> by (intro mult_right_mono) auto
  also have "\<dots> = (acc + 1) * 10 ^ length (c # s)" by (simp add: algebra_simps)
  finally show ?case .
qed

text \<open>An unsigned decimal: digits, or digits around a point, and at least one digit.\<close>

definition decimal_text :: "string \<Rightarrow> string \<Rightarrow> string \<Rightarrow> bool" where
  "decimal_text s w f \<longleftrightarrow>
     (s = w @ CHR ''.'' # f \<or> s = w \<and> f = []) \<and> w @ f \<noteq> [] \<and> list_all is_digit w \<and> list_all is_digit f"

lemma digits_val_from: "digits_val acc s = map_option (\<lambda>v. acc * 10 ^ length s + v) (digits_val 0 s)"
proof (induction s arbitrary: acc)
  case (Cons c s)
  show ?case
  proof (cases "digit_val c")
    case (Some d)
    with Cons.IH [of "10 * acc + d"] Cons.IH [of d] show ?thesis
      by (cases "digits_val 0 s") (simp_all add: algebra_simps)
  qed simp
qed simp

lemma digits_val_split:
  assumes "digits_val 0 (s @ t) = Some n"
  obtains a b where "digits_val 0 s = Some a" "digits_val 0 t = Some b" "b < 10 ^ length t"
    "n = a * 10 ^ length t + b"
proof -
  obtain a where a: "digits_val 0 s = Some a" "digits_val a t = Some n"
    using assms by (auto simp: digits_val_append split: option.splits)
  with digits_val_from [of a t] obtain b where b: "digits_val 0 t = Some b" "n = a * 10 ^ length t + b"
    by (cases "digits_val 0 t") auto
  from digits_val_bound [OF b(1)] have "b < 10 ^ length t" by simp
  with that a b show ?thesis by blast
qed

lemma show_nat_digits: "list_all is_digit (show_nat n)"
  using digits_val_show_nat by (rule digits_val_is_digit)

lemma show_nat_nonempty [simp]: "show_nat n \<noteq> []"
  by (simp add: show_nat.simps [of n])

lemma is_digit_not_plus: "is_digit c \<Longrightarrow> c \<noteq> CHR ''+''"
  by (auto simp: is_digit_def digit_val_def byte_val_def)

lemma parse_unsigned_digits:
  assumes "list_all is_digit s" "s \<noteq> []" "digits_val 0 s = Some v" "v < 2 ^ bits"
  shows "parse_unsigned bits s = Some v"
proof -
  obtain c r where s: "s = c # r" using assms(2) by (cases s) auto
  with assms(1) have "c \<noteq> CHR ''+''" by (simp add: is_digit_not_plus)
  with s assms(3,4) show ?thesis by (simp add: parse_unsigned_def)
qed

theorem parse_show_nat: "n < 2 ^ bits \<Longrightarrow> parse_unsigned bits (show_nat n) = Some n"
  by (rule parse_unsigned_digits) (simp_all add: show_nat_digits digits_val_show_nat)

section \<open>Checked arithmetic\<close>

text \<open>\<open>checked_add\<close>, \<open>checked_mul\<close> and \<open>saturating_add\<close> at a width, on the value of the integer.\<close>

definition checked_add :: "nat \<Rightarrow> nat \<Rightarrow> nat \<Rightarrow> nat option" where
  "checked_add bits a b = (if a + b < 2 ^ bits then Some (a + b) else None)"

definition checked_mul :: "nat \<Rightarrow> nat \<Rightarrow> nat \<Rightarrow> nat option" where
  "checked_mul bits a b = (if a * b < 2 ^ bits then Some (a * b) else None)"

definition saturating_add :: "nat \<Rightarrow> nat \<Rightarrow> nat \<Rightarrow> nat" where
  "saturating_add bits a b = min (a + b) (2 ^ bits - 1)"

end
