(* ===== verification/Sql_Table.thy ===== *)
theory Sql_Table
  imports Prelude
begin

text \<open>
  The part of SQLite (through \<open>sqlx\<close>) that the three stores use: a table is the list of its
  rows in insertion order, and a statement either runs, at a time the caller's clock gives, or
  fails and leaves the table as it was. Every store operation of the later theories takes such
  a call as its first argument, so a theorem that holds for all calls holds for every pattern
  of database failures.

  The two locales are the contracts the node's other components rely on: a durable store
  (rows are never deleted, their identifying columns never change) and a store whose rows
  follow a life cycle.
\<close>

section \<open>Statements and their errors\<close>

datatype db_error = Driver string | UniqueViolation | RowNotFound

datatype outbox_error = Db db_error | Dir string string

datatype dbcall = Fails string | Runs string

type_synonym 'a db_result = "outbox_error + 'a"

section \<open>Tables\<close>

type_synonym 'r tbl = "'r list"

text \<open>\<open>SELECT * FROM t WHERE key = ?\<close> on the primary key.\<close>

definition sql_find :: "('r \<Rightarrow> string) \<Rightarrow> string \<Rightarrow> 'r tbl \<Rightarrow> 'r option" where
  "sql_find key k t = find (\<lambda>r. key r = k) t"

text \<open>\<open>UPDATE t SET \<dots> WHERE \<dots>\<close> and the number of rows it affects.\<close>

definition sql_update :: "('r \<Rightarrow> bool) \<Rightarrow> ('r \<Rightarrow> 'r) \<Rightarrow> 'r tbl \<Rightarrow> 'r tbl" where
  "sql_update P f t = map (\<lambda>r. if P r then f r else r) t"

definition sql_affected :: "('r \<Rightarrow> bool) \<Rightarrow> 'r tbl \<Rightarrow> nat" where
  "sql_affected P t = length (filter P t)"

definition sql_has_key :: "('r \<Rightarrow> string) \<Rightarrow> string \<Rightarrow> 'r tbl \<Rightarrow> bool" where
  "sql_has_key key k t \<longleftrightarrow> k \<in> set (map key t)"

text \<open>\<open>LIMIT n\<close>: a negative limit is no limit in SQLite.\<close>

definition sql_limit :: "int \<Rightarrow> 'r tbl \<Rightarrow> 'r tbl" where
  "sql_limit n t = (if n < 0 then t else take (nat n) t)"

text \<open>
  \<open>ORDER BY c ASC\<close> and \<open>DESC\<close>. SQLite leaves the order of ties open; here ties keep the
  insertion order, and no property relies on it.
\<close>

definition order_asc :: "('r \<Rightarrow> string) \<Rightarrow> 'r tbl \<Rightarrow> 'r tbl" where
  "order_asc c t = sort_key c t"

definition order_desc :: "('r \<Rightarrow> string) \<Rightarrow> 'r tbl \<Rightarrow> 'r tbl" where
  "order_desc c t = rev (sort_key c (rev t))"

text \<open>An \<open>UPDATE\<close> statement as the stores issue it: the row change may use the time of the call.\<close>

fun run_update ::
  "dbcall \<Rightarrow> ('r \<Rightarrow> bool) \<Rightarrow> (string \<Rightarrow> 'r \<Rightarrow> 'r) \<Rightarrow> 'r tbl \<Rightarrow> nat db_result \<times> 'r tbl" where
  "run_update (Fails e) P f t = (Inl (Db (Driver e)), t)"
| "run_update (Runs now) P f t = (Inr (sql_affected P t), sql_update P (f now) t)"

text \<open>An \<open>execute(..).await?; Ok(())\<close>: the count is dropped.\<close>

definition exec_update ::
  "dbcall \<Rightarrow> ('r \<Rightarrow> bool) \<Rightarrow> (string \<Rightarrow> 'r \<Rightarrow> 'r) \<Rightarrow> 'r tbl \<Rightarrow> unit db_result \<times> 'r tbl" where
  "exec_update c P f t =
     (case run_update c P f t of (Inl e, t') \<Rightarrow> (Inl e, t') | (Inr _, t') \<Rightarrow> (Inr (), t'))"

text \<open>A query: it reads the table or fails.\<close>

fun run_query :: "dbcall \<Rightarrow> ('r tbl \<Rightarrow> 'a) \<Rightarrow> 'r tbl \<Rightarrow> 'a db_result" where
  "run_query (Fails e) q t = Inl (Db (Driver e))"
| "run_query (Runs now) q t = Inr (q t)"

section \<open>Facts about tables\<close>

lemma sql_find_Nil [simp]: "sql_find key k [] = None"
  by (simp add: sql_find_def)

lemma sql_find_Cons [simp]:
  "sql_find key k (r # t) = (if key r = k then Some r else sql_find key k t)"
  by (simp add: sql_find_def)

lemma sql_find_append:
  "sql_find key k (t @ u) = (case sql_find key k t of None \<Rightarrow> sql_find key k u | Some r \<Rightarrow> Some r)"
  by (induction t) auto

lemma sql_find_SomeD: "sql_find key k t = Some r \<Longrightarrow> r \<in> set t \<and> key r = k"
  by (induction t) (auto split: if_splits)

lemma sql_find_None_iff: "sql_find key k t = None \<longleftrightarrow> k \<notin> key ` set t"
  by (induction t) auto

lemma sql_find_unique:
  "distinct (map key t) \<Longrightarrow> r \<in> set t \<Longrightarrow> sql_find key (key r) t = Some r"
  by (induction t) (auto intro: rev_image_eqI)

lemma sql_has_key_iff: "sql_has_key key k t \<longleftrightarrow> sql_find key k t \<noteq> None"
  by (auto simp: sql_has_key_def sql_find_None_iff)

lemma sql_update_Nil [simp]: "sql_update P f [] = []"
  by (simp add: sql_update_def)

lemma sql_update_Cons [simp]:
  "sql_update P f (r # t) = (if P r then f r else r) # sql_update P f t"
  by (simp add: sql_update_def)

lemma length_sql_update [simp]: "length (sql_update P f t) = length t"
  by (simp add: sql_update_def)

lemma set_sql_update: "set (sql_update P f t) = (\<lambda>r. if P r then f r else r) ` set t"
  by (simp add: sql_update_def)

text \<open>A column no statement writes is unchanged.\<close>

lemma map_sql_update:
  "(\<And>r. g (f r) = g r) \<Longrightarrow> map g (sql_update P f t) = map g t"
  by (simp add: sql_update_def)

lemma sql_find_update:
  "(\<And>r. key (f r) = key r) \<Longrightarrow>
   sql_find key k (sql_update P f t) =
     map_option (\<lambda>r. if P r then f r else r) (sql_find key k t)"
  by (induction t) auto

lemma list_all2_sql_update:
  "(\<And>r. r \<in> set t \<Longrightarrow> P r \<Longrightarrow> R r (f r)) \<Longrightarrow> (\<And>r. r \<in> set t \<Longrightarrow> \<not> P r \<Longrightarrow> R r r) \<Longrightarrow>
   list_all2 R t (sql_update P f t)"
  by (induction t) auto

lemma set_sql_limit: "set (sql_limit n t) \<subseteq> set t"
  by (auto simp: sql_limit_def dest: in_set_takeD)

lemma length_sql_limit: "0 \<le> n \<Longrightarrow> length (sql_limit n t) \<le> nat n"
  by (simp add: sql_limit_def)

lemma set_order_asc [simp]: "set (order_asc c t) = set t"
  by (simp add: order_asc_def)

lemma set_order_desc [simp]: "set (order_desc c t) = set t"
  by (simp add: order_desc_def)

lemma sorted_sql_limit: "sorted (map c t) \<Longrightarrow> sorted (map c (sql_limit n t))"
  by (simp add: sql_limit_def sorted_wrt_take take_map [symmetric])

lemma sorted_order_asc: "sorted (map c (order_asc c t))"
  by (simp add: order_asc_def)

lemma distinct_sql_limit: "distinct (map f t) \<Longrightarrow> distinct (map f (sql_limit n t))"
  by (simp add: sql_limit_def distinct_take take_map [symmetric])

lemma distinct_order_asc: "distinct (map f t) \<Longrightarrow> distinct (map f (order_asc c t))"
  by (simp add: order_asc_def distinct_map)

lemma exec_update_simps [store_simps]:
  "exec_update (Fails e) P f t = (Inl (Db (Driver e)), t)"
  "exec_update (Runs now) P f t = (Inr (), sql_update P (f now) t)"
  by (simp_all add: exec_update_def)

text \<open>An update leaves the table alone or changes the selected rows: the shape of every frame proof.\<close>

lemma exec_update_cases:
  obtains (fails) e where "c = Fails e" "exec_update c P f t = (Inl (Db (Driver e)), t)"
  | (runs) now where "c = Runs now" "exec_update c P f t = (Inr (), sql_update P (f now) t)"
  by (cases c) (auto simp: exec_update_simps)

lemma map_exec_update:
  "(\<And>now r. g (f now r) = g r) \<Longrightarrow> map g (snd (exec_update c P f t)) = map g t"
  by (cases c) (auto simp: exec_update_simps map_sql_update)

lemma map_run_update:
  "(\<And>now r. g (f now r) = g r) \<Longrightarrow> map g (snd (run_update c P f t)) = map g t"
  by (cases c) (auto simp: map_sql_update)

section \<open>Contracts of the stores\<close>

text \<open>
  What the node promises of a durable store: no step of it deletes a row or changes its primary
  key and its fixed columns; a step only appends rows, with fresh keys. The clients' question
  (is what I wrote still there after any number of steps?) is answered once, here.
\<close>

locale durable_store =
  fixes key :: "'r \<Rightarrow> string"
    and frozen :: "'r \<Rightarrow> 'f"
    and step :: "'r tbl \<Rightarrow> 'r tbl \<Rightarrow> bool"
  assumes step_keeps: "step t t' \<Longrightarrow>
      \<exists>ys. map (\<lambda>r. (key r, frozen r)) t' = map (\<lambda>r. (key r, frozen r)) t @ ys"
    and step_distinct: "step t t' \<Longrightarrow> distinct (map key t) \<Longrightarrow> distinct (map key t')"
begin

lemma steps_keeps:
  "step\<^sup>*\<^sup>* t t' \<Longrightarrow> \<exists>ys. map (\<lambda>r. (key r, frozen r)) t' = map (\<lambda>r. (key r, frozen r)) t @ ys"
proof (induction rule: rtranclp_induct)
  case base
  show ?case by simp
next
  case (step u v)
  then show ?case using step_keeps [of u v] by (metis append.assoc)
qed

lemma steps_distinct: "step\<^sup>*\<^sup>* t t' \<Longrightarrow> distinct (map key t) \<Longrightarrow> distinct (map key t')"
  by (induction rule: rtranclp_induct) (auto dest: step_distinct)

lemma reachable_distinct: "step\<^sup>*\<^sup>* [] t \<Longrightarrow> distinct (map key t)"
  using steps_distinct [of "[]" t] by simp

lemma steps_durable:
  assumes "step\<^sup>*\<^sup>* t t'" and "sql_find key k t = Some r"
  shows "\<exists>r'. sql_find key k t' = Some r' \<and> frozen r' = frozen r"
proof -
  obtain ys where ys: "map (\<lambda>r. (key r, frozen r)) t' = map (\<lambda>r. (key r, frozen r)) t @ ys"
    using steps_keeps [OF assms(1)] by blast
  have find: "map_option frozen (sql_find key k u) = map_of (map (\<lambda>r. (key r, frozen r)) u) k" for u
    by (induction u) auto
  have "map_of (map (\<lambda>r. (key r, frozen r)) t) k = Some (frozen r)"
    using find [of t] assms(2) by simp
  then have "map_option frozen (sql_find key k t') = Some (frozen r)"
    unfolding find [of t'] ys by (simp add: map_add_def)
  then show ?thesis by (cases "sql_find key k t'") auto
qed

lemma steps_length: "step\<^sup>*\<^sup>* t t' \<Longrightarrow> length t \<le> length t'"
  using steps_keeps [of t t'] by (metis le_add1 length_append length_map)

end

text \<open>
  A store whose rows also follow a life cycle: in one step the status of a row moves along
  \<open>edge\<close>, the (reflexive, transitive) order of the cycle.
\<close>

locale lifecycle_store = durable_store key frozen step
  for key :: "'r \<Rightarrow> string" and frozen :: "'r \<Rightarrow> 'f" and step :: "'r tbl \<Rightarrow> 'r tbl \<Rightarrow> bool" +
  fixes status_of :: "'r \<Rightarrow> 's"
    and edge :: "'s \<Rightarrow> 's \<Rightarrow> bool"
  assumes edge_refl: "edge s s"
    and edge_trans: "edge s s' \<Longrightarrow> edge s' s'' \<Longrightarrow> edge s s''"
    and step_edge: "step t t' \<Longrightarrow> distinct (map key t) \<Longrightarrow> sql_find key k t = Some r \<Longrightarrow>
        sql_find key k t' = Some r' \<Longrightarrow> edge (status_of r) (status_of r')"
begin

lemma steps_edge:
  assumes "step\<^sup>*\<^sup>* t t'" and "distinct (map key t)"
    and "sql_find key k t = Some r" and "sql_find key k t' = Some r'"
  shows "edge (status_of r) (status_of r')"
  using assms(1) assms(4)
proof (induction arbitrary: r' rule: rtranclp_induct)
  case base
  with assms(3) show ?case by (simp add: edge_refl)
next
  case (step u v)
  obtain ru where ru: "sql_find key k u = Some ru"
    using steps_durable [OF step.hyps(1) assms(3)] by blast
  have "edge (status_of r) (status_of ru)" using step.IH [OF ru] .
  moreover have "edge (status_of ru) (status_of r')"
    using step_edge [OF step.hyps(2) steps_distinct [OF step.hyps(1) assms(2)] ru step.prems] .
  ultimately show ?case by (rule edge_trans)
qed

text \<open>A status with no way out but itself stays.\<close>

lemma terminal_stays:
  assumes "\<And>s. edge (status_of r) s \<Longrightarrow> s = status_of r"
    and "step\<^sup>*\<^sup>* t t'" "distinct (map key t)" "sql_find key k t = Some r"
  shows "\<exists>r'. sql_find key k t' = Some r' \<and> status_of r' = status_of r"
proof -
  obtain r' where r': "sql_find key k t' = Some r'"
    using steps_durable [OF assms(2,4)] by blast
  from steps_edge [OF assms(2-4) r'] have "status_of r' = status_of r" by (rule assms(1))
  with r' show ?thesis by blast
qed

end

end
