(* ===== verification/Outbox.thy ===== *)
theory Outbox
  imports Sql_Table
begin

text \<open>
  The durable transactional outbox (\<open>crates/obp-bank-node/src/outbox.rs\<close>): the rows, one
  definition per method of \<open>OutboxStore\<close>, the store's step relation and the facts about
  each operation. Time stamps are the strings the code stores; \<open>now\<close> comes with the call.
\<close>

section \<open>Rows\<close>

datatype outbox_status = INITIATED | SUBMITTED | PROMISE_WRITTEN | REPORTED | EXCEPTION

record outbox_record =
  ob_transaction_request_id :: string
  ob_status :: outbox_status
  ob_bank_id :: string
  ob_account_id :: string
  ob_request_payload :: string
  ob_commitment_salt :: string
  ob_attempt_count :: nat
  ob_last_attempted_at :: "string option"
  ob_obp_transaction_request_id :: "string option"
  ob_promise_tx_id :: "string option"
  ob_promise_blockchain :: "string option"
  ob_exception_reason :: "string option"
  ob_settlement_id :: "string option"
  ob_settled_at :: "string option"
  ob_created_at :: string
  ob_updated_at :: string

record outbox_entry =
  en_transaction_request_id :: string
  en_bank_id :: string
  en_account_id :: string
  en_request_payload :: string
  en_commitment_salt :: string

type_synonym outbox = "outbox_record tbl"

section \<open>Operations\<close>

text \<open>The row \<open>insert\<close> writes: \<open>INITIATED\<close>, no attempt yet, the nullable columns NULL.\<close>

definition outbox_row :: "string \<Rightarrow> outbox_entry \<Rightarrow> outbox_record" where
  "outbox_row now e =
     \<lparr>ob_transaction_request_id = en_transaction_request_id e,
      ob_status = INITIATED,
      ob_bank_id = en_bank_id e,
      ob_account_id = en_account_id e,
      ob_request_payload = en_request_payload e,
      ob_commitment_salt = en_commitment_salt e,
      ob_attempt_count = 0,
      ob_last_attempted_at = None,
      ob_obp_transaction_request_id = None,
      ob_promise_tx_id = None,
      ob_promise_blockchain = None,
      ob_exception_reason = None,
      ob_settlement_id = None,
      ob_settled_at = None,
      ob_created_at = now,
      ob_updated_at = now\<rparr>"

fun outbox_insert :: "dbcall \<Rightarrow> outbox_entry \<Rightarrow> outbox \<Rightarrow> unit db_result \<times> outbox" where
  "outbox_insert (Fails err) e t = (Inl (Db (Driver err)), t)"
| "outbox_insert (Runs now) e t =
     (if sql_has_key ob_transaction_request_id (en_transaction_request_id e) t
      then (Inl (Db UniqueViolation), t)
      else (Inr (), t @ [outbox_row now e]))"

definition outbox_get :: "dbcall \<Rightarrow> string \<Rightarrow> outbox \<Rightarrow> outbox_record option db_result" where
  "outbox_get c trid t = run_query c (sql_find ob_transaction_request_id trid) t"

definition outbox_list :: "dbcall \<Rightarrow> int \<Rightarrow> outbox \<Rightarrow> outbox_record list db_result" where
  "outbox_list c limit t = run_query c (\<lambda>t. sql_limit limit (order_desc ob_created_at t)) t"

text \<open>
  \<open>claim_due\<close>: not terminal, and never attempted or last attempted before the cutoff (a
  string comparison; a NULL makes the comparison false).
\<close>

definition is_due :: "string \<Rightarrow> outbox_record \<Rightarrow> bool" where
  "is_due cutoff r \<longleftrightarrow>
     ob_status r \<in> {INITIATED, SUBMITTED, PROMISE_WRITTEN} \<and>
     (case ob_last_attempted_at r of None \<Rightarrow> True | Some a \<Rightarrow> a < cutoff)"

definition outbox_claim_due ::
  "dbcall \<Rightarrow> string \<Rightarrow> int \<Rightarrow> outbox \<Rightarrow> outbox_record list db_result" where
  "outbox_claim_due c cutoff limit t =
     run_query c (\<lambda>t. sql_limit limit (order_asc ob_created_at (filter (is_due cutoff) t))) t"

definition outbox_record_attempt :: "dbcall \<Rightarrow> string \<Rightarrow> outbox \<Rightarrow> unit db_result \<times> outbox" where
  "outbox_record_attempt c trid t =
     exec_update c (\<lambda>r. ob_transaction_request_id r = trid)
       (\<lambda>now r. r\<lparr>ob_attempt_count := ob_attempt_count r + 1,
                    ob_last_attempted_at := Some now, ob_updated_at := now\<rparr>) t"

definition outbox_mark_submitted ::
  "dbcall \<Rightarrow> string \<Rightarrow> string option \<Rightarrow> outbox \<Rightarrow> unit db_result \<times> outbox" where
  "outbox_mark_submitted c trid obp_tr_id t =
     exec_update c (\<lambda>r. ob_transaction_request_id r = trid)
       (\<lambda>now r. r\<lparr>ob_status := SUBMITTED, ob_obp_transaction_request_id := obp_tr_id,
                    ob_updated_at := now\<rparr>) t"

definition outbox_set_status ::
  "dbcall \<Rightarrow> string \<Rightarrow> outbox_status \<Rightarrow> outbox \<Rightarrow> unit db_result \<times> outbox" where
  "outbox_set_status c trid s t =
     exec_update c (\<lambda>r. ob_transaction_request_id r = trid)
       (\<lambda>now r. r\<lparr>ob_status := s, ob_updated_at := now\<rparr>) t"

definition outbox_mark_reported :: "dbcall \<Rightarrow> string \<Rightarrow> outbox \<Rightarrow> unit db_result \<times> outbox" where
  "outbox_mark_reported c trid t = outbox_set_status c trid REPORTED t"

definition outbox_mark_promise_written ::
  "dbcall \<Rightarrow> string \<Rightarrow> string \<Rightarrow> string \<Rightarrow> outbox \<Rightarrow> unit db_result \<times> outbox" where
  "outbox_mark_promise_written c trid tx_id chain t =
     exec_update c (\<lambda>r. ob_transaction_request_id r = trid)
       (\<lambda>now r. r\<lparr>ob_status := PROMISE_WRITTEN, ob_promise_tx_id := Some tx_id,
                    ob_promise_blockchain := Some chain, ob_updated_at := now\<rparr>) t"

text \<open>The rows \<open>mark_settled\<close> stamps: not stamped yet, and covered by OBP's id (NULL is never \<open>IN\<close>).\<close>

definition settles_row :: "string list \<Rightarrow> outbox_record \<Rightarrow> bool" where
  "settles_row covered r \<longleftrightarrow>
     ob_settlement_id r = None \<and>
     (case ob_obp_transaction_request_id r of None \<Rightarrow> False | Some i \<Rightarrow> i \<in> set covered)"

definition outbox_mark_settled ::
  "dbcall \<Rightarrow> string list \<Rightarrow> string \<Rightarrow> outbox \<Rightarrow> nat db_result \<times> outbox" where
  "outbox_mark_settled c covered settlement_id t =
     (if covered = [] then (Inr 0, t)
      else run_update c (settles_row covered)
        (\<lambda>now r. r\<lparr>ob_settlement_id := Some settlement_id, ob_settled_at := Some now,
                     ob_updated_at := now\<rparr>) t)"

definition outbox_mark_exception ::
  "dbcall \<Rightarrow> string \<Rightarrow> string \<Rightarrow> outbox \<Rightarrow> unit db_result \<times> outbox" where
  "outbox_mark_exception c trid reason t =
     exec_update c (\<lambda>r. ob_transaction_request_id r = trid)
       (\<lambda>now r. r\<lparr>ob_status := EXCEPTION, ob_exception_reason := Some reason,
                    ob_updated_at := now\<rparr>) t"

lemma outbox_row_sel [simp]:
  "ob_transaction_request_id (outbox_row now e) = en_transaction_request_id e"
  "ob_status (outbox_row now e) = INITIATED"
  "ob_request_payload (outbox_row now e) = en_request_payload e"
  "ob_commitment_salt (outbox_row now e) = en_commitment_salt e"
  by (simp_all add: outbox_row_def)

lemmas outbox_op_defs =
  outbox_record_attempt_def outbox_mark_submitted_def outbox_mark_reported_def
  outbox_set_status_def outbox_mark_promise_written_def outbox_mark_settled_def
  outbox_mark_exception_def

section \<open>Steps of the store\<close>

text \<open>One call of a writing method by anyone, with any arguments and any outcome of the call.\<close>

inductive outbox_step :: "outbox \<Rightarrow> outbox \<Rightarrow> bool" where
  step_insert: "outbox_step t (snd (outbox_insert c e t))"
| step_attempt: "outbox_step t (snd (outbox_record_attempt c trid t))"
| step_submitted: "outbox_step t (snd (outbox_mark_submitted c trid oid t))"
| step_reported: "outbox_step t (snd (outbox_mark_reported c trid t))"
| step_promise_written: "outbox_step t (snd (outbox_mark_promise_written c trid tx chain t))"
| step_settled: "outbox_step t (snd (outbox_mark_settled c covered sid t))"
| step_exception: "outbox_step t (snd (outbox_mark_exception c trid reason t))"

inductive_cases outbox_stepE: "outbox_step t t'"

text \<open>The columns that identify a payment and bind it to its commitment.\<close>

definition payment_of :: "outbox_record \<Rightarrow> string \<times> string \<times> string \<times> string \<times> string" where
  "payment_of r = (ob_bank_id r, ob_account_id r, ob_request_payload r, ob_commitment_salt r,
                   ob_created_at r)"

lemma payment_of_updates [simp]:
  "payment_of (r\<lparr>ob_status := a\<rparr>) = payment_of r"
  "payment_of (r\<lparr>ob_attempt_count := n\<rparr>) = payment_of r"
  "payment_of (r\<lparr>ob_last_attempted_at := b\<rparr>) = payment_of r"
  "payment_of (r\<lparr>ob_obp_transaction_request_id := d\<rparr>) = payment_of r"
  "payment_of (r\<lparr>ob_promise_tx_id := f\<rparr>) = payment_of r"
  "payment_of (r\<lparr>ob_promise_blockchain := g\<rparr>) = payment_of r"
  "payment_of (r\<lparr>ob_exception_reason := h\<rparr>) = payment_of r"
  "payment_of (r\<lparr>ob_settlement_id := i\<rparr>) = payment_of r"
  "payment_of (r\<lparr>ob_settled_at := j\<rparr>) = payment_of r"
  "payment_of (r\<lparr>ob_updated_at := k\<rparr>) = payment_of r"
  by (simp_all add: payment_of_def)

abbreviation ob_frame :: "outbox_record \<Rightarrow> string \<times> string \<times> string \<times> string \<times> string \<times> string" where
  "ob_frame r \<equiv> (ob_transaction_request_id r, payment_of r)"

lemma outbox_updates_frame [simp]:
  "map ob_frame (snd (outbox_record_attempt c trid t)) = map ob_frame t"
  "map ob_frame (snd (outbox_mark_submitted c trid oid t)) = map ob_frame t"
  "map ob_frame (snd (outbox_set_status c trid s t)) = map ob_frame t"
  "map ob_frame (snd (outbox_mark_reported c trid t)) = map ob_frame t"
  "map ob_frame (snd (outbox_mark_promise_written c trid tx chain t)) = map ob_frame t"
  "map ob_frame (snd (outbox_mark_settled c covered sid t)) = map ob_frame t"
  "map ob_frame (snd (outbox_mark_exception c trid reason t)) = map ob_frame t"
  unfolding outbox_op_defs by (simp_all add: map_exec_update map_run_update)

lemma outbox_keys_of_frame:
  "map ob_frame t' = map ob_frame t \<Longrightarrow>
   map ob_transaction_request_id t' = map ob_transaction_request_id t"
  by (metis (no_types, lifting) fst_conv map_eq_conv map_map comp_apply list.map_comp)

lemma outbox_insert_cases:
  obtains (same) e where "outbox_insert c en t = (Inl e, t)"
  | (added) now where "c = Runs now" "en_transaction_request_id en \<notin> ob_transaction_request_id ` set t"
      "outbox_insert c en t = (Inr (), t @ [outbox_row now en])"
proof (cases c)
  case (Fails e)
  then show thesis by (intro same [of "Db (Driver e)"]) simp
next
  case (Runs now)
  show thesis
  proof (cases "sql_has_key ob_transaction_request_id (en_transaction_request_id en) t")
    case True
    with Runs show thesis by (intro same [of "Db UniqueViolation"]) simp
  next
    case False
    with Runs show thesis by (intro added [of now]) (auto simp: sql_has_key_def)
  qed
qed

lemma outbox_step_frame:
  assumes "outbox_step t t'"
  shows "map ob_frame t' = map ob_frame t \<or>
    (\<exists>now en. en_transaction_request_id en \<notin> ob_transaction_request_id ` set t \<and>
              t' = t @ [outbox_row now en])"
  using assms
proof cases
  case (step_insert c e)
  show ?thesis
    by (rule outbox_insert_cases [of c e t]) (use step_insert in auto)
qed simp_all

text \<open>The outbox is a durable store: the interface the dispatcher and the handlers use it by.\<close>

interpretation ob: durable_store ob_transaction_request_id payment_of outbox_step
proof unfold_locales
  fix t t' :: outbox
  assume st: "outbox_step t t'"
  show "\<exists>ys. map ob_frame t' = map ob_frame t @ ys"
    using outbox_step_frame [OF st] by auto
  assume "distinct (map ob_transaction_request_id t)"
  then show "distinct (map ob_transaction_request_id t')"
    using outbox_step_frame [OF st] by (auto dest: outbox_keys_of_frame)
qed

section \<open>Facts about the operations\<close>

lemma outbox_insert_get:
  assumes "outbox_insert c en t = (Inr (), t')"
  shows "\<exists>now. c = Runs now \<and> sql_find ob_transaction_request_id (en_transaction_request_id en) t'
           = Some (outbox_row now en)"
proof (rule outbox_insert_cases [of c en t])
  fix now
  assume a: "c = Runs now" "outbox_insert c en t = (Inr (), t @ [outbox_row now en])"
    "en_transaction_request_id en \<notin> ob_transaction_request_id ` set t"
  then have "sql_find ob_transaction_request_id (en_transaction_request_id en) t = None"
    by (simp add: sql_find_None_iff)
  with a assms show ?thesis by (auto simp: sql_find_append)
qed (use assms in auto)

lemma outbox_insert_other:
  "k \<noteq> en_transaction_request_id en \<Longrightarrow>
   sql_find ob_transaction_request_id k (snd (outbox_insert c en t)) =
   sql_find ob_transaction_request_id k t"
  by (rule outbox_insert_cases [of c en t])
     (auto simp: sql_find_append simp del: outbox_insert.simps split: option.splits)

text \<open>A key is inserted at most once, whatever happens in between.\<close>

lemma outbox_insert_once:
  "ob_transaction_request_id r \<in> ob_transaction_request_id ` set t \<Longrightarrow>
   en_transaction_request_id en = ob_transaction_request_id r \<Longrightarrow>
   outbox_insert (Runs now) en t = (Inl (Db UniqueViolation), t)"
  by (simp add: sql_has_key_def)

lemma outbox_find_update:
  "(\<And>now r. ob_transaction_request_id (f now r) = ob_transaction_request_id r) \<Longrightarrow>
   sql_find ob_transaction_request_id k (snd (exec_update (Runs now) P f t)) =
   map_option (\<lambda>r. if P r then f now r else r) (sql_find ob_transaction_request_id k t)"
  by (simp add: exec_update_simps sql_find_update)

lemma claim_due_spec:
  assumes "outbox_claim_due c cutoff limit t = Inr rs"
  shows "set rs \<subseteq> {r \<in> set t. is_due cutoff r}" and "sorted (map ob_created_at rs)"
    and "0 \<le> limit \<Longrightarrow> length rs \<le> nat limit"
proof -
  from assms have rs: "rs = sql_limit limit (order_asc ob_created_at (filter (is_due cutoff) t))"
    by (cases c) (auto simp: outbox_claim_due_def)
  show "set rs \<subseteq> {r \<in> set t. is_due cutoff r}"
    using set_sql_limit [of limit "order_asc ob_created_at (filter (is_due cutoff) t)"] by (auto simp: rs)
  show "sorted (map ob_created_at rs)"
    unfolding rs by (intro sorted_sql_limit sorted_order_asc)
  show "0 \<le> limit \<Longrightarrow> length rs \<le> nat limit"
    unfolding rs by (rule length_sql_limit)
qed

text \<open>No due row is left out while the batch has room.\<close>

lemma claim_due_complete:
  assumes "outbox_claim_due c cutoff limit t = Inr rs"
    and "length (filter (is_due cutoff) t) \<le> nat limit" and "0 \<le> limit"
  shows "set rs = {r \<in> set t. is_due cutoff r}"
proof -
  have "length (order_asc ob_created_at (filter (is_due cutoff) t)) \<le> nat limit"
    using assms(2) by (simp add: order_asc_def)
  with assms(1,3) have "rs = order_asc ob_created_at (filter (is_due cutoff) t)"
    by (cases c) (auto simp: outbox_claim_due_def sql_limit_def)
  then show ?thesis by auto
qed

text \<open>Settling: a stamped row keeps its first stamp, and the second call of the same list stamps nothing.\<close>

lemma settles_row_stamped [simp]:
  "\<not> settles_row covered (r\<lparr>ob_settlement_id := Some s, ob_settled_at := a, ob_updated_at := b\<rparr>)"
  by (simp add: settles_row_def)

lemma outbox_mark_settled_again:
  assumes "outbox_mark_settled (Runs now) covered sid t = (Inr n, t')"
  shows "outbox_mark_settled (Runs now') covered sid' t' = (Inr 0, t')"
proof (cases "covered = []")
  case True
  then show ?thesis by (simp add: outbox_mark_settled_def)
next
  case False
  with assms have t': "t' = sql_update (settles_row covered)
      (\<lambda>r. r\<lparr>ob_settlement_id := Some sid, ob_settled_at := Some now, ob_updated_at := now\<rparr>) t"
    by (simp add: outbox_mark_settled_def)
  have none: "\<not> settles_row covered r" if "r \<in> set t'" for r
    using that by (auto simp: t' set_sql_update)
  have "sql_affected (settles_row covered) t' = 0"
    using none by (simp add: sql_affected_def filter_empty_conv)
  moreover have "sql_update (settles_row covered) f t' = t'" for f
    using none by (simp add: sql_update_def map_idI)
  ultimately show ?thesis using False by (simp add: outbox_mark_settled_def)
qed

lemma outbox_mark_settled_keeps:
  assumes "sql_find ob_transaction_request_id k t = Some r" and "ob_settlement_id r = Some s"
  shows "sql_find ob_transaction_request_id k (snd (outbox_mark_settled c covered sid t)) = Some r"
  using assms
  by (cases c) (auto simp: outbox_mark_settled_def sql_find_update settles_row_def)

end
