(* ===== verification/Http.thy ===== *)
theory Http
  imports Prelude
begin

text \<open>
  What a call through \<open>reqwest\<close> can give: no response, a response whose body cannot be read,
  or a status with its body. Every client of the node classifies these three.
\<close>

datatype http_answer = NoResponse string | BrokenBody nat string | Response nat string

definition is_success :: "nat \<Rightarrow> bool" where
  "is_success status \<longleftrightarrow> 200 \<le> status \<and> status < 300"

definition is_client_error :: "nat \<Rightarrow> bool" where
  "is_client_error status \<longleftrightarrow> 400 \<le> status \<and> status < 500"

text \<open>
  The \<open>truncate\<close> that \<open>cbs.rs\<close> and \<open>obp_client.rs\<close> both have:
  \<open>&s[..max]\<close> panics when byte \<open>max\<close> is inside a character.
\<close>

definition truncate_text :: "string \<Rightarrow> nat \<Rightarrow> string option" where
  "truncate_text s m =
     (if length s \<le> m then Some s else map_option (\<lambda>p. p @ ellipsis) (slice_to s m))"

lemma truncate_text_short: "length s \<le> m \<Longrightarrow> truncate_text s m = Some s"
  by (simp add: truncate_text_def)

lemma truncate_text_ascii:
  "is_ascii s \<Longrightarrow> \<exists>t. truncate_text s m = Some t \<and> length t \<le> m + 3"
  by (auto simp: truncate_text_def slice_to_def is_ascii_boundary ellipsis_def)

end
