(* ===== verification/Json.thy ===== *)
theory Json
  imports Prelude
begin

text \<open>
  \<open>serde_json::Value\<close> as the node uses it: the data type and its documented accessors. An object
  is the list of its entries in insertion order (the workspace enables \<open>preserve_order\<close>), each
  key once. Parsing and printing are third-party code and stay parameters of the definitions
  that call them; so are the derived \<open>Deserialize\<close> and \<open>Serialize\<close> of the wire structs.
\<close>

datatype json =
    JNull
  | JBool bool
  | JInt int
  | JFloat string
  | JStr string
  | JArr "json list"
  | JObj "(string \<times> json) list"

text \<open>\<open>Value::get\<close> on a key, and indexing, which gives \<open>Null\<close> for what is not there.\<close>

fun jget :: "string \<Rightarrow> json \<Rightarrow> json option" where
  "jget k (JObj kvs) = map_of kvs k"
| "jget k _ = None"

definition jindex :: "string \<Rightarrow> json \<Rightarrow> json" where
  "jindex k v = unwrap_or (jget k v) JNull"

fun as_str :: "json \<Rightarrow> string option" where
  "as_str (JStr s) = Some s"
| "as_str _ = None"

fun as_u64 :: "json \<Rightarrow> nat option" where
  "as_u64 (JInt i) = (if 0 \<le> i \<and> i < 2 ^ 64 then Some (nat i) else None)"
| "as_u64 _ = None"

fun as_i64 :: "json \<Rightarrow> int option" where
  "as_i64 (JInt i) = (if - (2 ^ 63) \<le> i \<and> i < 2 ^ 63 then Some i else None)"
| "as_i64 _ = None"

fun as_array :: "json \<Rightarrow> json list option" where
  "as_array (JArr vs) = Some vs"
| "as_array _ = None"

fun as_object :: "json \<Rightarrow> (string \<times> json) list option" where
  "as_object (JObj kvs) = Some kvs"
| "as_object _ = None"

text \<open>\<open>and_then\<close> on options, in the order the source chains its accessors.\<close>

definition jget_opt :: "string \<Rightarrow> json option \<Rightarrow> json option" where
  "jget_opt k v = Option.bind v (jget k)"

text \<open>The \<open>json!\<close> macro on an \<open>Option\<close> gives the value or \<open>null\<close>.\<close>

definition jopt :: "string option \<Rightarrow> json" where
  "jopt x = (case x of None \<Rightarrow> JNull | Some s \<Rightarrow> JStr s)"

text \<open>\<open>Map::insert\<close> (\<open>preserve_order\<close>): a present key keeps its place, a new one goes last.\<close>

fun jinsert :: "string \<Rightarrow> json \<Rightarrow> (string \<times> json) list \<Rightarrow> (string \<times> json) list" where
  "jinsert k v [] = [(k, v)]"
| "jinsert k v ((k', v') # kvs) = (if k' = k then (k, v) # kvs else (k', v') # jinsert k v kvs)"

lemma map_of_jinsert: "map_of (jinsert k v kvs) = (map_of kvs)(k \<mapsto> v)"
  by (induction k v kvs rule: jinsert.induct) auto

lemma jindex_obj [simp]: "jindex k (JObj ((k', v) # kvs)) = (if k = k' then v else jindex k (JObj kvs))"
  by (simp add: jindex_def)

lemma as_u64_bound: "as_u64 v = Some n \<Longrightarrow> n < 2 ^ 64"
  by (cases v) (auto split: if_splits)

end
