(* ===== verification/Obp_Client.thy ===== *)
theory Obp_Client
  imports Http Json
begin

text \<open>
  Interface B (\<open>crates/obp-bank-node/src/obp_client.rs\<close>): the client of OBP-API. A call takes
  the parsers of third-party code (\<open>obp_libs\<close>), the client's configuration, its token cache and
  what the network answers; it gives \<open>None\<close> when the calling task panics.
\<close>

definition OBP_API_VERSION :: string where "OBP_API_VERSION = ''v7.0.0''"

datatype obp_error =
    ObpTransport string
  | ObpRejected nat string string

definition is_retryable :: "obp_error \<Rightarrow> bool" where
  "is_retryable e = (case e of ObpTransport _ \<Rightarrow> True | ObpRejected _ _ _ \<Rightarrow> False)"

fun show_obp_error :: "obp_error \<Rightarrow> string" where
  "show_obp_error (ObpTransport m) = ''OBP API transport error: '' @ m"
| "show_obp_error (ObpRejected status code m) =
     ''OBP API rejected the request ('' @ show_nat status @ ''): '' @ code @ '': '' @ m"

datatype obp_auth =
    AuthNone
  | DirectLogin string
  | ClientCredentials string string string "string option"

record routing_scheme =
  rg_scheme :: string
  rg_status :: string
  rg_address_pattern :: string
  rg_example_address :: string

record routing_page =
  rp_routing_schemes :: "routing_scheme list"
  rp_total :: int

record obp_libs =
  ol_json :: "string \<Rightarrow> string + json"
  ol_error_message :: "string \<Rightarrow> string + string option"
  ol_token :: "string \<Rightarrow> string + string \<times> nat option"
  ol_routing_page :: "string \<Rightarrow> string + routing_page"
  ol_show_status :: "nat \<Rightarrow> string"

text \<open>\<open>None\<close> is a panic.\<close>

type_synonym 'a client_result = "(obp_error + 'a) option"

section \<open>Classification of failures\<close>

definition OBP_UNKNOWN :: string where "OBP_UNKNOWN = ''OBP-UNKNOWN''"
definition obp_prefix :: string where "obp_prefix = ''OBP-''"

text \<open>The code in front of the first colon of an OBP message, when it is one.\<close>

definition obp_code_of :: "string \<Rightarrow> string" where
  "obp_code_of msg =
     unwrap_or (filter_opt (starts_with obp_prefix)
                  (map_option (\<lambda>(c, _). trim c) (split_once CHR '':'' msg))) OBP_UNKNOWN"

definition parse_obp_error :: "obp_libs \<Rightarrow> string \<Rightarrow> (string \<times> string) option" where
  "parse_obp_error L body =
     (case ol_error_message L body of
        Inr (Some msg) \<Rightarrow> Some (obp_code_of msg, msg)
      | _ \<Rightarrow> map_option (\<lambda>m. (OBP_UNKNOWN, m)) (truncate_text body 500))"

definition is_business_code :: "string \<Rightarrow> bool" where
  "is_business_code code \<longleftrightarrow> starts_with obp_prefix code \<and> code \<noteq> OBP_UNKNOWN"

definition transport_of :: "obp_libs \<Rightarrow> nat \<Rightarrow> string \<Rightarrow> obp_error option" where
  "transport_of L status message =
     map_option (\<lambda>m. ObpTransport (''OBP-API returned '' @ ol_show_status L status @ '': '' @ m))
       (truncate_text message 500)"

definition classify_failure :: "obp_libs \<Rightarrow> nat \<Rightarrow> string \<Rightarrow> obp_error option" where
  "classify_failure L status body =
     (case parse_obp_error L body of
        None \<Rightarrow> None
      | Some (code, message) \<Rightarrow>
          if status \<in> {400, 422} \<and> is_business_code code
          then Some (ObpRejected status code message)
          else transport_of L status message)"

definition classify_interactive_failure :: "obp_libs \<Rightarrow> nat \<Rightarrow> string \<Rightarrow> obp_error option" where
  "classify_interactive_failure L status body =
     (case parse_obp_error L body of
        None \<Rightarrow> None
      | Some (code, message) \<Rightarrow>
          if is_client_error status \<and> is_business_code code
          then Some (ObpRejected status code message)
          else transport_of L status message)"

section \<open>Successful answers\<close>

definition extract_tr_id :: "obp_libs \<Rightarrow> string \<Rightarrow> string option" where
  "extract_tr_id L body =
     (case ol_json L body of
        Inl _ \<Rightarrow> None
      | Inr v \<Rightarrow> Option.bind (or_else (jget ''transaction_request_id'' v) (jget ''id'' v)) as_str)"

record settlement_response =
  os_settlement_id :: "string option"
  os_covered :: "string list"
  os_raw :: json

definition parse_settlement_response :: "obp_libs \<Rightarrow> string \<Rightarrow> obp_error + settlement_response" where
  "parse_settlement_response L body =
     (case ol_json L body of
        Inl e \<Rightarrow> Inl (ObpTransport (''parsing settlement response: '' @ e))
      | Inr raw \<Rightarrow>
          Inr \<lparr>os_settlement_id = Option.bind (jget ''settlement_id'' raw) as_str,
               os_covered = unwrap_or (map_option (List.map_filter as_str)
                 (Option.bind (jget ''covered_transaction_request_ids'' raw) as_array)) [],
               os_raw = raw\<rparr>)"

section \<open>Credentials\<close>

text \<open>
  Instants are nanoseconds; adding a duration panics when the seconds no longer fit the signed
  64-bit clock of the platform.
\<close>

definition add_seconds :: "nat \<Rightarrow> nat \<Rightarrow> nat option" where
  "add_seconds now s = (if (now div 10 ^ 9) + s < 2 ^ 63 then Some (now + s * 10 ^ 9) else None)"

record cached_token =
  ct_bearer :: string
  ct_refresh_at :: nat

record token_env =
  te_now :: nat
  te_answer :: http_answer
  te_later :: nat

text \<open>Refresh a little before the expiry: 30 seconds, or the whole life of a shorter token.\<close>

definition token_lifetime :: "nat option \<Rightarrow> nat" where
  "token_lifetime expires_in = unwrap_or expires_in 300 - min (unwrap_or expires_in 300) 30"

fun fetch_token ::
  "obp_libs \<Rightarrow> token_env \<Rightarrow> cached_token option \<Rightarrow> string client_result \<times> cached_token option" where
  "fetch_token L E cache =
     (case te_answer E of
        NoResponse e \<Rightarrow> (Some (Inl (ObpTransport (''OAuth2 token request: '' @ e))), cache)
      | BrokenBody _ e \<Rightarrow> (Some (Inl (ObpTransport (''reading token response: '' @ e))), cache)
      | Response status text \<Rightarrow>
          if \<not> is_success status
          then (map_option (\<lambda>m. Inl (ObpTransport (''OAuth2 token endpoint returned ''
                  @ ol_show_status L status @ '': '' @ m))) (truncate_text text 500), cache)
          else (case ol_token L text of
                  Inl e \<Rightarrow> (Some (Inl (ObpTransport (''parsing token response: '' @ e))), cache)
                | Inr (access, expires_in) \<Rightarrow>
                    (case add_seconds (te_later E) (token_lifetime expires_in) of
                       None \<Rightarrow> (None, cache)
                     | Some refresh \<Rightarrow>
                         (Some (Inr access),
                          Some \<lparr>ct_bearer = access, ct_refresh_at = refresh\<rparr>))))"

definition bearer_token ::
  "obp_libs \<Rightarrow> obp_auth \<Rightarrow> token_env \<Rightarrow> cached_token option
   \<Rightarrow> string client_result \<times> cached_token option" where
  "bearer_token L auth E cache =
     (case auth of
        ClientCredentials url cid secret scope \<Rightarrow>
          (case cache of
             Some c \<Rightarrow> if te_now E < ct_refresh_at c then (Some (Inr (ct_bearer c)), cache)
                       else fetch_token L E cache
           | None \<Rightarrow> fetch_token L E cache)
      | _ \<Rightarrow> (Some (Inl (ObpTransport
                ''bearer_token called for a non-client-credentials auth scheme'')), cache))"

text \<open>The form of the token request.\<close>

definition token_form :: "string option \<Rightarrow> (string \<times> string) list" where
  "token_form scope = (''grant_type'', ''client_credentials'') #
     (case scope of None \<Rightarrow> [] | Some s \<Rightarrow> [(''scope'', s)])"

text \<open>\<open>authorize\<close>: the value of the \<open>Authorization\<close> header, if there is one.\<close>

definition authorize ::
  "obp_libs \<Rightarrow> obp_auth \<Rightarrow> token_env \<Rightarrow> cached_token option
   \<Rightarrow> string option client_result \<times> cached_token option" where
  "authorize L auth E cache =
     (case auth of
        AuthNone \<Rightarrow> (Some (Inr None), cache)
      | DirectLogin token \<Rightarrow>
          (Some (Inr (Some (''DirectLogin token=\"'' @ token @ ''\"''))), cache)
      | ClientCredentials _ _ _ _ \<Rightarrow>
          (case bearer_token L auth E cache of
             (None, c) \<Rightarrow> (None, c)
           | (Some (Inl e), c) \<Rightarrow> (Some (Inl e), c)
           | (Some (Inr bearer), c) \<Rightarrow> (Some (Inr (Some (''Bearer '' @ bearer))), c)))"

section \<open>Calls\<close>

record obp_client =
  oc_base_url :: string
  oc_auth :: obp_auth

definition trim_end_slashes :: "string \<Rightarrow> string" where
  "trim_end_slashes s = rev (dropWhile (\<lambda>c. c = CHR ''/'') (rev s))"

definition new_client :: "string \<Rightarrow> obp_auth \<Rightarrow> obp_client" where
  "new_client base_url auth = \<lparr>oc_base_url = trim_end_slashes base_url, oc_auth = auth\<rparr>"

datatype request_body = NoBody | RawBody string | JsonBody json

record http_request =
  hr_method :: string
  hr_url :: string
  hr_authorization :: "string option"
  hr_body :: request_body

record call_env =
  oe_token :: token_env
  oe_answer :: http_answer

text \<open>
  One exchange, the shape that all calls share: authorize, send, read the body, and let the
  caller judge the answer. The third component is the request that went out.
\<close>

definition exchange ::
  "obp_libs \<Rightarrow> obp_client \<Rightarrow> call_env \<Rightarrow> string \<Rightarrow> string \<Rightarrow> request_body
   \<Rightarrow> (string \<Rightarrow> obp_error + 'a) \<Rightarrow> (nat \<Rightarrow> string \<Rightarrow> obp_error option) \<Rightarrow> cached_token option
   \<Rightarrow> 'a client_result \<times> cached_token option \<times> http_request option" where
  "exchange L C E meth url body ok failure cache =
     (case authorize L (oc_auth C) (oe_token E) cache of
        (None, c) \<Rightarrow> (None, c, None)
      | (Some (Inl e), c) \<Rightarrow> (Some (Inl e), c, None)
      | (Some (Inr hdr), c) \<Rightarrow>
          ((case oe_answer E of
              NoResponse e \<Rightarrow> Some (Inl (ObpTransport e))
            | BrokenBody _ e \<Rightarrow> Some (Inl (ObpTransport (''reading response body: '' @ e)))
            | Response status answer \<Rightarrow>
                if is_success status then Some (ok answer) else map_option Inl (failure status answer)),
           c, Some \<lparr>hr_method = meth, hr_url = url, hr_authorization = hdr, hr_body = body\<rparr>))"

definition transaction_requests_url :: "obp_client \<Rightarrow> string \<Rightarrow> string \<Rightarrow> string" where
  "transaction_requests_url C bank_id account_id =
     oc_base_url C @ ''/obp/'' @ OBP_API_VERSION @ ''/banks/'' @ bank_id @ ''/accounts/'' @ account_id
     @ ''/owner/transaction-request-types/OPEN_CORRIDOR_PROMISE/transaction-requests''"

definition submit_open_corridor ::
  "obp_libs \<Rightarrow> obp_client \<Rightarrow> call_env \<Rightarrow> string \<Rightarrow> string \<Rightarrow> string \<Rightarrow> cached_token option
   \<Rightarrow> string option client_result \<times> cached_token option \<times> http_request option" where
  "submit_open_corridor L C E bank_id account_id body =
     exchange L C E ''POST'' (transaction_requests_url C bank_id account_id) (RawBody body)
       (\<lambda>answer. Inr (extract_tr_id L answer)) (classify_failure L)"

definition settlements_url :: "obp_client \<Rightarrow> string \<Rightarrow> string" where
  "settlements_url C bank_id =
     oc_base_url C @ ''/obp/'' @ OBP_API_VERSION @ ''/banks/'' @ bank_id @ ''/open-corridor/settlements''"

definition create_settlement ::
  "obp_libs \<Rightarrow> obp_client \<Rightarrow> call_env \<Rightarrow> string \<Rightarrow> string \<Rightarrow> string \<Rightarrow> cached_token option
   \<Rightarrow> settlement_response client_result \<times> cached_token option \<times> http_request option" where
  "create_settlement L C E bank_id other_bank_id currency =
     exchange L C E ''POST'' (settlements_url C bank_id)
       (JsonBody (JObj [(''other_bank_id'', JStr other_bank_id), (''currency'', JStr currency)]))
       (parse_settlement_response L) (classify_interactive_failure L)"

definition get_settlement ::
  "obp_libs \<Rightarrow> obp_client \<Rightarrow> call_env \<Rightarrow> string \<Rightarrow> string \<Rightarrow> cached_token option
   \<Rightarrow> settlement_response client_result \<times> cached_token option \<times> http_request option" where
  "get_settlement L C E bank_id settlement_id =
     exchange L C E ''GET'' (settlements_url C bank_id @ ''/'' @ settlement_id) NoBody
       (parse_settlement_response L) (classify_interactive_failure L)"

definition promise_report_url :: "obp_client \<Rightarrow> string \<Rightarrow> string \<Rightarrow> string \<Rightarrow> string" where
  "promise_report_url C bank_id account_id obp_tr_id =
     oc_base_url C @ ''/obp/'' @ OBP_API_VERSION @ ''/banks/'' @ bank_id @ ''/accounts/'' @ account_id
     @ ''/transaction-requests/'' @ obp_tr_id @ ''/open-corridor/promise''"

record promise_evidence =
  pe_tx_hash :: string
  pe_blockchain :: string
  pe_commitment :: string
  pe_salt :: string
  pe_preimage :: string

definition promise_evidence_json :: "promise_evidence \<Rightarrow> json" where
  "promise_evidence_json e =
     JObj [(''tx_hash'', JStr (pe_tx_hash e)), (''blockchain'', JStr (pe_blockchain e)),
           (''commitment'', JStr (pe_commitment e)), (''salt'', JStr (pe_salt e)),
           (''preimage'', JStr (pe_preimage e))]"

definition report_promise ::
  "obp_libs \<Rightarrow> obp_client \<Rightarrow> call_env \<Rightarrow> string \<Rightarrow> string \<Rightarrow> string \<Rightarrow> promise_evidence
   \<Rightarrow> cached_token option \<Rightarrow> unit client_result \<times> cached_token option \<times> http_request option" where
  "report_promise L C E bank_id account_id obp_tr_id evidence =
     exchange L C E ''POST'' (promise_report_url C bank_id account_id obp_tr_id)
       (JsonBody (promise_evidence_json evidence)) (\<lambda>_. Inr ()) (classify_failure L)"

definition ROUTING_PAGE :: nat where "ROUTING_PAGE = 500"

definition routing_schemes_url :: "obp_client \<Rightarrow> nat \<Rightarrow> string" where
  "routing_schemes_url C offset =
     oc_base_url C @ ''/obp/'' @ OBP_API_VERSION @ ''/routing-schemes?status=ACTIVE&limit=''
     @ show_nat ROUTING_PAGE @ ''&offset='' @ show_nat offset"

text \<open>One page; \<open>i\<close> counts the requests of the loop.\<close>

definition routing_page_call ::
  "obp_libs \<Rightarrow> obp_client \<Rightarrow> call_env \<Rightarrow> nat \<Rightarrow> cached_token option
   \<Rightarrow> routing_page client_result \<times> cached_token option \<times> http_request option" where
  "routing_page_call L C E offset =
     exchange L C E ''GET'' (routing_schemes_url C offset) NoBody
       (\<lambda>answer. case ol_routing_page L answer of
          Inl e \<Rightarrow> Inl (ObpTransport (''unparseable routing-schemes response: '' @ e))
        | Inr page \<Rightarrow> Inr page)
       (classify_failure L)"

text \<open>
  The loop of \<open>get_routing_schemes\<close>: it goes on while the server keeps sending full pages and
  claims a larger total, so it may not end; then the value is the outer \<open>None\<close>.
\<close>

partial_function (option) routing_loop ::
  "obp_libs \<Rightarrow> obp_client \<Rightarrow> (nat \<Rightarrow> call_env) \<Rightarrow> nat \<Rightarrow> routing_scheme list \<Rightarrow> cached_token option
   \<Rightarrow> (routing_scheme list client_result \<times> cached_token option) option" where
  "routing_loop L C E i found cache =
     (case routing_page_call L C (E i) (length found) cache of
        (None, c, _) \<Rightarrow> Some (None, c)
      | (Some (Inl e), c, _) \<Rightarrow> Some (Some (Inl e), c)
      | (Some (Inr page), c, _) \<Rightarrow>
          if length (rp_routing_schemes page) < ROUTING_PAGE
             \<or> rp_total page \<le> int (length (found @ rp_routing_schemes page))
          then Some (Some (Inr (found @ rp_routing_schemes page)), c)
          else routing_loop L C E (Suc i) (found @ rp_routing_schemes page) c)"

definition get_routing_schemes ::
  "obp_libs \<Rightarrow> obp_client \<Rightarrow> (nat \<Rightarrow> call_env) \<Rightarrow> cached_token option
   \<Rightarrow> (routing_scheme list client_result \<times> cached_token option) option" where
  "get_routing_schemes L C E cache = routing_loop L C E 0 [] cache"

section \<open>Facts\<close>

text \<open>A terminal rejection is a 400 or 422 with a business code; the interactive calls take any 4xx.\<close>

lemma classify_failure_rejected:
  assumes "classify_failure L status body = Some (ObpRejected s code m)"
  shows "s = status" "status = 400 \<or> status = 422" "is_business_code code"
    "ol_error_message L body = Inr (Some m)" "code = obp_code_of m"
  using assms
  by (auto simp: classify_failure_def parse_obp_error_def transport_of_def is_business_code_def
           split: option.splits sum.splits if_splits prod.splits)

lemma classify_interactive_rejected:
  assumes "classify_interactive_failure L status body = Some (ObpRejected s code m)"
  shows "s = status" "is_client_error status" "is_business_code code"
    "ol_error_message L body = Inr (Some m)" "code = obp_code_of m"
  using assms
  by (auto simp: classify_interactive_failure_def parse_obp_error_def transport_of_def
                 is_business_code_def
           split: option.splits sum.splits if_splits prod.splits)

text \<open>What the dispatcher takes as terminal the interactive calls take as terminal too.\<close>

lemma classify_failure_interactive:
  assumes "classify_failure L status body = Some (ObpRejected s code m)"
  shows "classify_interactive_failure L status body = Some (ObpRejected s code m)"
  using assms
  by (auto simp: classify_failure_def classify_interactive_failure_def is_client_error_def
        transport_of_def split: option.splits if_splits prod.splits)

lemma exchange_rejected:
  assumes "exchange L C E meth url body ok failure cache = (Some (Inl (ObpRejected s code m)), c, q)"
    and "\<And>answer. ok answer \<noteq> Inl (ObpRejected s code m)"
  shows "(\<exists>status answer. oe_answer E = Response status answer \<and>
           failure status answer = Some (ObpRejected s code m))"
  using assms
  by (auto simp: exchange_def authorize_def bearer_token_def split: option.splits sum.splits
        prod.splits http_answer.splits obp_auth.splits if_splits)

text \<open>A cached token is used without a request until it is due for a refresh, and never after.\<close>

lemma bearer_token_cached:
  "te_now E < ct_refresh_at c \<Longrightarrow>
   bearer_token L (ClientCredentials u i s sc) E (Some c) = (Some (Inr (ct_bearer c)), Some c)"
  by (simp add: bearer_token_def)

lemma bearer_token_stale:
  "ct_refresh_at c \<le> te_now E \<Longrightarrow>
   bearer_token L (ClientCredentials u i s sc) E (Some c) = fetch_token L E (Some c)"
  by (simp add: bearer_token_def)

text \<open>What a fetch leaves in the cache is refreshed no later than the token expires.\<close>

lemma fetch_token_refresh:
  assumes "fetch_token L E cache = (Some (Inr bearer), cache')"
  shows "\<exists>answer expires_in c. te_answer E = Response (fst answer) (snd answer) \<and>
    is_success (fst answer) \<and> ol_token L (snd answer) = Inr (bearer, expires_in) \<and>
    cache' = Some c \<and> ct_bearer c = bearer \<and> te_later E \<le> ct_refresh_at c \<and>
    ct_refresh_at c \<le> te_later E + unwrap_or expires_in 300 * 10 ^ 9"
proof -
  obtain status answer where a: "te_answer E = Response status answer"
    using assms by (cases "te_answer E") auto
  with assms have s: "is_success status" by (auto split: if_splits)
  with a assms obtain expires_in where p: "ol_token L answer = Inr (bearer, expires_in)"
    by (auto split: sum.splits option.splits)
  with a s assms have "add_seconds (te_later E) (token_lifetime expires_in) \<noteq> None"
    by (auto split: option.splits)
  then have r: "add_seconds (te_later E) (token_lifetime expires_in) =
      Some (te_later E + token_lifetime expires_in * 10 ^ 9)"
    by (auto simp: add_seconds_def split: if_splits)
  have "token_lifetime expires_in \<le> unwrap_or expires_in 300" by (simp add: token_lifetime_def)
  with a s p r assms show ?thesis
    by (intro exI [of _ "(status, answer)"] exI [of _ expires_in]) auto
qed

text \<open>The loop over the pages ends when the totals the server claims are bounded.\<close>

lemma routing_loop_returns:
  assumes "\<And>i off c page c' q. routing_page_call L C (E i) off c = (Some (Inr page), c', q) \<Longrightarrow>
    rp_total page \<le> int T"
  shows "\<exists>r. routing_loop L C E i found cache = Some r"
proof (induction "T - length found" arbitrary: i found cache rule: less_induct)
  case less
  show ?case
  proof (cases "routing_page_call L C (E i) (length found) cache")
    case (fields r c q)
    show ?thesis
    proof (cases r)
      case None
      with fields show ?thesis by (subst routing_loop.simps) simp
    next
      case (Some x)
      show ?thesis
      proof (cases x)
        case (Inl e)
        with Some fields show ?thesis by (subst routing_loop.simps) simp
      next
        case (Inr page)
        let ?found = "found @ rp_routing_schemes page"
        have total: "rp_total page \<le> int T" using assms fields Some Inr by blast
        show ?thesis
        proof (cases "length (rp_routing_schemes page) < ROUTING_PAGE \<or> rp_total page \<le> int (length ?found)")
          case True
          with Some Inr fields show ?thesis by (subst routing_loop.simps) simp
        next
          case False
          with total have "length ?found < T" "length found < length ?found"
            by (auto simp: ROUTING_PAGE_def)
          then have "T - length ?found < T - length found" by (intro diff_less_mono2) simp_all
          from less [OF this, of "Suc i" c] False Some Inr fields show ?thesis
            by (subst routing_loop.simps) simp
        qed
      qed
    qed
  qed
qed

text \<open>
  The pages that the loop reads from its \<open>i\<close>-th request on, each asked for at the number of rows
  before it and with the token that the request before it left, and the token after them.
\<close>

fun pages_read :: "obp_libs \<Rightarrow> obp_client \<Rightarrow> (nat \<Rightarrow> call_env) \<Rightarrow> nat \<Rightarrow> nat \<Rightarrow> cached_token option
   \<Rightarrow> routing_page list \<Rightarrow> cached_token option \<Rightarrow> bool" where
  "pages_read L C E i offset cache [] last_cache \<longleftrightarrow> last_cache = cache"
| "pages_read L C E i offset cache (page # pages) last_cache \<longleftrightarrow>
     (\<exists>c q. routing_page_call L C (E i) offset cache = (Some (Inr page), c, q)
       \<and> pages_read L C E (Suc i) (offset + length (rp_routing_schemes page)) c pages last_cache)"

definition rows_of :: "routing_page list \<Rightarrow> routing_scheme list" where
  "rows_of pages = concat (map rp_routing_schemes pages)"

lemma rows_of_simps [simp]: "rows_of [] = []" "rows_of (p # ps) = rp_routing_schemes p @ rows_of ps"
  by (simp_all add: rows_of_def)

text \<open>After these rows the page is not the last one: it is full and the server claims more.\<close>

fun more_follow :: "nat \<Rightarrow> routing_page list \<Rightarrow> bool" where
  "more_follow offset [] \<longleftrightarrow> True"
| "more_follow offset (page # pages) \<longleftrightarrow>
     ROUTING_PAGE \<le> length (rp_routing_schemes page)
     \<and> int (offset + length (rp_routing_schemes page)) < rp_total page
     \<and> more_follow (offset + length (rp_routing_schemes page)) pages"

definition ends_after :: "nat \<Rightarrow> routing_page \<Rightarrow> bool" where
  "ends_after offset page \<longleftrightarrow>
     length (rp_routing_schemes page) < ROUTING_PAGE
     \<or> rp_total page \<le> int (offset + length (rp_routing_schemes page))"

text \<open>How the loop ends: after a last page, or at a request that fails.\<close>

definition loop_ends :: "obp_libs \<Rightarrow> obp_client \<Rightarrow> (nat \<Rightarrow> call_env) \<Rightarrow> nat \<Rightarrow> routing_scheme list
   \<Rightarrow> cached_token option \<Rightarrow> routing_page list \<Rightarrow> routing_scheme list client_result \<times> cached_token option \<Rightarrow> bool" where
  "loop_ends L C E i found cache pages r \<longleftrightarrow>
     (\<exists>before c1. more_follow (length found) before \<and>
        ((\<exists>page. pages = before @ [page] \<and> pages_read L C E i (length found) cache pages c1
            \<and> ends_after (length found + length (rows_of before)) page
            \<and> r = (Some (Inr (found @ rows_of pages)), c1))
         \<or> (\<exists>failure c q. pages = before \<and> pages_read L C E i (length found) cache pages c1
            \<and> routing_page_call L C (E (i + length pages)) (length found + length (rows_of pages)) c1 = (failure, c, q)
            \<and> (failure = None \<and> r = (None, c) \<or> (\<exists>e. failure = Some (Inl e) \<and> r = (Some (Inl e), c))))))"

lemma loop_ends_more:
  assumes "routing_page_call L C (E i) (length found) cache = (Some (Inr page), c, q)"
    and "\<not> ends_after (length found) page"
    and "loop_ends L C E (Suc i) (found @ rp_routing_schemes page) c pages r"
  shows "loop_ends L C E i found cache (page # pages) r"
proof -
  have more: "more_follow (length found) (page # before) \<longleftrightarrow> more_follow (length (found @ rp_routing_schemes page)) before"
    for before using assms(2) by (auto simp: ends_after_def)
  from assms(3) obtain before c1 where b: "more_follow (length found) (page # before)"
    and cases: "(\<exists>last. pages = before @ [last] \<and> pages_read L C E (Suc i) (length (found @ rp_routing_schemes page)) c pages c1
            \<and> ends_after (length (found @ rp_routing_schemes page) + length (rows_of before)) last
            \<and> r = (Some (Inr ((found @ rp_routing_schemes page) @ rows_of pages)), c1))
         \<or> (\<exists>failure c' q. pages = before \<and> pages_read L C E (Suc i) (length (found @ rp_routing_schemes page)) c pages c1
            \<and> routing_page_call L C (E (Suc i + length pages)) (length (found @ rp_routing_schemes page) + length (rows_of pages)) c1 = (failure, c', q)
            \<and> (failure = None \<and> r = (None, c') \<or> (\<exists>e. failure = Some (Inl e) \<and> r = (Some (Inl e), c'))))"
    unfolding loop_ends_def more by blast
  show ?thesis
    unfolding loop_ends_def
    by (rule exI [of _ "page # before"], rule exI [of _ c1]) (use b cases assms(1) in \<open>auto simp: add.assoc\<close>)
qed

lemma routing_loop_ends:
  assumes "routing_loop L C E i found cache = Some r"
  shows "\<exists>pages. loop_ends L C E i found cache pages r"
proof (rule routing_loop.raw_induct [OF _ assms])
  fix loop L C E i found cache r
  assume IH: "\<And>L C E i found cache r. loop L C E i found cache = Some r \<Longrightarrow> \<exists>pages. loop_ends L C E i found cache pages r"
    and body: "(case routing_page_call L C (E i) (length found) cache of
        (None, c, x) \<Rightarrow> Some (None, c)
      | (Some (Inl e), c, x) \<Rightarrow> Some (Some (Inl e), c)
      | (Some (Inr page), c, x) \<Rightarrow>
          if length (rp_routing_schemes page) < ROUTING_PAGE
             \<or> rp_total page \<le> int (length (found @ rp_routing_schemes page))
          then Some (Some (Inr (found @ rp_routing_schemes page)), c)
          else loop L C E (Suc i) (found @ rp_routing_schemes page) c) = Some r"
  obtain x c q where call: "routing_page_call L C (E i) (length found) cache = (x, c, q)" by (metis prod_cases3)
  show "\<exists>pages. loop_ends L C E i found cache pages r"
  proof (cases "\<exists>page. x = Some (Inr page)")
    case True
    then obtain page where x: "x = Some (Inr page)" by blast
    show ?thesis
    proof (cases "ends_after (length found) page")
      case True
      with body call x have "loop_ends L C E i found cache [page] r"
        unfolding loop_ends_def by (intro exI [of _ "[]"] exI [of _ c]) (auto simp: ends_after_def)
      then show ?thesis ..
    next
      case False
      with body call x have "loop L C E (Suc i) (found @ rp_routing_schemes page) c = Some r"
        by (auto simp: ends_after_def)
      from IH [OF this] loop_ends_more [of L C E i found cache page c q] call x False show ?thesis by blast
    qed
  next
    case False
    with body call have "loop_ends L C E i found cache [] r"
      unfolding loop_ends_def
      by (intro exI [of _ "[]"] exI [of _ cache]) (auto split: option.splits sum.splits)
    then show ?thesis ..
  qed
qed

text \<open>The pages of a server that holds the rows \<open>listed\<close> and says so.\<close>

fun pages_of :: "routing_scheme list \<Rightarrow> nat \<Rightarrow> routing_page list \<Rightarrow> bool" where
  "pages_of listed offset [] \<longleftrightarrow> True"
| "pages_of listed offset (page # pages) \<longleftrightarrow>
     rp_routing_schemes page = take ROUTING_PAGE (drop offset listed) \<and> rp_total page = int (length listed)
     \<and> pages_of listed (offset + length (rp_routing_schemes page)) pages"

lemma pages_of_append:
  "pages_of listed offset (ps @ qs) \<longleftrightarrow>
     pages_of listed offset ps \<and> pages_of listed (offset + length (rows_of ps)) qs"
  by (induction ps arbitrary: offset) (auto simp: add.assoc)

lemma rows_of_prefix:
  "pages_of listed offset ps \<Longrightarrow> rows_of ps = take (length (rows_of ps)) (drop offset listed)"
proof (induction ps arbitrary: offset)
  case (Cons p ps)
  from Cons.prems have p: "rp_routing_schemes p = take ROUTING_PAGE (drop offset listed)"
    and ps: "pages_of listed (offset + length (rp_routing_schemes p)) ps" by auto
  have "rp_routing_schemes p = take (length (rp_routing_schemes p)) (drop offset listed)" by (auto simp: p min_def)
  with Cons.IH [OF ps] show ?case by (simp add: take_add add.commute)
qed simp

lemma rows_of_all:
  assumes "pages_of listed 0 (before @ [page])" and "ends_after (length (rows_of before)) page"
  shows "rows_of (before @ [page]) = listed"
proof -
  let ?n = "length (rows_of before)"
  have rows: "rows_of before = take ?n listed"
    using rows_of_prefix [of listed 0 before] assms(1) by (simp add: pages_of_append)
  have page: "rp_routing_schemes page = take ROUTING_PAGE (drop ?n listed)" "rp_total page = int (length listed)"
    using assms(1) by (simp_all add: pages_of_append)
  have "take ROUTING_PAGE (drop ?n listed) = drop ?n listed"
    using assms(2) page by (auto simp: ends_after_def)
  with rows page have "rows_of (before @ [page]) = take ?n listed @ drop ?n listed"
    by (simp add: rows_of_def)
  then show ?thesis by simp
qed

end
