(* ===== verification/Commitment.thy ===== *)
theory Commitment
  imports Prelude
begin

text \<open>
  The chain-agnostic part of \<open>crates/obp-blockchain/src/lib.rs\<close>: the error type, the salted
  commitment, the notary records and the commit-and-reveal check. The hash (\<open>sha2\<close> and \<open>hex\<close>)
  is a parameter \<open>hash\<close>, from the bytes hashed to the hex text.
\<close>

datatype blockchain_error =
    Transport string
  | Rejected string
  | NotFound string
  | Internal string

text \<open>The \<open>Display\<close> of the error, derived from its \<open>thiserror\<close> attributes.\<close>

fun show_blockchain_error :: "blockchain_error \<Rightarrow> string" where
  "show_blockchain_error (Transport m) = ''transport error: '' @ m"
| "show_blockchain_error (Rejected m) = ''transaction rejected: '' @ m"
| "show_blockchain_error (NotFound m) = ''not found: '' @ m"
| "show_blockchain_error (Internal m) = ''internal error: '' @ m"

definition is_rejected :: "blockchain_error \<Rightarrow> bool" where
  "is_rejected e = (case e of Rejected _ \<Rightarrow> True | _ \<Rightarrow> False)"

record tx_reference =
  tx_chain :: string
  tx_id :: string
  tx_submitted_at :: string

datatype confirmation_status = ConfPending | Confirmed nat | ConfRejected

section \<open>The commitment\<close>

definition compute_commitment :: "(string \<Rightarrow> string) \<Rightarrow> string \<Rightarrow> string \<Rightarrow> string" where
  "compute_commitment hash canonical salt = hash (salt @ canonical)"

definition verify_commitment :: "(string \<Rightarrow> string) \<Rightarrow> string \<Rightarrow> string \<Rightarrow> string \<Rightarrow> bool" where
  "verify_commitment hash canonical salt expected \<longleftrightarrow>
     eq_ignore_ascii_case (compute_commitment hash canonical salt) expected"

record promise_record =
  pr_schema :: string
  pr_commitment :: string
  pr_created_at :: string

definition promise_schema_v1 :: string where
  "promise_schema_v1 = ''obp.promise.v1''"

definition promise_commit_v1 :: "(string \<Rightarrow> string) \<Rightarrow> string \<Rightarrow> string \<Rightarrow> string \<Rightarrow> promise_record" where
  "promise_commit_v1 hash canonical salt created_at =
     \<lparr>pr_schema = promise_schema_v1, pr_commitment = compute_commitment hash canonical salt,
      pr_created_at = created_at\<rparr>"

definition promise_verify_v1 :: "(string \<Rightarrow> string) \<Rightarrow> string \<Rightarrow> string \<Rightarrow> string \<Rightarrow> bool" where
  "promise_verify_v1 hash canonical salt expected = verify_commitment hash canonical salt expected"

text \<open>
  The settlement and exception records: committed over the JSON of the struct, which the
  derived serializer (\<open>ser\<close>) prints.
\<close>

record settlement_record =
  rec_bank_id :: string
  rec_snapshot_id :: string
  rec_net_amount :: string
  rec_currency :: string
  rec_promise_tx_ids :: "string list"
  rec_settled_at :: string

record exception_record =
  ex_bank_id :: string
  ex_transaction_request_id :: string
  ex_reason :: string
  ex_raised_at :: string

definition settlement_schema_v1 :: string where
  "settlement_schema_v1 = ''obp.settlement.v1''"

definition exception_schema_v1 :: string where
  "exception_schema_v1 = ''obp.exception.v1''"

definition settlement_commit_v1 ::
  "(string \<Rightarrow> string) \<Rightarrow> (settlement_record \<Rightarrow> string) \<Rightarrow> settlement_record \<Rightarrow> string \<Rightarrow> string" where
  "settlement_commit_v1 hash ser s salt = compute_commitment hash (ser s) salt"

definition settlement_verify_v1 ::
  "(string \<Rightarrow> string) \<Rightarrow> (settlement_record \<Rightarrow> string) \<Rightarrow> settlement_record \<Rightarrow> string \<Rightarrow> string \<Rightarrow> bool" where
  "settlement_verify_v1 hash ser s salt expected = verify_commitment hash (ser s) salt expected"

definition exception_commit_v1 ::
  "(string \<Rightarrow> string) \<Rightarrow> (exception_record \<Rightarrow> string) \<Rightarrow> exception_record \<Rightarrow> string \<Rightarrow> string" where
  "exception_commit_v1 hash ser e salt = compute_commitment hash (ser e) salt"

definition exception_verify_v1 ::
  "(string \<Rightarrow> string) \<Rightarrow> (exception_record \<Rightarrow> string) \<Rightarrow> exception_record \<Rightarrow> string \<Rightarrow> string \<Rightarrow> bool" where
  "exception_verify_v1 hash ser e salt expected = verify_commitment hash (ser e) salt expected"

section \<open>Facts\<close>

text \<open>What was committed verifies, in either case of the hex digits.\<close>

lemma to_ascii_lower_upper: "to_ascii_lower (to_ascii_upper c) = to_ascii_lower c"
proof -
  have "byte_val c < 256" by (simp add: byte_val_def)
  moreover have "byte (byte_val c) = c" by (simp add: byte_def byte_val_def)
  ultimately show ?thesis
    by (auto simp: to_ascii_lower_def to_ascii_upper_def)
qed

lemma lowercase_uppercase: "to_ascii_lowercase (to_ascii_uppercase s) = to_ascii_lowercase s"
  by (simp add: to_ascii_lowercase_def to_ascii_uppercase_def to_ascii_lower_upper)

lemma verify_own_commitment [simp]:
  "verify_commitment hash canonical salt (compute_commitment hash canonical salt)"
  by (simp add: verify_commitment_def)

lemma verify_uppercase:
  "verify_commitment hash canonical salt (to_ascii_uppercase (compute_commitment hash canonical salt))"
  by (simp add: verify_commitment_def eq_ignore_ascii_case_def lowercase_uppercase)

text \<open>
  Binding: with a hash that is injective up to the case of its digits, a commitment verifies one
  concatenation of salt and preimage only.
\<close>

lemma verify_binding:
  assumes "\<And>x y. to_ascii_lowercase (hash x) = to_ascii_lowercase (hash y) \<Longrightarrow> x = y"
    and "verify_commitment hash c1 s1 w" and "verify_commitment hash c2 s2 w"
  shows "s1 @ c1 = s2 @ c2"
  using assms by (simp add: verify_commitment_def compute_commitment_def eq_ignore_ascii_case_def)

end
