(* ===== verification/Dispatcher.thy ===== *)
theory Dispatcher
  imports Outbox Obp_Client Commitment
begin

text \<open>
  The background dispatcher (\<open>crates/obp-bank-node/src/dispatcher.rs\<close>): one pass over the due
  rows of the outbox. The state is the outbox, the token cache of the OBP-API client and, as a
  ghost, the log of the external calls. A pass gives \<open>None\<close> when its task panics.
\<close>

record dispatch_libs =
  dl_obp :: obp_libs
  dl_print :: "json \<Rightarrow> string + string"
  dl_hash :: "string \<Rightarrow> string"

record dispatcher =
  di_obp :: obp_client
  di_blockchain_label :: string

datatype dispatch_event =
    Submitted string string string string "string option client_result"
  | Promised string promise_record "blockchain_error + tx_reference"
  | Reported string string string string promise_evidence "unit client_result"

record dispatch_state =
  ds_outbox :: outbox
  ds_token :: "cached_token option"
  ds_log :: "dispatch_event list"

text \<open>What the environment answers while one row is processed.\<close>

record row_env =
  de_attempt :: dbcall
  de_submit :: call_env
  de_mark_submitted :: dbcall
  de_created_at :: string
  de_promise :: "blockchain_error + tx_reference"
  de_mark_promise :: dbcall
  de_report :: call_env
  de_mark_reported :: dbcall
  de_mark_exception :: dbcall

text \<open>A step of a row either ends the work on it or hands on what the next one needs.\<close>

datatype 'a flow = Done "bool db_result option" | Go 'a

section \<open>The commitment of a row\<close>

definition canonical_preimage :: "dispatch_libs \<Rightarrow> outbox_record \<Rightarrow> string" where
  "canonical_preimage L row =
     (let payload = (case ol_json (dl_obp L) (ob_request_payload row) of Inl _ \<Rightarrow> JNull | Inr v \<Rightarrow> v);
          canonical = JObj
            [(''transaction_request_id'', JStr (ob_transaction_request_id row)),
             (''originating_bank_id'', JStr (ob_bank_id row)),
             (''originating_account_id'', JStr (ob_account_id row)),
             (''instruction'', payload)]
      in (case dl_print L canonical of Inl _ \<Rightarrow> [] | Inr s \<Rightarrow> s))"

definition build_commitment :: "dispatch_libs \<Rightarrow> string \<Rightarrow> outbox_record \<Rightarrow> promise_record" where
  "build_commitment L now row =
     promise_commit_v1 (dl_hash L) (canonical_preimage L row) (ob_commitment_salt row) now"

section \<open>The steps of a row\<close>

definition missing_ids :: string where
  "missing_ids = ''cannot report promise evidence to OBP-API: the OBP transaction request id ''
                 @ ''or the promise tx hash was never recorded''"

text \<open>\<open>mark_exception(..).await?; return Ok(true)\<close>.\<close>

definition except_row ::
  "row_env \<Rightarrow> string \<Rightarrow> string \<Rightarrow> dispatch_state \<Rightarrow> bool db_result \<times> dispatch_state" where
  "except_row E trid reason s =
     (case outbox_mark_exception (de_mark_exception E) trid reason (ds_outbox s) of
        (Inl e, t) \<Rightarrow> (Inl e, s\<lparr>ds_outbox := t\<rparr>)
      | (Inr _, t) \<Rightarrow> (Inr True, s\<lparr>ds_outbox := t\<rparr>))"

definition submit_step ::
  "dispatch_libs \<Rightarrow> dispatcher \<Rightarrow> row_env \<Rightarrow> outbox_record \<Rightarrow> dispatch_state
   \<Rightarrow> (outbox_status \<times> string option \<times> bool) flow \<times> dispatch_state" where
  "submit_step L D E row s =
     (let trid = ob_transaction_request_id row in
      if ob_status row \<noteq> INITIATED
      then (Go (ob_status row, ob_obp_transaction_request_id row, False), s)
      else
        (case submit_open_corridor (dl_obp L) (di_obp D) (de_submit E) (ob_bank_id row)
                (ob_account_id row) (ob_request_payload row) (ds_token s) of
           (answer, token, _) \<Rightarrow>
             let s1 = s\<lparr>ds_token := token, ds_log := ds_log s @
                   [Submitted trid (ob_bank_id row) (ob_account_id row) (ob_request_payload row) answer]\<rparr>
             in (case answer of
                   None \<Rightarrow> (Done None, s1)
                 | Some (Inr oid) \<Rightarrow>
                     (case outbox_mark_submitted (de_mark_submitted E) trid oid (ds_outbox s1) of
                        (Inl e, t) \<Rightarrow> (Done (Some (Inl e)), s1\<lparr>ds_outbox := t\<rparr>)
                      | (Inr _, t) \<Rightarrow> (Go (SUBMITTED, oid, True), s1\<lparr>ds_outbox := t\<rparr>))
                 | Some (Inl e) \<Rightarrow>
                     if is_retryable e then (Done (Some (Inr False)), s1)
                     else (case except_row E trid (show_obp_error e) s1 of
                             (r, s2) \<Rightarrow> (Done (Some r), s2)))))"

definition promise_step ::
  "dispatch_libs \<Rightarrow> dispatcher \<Rightarrow> row_env \<Rightarrow> outbox_record \<Rightarrow> outbox_status \<Rightarrow> bool \<Rightarrow> dispatch_state
   \<Rightarrow> (outbox_status \<times> string option \<times> bool) flow \<times> dispatch_state" where
  "promise_step L D E row current advanced s =
     (let trid = ob_transaction_request_id row in
      if current \<noteq> SUBMITTED then (Go (current, ob_promise_tx_id row, advanced), s)
      else
        let promise = build_commitment L (de_created_at E) row;
            s1 = s\<lparr>ds_log := ds_log s @ [Promised trid promise (de_promise E)]\<rparr>
        in (case de_promise E of
              Inr tx \<Rightarrow>
                (case outbox_mark_promise_written (de_mark_promise E) trid (tx_id tx)
                        (di_blockchain_label D) (ds_outbox s1) of
                   (Inl e, t) \<Rightarrow> (Done (Some (Inl e)), s1\<lparr>ds_outbox := t\<rparr>)
                 | (Inr _, t) \<Rightarrow> (Go (PROMISE_WRITTEN, Some (tx_id tx), True), s1\<lparr>ds_outbox := t\<rparr>))
            | Inl e \<Rightarrow> (Done (Some (Inr advanced)), s1)))"

definition row_evidence :: "dispatch_libs \<Rightarrow> dispatcher \<Rightarrow> outbox_record \<Rightarrow> string \<Rightarrow> promise_evidence" where
  "row_evidence L D row tx_hash =
     \<lparr>pe_tx_hash = tx_hash,
      pe_blockchain = unwrap_or (ob_promise_blockchain row) (di_blockchain_label D),
      pe_commitment = compute_commitment (dl_hash L) (canonical_preimage L row) (ob_commitment_salt row),
      pe_salt = ob_commitment_salt row,
      pe_preimage = canonical_preimage L row\<rparr>"

definition report_step ::
  "dispatch_libs \<Rightarrow> dispatcher \<Rightarrow> row_env \<Rightarrow> outbox_record \<Rightarrow> outbox_status \<Rightarrow> string option
   \<Rightarrow> string option \<Rightarrow> bool \<Rightarrow> dispatch_state \<Rightarrow> bool db_result option \<times> dispatch_state" where
  "report_step L D E row current oid ptx advanced s =
     (let trid = ob_transaction_request_id row in
      if current \<noteq> PROMISE_WRITTEN then (Some (Inr advanced), s)
      else
        (case (oid, ptx) of
           (Some obp_tr_id, Some tx_hash) \<Rightarrow>
             let evidence = row_evidence L D row tx_hash in
             (case report_promise (dl_obp L) (di_obp D) (de_report E) (ob_bank_id row) (ob_account_id row)
                     obp_tr_id evidence (ds_token s) of
                (answer, token, _) \<Rightarrow>
                  let s1 = s\<lparr>ds_token := token, ds_log := ds_log s @
                        [Reported trid (ob_bank_id row) (ob_account_id row) obp_tr_id evidence answer]\<rparr>
                  in (case answer of
                        None \<Rightarrow> (None, s1)
                      | Some (Inr _) \<Rightarrow>
                          (case outbox_mark_reported (de_mark_reported E) trid (ds_outbox s1) of
                             (Inl e, t) \<Rightarrow> (Some (Inl e), s1\<lparr>ds_outbox := t\<rparr>)
                           | (Inr _, t) \<Rightarrow> (Some (Inr True), s1\<lparr>ds_outbox := t\<rparr>))
                      | Some (Inl e) \<Rightarrow>
                          if is_retryable e then (Some (Inr advanced), s1)
                          else (case except_row E trid (show_obp_error e) s1 of
                                  (r, s2) \<Rightarrow> (Some r, s2))))
         | _ \<Rightarrow> (case except_row E trid missing_ids s of (r, s2) \<Rightarrow> (Some r, s2))))"

definition process_row ::
  "dispatch_libs \<Rightarrow> dispatcher \<Rightarrow> row_env \<Rightarrow> outbox_record \<Rightarrow> dispatch_state
   \<Rightarrow> bool db_result option \<times> dispatch_state" where
  "process_row L D E row s =
     (case submit_step L D E row s of
        (Done r, s1) \<Rightarrow> (r, s1)
      | (Go (current, oid, advanced), s1) \<Rightarrow>
          (case promise_step L D E row current advanced s1 of
             (Done r, s2) \<Rightarrow> (r, s2)
           | (Go (current2, ptx, advanced2), s2) \<Rightarrow>
               report_step L D E row current2 oid ptx advanced2 s2))"

section \<open>A pass\<close>

text \<open>The attempt is recorded before anything leaves the node; the first failed write ends the pass.\<close>

fun process_rows ::
  "dispatch_libs \<Rightarrow> dispatcher \<Rightarrow> (nat \<Rightarrow> row_env) \<Rightarrow> nat \<Rightarrow> outbox_record list \<Rightarrow> nat \<Rightarrow> dispatch_state
   \<Rightarrow> nat db_result option \<times> dispatch_state" where
  "process_rows L D E i [] advanced s = (Some (Inr advanced), s)"
| "process_rows L D E i (row # rows) advanced s =
     (case outbox_record_attempt (de_attempt (E i)) (ob_transaction_request_id row) (ds_outbox s) of
        (Inl e, t) \<Rightarrow> (Some (Inl e), s\<lparr>ds_outbox := t\<rparr>)
      | (Inr _, t) \<Rightarrow>
          (case process_row L D (E i) row (s\<lparr>ds_outbox := t\<rparr>) of
             (None, s1) \<Rightarrow> (None, s1)
           | (Some (Inl e), s1) \<Rightarrow> (Some (Inl e), s1)
           | (Some (Inr changed), s1) \<Rightarrow>
               process_rows L D E (Suc i) rows (if changed then Suc advanced else advanced) s1))"

definition process_due_once ::
  "dispatch_libs \<Rightarrow> dispatcher \<Rightarrow> dbcall \<Rightarrow> string \<Rightarrow> int \<Rightarrow> (nat \<Rightarrow> row_env) \<Rightarrow> dispatch_state
   \<Rightarrow> nat db_result option \<times> dispatch_state" where
  "process_due_once L D c cutoff batch_size E s =
     (case outbox_claim_due c cutoff batch_size (ds_outbox s) of
        Inl e \<Rightarrow> (Some (Inl e), s)
      | Inr due \<Rightarrow> process_rows L D E 0 due 0 s)"

section \<open>The life cycle of a row\<close>

text \<open>
  The order on statuses: forward along the cycle; \<open>REPORTED\<close> and \<open>EXCEPTION\<close> have no way out.
\<close>

fun ob_rank :: "outbox_status \<Rightarrow> nat" where
  "ob_rank INITIATED = 0"
| "ob_rank SUBMITTED = 1"
| "ob_rank PROMISE_WRITTEN = 2"
| "ob_rank REPORTED = 3"
| "ob_rank EXCEPTION = 3"

definition ob_edge :: "outbox_status \<Rightarrow> outbox_status \<Rightarrow> bool" where
  "ob_edge s s' \<longleftrightarrow> s' = s \<or> ob_rank s < ob_rank s'"

lemma ob_edge_refl [simp]: "ob_edge s s"
  by (simp add: ob_edge_def)

lemma ob_edge_trans: "ob_edge s s' \<Longrightarrow> ob_edge s' s'' \<Longrightarrow> ob_edge s s''"
  by (auto simp: ob_edge_def)

definition row_at :: "string \<Rightarrow> outbox_status \<Rightarrow> string option \<Rightarrow> string option \<Rightarrow> outbox \<Rightarrow> bool" where
  "row_at k st oid ptx t \<longleftrightarrow>
     (case sql_find ob_transaction_request_id k t of
        None \<Rightarrow> False
      | Some r \<Rightarrow> ob_status r = st \<and> ob_obp_transaction_request_id r = oid \<and> ob_promise_tx_id r = ptx)"

text \<open>Where a row may be after work that started at status \<open>s0\<close>.\<close>

definition moved :: "outbox_status \<Rightarrow> string \<Rightarrow> outbox \<Rightarrow> bool" where
  "moved s0 k t \<longleftrightarrow> (\<exists>st oid ptx. row_at k st oid ptx t \<and> ob_edge s0 st \<and>
     (st = REPORTED \<longrightarrow> s0 = REPORTED \<or> oid \<noteq> None \<and> ptx \<noteq> None))"

lemma movedI:
  "row_at k st oid ptx t \<Longrightarrow> ob_edge s0 st \<Longrightarrow>
   (st = REPORTED \<Longrightarrow> s0 = REPORTED \<or> oid \<noteq> None \<and> ptx \<noteq> None) \<Longrightarrow> moved s0 k t"
  unfolding moved_def by blast

lemma row_at_update:
  assumes "row_at k st oid ptx t"
    and "\<And>r. ob_transaction_request_id (f r) = ob_transaction_request_id r"
    and "\<And>r. ob_transaction_request_id r = k \<Longrightarrow> P r"
    and "\<And>r. ob_status r = st \<Longrightarrow> ob_obp_transaction_request_id r = oid \<Longrightarrow> ob_promise_tx_id r = ptx \<Longrightarrow>
      ob_status (f r) = st' \<and> ob_obp_transaction_request_id (f r) = oid' \<and> ob_promise_tx_id (f r) = ptx'"
  shows "row_at k st' oid' ptx' (sql_update P f t)"
  using assms by (auto simp: row_at_def sql_find_update split: option.splits dest: sql_find_SomeD)

lemma row_at_ops:
  assumes "row_at k st oid ptx t"
  shows "row_at k st oid ptx (snd (outbox_record_attempt c k t))"
    and "row_at k SUBMITTED oid' ptx (snd (outbox_mark_submitted (Runs now) k oid' t))"
    and "row_at k PROMISE_WRITTEN oid (Some tx) (snd (outbox_mark_promise_written (Runs now) k tx ch t))"
    and "row_at k REPORTED oid ptx (snd (outbox_mark_reported (Runs now) k t))"
    and "row_at k EXCEPTION oid ptx (snd (outbox_mark_exception (Runs now) k reason t))"
  unfolding outbox_op_defs exec_update_simps snd_conv
  by (cases c; simp add: exec_update_simps assms)
     (auto intro!: row_at_update [OF assms])

lemma row_at_results:
  assumes "row_at k st oid ptx t"
  shows "outbox_record_attempt c k t = (x, t') \<Longrightarrow> row_at k st oid ptx t'"
    and "outbox_mark_submitted c k oid' t = (x, t') \<Longrightarrow>
      case x of Inl _ \<Rightarrow> t' = t | Inr _ \<Rightarrow> row_at k SUBMITTED oid' ptx t'"
    and "outbox_mark_promise_written c k tx ch t = (x, t') \<Longrightarrow>
      case x of Inl _ \<Rightarrow> t' = t | Inr _ \<Rightarrow> row_at k PROMISE_WRITTEN oid (Some tx) t'"
    and "outbox_mark_reported c k t = (x, t') \<Longrightarrow>
      case x of Inl _ \<Rightarrow> t' = t | Inr _ \<Rightarrow> row_at k REPORTED oid ptx t'"
    and "outbox_mark_exception c k reason t = (x, t') \<Longrightarrow>
      case x of Inl _ \<Rightarrow> t' = t | Inr _ \<Rightarrow> row_at k EXCEPTION oid ptx t'"
  using row_at_ops(1) [OF assms, of c] row_at_ops(2-5) [OF assms]
  by (cases c; auto simp: outbox_op_defs exec_update_simps)+

text \<open>Another key's row is not touched by a statement on this one.\<close>

lemma row_update_other:
  "k \<noteq> trid \<Longrightarrow> (\<And>now r. ob_transaction_request_id (f now r) = ob_transaction_request_id r) \<Longrightarrow>
   sql_find ob_transaction_request_id k
     (snd (exec_update c (\<lambda>r. ob_transaction_request_id r = trid) f t)) =
   sql_find ob_transaction_request_id k t"
  by (cases c; cases "sql_find ob_transaction_request_id k t")
     (auto simp: exec_update_simps sql_find_update dest: sql_find_SomeD)

lemma outbox_ops_other:
  assumes "k \<noteq> trid"
  shows "sql_find ob_transaction_request_id k (snd (outbox_record_attempt c trid t)) =
      sql_find ob_transaction_request_id k t"
    "sql_find ob_transaction_request_id k (snd (outbox_mark_submitted c trid oid t)) =
      sql_find ob_transaction_request_id k t"
    "sql_find ob_transaction_request_id k (snd (outbox_mark_promise_written c trid tx ch t)) =
      sql_find ob_transaction_request_id k t"
    "sql_find ob_transaction_request_id k (snd (outbox_mark_reported c trid t)) =
      sql_find ob_transaction_request_id k t"
    "sql_find ob_transaction_request_id k (snd (outbox_mark_exception c trid reason t)) =
      sql_find ob_transaction_request_id k t"
  unfolding outbox_op_defs using assms by (simp_all add: row_update_other)

lemma except_row_moved:
  assumes "row_at k st oid ptx (ds_outbox s)" "ob_edge s0 st" "ob_rank st < 3"
  shows "moved s0 k (ds_outbox (snd (except_row E k reason s)))"
proof -
  obtain x t where op: "outbox_mark_exception (de_mark_exception E) k reason (ds_outbox s) = (x, t)"
    by fastforce
  from assms(2,3) have e: "ob_edge s0 EXCEPTION" by (auto simp: ob_edge_def)
  show ?thesis
  proof (cases x)
    case (Inl err)
    with row_at_results(5) [OF assms(1) op] have "t = ds_outbox s" by simp
    moreover have "moved s0 k (ds_outbox s)"
      by (rule movedI [OF assms(1,2)]) (use assms(3) in auto)
    ultimately show ?thesis using op Inl by (simp add: except_row_def)
  next
    case (Inr u)
    with row_at_results(5) [OF assms(1) op] have "row_at k EXCEPTION oid ptx t" by simp
    from movedI [OF this e] op Inr show ?thesis by (simp add: except_row_def)
  qed
qed

lemma submit_step_moved:
  assumes "row_at (ob_transaction_request_id row) (ob_status row) (ob_obp_transaction_request_id row)
      (ob_promise_tx_id row) (ds_outbox s)"
    and "submit_step L D E row s = (f, s')"
  shows "case f of
      Done r \<Rightarrow> moved (ob_status row) (ob_transaction_request_id row) (ds_outbox s')
    | Go (current, oid, adv) \<Rightarrow>
        row_at (ob_transaction_request_id row) current oid (ob_promise_tx_id row) (ds_outbox s') \<and>
        ob_edge (ob_status row) current \<and> (current = ob_status row \<or> current = SUBMITTED)"
proof (cases "ob_status row = INITIATED")
  case False
  with assms show ?thesis by (auto simp: submit_step_def Let_def)
next
  case True
  obtain answer token q where call: "submit_open_corridor (dl_obp L) (di_obp D) (de_submit E)
      (ob_bank_id row) (ob_account_id row) (ob_request_payload row) (ds_token s) = (answer, token, q)"
    by (metis prod_cases3)
  let ?s = "s\<lparr>ds_token := token, ds_log := ds_log s @ [Submitted (ob_transaction_request_id row)
      (ob_bank_id row) (ob_account_id row) (ob_request_payload row) answer]\<rparr>"
  have same: "moved (ob_status row) (ob_transaction_request_id row) (ds_outbox s)"
    using assms(1) by (rule movedI) (auto simp: True)
  have step: "submit_step L D E row s =
     (case answer of
        None \<Rightarrow> (Done None, ?s)
      | Some (Inr oid) \<Rightarrow>
          (case outbox_mark_submitted (de_mark_submitted E) (ob_transaction_request_id row) oid (ds_outbox ?s) of
             (Inl e, t) \<Rightarrow> (Done (Some (Inl e)), ?s\<lparr>ds_outbox := t\<rparr>)
           | (Inr _, t) \<Rightarrow> (Go (SUBMITTED, oid, True), ?s\<lparr>ds_outbox := t\<rparr>))
      | Some (Inl e) \<Rightarrow>
          if is_retryable e then (Done (Some (Inr False)), ?s)
          else (case except_row E (ob_transaction_request_id row) (show_obp_error e) ?s of
                  (r, s2) \<Rightarrow> (Done (Some r), s2)))"
    using call True by (simp add: submit_step_def Let_def)
  show ?thesis
  proof (cases answer)
    case None
    with step same assms(2) show ?thesis by auto
  next
    case (Some x)
    show ?thesis
    proof (cases x)
      case (Inl e)
      have "row_at (ob_transaction_request_id row) (ob_status row) (ob_obp_transaction_request_id row)
          (ob_promise_tx_id row) (ds_outbox ?s)" using assms(1) by simp
      from except_row_moved [OF this ob_edge_refl, of E "show_obp_error e"] True
      have "moved (ob_status row) (ob_transaction_request_id row)
          (ds_outbox (snd (except_row E (ob_transaction_request_id row) (show_obp_error e) ?s)))" by simp
      with Inl Some step same assms(2) show ?thesis by (auto split: if_splits prod.splits)
    next
      case (Inr oid)
      obtain x t where op: "outbox_mark_submitted (de_mark_submitted E) (ob_transaction_request_id row)
          oid (ds_outbox s) = (x, t)" by fastforce
      from row_at_results(2) [OF assms(1) op] op Inr Some step same assms(2) True show ?thesis
        by (cases x) (auto simp: ob_edge_def)
    qed
  qed
qed

lemma promise_step_moved:
  assumes "row_at (ob_transaction_request_id row) current oid (ob_promise_tx_id row) (ds_outbox s)"
    and "ob_edge (ob_status row) current" "current = ob_status row \<or> current = SUBMITTED"
    and "promise_step L D E row current advanced s = (f, s')"
  shows "case f of
      Done r \<Rightarrow> moved (ob_status row) (ob_transaction_request_id row) (ds_outbox s')
    | Go (current', ptx, adv) \<Rightarrow>
        row_at (ob_transaction_request_id row) current' oid ptx (ds_outbox s') \<and>
        ob_edge (ob_status row) current' \<and> (current' = REPORTED \<longrightarrow> ob_status row = REPORTED)"
proof (cases "current = SUBMITTED")
  case False
  with assms show ?thesis by (auto simp: promise_step_def Let_def)
next
  case True
  have same: "moved (ob_status row) (ob_transaction_request_id row) (ds_outbox s)"
    using assms(1,2) by (rule movedI) (auto simp: True)
  show ?thesis
  proof (cases "de_promise E")
    case (Inl e)
    with True same assms(4) show ?thesis by (auto simp: promise_step_def Let_def)
  next
    case (Inr tx)
    obtain x t where op: "outbox_mark_promise_written (de_mark_promise E) (ob_transaction_request_id row)
        (tx_id tx) (di_blockchain_label D) (ds_outbox s) = (x, t)" by fastforce
    have "ob_edge (ob_status row) PROMISE_WRITTEN"
      by (rule ob_edge_trans [OF assms(2)]) (simp add: True ob_edge_def)
    with row_at_results(3) [OF assms(1) op] op Inr True same assms(4) show ?thesis
      by (cases x) (auto simp: promise_step_def Let_def)
  qed
qed

lemma report_step_moved:
  assumes "row_at (ob_transaction_request_id row) current oid ptx (ds_outbox s)"
    and "ob_edge (ob_status row) current" "current = REPORTED \<longrightarrow> ob_status row = REPORTED"
  shows "moved (ob_status row) (ob_transaction_request_id row)
    (ds_outbox (snd (report_step L D E row current oid ptx advanced s)))"
proof -
  have same: "moved (ob_status row) (ob_transaction_request_id row) (ds_outbox s)"
    using assms(1,2) by (rule movedI) (use assms(3) in auto)
  show ?thesis
  proof (cases "current = PROMISE_WRITTEN")
    case False
    with same show ?thesis by (simp add: report_step_def Let_def)
  next
    case True
    have except: "moved (ob_status row) (ob_transaction_request_id row)
        (ds_outbox (snd (except_row E (ob_transaction_request_id row) reason u)))"
      if u: "ds_outbox u = ds_outbox s" for reason u
    proof -
      have "row_at (ob_transaction_request_id row) current oid ptx (ds_outbox u)" using assms(1) u by simp
      from except_row_moved [OF this assms(2)] True show ?thesis by simp
    qed
    show ?thesis
    proof (cases "oid = None \<or> ptx = None")
      case True
      with \<open>current = PROMISE_WRITTEN\<close> except [of s] show ?thesis
        by (auto simp: report_step_def Let_def case_prod_unfold split: option.splits)
    next
      case False
      then obtain obp tx where ids: "oid = Some obp" "ptx = Some tx" by auto
      obtain answer token q where call: "report_promise (dl_obp L) (di_obp D) (de_report E)
          (ob_bank_id row) (ob_account_id row) obp (row_evidence L D row tx) (ds_token s) = (answer, token, q)"
        by (metis prod_cases3)
      have e: "ob_edge (ob_status row) REPORTED"
        by (rule ob_edge_trans [OF assms(2)]) (simp add: True ob_edge_def)
      obtain x t where op: "outbox_mark_reported (de_mark_reported E) (ob_transaction_request_id row)
          (ds_outbox s) = (x, t)" by fastforce
      have written: "moved (ob_status row) (ob_transaction_request_id row) t"
        using row_at_results(4) [OF assms(1) op] same ids movedI [OF _ e, of _ oid ptx] by (cases x) auto
      show ?thesis
      proof (cases answer)
        case None
        with ids call True same show ?thesis by (simp add: report_step_def Let_def)
      next
        case (Some y)
        with ids call True same op written show ?thesis
          by (cases y; cases x)
             (auto simp: report_step_def Let_def except case_prod_unfold)
      qed
    qed
  qed
qed

lemma process_row_moved:
  assumes "row_at (ob_transaction_request_id row) (ob_status row) (ob_obp_transaction_request_id row)
      (ob_promise_tx_id row) (ds_outbox s)"
  shows "moved (ob_status row) (ob_transaction_request_id row) (ds_outbox (snd (process_row L D E row s)))"
proof -
  obtain f s1 where 1: "submit_step L D E row s = (f, s1)" by fastforce
  show ?thesis
  proof (cases f)
    case (Done r)
    with 1 submit_step_moved [OF assms 1] show ?thesis by (simp add: process_row_def)
  next
    case (Go g)
    obtain current oid adv where g: "g = (current, oid, adv)" by (cases g)
    from submit_step_moved [OF assms 1] Go g
    have at1: "row_at (ob_transaction_request_id row) current oid (ob_promise_tx_id row) (ds_outbox s1)"
      "ob_edge (ob_status row) current" "current = ob_status row \<or> current = SUBMITTED" by simp_all
    obtain h s2 where 2: "promise_step L D E row current adv s1 = (h, s2)" by fastforce
    show ?thesis
    proof (cases h)
      case (Done r)
      with 1 2 Go g promise_step_moved [OF at1 2] show ?thesis by (simp add: process_row_def)
    next
      fix j assume h: "h = Go j"
      obtain current2 ptx adv2 where j: "j = (current2, ptx, adv2)" by (cases j)
      from promise_step_moved [OF at1 2] h j
      have at2: "row_at (ob_transaction_request_id row) current2 oid ptx (ds_outbox s2)"
        "ob_edge (ob_status row) current2" "current2 = REPORTED \<longrightarrow> ob_status row = REPORTED" by simp_all
      from report_step_moved [OF at2, of L D E adv2] 1 2 Go g h j show ?thesis
        by (simp add: process_row_def)
    qed
  qed
qed

section \<open>What a pass writes\<close>

text \<open>One statement of the dispatcher on the row \<open>trid\<close>, or none.\<close>

inductive row_write :: "string \<Rightarrow> outbox \<Rightarrow> outbox \<Rightarrow> bool" where
  w_none: "row_write trid t t"
| w_attempt: "row_write trid t (snd (outbox_record_attempt c trid t))"
| w_submitted: "row_write trid t (snd (outbox_mark_submitted c trid oid t))"
| w_promise: "row_write trid t (snd (outbox_mark_promise_written c trid tx ch t))"
| w_reported: "row_write trid t (snd (outbox_mark_reported c trid t))"
| w_exception: "row_write trid t (snd (outbox_mark_exception c trid reason t))"

inductive_cases row_writeE: "row_write trid t t'"

lemma row_write_other:
  "row_write trid t t' \<Longrightarrow> k \<noteq> trid \<Longrightarrow>
   sql_find ob_transaction_request_id k t' = sql_find ob_transaction_request_id k t"
  by (induction rule: row_write.induct) (simp_all add: outbox_ops_other)

lemma row_write_step: "row_write trid t t' \<Longrightarrow> t' = t \<or> outbox_step t t'"
  by (induction rule: row_write.induct) (auto intro: outbox_step.intros)

lemma except_row_write:
  "ds_outbox s = t \<Longrightarrow> row_write trid t (ds_outbox (snd (except_row E trid reason s)))"
  using w_exception [of trid t "de_mark_exception E" reason]
  by (auto simp: except_row_def split: prod.splits sum.splits)

lemma submit_step_write:
  "row_write (ob_transaction_request_id row) (ds_outbox s) (ds_outbox (snd (submit_step L D E row s)))"
proof (cases "ob_status row = INITIATED")
  case False
  then show ?thesis by (simp add: submit_step_def w_none)
next
  case True
  obtain answer token q where call: "submit_open_corridor (dl_obp L) (di_obp D) (de_submit E)
      (ob_bank_id row) (ob_account_id row) (ob_request_payload row) (ds_token s) = (answer, token, q)"
    by (metis prod_cases3)
  show ?thesis
  proof (cases answer)
    case None
    with True call show ?thesis by (simp add: submit_step_def Let_def w_none)
  next
    case (Some x)
    show ?thesis
    proof (cases x)
      case (Inl e)
      with True call Some show ?thesis
        by (simp add: submit_step_def Let_def case_prod_unfold w_none except_row_write)
    next
      case (Inr oid)
      obtain y t where op: "outbox_mark_submitted (de_mark_submitted E) (ob_transaction_request_id row)
          oid (ds_outbox s) = (y, t)" by fastforce
      with w_submitted [of "ob_transaction_request_id row" "ds_outbox s" "de_mark_submitted E" oid]
        True call Some Inr show ?thesis
        by (cases y) (simp_all add: submit_step_def Let_def)
    qed
  qed
qed

lemma promise_step_write:
  "row_write (ob_transaction_request_id row) (ds_outbox s)
     (ds_outbox (snd (promise_step L D E row current adv s)))"
proof (cases "current = SUBMITTED")
  case False
  then show ?thesis by (simp add: promise_step_def w_none)
next
  case True
  show ?thesis
  proof (cases "de_promise E")
    case (Inl e)
    with True show ?thesis by (simp add: promise_step_def Let_def w_none)
  next
    case (Inr tx)
    obtain y t where op: "outbox_mark_promise_written (de_mark_promise E) (ob_transaction_request_id row)
        (tx_id tx) (di_blockchain_label D) (ds_outbox s) = (y, t)" by fastforce
    with w_promise [of "ob_transaction_request_id row" "ds_outbox s" "de_mark_promise E" "tx_id tx"
        "di_blockchain_label D"] True Inr show ?thesis
      by (cases y) (simp_all add: promise_step_def Let_def)
  qed
qed

lemma report_step_write:
  "row_write (ob_transaction_request_id row) (ds_outbox s)
     (ds_outbox (snd (report_step L D E row current oid ptx adv s)))"
proof (cases "current = PROMISE_WRITTEN \<and> oid \<noteq> None \<and> ptx \<noteq> None")
  case False
  then show ?thesis
    by (cases oid; cases ptx) (auto simp: report_step_def Let_def case_prod_unfold w_none except_row_write)
next
  case True
  then obtain obp tx where ids: "current = PROMISE_WRITTEN" "oid = Some obp" "ptx = Some tx" by auto
  obtain answer token q where call: "report_promise (dl_obp L) (di_obp D) (de_report E)
      (ob_bank_id row) (ob_account_id row) obp (row_evidence L D row tx) (ds_token s) = (answer, token, q)"
    by (metis prod_cases3)
  obtain y t where op: "outbox_mark_reported (de_mark_reported E) (ob_transaction_request_id row)
      (ds_outbox s) = (y, t)" by fastforce
  show ?thesis
  proof (cases answer)
    case None
    with ids call show ?thesis by (simp add: report_step_def Let_def w_none)
  next
    case (Some x)
    with ids call op w_reported [of "ob_transaction_request_id row" "ds_outbox s" "de_mark_reported E"]
    show ?thesis
      by (cases x; cases y)
         (simp_all add: report_step_def Let_def case_prod_unfold w_none except_row_write)
  qed
qed

lemma process_row_writes:
  "(row_write (ob_transaction_request_id row))\<^sup>*\<^sup>* (ds_outbox s) (ds_outbox (snd (process_row L D E row s)))"
proof -
  obtain f s1 where 1: "submit_step L D E row s = (f, s1)" by fastforce
  with submit_step_write [of row s L D E]
  have w1: "row_write (ob_transaction_request_id row) (ds_outbox s) (ds_outbox s1)" by simp
  show ?thesis
  proof (cases f)
    case (Done r)
    with 1 w1 show ?thesis by (simp add: process_row_def)
  next
    case (Go g)
    obtain current oid adv where g: "g = (current, oid, adv)" by (cases g)
    obtain h s2 where 2: "promise_step L D E row current adv s1 = (h, s2)" by fastforce
    with promise_step_write [of row s1 L D E current adv] w1
    have w2: "(row_write (ob_transaction_request_id row))\<^sup>*\<^sup>* (ds_outbox s) (ds_outbox s2)"
      by (simp add: converse_rtranclp_into_rtranclp)
    show ?thesis
    proof (cases h)
      case (Done r)
      with 1 2 Go g w2 show ?thesis by (simp add: process_row_def)
    next
      fix j assume h: "h = Go j"
      obtain current2 ptx adv2 where j: "j = (current2, ptx, adv2)" by (cases j)
      from w2 report_step_write [of row s2 L D E current2 oid ptx adv2] 1 2 Go g h j show ?thesis
        by (simp add: process_row_def)
    qed
  qed
qed

lemma row_writes_other:
  "(row_write trid)\<^sup>*\<^sup>* t t' \<Longrightarrow> k \<noteq> trid \<Longrightarrow>
   sql_find ob_transaction_request_id k t' = sql_find ob_transaction_request_id k t"
  by (induction rule: rtranclp_induct) (simp_all add: row_write_other)

lemma row_writes_steps: "(row_write trid)\<^sup>*\<^sup>* t t' \<Longrightarrow> outbox_step\<^sup>*\<^sup>* t t'"
proof (induction rule: rtranclp_induct)
  case (step u v)
  then show ?case using row_write_step [of trid u v] by auto
qed simp

section \<open>A pass moves every row along the cycle\<close>

definition pass_moved :: "outbox \<Rightarrow> outbox \<Rightarrow> bool" where
  "pass_moved t t' \<longleftrightarrow>
     (\<forall>k r. sql_find ob_transaction_request_id k t = Some r \<longrightarrow> moved (ob_status r) k t')"

text \<open>The rows still to process are as they were when they were claimed.\<close>

definition unchanged_rows :: "outbox_record list \<Rightarrow> outbox \<Rightarrow> bool" where
  "unchanged_rows rows t \<longleftrightarrow> list_all (\<lambda>row.
     row_at (ob_transaction_request_id row) (ob_status row) (ob_obp_transaction_request_id row)
       (ob_promise_tx_id row) t) rows"

lemma row_at_other:
  "sql_find ob_transaction_request_id k t' = sql_find ob_transaction_request_id k t \<Longrightarrow>
   row_at k st oid ptx t' = row_at k st oid ptx t"
  by (simp add: row_at_def)

lemma moved_other:
  "sql_find ob_transaction_request_id k t' = sql_find ob_transaction_request_id k t \<Longrightarrow>
   moved s0 k t' = moved s0 k t"
  by (simp add: moved_def row_at_def)

lemma moved_refl:
  "sql_find ob_transaction_request_id k t = Some r \<Longrightarrow> moved (ob_status r) k t"
  by (auto simp: moved_def row_at_def)

text \<open>One row of the pass: the attempt and the processing.\<close>

lemma attempt_process_moved:
  assumes "unchanged_rows (row # rows) t" "distinct (map ob_transaction_request_id (row # rows))"
    and "outbox_record_attempt c (ob_transaction_request_id row) t = (x, t1)"
    and "process_row L D E row (s\<lparr>ds_outbox := t1\<rparr>) = (y, s2)"
  shows "moved (ob_status row) (ob_transaction_request_id row) (ds_outbox s2)"
    and "unchanged_rows rows (ds_outbox s2)"
    and "k \<noteq> ob_transaction_request_id row \<Longrightarrow>
      sql_find ob_transaction_request_id k (ds_outbox s2) = sql_find ob_transaction_request_id k t"
proof -
  from assms(1) have at: "row_at (ob_transaction_request_id row) (ob_status row)
      (ob_obp_transaction_request_id row) (ob_promise_tx_id row) t" by (simp add: unchanged_rows_def)
  from row_at_results(1) [OF at assms(3)]
  have "row_at (ob_transaction_request_id row) (ob_status row)
      (ob_obp_transaction_request_id row) (ob_promise_tx_id row) (ds_outbox (s\<lparr>ds_outbox := t1\<rparr>))" by simp
  from process_row_moved [OF this, of L D E] assms(4)
  show "moved (ob_status row) (ob_transaction_request_id row) (ds_outbox s2)" by simp
  show other: "k \<noteq> ob_transaction_request_id row \<Longrightarrow>
      sql_find ob_transaction_request_id k (ds_outbox s2) = sql_find ob_transaction_request_id k t" for k
    using row_writes_other [OF process_row_writes [of row "s\<lparr>ds_outbox := t1\<rparr>" L D E], of k]
      outbox_ops_other(1) [of k "ob_transaction_request_id row" c t] assms(3,4) by simp
  have "row_at (ob_transaction_request_id r) (ob_status r) (ob_obp_transaction_request_id r)
      (ob_promise_tx_id r) (ds_outbox s2)" if "r \<in> set rows" for r
  proof -
    have "ob_transaction_request_id r \<noteq> ob_transaction_request_id row"
      using assms(2) that by (auto intro: rev_image_eqI)
    from row_at_other [OF other [OF this]] assms(1) that show ?thesis
      by (simp add: unchanged_rows_def list_all_iff)
  qed
  then show "unchanged_rows rows (ds_outbox s2)" by (simp add: unchanged_rows_def list_all_iff)
qed

lemma process_rows_other:
  "k \<notin> ob_transaction_request_id ` set rows \<Longrightarrow>
   sql_find ob_transaction_request_id k (ds_outbox (snd (process_rows L D E i rows adv s))) =
   sql_find ob_transaction_request_id k (ds_outbox s)"
proof (induction rows arbitrary: i adv s)
  case (Cons row rows)
  then have k: "k \<noteq> ob_transaction_request_id row" "k \<notin> ob_transaction_request_id ` set rows" by auto
  obtain x t where 1: "outbox_record_attempt (de_attempt (E i)) (ob_transaction_request_id row)
      (ds_outbox s) = (x, t)" by fastforce
  obtain y s2 where 2: "process_row L D (E i) row (s\<lparr>ds_outbox := t\<rparr>) = (y, s2)" by fastforce
  have t: "sql_find ob_transaction_request_id k t = sql_find ob_transaction_request_id k (ds_outbox s)"
    using outbox_ops_other(1) [OF k(1), of "de_attempt (E i)" "ds_outbox s"] 1 by simp
  have "sql_find ob_transaction_request_id k (ds_outbox s2) = sql_find ob_transaction_request_id k t"
    using row_writes_other [OF process_row_writes [of row "s\<lparr>ds_outbox := t\<rparr>" L D "E i"] k(1)] 2 by simp
  with 1 2 t Cons.IH [OF k(2)] show ?case by (auto split: option.splits sum.splits)
qed simp

lemma process_rows_moved:
  assumes "unchanged_rows rows (ds_outbox s)" "distinct (map ob_transaction_request_id rows)"
    and "row \<in> set rows"
  shows "moved (ob_status row) (ob_transaction_request_id row)
    (ds_outbox (snd (process_rows L D E i rows adv s)))"
  using assms
proof (induction rows arbitrary: i adv s)
  case (Cons r0 rows)
  obtain x t where 1: "outbox_record_attempt (de_attempt (E i)) (ob_transaction_request_id r0)
      (ds_outbox s) = (x, t)" by fastforce
  obtain y s2 where 2: "process_row L D (E i) r0 (s\<lparr>ds_outbox := t\<rparr>) = (y, s2)" by fastforce
  note after = attempt_process_moved [OF Cons.prems(1,2) 1 2]
  have start: "row_at (ob_transaction_request_id row) (ob_status row) (ob_obp_transaction_request_id row)
      (ob_promise_tx_id row) (ds_outbox s)"
    using Cons.prems(1,3) by (auto simp: unchanged_rows_def list_all_iff)
  have t: "row_at (ob_transaction_request_id row) (ob_status row) (ob_obp_transaction_request_id row)
      (ob_promise_tx_id row) t"
  proof (cases "row = r0")
    case True
    with row_at_results(1) [OF start] 1 show ?thesis by simp
  next
    case False
    with Cons.prems(2,3) have "ob_transaction_request_id row \<noteq> ob_transaction_request_id r0"
      by (auto intro: rev_image_eqI)
    from outbox_ops_other(1) [OF this, of "de_attempt (E i)" "ds_outbox s"] 1 start show ?thesis
      by (simp add: row_at_def)
  qed
  have stop: "moved (ob_status row) (ob_transaction_request_id row) t"
    by (rule movedI [OF t]) auto
  have here: "moved (ob_status row) (ob_transaction_request_id row) (ds_outbox s2)"
  proof (cases "row = r0")
    case True
    with after(1) show ?thesis by simp
  next
    case False
    with Cons.prems(2,3) have "ob_transaction_request_id row \<noteq> ob_transaction_request_id r0"
      by (auto intro: rev_image_eqI)
    from after(3) [OF this] start have "row_at (ob_transaction_request_id row) (ob_status row)
        (ob_obp_transaction_request_id row) (ob_promise_tx_id row) (ds_outbox s2)" by (simp add: row_at_def)
    then show ?thesis by (rule movedI) auto
  qed
  have rest: "moved (ob_status row) (ob_transaction_request_id row)
      (ds_outbox (snd (process_rows L D E (Suc i) rows adv' s2)))" for adv'
  proof (cases "row = r0")
    case True
    with Cons.prems(2) have "ob_transaction_request_id row \<notin> ob_transaction_request_id ` set rows" by auto
    from moved_other [OF process_rows_other [OF this]] here show ?thesis by blast
  next
    case False
    with Cons.prems(3) have "row \<in> set rows" by simp
    with Cons.IH [OF after(2)] Cons.prems(2) show ?thesis by simp
  qed
  from 1 2 stop here rest show ?case by (auto split: option.splits sum.splits)
qed simp

lemma claim_due_distinct:
  "outbox_claim_due c cutoff limit t = Inr rs \<Longrightarrow> distinct (map ob_transaction_request_id t) \<Longrightarrow>
   distinct (map ob_transaction_request_id rs)"
  by (cases c) (auto simp: outbox_claim_due_def
       intro!: distinct_sql_limit distinct_order_asc distinct_map_filter)

lemma claim_due_unchanged:
  assumes "outbox_claim_due c cutoff limit t = Inr rs" "distinct (map ob_transaction_request_id t)"
  shows "unchanged_rows rs t"
  using claim_due_spec(1) [OF assms(1)] sql_find_unique [OF assms(2)]
  by (auto simp: unchanged_rows_def list_all_iff row_at_def)

lemma process_due_once_moved:
  assumes "distinct (map ob_transaction_request_id (ds_outbox s))"
    and "sql_find ob_transaction_request_id k (ds_outbox s) = Some r"
  shows "moved (ob_status r) k (ds_outbox (snd (process_due_once L D c cutoff n E s)))"
proof (cases "outbox_claim_due c cutoff n (ds_outbox s)")
  case (Inl e)
  with moved_refl [OF assms(2)] show ?thesis by (simp add: process_due_once_def)
next
  case (Inr due)
  show ?thesis
  proof (cases "k \<in> ob_transaction_request_id ` set due")
    case False
    from moved_other [OF process_rows_other [OF this]] moved_refl [OF assms(2)] Inr show ?thesis
      by (simp add: process_due_once_def)
  next
    case True
    then obtain row where row: "row \<in> set due" "ob_transaction_request_id row = k" by auto
    then have "row \<in> set (ds_outbox s)" using claim_due_spec(1) [OF Inr] by auto
    with sql_find_unique [OF assms(1)] row(2) assms(2) have "row = r" by fastforce
    with process_rows_moved [OF claim_due_unchanged [OF Inr assms(1)] claim_due_distinct [OF Inr assms(1)] row(1)]
      row(2) Inr show ?thesis by (simp add: process_due_once_def)
  qed
qed

lemma process_rows_steps:
  "outbox_step\<^sup>*\<^sup>* (ds_outbox s) (ds_outbox (snd (process_rows L D E i rows adv s)))"
proof (induction rows arbitrary: i adv s)
  case (Cons row rows)
  obtain x t where 1: "outbox_record_attempt (de_attempt (E i)) (ob_transaction_request_id row)
      (ds_outbox s) = (x, t)" by fastforce
  obtain y s2 where 2: "process_row L D (E i) row (s\<lparr>ds_outbox := t\<rparr>) = (y, s2)" by fastforce
  have t: "outbox_step (ds_outbox s) t"
    using step_attempt [of "ds_outbox s" "de_attempt (E i)" "ob_transaction_request_id row"] 1 by simp
  have "outbox_step\<^sup>*\<^sup>* t (ds_outbox s2)"
    using row_writes_steps [OF process_row_writes [of row "s\<lparr>ds_outbox := t\<rparr>" L D "E i"]] 2 by simp
  with t have s2: "outbox_step\<^sup>*\<^sup>* (ds_outbox s) (ds_outbox s2)" by (rule converse_rtranclp_into_rtranclp)
  from 1 2 t s2 rtranclp_trans [OF s2 Cons.IH] show ?case by (auto split: option.splits sum.splits)
qed simp

lemma process_due_once_steps:
  "outbox_step\<^sup>*\<^sup>* (ds_outbox s) (ds_outbox (snd (process_due_once L D c cutoff n E s)))"
  by (simp add: process_due_once_def process_rows_steps split: sum.splits)

section \<open>The outbox follows its life cycle\<close>

text \<open>
  The writers of the outbox: the south-side API and the returns insert, a settlement stamps, and
  the dispatcher passes. Under them a row keeps its payment and moves along the cycle only.
\<close>

inductive outbox_life_step :: "outbox \<Rightarrow> outbox \<Rightarrow> bool" where
  inserted: "outbox_life_step t (snd (outbox_insert c e t))"
| settled: "outbox_life_step t (snd (outbox_mark_settled c covered sid t))"
| dispatched: "outbox_life_step (ds_outbox s) (ds_outbox (snd (process_due_once L D c cutoff n E s)))"

lemma outbox_life_steps: "outbox_life_step t t' \<Longrightarrow> outbox_step\<^sup>*\<^sup>* t t'"
  by (induction rule: outbox_life_step.induct)
     (auto intro: outbox_step.intros process_due_once_steps)

definition reported_ids :: "outbox_record \<Rightarrow> bool" where
  "reported_ids r \<longleftrightarrow> (ob_status r = REPORTED \<longrightarrow>
     ob_obp_transaction_request_id r \<noteq> None \<and> ob_promise_tx_id r \<noteq> None)"

lemma mark_settled_find:
  assumes "sql_find ob_transaction_request_id k t = Some r"
    and "sql_find ob_transaction_request_id k (snd (outbox_mark_settled c covered sid t)) = Some r'"
  shows "ob_status r' = ob_status r \<and> reported_ids r' = reported_ids r"
  using assms
  by (cases c) (auto simp: outbox_mark_settled_def sql_find_update reported_ids_def split: if_splits)

lemma outbox_life_step_row:
  assumes "outbox_life_step t t'" "distinct (map ob_transaction_request_id t)"
    and "sql_find ob_transaction_request_id k t = Some r"
    and "sql_find ob_transaction_request_id k t' = Some r'"
  shows "ob_edge (ob_status r) (ob_status r') \<and> (reported_ids r \<longrightarrow> ob_status r = REPORTED \<or> reported_ids r')"
  using assms(1)
proof cases
  case (inserted c e)
  with assms(3,4) have "r' = r"
    by (cases rule: outbox_insert_cases [of c e t]) (auto simp: sql_find_append)
  then show ?thesis by simp
next
  case (settled c covered sid)
  with mark_settled_find [OF assms(3)] assms(4) show ?thesis by simp
next
  case (dispatched s L D c cutoff n E)
  with process_due_once_moved [of s k r L D c cutoff n E] assms(2-4) show ?thesis
    by (auto simp: moved_def row_at_def reported_ids_def)
qed

interpretation obl: lifecycle_store ob_transaction_request_id payment_of outbox_life_step ob_status ob_edge
proof unfold_locales
  fix t t' :: outbox
  assume s: "outbox_life_step t t'"
  show "\<exists>ys. map ob_frame t' = map ob_frame t @ ys"
    using ob.steps_keeps [OF outbox_life_steps [OF s]] .
  show "distinct (map ob_transaction_request_id t')" if "distinct (map ob_transaction_request_id t)"
    using ob.steps_distinct [OF outbox_life_steps [OF s] that] .
next
  fix t t' :: outbox and k r r'
  assume "outbox_life_step t t'" "distinct (map ob_transaction_request_id t)"
    "sql_find ob_transaction_request_id k t = Some r" "sql_find ob_transaction_request_id k t' = Some r'"
  then show "ob_edge (ob_status r) (ob_status r')" using outbox_life_step_row by blast
qed (auto intro: ob_edge_trans)

lemma outbox_terminal_stays:
  assumes "outbox_life_step\<^sup>*\<^sup>* t t'" "distinct (map ob_transaction_request_id t)"
    and "sql_find ob_transaction_request_id k t = Some r" "ob_status r \<in> {REPORTED, EXCEPTION}"
  shows "\<exists>r'. sql_find ob_transaction_request_id k t' = Some r' \<and> ob_status r' = ob_status r"
proof (rule obl.terminal_stays [OF _ assms(1-3)])
  fix st assume "ob_edge (ob_status r) st"
  with assms(4) show "st = ob_status r" by (cases st) (auto simp: ob_edge_def)
qed

section \<open>What leaves the node, and in which order\<close>

lemma submit_step_log:
  assumes "submit_step L D E row s = (f, s')"
  shows "\<exists>a. ds_log s' = ds_log s @ a \<and>
    (a = [] \<and> ob_status row \<noteq> INITIATED \<and> f = Go (ob_status row, ob_obp_transaction_request_id row, False) \<or>
     ob_status row = INITIATED \<and> (\<exists>answer.
       a = [Submitted (ob_transaction_request_id row) (ob_bank_id row) (ob_account_id row)
              (ob_request_payload row) answer] \<and>
       (case f of Done _ \<Rightarrow> True
        | Go (current, oid, adv) \<Rightarrow> current = SUBMITTED \<and> answer = Some (Inr oid))))"
proof (cases "ob_status row = INITIATED")
  case False
  with assms show ?thesis by (auto simp: submit_step_def)
next
  case True
  obtain answer token q where call: "submit_open_corridor (dl_obp L) (di_obp D) (de_submit E)
      (ob_bank_id row) (ob_account_id row) (ob_request_payload row) (ds_token s) = (answer, token, q)"
    by (metis prod_cases3)
  have except: "ds_log (snd (except_row E trid reason u)) = ds_log u" for trid reason u
    by (simp add: except_row_def split: prod.splits sum.splits)
  show ?thesis
  proof (cases answer)
    case None
    with True call assms show ?thesis by (auto simp: submit_step_def Let_def)
  next
    case (Some x)
    show ?thesis
    proof (cases x)
      case (Inl e)
      with True call Some assms show ?thesis
        by (auto simp: submit_step_def Let_def case_prod_unfold except split: if_splits)
    next
      case (Inr oid)
      with True call Some assms show ?thesis
        by (auto simp: submit_step_def Let_def split: prod.splits sum.splits)
    qed
  qed
qed

lemma promise_step_log:
  assumes "promise_step L D E row current adv s = (f, s')"
  shows "\<exists>b. ds_log s' = ds_log s @ b \<and>
    (b = [] \<and> current \<noteq> SUBMITTED \<and> f = Go (current, ob_promise_tx_id row, adv) \<or>
     current = SUBMITTED \<and>
       b = [Promised (ob_transaction_request_id row) (build_commitment L (de_created_at E) row) (de_promise E)] \<and>
       (case f of Done _ \<Rightarrow> True
        | Go (current', ptx, adv') \<Rightarrow> \<exists>tx. current' = PROMISE_WRITTEN \<and> de_promise E = Inr tx \<and>
            ptx = Some (tx_id tx)))"
  using assms by (auto simp: promise_step_def Let_def split: sum.splits prod.splits if_splits)

lemma report_step_log:
  "\<exists>c. ds_log (snd (report_step L D E row current oid ptx adv s)) = ds_log s @ c \<and>
    (c = [] \<or> current = PROMISE_WRITTEN \<and> (\<exists>obp tx answer. oid = Some obp \<and> ptx = Some tx \<and>
      c = [Reported (ob_transaction_request_id row) (ob_bank_id row) (ob_account_id row) obp
             (row_evidence L D row tx) answer]))"
proof (cases "current = PROMISE_WRITTEN \<and> oid \<noteq> None \<and> ptx \<noteq> None")
  case False
  have "ds_log (snd (report_step L D E row current oid ptx adv s)) = ds_log s"
    using False by (cases oid; cases ptx)
      (auto simp: report_step_def Let_def except_row_def split: prod.splits sum.splits)
  then show ?thesis by simp
next
  case True
  then obtain obp tx where ids: "current = PROMISE_WRITTEN" "oid = Some obp" "ptx = Some tx" by auto
  obtain answer token q where call: "report_promise (dl_obp L) (di_obp D) (de_report E)
      (ob_bank_id row) (ob_account_id row) obp (row_evidence L D row tx) (ds_token s) = (answer, token, q)"
    by (metis prod_cases3)
  have "ds_log (snd (report_step L D E row current oid ptx adv s)) =
      ds_log s @ [Reported (ob_transaction_request_id row) (ob_bank_id row) (ob_account_id row) obp
             (row_evidence L D row tx) answer]"
  proof (cases answer)
    case None
    with ids call show ?thesis by (simp add: report_step_def Let_def)
  next
    case (Some x)
    with ids call show ?thesis
      by (cases x) (simp_all add: report_step_def Let_def except_row_def split: prod.splits sum.splits)
  qed
  with ids show ?thesis by auto
qed

text \<open>
  The calls that processing one row makes: submit, then promise, then report, each only when the
  one before it succeeded (now or in an earlier pass), each about this row.
\<close>

definition calls_of_row ::
  "dispatch_libs \<Rightarrow> dispatcher \<Rightarrow> row_env \<Rightarrow> outbox_record \<Rightarrow> dispatch_event list \<Rightarrow> bool" where
  "calls_of_row L D E row es \<longleftrightarrow>
     (\<exists>a b c. es = a @ b @ c \<and>
        (a = [] \<or> ob_status row = INITIATED \<and> (\<exists>answer.
           a = [Submitted (ob_transaction_request_id row) (ob_bank_id row) (ob_account_id row)
                  (ob_request_payload row) answer])) \<and>
        (b = [] \<or>
           b = [Promised (ob_transaction_request_id row) (build_commitment L (de_created_at E) row)
                  (de_promise E)] \<and>
           (ob_status row = SUBMITTED \<and> a = [] \<or>
            (\<exists>oid. a = [Submitted (ob_transaction_request_id row) (ob_bank_id row) (ob_account_id row)
                  (ob_request_payload row) (Some (Inr oid))]))) \<and>
        (c = [] \<or> (\<exists>obp tx answer.
           c = [Reported (ob_transaction_request_id row) (ob_bank_id row) (ob_account_id row) obp
                  (row_evidence L D row tx) answer] \<and>
           (if b = [] then ob_status row = PROMISE_WRITTEN \<and> ob_promise_tx_id row = Some tx
            else \<exists>ref. de_promise E = Inr ref \<and> tx_id ref = tx) \<and>
           (if a = [] then ob_obp_transaction_request_id row = Some obp
            else a = [Submitted (ob_transaction_request_id row) (ob_bank_id row) (ob_account_id row)
                  (ob_request_payload row) (Some (Inr (Some obp)))]))))"

lemma process_row_log:
  "\<exists>es. ds_log (snd (process_row L D E row s)) = ds_log s @ es \<and> calls_of_row L D E row es"
proof -
  let ?S = "\<lambda>answer. Submitted (ob_transaction_request_id row) (ob_bank_id row) (ob_account_id row)
      (ob_request_payload row) answer"
  let ?P = "Promised (ob_transaction_request_id row) (build_commitment L (de_created_at E) row) (de_promise E)"
  obtain f s1 where 1: "submit_step L D E row s = (f, s1)" by fastforce
  obtain a where a: "ds_log s1 = ds_log s @ a"
    "a = [] \<and> ob_status row \<noteq> INITIATED \<and> f = Go (ob_status row, ob_obp_transaction_request_id row, False) \<or>
     ob_status row = INITIATED \<and> (\<exists>answer. a = [?S answer] \<and>
       (case f of Done _ \<Rightarrow> True
        | Go (current, oid, adv) \<Rightarrow> current = SUBMITTED \<and> answer = Some (Inr oid)))"
    using submit_step_log [OF 1] by blast
  show ?thesis
  proof (cases f)
    case (Done r)
    with 1 have "process_row L D E row s = (r, s1)" by (simp add: process_row_def)
    moreover have "calls_of_row L D E row a"
      unfolding calls_of_row_def by (intro exI [of _ a] exI [of _ "[]"]) (use a(2) in auto)
    ultimately show ?thesis using a(1) by auto
  next
    case (Go g)
    obtain current oid adv where g: "g = (current, oid, adv)" by (cases g)
    from a(2) Go g have a': "a = [] \<and> ob_status row \<noteq> INITIATED \<and> current = ob_status row \<and>
        oid = ob_obp_transaction_request_id row \<or>
      ob_status row = INITIATED \<and> a = [?S (Some (Inr oid))] \<and> current = SUBMITTED" by auto
    obtain h s2 where 2: "promise_step L D E row current adv s1 = (h, s2)" by fastforce
    obtain b where b: "ds_log s2 = ds_log s1 @ b"
      "b = [] \<and> current \<noteq> SUBMITTED \<and> h = Go (current, ob_promise_tx_id row, adv) \<or>
       current = SUBMITTED \<and> b = [?P] \<and>
       (case h of Done _ \<Rightarrow> True
        | Go (current', ptx, adv') \<Rightarrow> \<exists>tx. current' = PROMISE_WRITTEN \<and> de_promise E = Inr tx \<and>
            ptx = Some (tx_id tx))"
      using promise_step_log [OF 2] by blast
    show ?thesis
    proof (cases h)
      case (Done r)
      with 1 2 Go g have "process_row L D E row s = (r, s2)" by (simp add: process_row_def)
      moreover have "calls_of_row L D E row (a @ b)"
        unfolding calls_of_row_def by (intro exI [of _ a] exI [of _ b] exI [of _ "[]"]) (use a' b(2) in auto)
      ultimately show ?thesis using a(1) b(1) by auto
    next
      fix j assume h: "h = Go j"
      obtain current2 ptx adv2 where j: "j = (current2, ptx, adv2)" by (cases j)
      have eq: "process_row L D E row s = report_step L D E row current2 oid ptx adv2 s2"
        using 1 2 Go g h j by (simp add: process_row_def)
      obtain c where c: "ds_log (snd (process_row L D E row s)) = ds_log s2 @ c"
        "c = [] \<or> current2 = PROMISE_WRITTEN \<and> (\<exists>obp tx answer. oid = Some obp \<and> ptx = Some tx \<and>
           c = [Reported (ob_transaction_request_id row) (ob_bank_id row) (ob_account_id row) obp
                  (row_evidence L D row tx) answer])"
        using report_step_log [of L D E row current2 oid ptx adv2 s2] unfolding eq by blast
      have "calls_of_row L D E row (a @ b @ c)"
        unfolding calls_of_row_def
        by (intro exI [of _ a] exI [of _ b] exI [of _ c]) (use a' b(2) c(2) h j in auto)
      with a(1) b(1) c(1) show ?thesis by auto
    qed
  qed
qed

section \<open>Commitment and evidence agree\<close>

text \<open>
  The commitment depends on the columns that never change, so what is reported, in whatever
  pass, opens what was written to the chain.
\<close>

lemma canonical_preimage_frame:
  "ob_frame r = ob_frame r' \<Longrightarrow> canonical_preimage L r = canonical_preimage L r'"
  by (simp add: canonical_preimage_def payment_of_def)

lemma build_commitment_evidence:
  assumes "ob_frame r = ob_frame r'"
  shows "pr_commitment (build_commitment L now r) = pe_commitment (row_evidence L D r' tx)"
    and "promise_verify_v1 (dl_hash L) (pe_preimage (row_evidence L D r' tx))
           (pe_salt (row_evidence L D r' tx)) (pr_commitment (build_commitment L now r))"
  using assms canonical_preimage_frame [OF assms, of L]
  by (simp_all add: build_commitment_def row_evidence_def promise_commit_v1_def promise_verify_v1_def
        payment_of_def)

section \<open>A reported row carries its identifiers\<close>

lemma process_due_once_terminal:
  assumes "distinct (map ob_transaction_request_id (ds_outbox s))"
    and "sql_find ob_transaction_request_id k (ds_outbox s) = Some r" "ob_status r \<in> {REPORTED, EXCEPTION}"
  shows "sql_find ob_transaction_request_id k (ds_outbox (snd (process_due_once L D c cutoff n E s))) = Some r"
proof (cases "outbox_claim_due c cutoff n (ds_outbox s)")
  case (Inl e)
  with assms show ?thesis by (simp add: process_due_once_def)
next
  case (Inr due)
  have "k \<notin> ob_transaction_request_id ` set due"
  proof
    assume "k \<in> ob_transaction_request_id ` set due"
    then obtain row where row: "row \<in> set due" "ob_transaction_request_id row = k" by auto
    with claim_due_spec(1) [OF Inr] have "row \<in> set (ds_outbox s)" "is_due cutoff row" by auto
    with sql_find_unique [OF assms(1)] row(2) assms(2,3) show False by (fastforce simp: is_due_def)
  qed
  with Inr assms(2) show ?thesis by (simp add: process_due_once_def process_rows_other)
qed

lemma row_write_frame: "row_write trid t t' \<Longrightarrow> map ob_frame t' = map ob_frame t"
  by (induction rule: row_write.induct) simp_all

lemma process_row_frame: "map ob_frame (ds_outbox (snd (process_row L D E row s))) = map ob_frame (ds_outbox s)"
proof -
  have "(row_write trid)\<^sup>*\<^sup>* t t' \<Longrightarrow> map ob_frame t' = map ob_frame t" for trid t t'
    by (induction rule: rtranclp_induct) (simp_all only: row_write_frame)
  from this [OF process_row_writes] show ?thesis .
qed

lemma process_rows_frame:
  "map ob_frame (ds_outbox (snd (process_rows L D E i rows adv s))) = map ob_frame (ds_outbox s)"
proof (induction rows arbitrary: i adv s)
  case (Cons row rows)
  obtain x t where 1: "outbox_record_attempt (de_attempt (E i)) (ob_transaction_request_id row)
      (ds_outbox s) = (x, t)" by fastforce
  have t: "map ob_frame t = map ob_frame (ds_outbox s)"
    using outbox_updates_frame(1) [of "de_attempt (E i)" "ob_transaction_request_id row" "ds_outbox s"] 1
    by simp
  obtain y s2 where 2: "process_row L D (E i) row (s\<lparr>ds_outbox := t\<rparr>) = (y, s2)" by fastforce
  have s2: "map ob_frame (ds_outbox s2) = map ob_frame t"
    using process_row_frame [of L D "E i" row "s\<lparr>ds_outbox := t\<rparr>"] 2 by simp
  show ?case
    using 1 2 t s2 Cons.IH [of "Suc i" _ s2]
    by (simp split: sum.splits option.splits del: map_eq_conv)
qed simp

lemma process_due_once_frame:
  "map ob_frame (ds_outbox (snd (process_due_once L D c cutoff n E s))) = map ob_frame (ds_outbox s)"
  by (simp add: process_due_once_def process_rows_frame del: map_eq_conv split: sum.splits)

lemma reported_ids_step:
  assumes "outbox_life_step t t'" "distinct (map ob_transaction_request_id t)"
    and "\<And>r. sql_find ob_transaction_request_id k t = Some r \<Longrightarrow> reported_ids r"
    and "sql_find ob_transaction_request_id k t' = Some r'"
  shows "reported_ids r'"
  using assms(1)
proof cases
  case (inserted c e)
  with assms(3,4) show ?thesis
    by (cases rule: outbox_insert_cases [of c e t])
       (auto simp: sql_find_append reported_ids_def split: option.splits if_splits)
next
  case (settled c covered sid)
  show ?thesis
  proof (cases "sql_find ob_transaction_request_id k t")
    case None
    with settled assms(4) show ?thesis
      by (cases c) (auto simp: outbox_mark_settled_def sql_find_update split: if_splits)
  next
    case (Some r)
    from mark_settled_find [OF this] settled assms(3) [OF Some] assms(4) show ?thesis by simp
  qed
next
  case (dispatched s L D c cutoff n E)
  have "map ob_transaction_request_id t' = map ob_transaction_request_id t"
    unfolding dispatched by (rule outbox_keys_of_frame) (rule process_due_once_frame)
  then have "set (map ob_transaction_request_id t') = set (map ob_transaction_request_id t)" by simp
  with assms(4) obtain r where r: "sql_find ob_transaction_request_id k t = Some r"
    by (cases "sql_find ob_transaction_request_id k t") (auto simp: sql_find_None_iff dest: sql_find_SomeD)
  show ?thesis
  proof (cases "ob_status r = REPORTED")
    case True
    from process_due_once_terminal [of s k r L D c cutoff n E] True dispatched assms(2,4) r
    have "r' = r" by simp
    with assms(3) [OF r] show ?thesis by simp
  next
    case False
    with outbox_life_step_row [OF assms(1,2) r assms(4)] assms(3) [OF r] show ?thesis by simp
  qed
qed

lemma outbox_life_reported_ids:
  assumes "outbox_life_step\<^sup>*\<^sup>* [] t"
  shows "distinct (map ob_transaction_request_id t) \<and>
    (\<forall>r. sql_find ob_transaction_request_id k t = Some r \<longrightarrow> reported_ids r)"
  using assms
proof (induction rule: rtranclp_induct)
  case (step t t')
  then show ?case using reported_ids_step obl.step_distinct by blast
qed simp

end
