(* ===== verification/Outbox_Safety.thy ===== *)
theory Outbox_Safety
  imports Dispatcher
begin

text \<open>
  The columns of an outbox row fit its status: what the dispatcher and the REST handlers read from
  a row (\<open>dispatcher.rs\<close>, \<open>rest/handlers.rs\<close>) is there in every state that the writers of the
  outbox can reach, whatever statement fails.
\<close>

definition row_wf :: "outbox_record \<Rightarrow> bool" where
  "row_wf r \<longleftrightarrow>
     (ob_status r = INITIATED \<longrightarrow> ob_obp_transaction_request_id r = None)
     \<and> (ob_status r \<in> {INITIATED, SUBMITTED} \<longrightarrow> ob_promise_tx_id r = None)
     \<and> (ob_status r \<in> {PROMISE_WRITTEN, REPORTED} \<longrightarrow> ob_promise_tx_id r \<noteq> None)
     \<and> (ob_status r = REPORTED \<longrightarrow> ob_obp_transaction_request_id r \<noteq> None)
     \<and> (ob_status r = EXCEPTION \<longleftrightarrow> ob_exception_reason r \<noteq> None)
     \<and> (ob_status r \<noteq> INITIATED \<longrightarrow> 0 < ob_attempt_count r)
     \<and> (ob_attempt_count r = 0 \<longleftrightarrow> ob_last_attempted_at r = None)
     \<and> (ob_promise_tx_id r = None \<longleftrightarrow> ob_promise_blockchain r = None)
     \<and> (ob_settlement_id r = None \<longleftrightarrow> ob_settled_at r = None)
     \<and> (ob_settlement_id r \<noteq> None \<longrightarrow> ob_obp_transaction_request_id r \<noteq> None)"

definition outbox_wf :: "outbox \<Rightarrow> bool" where
  "outbox_wf t \<longleftrightarrow> distinct (map ob_transaction_request_id t) \<and> list_all row_wf t"

lemma row_wf_new [simp]: "row_wf (outbox_row now e)"
  by (simp add: row_wf_def outbox_row_def)

lemma outbox_wf_insert: "outbox_wf t \<Longrightarrow> outbox_wf (snd (outbox_insert c e t))"
  by (rule outbox_insert_cases [of c e t]) (auto simp: outbox_wf_def outbox_row_def [symmetric] simp del: outbox_insert.simps)

lemma row_wf_settled:
  assumes "row_wf r" and "settles_row covered r"
  shows "row_wf (r\<lparr>ob_settlement_id := Some sid, ob_settled_at := Some now, ob_updated_at := now\<rparr>)"
proof -
  have "ob_obp_transaction_request_id r \<noteq> None"
    using assms(2) by (cases "ob_obp_transaction_request_id r") (simp_all add: settles_row_def)
  with assms(1) show ?thesis unfolding row_wf_def by (elim conjE) (intro conjI; simp)
qed

lemma outbox_wf_settled:
  assumes "outbox_wf t"
  shows "outbox_wf (snd (outbox_mark_settled c covered sid t))"
proof (cases "covered = []")
  case True
  with assms show ?thesis by (simp add: outbox_mark_settled_def)
next
  case False
  have "outbox_wf (sql_update (settles_row covered) (\<lambda>r. r\<lparr>ob_settlement_id := Some sid,
      ob_settled_at := Some now, ob_updated_at := now\<rparr>) t)" for now
    using assms row_wf_settled
    by (auto simp: outbox_wf_def sql_update_def list_all_iff comp_def if_distrib cong: if_cong map_cong)
  with False assms show ?thesis by (cases c) (simp_all add: outbox_mark_settled_def)
qed

section \<open>Statements on one row\<close>

definition ready :: "string \<Rightarrow> outbox_status \<Rightarrow> string option \<Rightarrow> string option \<Rightarrow> outbox \<Rightarrow> bool" where
  "ready k st oid ptx t \<longleftrightarrow> outbox_wf t \<and>
     (\<exists>r. sql_find ob_transaction_request_id k t = Some r \<and> ob_status r = st
        \<and> ob_obp_transaction_request_id r = oid \<and> ob_promise_tx_id r = ptx \<and> 0 < ob_attempt_count r)"

lemma outbox_wf_update:
  assumes wf: "outbox_wf t" and r: "sql_find ob_transaction_request_id k t = Some r"
    and f: "\<And>now. row_wf (f now r)" "\<And>now r. ob_transaction_request_id (f now r) = ob_transaction_request_id r"
    and run: "exec_update c (\<lambda>r. ob_transaction_request_id r = k) f t = (x, t')"
  shows "outbox_wf t' \<and> (case x of Inl _ \<Rightarrow> t' = t
    | Inr _ \<Rightarrow> (\<exists>now. sql_find ob_transaction_request_id k t' = Some (f now r)))"
proof -
  have one: "r' = r" if "r' \<in> set t" "ob_transaction_request_id r' = k" for r'
    using sql_find_unique [of ob_transaction_request_id t r'] that wf r by (simp add: outbox_wf_def)
  have "outbox_wf (sql_update (\<lambda>r. ob_transaction_request_id r = k) (f now) t)" for now
    using wf f one by (auto simp: outbox_wf_def sql_update_def list_all_iff comp_def if_distrib cong: if_cong map_cong)
  moreover have "ob_transaction_request_id r = k" using r by (auto dest: sql_find_SomeD)
  ultimately show ?thesis
    using run wf r f(2) by (cases c) (auto simp: exec_update_simps sql_find_update)
qed

lemma ready_statement:
  assumes "ready k st oid ptx t"
    and "\<And>now r. ob_transaction_request_id (f now r) = ob_transaction_request_id r"
    and "\<And>now r. row_wf r \<Longrightarrow> ob_status r = st \<Longrightarrow> ob_obp_transaction_request_id r = oid
      \<Longrightarrow> ob_promise_tx_id r = ptx \<Longrightarrow> 0 < ob_attempt_count r \<Longrightarrow>
      row_wf (f now r) \<and> ob_status (f now r) = st' \<and> ob_obp_transaction_request_id (f now r) = oid'
      \<and> ob_promise_tx_id (f now r) = ptx' \<and> 0 < ob_attempt_count (f now r)"
    and "exec_update c (\<lambda>r. ob_transaction_request_id r = k) f t = (x, t')"
  shows "case x of Inl _ \<Rightarrow> t' = t | Inr _ \<Rightarrow> ready k st' oid' ptx' t'"
proof -
  obtain r where wf: "outbox_wf t" and r: "sql_find ob_transaction_request_id k t = Some r"
    and c: "ob_status r = st" "ob_obp_transaction_request_id r = oid" "ob_promise_tx_id r = ptx"
      "0 < ob_attempt_count r"
    using assms(1) by (auto simp: ready_def)
  have "row_wf r" using wf r by (auto simp: outbox_wf_def list_all_iff dest: sql_find_SomeD)
  note f = assms(3) [OF this c]
  from outbox_wf_update [OF wf r _ assms(2,4)] f show ?thesis
    by (auto simp: ready_def split: sum.splits)
qed

lemma ready_submitted:
  assumes "ready k INITIATED oid ptx t" and "outbox_mark_submitted c k oid' t = (x, t')"
  shows "case x of Inl _ \<Rightarrow> t' = t | Inr _ \<Rightarrow> ready k SUBMITTED oid' ptx t'"
  by (rule ready_statement [OF assms(1) _ _ assms(2) [unfolded outbox_op_defs]]) (simp_all add: row_wf_def, force)

lemma ready_promised:
  assumes "ready k SUBMITTED oid ptx t" and "outbox_mark_promise_written c k tx ch t = (x, t')"
  shows "case x of Inl _ \<Rightarrow> t' = t | Inr _ \<Rightarrow> ready k PROMISE_WRITTEN oid (Some tx) t'"
  by (rule ready_statement [OF assms(1) _ _ assms(2) [unfolded outbox_op_defs]]) (simp_all add: row_wf_def, force)

lemma ready_reported:
  assumes "ready k PROMISE_WRITTEN (Some obp) ptx t" and "outbox_mark_reported c k t = (x, t')"
  shows "case x of Inl _ \<Rightarrow> t' = t | Inr _ \<Rightarrow> ready k REPORTED (Some obp) ptx t'"
  by (rule ready_statement [OF assms(1) _ _ assms(2) [unfolded outbox_op_defs]]) (simp_all add: row_wf_def, force)

lemma ready_exception:
  assumes "ready k st oid ptx t" and "ob_rank st < 3" and "outbox_mark_exception c k reason t = (x, t')"
  shows "case x of Inl _ \<Rightarrow> t' = t | Inr _ \<Rightarrow> ready k EXCEPTION oid ptx t'"
  by (rule ready_statement [OF assms(1) _ _ assms(3) [unfolded outbox_op_defs]])
     (simp_all add: row_wf_def del: not_None_eq)

lemma ready_wf: "ready k st oid ptx t \<Longrightarrow> outbox_wf t"
  by (simp add: ready_def)

text \<open>The attempt makes a claimed row ready.\<close>

lemma row_wf_attempt:
  "row_wf r \<Longrightarrow> row_wf (r\<lparr>ob_attempt_count := ob_attempt_count r + 1, ob_last_attempted_at := Some now,
      ob_updated_at := now\<rparr>)"
  unfolding row_wf_def by (elim conjE) (intro conjI; simp)

lemma attempt_ready:
  assumes wf: "outbox_wf t" and at: "row_at k st oid ptx t"
    and run: "outbox_record_attempt c k t = (x, t')"
  shows "case x of Inl _ \<Rightarrow> t' = t | Inr _ \<Rightarrow> ready k st oid ptx t'"
proof -
  obtain r where r: "sql_find ob_transaction_request_id k t = Some r"
    and c: "ob_status r = st" "ob_obp_transaction_request_id r = oid" "ob_promise_tx_id r = ptx"
    using at by (auto simp: row_at_def split: option.splits)
  have "row_wf r" using wf r by (auto simp: outbox_wf_def list_all_iff dest: sql_find_SomeD)
  note w = row_wf_attempt [OF this]
  from outbox_wf_update [OF wf r w _ run [unfolded outbox_record_attempt_def]] c show ?thesis
    by (cases x) (auto simp: ready_def)
qed

section \<open>The steps of a row\<close>

lemma except_row_wf:
  assumes "ready k st oid ptx (ds_outbox s)" and "ob_rank st < 3"
  shows "outbox_wf (ds_outbox (snd (except_row E k reason s)))"
proof -
  obtain x t where op: "outbox_mark_exception (de_mark_exception E) k reason (ds_outbox s) = (x, t)"
    by fastforce
  from ready_exception [OF assms op] op ready_wf assms(1) show ?thesis
    by (cases x) (auto simp: except_row_def)
qed

lemma submit_step_ready:
  assumes "ready (ob_transaction_request_id row) (ob_status row) (ob_obp_transaction_request_id row)
      (ob_promise_tx_id row) (ds_outbox s)"
    and "submit_step L D E row s = (f, s')"
  shows "case f of
      Done r \<Rightarrow> outbox_wf (ds_outbox s')
    | Go (current, oid, adv) \<Rightarrow>
        ready (ob_transaction_request_id row) current oid (ob_promise_tx_id row) (ds_outbox s')"
proof (cases "ob_status row = INITIATED")
  case False
  with assms show ?thesis by (auto simp: submit_step_def Let_def)
next
  case True
  obtain answer token q where call: "submit_open_corridor (dl_obp L) (di_obp D) (de_submit E)
      (ob_bank_id row) (ob_account_id row) (ob_request_payload row) (ds_token s) = (answer, token, q)"
    by (metis prod_cases3)
  note wf = ready_wf [OF assms(1)]
  have except: "outbox_wf (ds_outbox (snd (except_row E (ob_transaction_request_id row) reason u)))"
    if "ds_outbox u = ds_outbox s" for reason u
    by (rule except_row_wf) (use assms(1) True that in auto)
  show ?thesis
  proof (cases "\<exists>oid. answer = Some (Inr oid)")
    case False
    with call True wf except assms(2) show ?thesis
      by (auto simp: submit_step_def Let_def case_prod_unfold split: option.splits sum.splits if_splits)
  next
    fix oid
    case True
    then obtain oid where Inr: "answer = Some (Inr oid)" by auto
    obtain x t where op: "outbox_mark_submitted (de_mark_submitted E) (ob_transaction_request_id row)
        oid (ds_outbox s) = (x, t)" by fastforce
    from ready_submitted [OF assms(1) [unfolded \<open>ob_status row = INITIATED\<close>] op] op Inr call wf assms(2)
      \<open>ob_status row = INITIATED\<close> show ?thesis
      by (cases x) (auto simp: submit_step_def Let_def)
  qed
qed

lemma promise_step_ready:
  assumes "ready (ob_transaction_request_id row) current oid (ob_promise_tx_id row) (ds_outbox s)"
    and "promise_step L D E row current advanced s = (f, s')"
  shows "case f of
      Done r \<Rightarrow> outbox_wf (ds_outbox s')
    | Go (current', ptx, adv) \<Rightarrow>
        ready (ob_transaction_request_id row) current' oid ptx (ds_outbox s')"
proof (cases "current = SUBMITTED \<and> (\<exists>tx. de_promise E = Inr tx)")
  case False
  with assms ready_wf [OF assms(1)] show ?thesis
    by (cases "de_promise E") (auto simp: promise_step_def Let_def split: if_splits)
next
  case True
  then obtain tx where tx: "current = SUBMITTED" "de_promise E = Inr tx" by auto
  obtain x t where op: "outbox_mark_promise_written (de_mark_promise E) (ob_transaction_request_id row)
      (tx_id tx) (di_blockchain_label D) (ds_outbox s) = (x, t)" by fastforce
  from ready_promised [OF assms(1) [unfolded tx(1)] op] op tx ready_wf [OF assms(1)] assms(2) show ?thesis
    by (cases x) (auto simp: promise_step_def Let_def)
qed

lemma report_step_ready:
  assumes "ready (ob_transaction_request_id row) current oid ptx (ds_outbox s)"
  shows "outbox_wf (ds_outbox (snd (report_step L D E row current oid ptx advanced s)))"
proof (cases "current = PROMISE_WRITTEN")
  case False
  with ready_wf [OF assms] show ?thesis by (simp add: report_step_def Let_def)
next
  case True
  have except: "outbox_wf (ds_outbox (snd (except_row E (ob_transaction_request_id row) reason u)))"
    if "ds_outbox u = ds_outbox s" for reason u
    by (rule except_row_wf) (use assms True that in auto)
  show ?thesis
  proof (cases "oid = None \<or> ptx = None")
    case True
    with \<open>current = PROMISE_WRITTEN\<close> except [of s] show ?thesis
      by (auto simp: report_step_def Let_def case_prod_unfold split: option.splits)
  next
    case False
    then obtain obp tx where ids: "oid = Some obp" "ptx = Some tx" by auto
    obtain answer token q where call: "report_promise (dl_obp L) (di_obp D) (de_report E)
        (ob_bank_id row) (ob_account_id row) obp (row_evidence L D row tx) (ds_token s) = (answer, token, q)"
      by (metis prod_cases3)
    obtain x t where op: "outbox_mark_reported (de_mark_reported E) (ob_transaction_request_id row)
        (ds_outbox s) = (x, t)" by fastforce
    have written: "outbox_wf t"
      using ready_reported [OF assms [unfolded True ids] op] ready_wf ready_wf [OF assms]
      by (cases x) auto
    with ids call True op except ready_wf [OF assms] show ?thesis
      by (cases x) (auto simp: report_step_def Let_def case_prod_unfold split: option.splits sum.splits)
  qed
qed

lemma process_row_wf:
  assumes "ready (ob_transaction_request_id row) (ob_status row) (ob_obp_transaction_request_id row)
      (ob_promise_tx_id row) (ds_outbox s)"
  shows "outbox_wf (ds_outbox (snd (process_row L D E row s)))"
proof -
  obtain f s1 where 1: "submit_step L D E row s = (f, s1)" by fastforce
  note ready1 = submit_step_ready [OF assms 1]
  show ?thesis
  proof (cases f)
    case (Done r)
    with 1 ready1 show ?thesis by (simp add: process_row_def)
  next
    case (Go g)
    obtain current oid adv where g: "g = (current, oid, adv)" by (cases g)
    obtain h s2 where 2: "promise_step L D E row current adv s1 = (h, s2)" by fastforce
    note ready2 = promise_step_ready [OF ready1 [unfolded Go g, simplified] 2]
    show ?thesis
    proof (cases h)
      case (Done r)
      with 1 2 Go g ready2 show ?thesis by (simp add: process_row_def)
    next
      fix j assume h: "h = Go j"
      obtain current2 ptx adv2 where j: "j = (current2, ptx, adv2)" by (cases j)
      from ready2 h j report_step_ready [of row current2 oid ptx s2 L D E adv2] 1 2 Go g show ?thesis
        by (simp add: process_row_def)
    qed
  qed
qed

section \<open>A pass and the life of the outbox\<close>

lemma process_rows_wf:
  assumes "unchanged_rows rows (ds_outbox s)" "distinct (map ob_transaction_request_id rows)"
    and "outbox_wf (ds_outbox s)"
  shows "outbox_wf (ds_outbox (snd (process_rows L D E i rows adv s)))"
  using assms
proof (induction rows arbitrary: i adv s)
  case (Cons row rows)
  obtain x t where 1: "outbox_record_attempt (de_attempt (E i)) (ob_transaction_request_id row)
      (ds_outbox s) = (x, t)" by fastforce
  obtain y s2 where 2: "process_row L D (E i) row (s\<lparr>ds_outbox := t\<rparr>) = (y, s2)" by fastforce
  from Cons.prems(1) have "row_at (ob_transaction_request_id row) (ob_status row)
      (ob_obp_transaction_request_id row) (ob_promise_tx_id row) (ds_outbox s)"
    by (simp add: unchanged_rows_def)
  note ready = attempt_ready [OF Cons.prems(3) this 1]
  show ?case
  proof (cases x)
    case (Inl e)
    with ready 1 Cons.prems(3) show ?thesis by simp
  next
    case (Inr u)
    with ready process_row_wf [of row "s\<lparr>ds_outbox := t\<rparr>" L D "E i"] 2
    have wf: "outbox_wf (ds_outbox s2)" by simp
    from Cons.IH [OF attempt_process_moved(2) [OF Cons.prems(1,2) 1 2] _ wf] Cons.prems(2) wf 1 2 Inr
    show ?thesis by (auto split: option.splits sum.splits)
  qed
qed simp

lemma process_due_once_wf:
  assumes "outbox_wf (ds_outbox s)"
  shows "outbox_wf (ds_outbox (snd (process_due_once L D c cutoff n E s)))"
proof (cases "outbox_claim_due c cutoff n (ds_outbox s)")
  case (Inl e)
  with assms show ?thesis by (simp add: process_due_once_def)
next
  case (Inr due)
  from assms have d: "distinct (map ob_transaction_request_id (ds_outbox s))" by (simp add: outbox_wf_def)
  from process_rows_wf [OF claim_due_unchanged [OF Inr d] claim_due_distinct [OF Inr d] assms] Inr
  show ?thesis by (simp add: process_due_once_def)
qed

lemma outbox_life_step_wf: "outbox_life_step t t' \<Longrightarrow> outbox_wf t \<Longrightarrow> outbox_wf t'"
  by (induction rule: outbox_life_step.induct)
     (simp_all add: outbox_wf_insert outbox_wf_settled process_due_once_wf)

lemma outbox_life_wf: "outbox_life_step\<^sup>*\<^sup>* t t' \<Longrightarrow> outbox_wf t \<Longrightarrow> outbox_wf t'"
  by (induction rule: rtranclp_induct) (blast intro: outbox_life_step_wf)+

end
