(* ===== verification/Utf8.thy ===== *)
theory Utf8
  imports Prelude
begin

text \<open>
  UTF-8 as Rust's standard library decodes it: \<open>String::from_utf8_lossy\<close> (each maximal
  invalid part becomes U+FFFD), validity, and \<open>chars().take(n).collect()\<close>.
\<close>

definition cont_in :: "nat \<Rightarrow> nat \<Rightarrow> char \<Rightarrow> bool" where
  "cont_in lo hi c \<longleftrightarrow> lo \<le> byte_val c \<and> byte_val c \<le> hi"

text \<open>The number of bytes of \<open>s\<close> that a sequence of byte ranges matches from the front.\<close>

fun matched :: "(nat \<times> nat) list \<Rightarrow> string \<Rightarrow> nat" where
  "matched ((lo, hi) # rs) (c # s) = (if cont_in lo hi c then Suc (matched rs s) else 0)"
| "matched _ _ = 0"

text \<open>The byte ranges that must follow a lead byte; \<open>None\<close> when it starts no character.\<close>

definition tail_ranges :: "nat \<Rightarrow> (nat \<times> nat) list option" where
  "tail_ranges b =
     (if b < 128 then Some []
      else if 194 \<le> b \<and> b \<le> 223 then Some [(128, 191)]
      else if b = 224 then Some [(160, 191), (128, 191)]
      else if b = 237 then Some [(128, 159), (128, 191)]
      else if 225 \<le> b \<and> b \<le> 239 then Some [(128, 191), (128, 191)]
      else if b = 240 then Some [(144, 191), (128, 191), (128, 191)]
      else if 241 \<le> b \<and> b \<le> 243 then Some [(128, 191), (128, 191), (128, 191)]
      else if b = 244 then Some [(128, 143), (128, 191), (128, 191)]
      else None)"

text \<open>The front of a byte string: is it a whole character, and how many further bytes belong to it.\<close>

definition front_char :: "char \<Rightarrow> string \<Rightarrow> bool \<times> nat" where
  "front_char c s =
     (case tail_ranges (byte_val c) of
        None \<Rightarrow> (False, 0)
      | Some rs \<Rightarrow> (matched rs s = length rs, matched rs s))"

definition replacement_char :: string where
  "replacement_char = [byte 239, byte 191, byte 189]"

function utf8_lossy :: "string \<Rightarrow> string" where
  "utf8_lossy [] = []"
| "utf8_lossy (c # s) =
     (case front_char c s of
        (ok, n) \<Rightarrow> (if ok then c # take n s else replacement_char) @ utf8_lossy (drop n s))"
  by pat_completeness auto
termination
  by (relation "measure length") auto

function utf8_valid :: "string \<Rightarrow> bool" where
  "utf8_valid [] = True"
| "utf8_valid (c # s) = (case front_char c s of (ok, n) \<Rightarrow> ok \<and> utf8_valid (drop n s))"
  by pat_completeness auto
termination
  by (relation "measure length") auto

fun take_chars :: "nat \<Rightarrow> string \<Rightarrow> string" where
  "take_chars k [] = []"
| "take_chars k (c # s) =
     (if k = 0 then []
      else case front_char c s of (ok, n) \<Rightarrow> (c # take n s) @ take_chars (k - 1) (drop n s))"

text \<open>Valid text is unchanged, and ASCII is valid.\<close>

lemma utf8_lossy_valid: "utf8_valid s \<Longrightarrow> utf8_lossy s = s"
  by (induction s rule: utf8_valid.induct) (auto split: prod.splits)

lemma front_char_ascii: "byte_val c < 128 \<Longrightarrow> front_char c s = (True, 0)"
  by (cases s) (simp_all add: front_char_def tail_ranges_def)

lemma ascii_valid: "is_ascii s \<Longrightarrow> utf8_valid s"
  by (induction s) (simp_all add: front_char_ascii)

lemma utf8_lossy_ascii: "is_ascii s \<Longrightarrow> utf8_lossy s = s"
  by (rule utf8_lossy_valid) (rule ascii_valid)

lemma length_take_chars_ascii: "is_ascii s \<Longrightarrow> take_chars n s = take n s"
proof (induction s arbitrary: n)
  case Nil
  show ?case by (cases n) simp_all
next
  case (Cons c s)
  then show ?case by (cases n) (simp_all add: front_char_ascii)
qed

end
