(* ===== verification/Tx.thy ===== *)
theory Tx
  imports Json Commitment Utf8 "HOL-Library.Word" "HOL-Library.Product_Lexorder" "HOL-Library.Multiset"
begin

text \<open>
  The Cardano transaction builder (\<open>crates/obp-blockchain/src/cardano/tx.rs\<close>). Amounts are the
  64-bit words of the source: plain \<open>+\<close>, \<open>-\<close>, \<open>*\<close> and \<open>sum\<close> wrap, as in a release build. Address
  parsing, CBOR, transaction assembly and signing (the \<open>pallas\<close> crates) are parameters.
\<close>

type_synonym u64 = "64 word"

definition OBP_METADATA_LABEL :: nat where "OBP_METADATA_LABEL = 5198160"
definition LOVELACE_PER_ADA :: u64 where "LOVELACE_PER_ADA = 1000000"
definition MIN_UTXO_LOVELACE :: u64 where "MIN_UTXO_LOVELACE = LOVELACE_PER_ADA"
definition TTL_SLOTS_AHEAD :: u64 where "TTL_SLOTS_AHEAD = 7200"
definition METADATUM_VALUE_MAX :: nat where "METADATUM_VALUE_MAX = 64"
definition FEE_SIZE_MARGIN :: u64 where "FEE_SIZE_MARGIN = 4"
definition MAX_FEE_ITERS :: nat where "MAX_FEE_ITERS = 8"

definition saturating_add_word :: "u64 \<Rightarrow> u64 \<Rightarrow> u64" where
  "saturating_add_word a b = (if unat a + unat b < 2 ^ 64 then a + b else - 1)"

definition show_word :: "u64 \<Rightarrow> string" where
  "show_word w = show_nat (unat w)"

record utxo =
  ut_tx_hash :: string
  ut_index :: u64
  ut_lovelace :: u64

section \<open>Protocol parameters\<close>

record protocol_params =
  pp_fee_coefficient_per_byte :: u64
  pp_fee_constant :: u64
  pp_max_tx_size :: u64

definition min_fee :: "protocol_params \<Rightarrow> u64 \<Rightarrow> u64" where
  "min_fee pp sz = pp_fee_constant pp + pp_fee_coefficient_per_byte pp * sz"

definition missing :: "string \<Rightarrow> blockchain_error" where
  "missing field = Internal (''protocol parameters missing `'' @ field @ ''`'')"

definition as_word :: "json \<Rightarrow> u64 option" where
  "as_word v = map_option of_nat (as_u64 v)"

definition ok_or :: "'a option \<Rightarrow> 'e \<Rightarrow> 'e + 'a" where
  "ok_or x e = (case x of None \<Rightarrow> Inl e | Some v \<Rightarrow> Inr v)"

definition ada_lovelace_or_int :: "json \<Rightarrow> blockchain_error + u64" where
  "ada_lovelace_or_int v =
     (case as_word v of
        Some n \<Rightarrow> Inr n
      | None \<Rightarrow> ok_or (Option.bind (jget_opt ''lovelace'' (jget ''ada'' v)) as_word) (missing ''ada.lovelace''))"

definition params_from_ogmios :: "json \<Rightarrow> blockchain_error + protocol_params" where
  "params_from_ogmios v =
     (case ok_or (Option.bind (jget ''minFeeCoefficient'' v) as_word) (missing ''minFeeCoefficient'') of
        Inl e \<Rightarrow> Inl e
      | Inr coeff \<Rightarrow>
          (case (case jget ''minFeeConstant'' v of
                   None \<Rightarrow> Inl (missing ''minFeeConstant'')
                 | Some c \<Rightarrow> ada_lovelace_or_int c) of
             Inl e \<Rightarrow> Inl e
           | Inr const \<Rightarrow>
               (case ok_or (Option.bind (jget ''maxTransactionSize'' v)
                        (\<lambda>m. or_else (Option.bind (jget ''bytes'' m) as_word) (as_word m)))
                       (missing ''maxTransactionSize'') of
                  Inl e \<Rightarrow> Inl e
                | Inr sz \<Rightarrow>
                    Inr \<lparr>pp_fee_coefficient_per_byte = coeff, pp_fee_constant = const,
                         pp_max_tx_size = sz\<rparr>)))"

section \<open>Spendable outputs\<close>

definition parse_utxo :: "json \<Rightarrow> utxo option" where
  "parse_utxo e =
     (case jget ''value'' e of
        None \<Rightarrow> None
      | Some value \<Rightarrow>
          if \<not> (case as_object value of None \<Rightarrow> False | Some kvs \<Rightarrow> list_all (\<lambda>(k, _). k = ''ada'') kvs)
          then None
          else
            (case (Option.bind (jget_opt ''id'' (jget ''transaction'' e)) as_str,
                   Option.bind (jget ''index'' e) as_word,
                   Option.bind (jget_opt ''lovelace'' (jget ''ada'' value)) as_word) of
               (Some h, Some i, Some l) \<Rightarrow> Some \<lparr>ut_tx_hash = h, ut_index = i, ut_lovelace = l\<rparr>
             | _ \<Rightarrow> None))"

definition parse_utxos :: "json list \<Rightarrow> utxo list" where
  "parse_utxos entries = List.map_filter parse_utxo entries"

section \<open>Coin selection\<close>

text \<open>Descending by amount, then ascending by hash; the sort is stable.\<close>

definition utxo_key :: "utxo \<Rightarrow> nat \<times> string" where
  "utxo_key u = (2 ^ 64 - unat (ut_lovelace u), ut_tx_hash u)"

fun select_from :: "u64 \<Rightarrow> utxo list \<Rightarrow> u64 \<Rightarrow> utxo list \<Rightarrow> blockchain_error + utxo list" where
  "select_from target chosen acc [] =
     Inl (Rejected (''insufficient funds: have '' @ show_word acc @ '' lovelace, need '' @ show_word target))"
| "select_from target chosen acc (u # us) =
     (let acc' = saturating_add_word acc (ut_lovelace u)
      in if target \<le> acc' then Inr (chosen @ [u])
         else select_from target (chosen @ [u]) acc' us)"

definition select_largest_first :: "utxo list \<Rightarrow> u64 \<Rightarrow> blockchain_error + utxo list" where
  "select_largest_first utxos target = select_from target [] 0 (sort_key utxo_key utxos)"

section \<open>Building and signing\<close>

datatype metadatum =
    MText string
  | MArray "metadatum list"
  | MMap "(metadatum \<times> metadatum) list"

record staged_tx =
  sg_inputs :: "(string \<times> u64) list"
  sg_outputs :: "(string \<times> u64) list"
  sg_fee :: u64
  sg_network_id :: nat
  sg_invalid_from_slot :: u64
  sg_auxiliary :: "string option"

record built_tx =
  bt_hash_hex :: string
  bt_cbor :: string
  bt_cbor_hex :: string

text \<open>The parameters: addresses, hashes, metadata encoding, assembly, signature.\<close>

record tx_libs =
  tl_address :: "string \<Rightarrow> string + string"
  tl_hash :: "string \<Rightarrow> string option"
  tl_aux :: "nat \<Rightarrow> metadatum \<Rightarrow> string + string"
  tl_build :: "staged_tx \<Rightarrow> string + string"
  tl_sign :: "string \<Rightarrow> string \<Rightarrow> string + built_tx"

record signed_tx =
  sx_tx_id :: string
  sx_cbor_hex :: string
  sx_fee :: u64
  sx_num_inputs :: nat
  sx_change :: "u64 option"

definition parse_address :: "tx_libs \<Rightarrow> string \<Rightarrow> blockchain_error + string" where
  "parse_address L bech32 =
     (case tl_address L bech32 of
        Inl e \<Rightarrow> Inl (Internal (''invalid address '' @ bech32 @ '': '' @ e))
      | Inr a \<Rightarrow> Inr a)"

definition network_id_byte :: "string \<Rightarrow> nat" where
  "network_id_byte network = (if eq_ignore_ascii_case network ''mainnet'' then 1 else 0)"

definition encode_auxiliary_data :: "tx_libs \<Rightarrow> nat \<Rightarrow> metadatum \<Rightarrow> blockchain_error + string" where
  "encode_auxiliary_data L label datum =
     (case tl_aux L label datum of
        Inl e \<Rightarrow> Inl (Internal (''metadata CBOR encode failed: '' @ e))
      | Inr b \<Rightarrow> Inr b)"

fun stage_inputs :: "tx_libs \<Rightarrow> utxo list \<Rightarrow> blockchain_error + (string \<times> u64) list" where
  "stage_inputs L [] = Inr []"
| "stage_inputs L (u # us) =
     (case tl_hash L (ut_tx_hash u) of
        None \<Rightarrow> Inl (Internal (''bad utxo tx hash: '' @ ut_tx_hash u))
      | Some h \<Rightarrow> (case stage_inputs L us of Inl e \<Rightarrow> Inl e | Inr r \<Rightarrow> Inr ((h, ut_index u) # r)))"

definition assemble_and_sign ::
  "tx_libs \<Rightarrow> utxo list \<Rightarrow> (string \<times> u64) list \<Rightarrow> u64 \<Rightarrow> nat \<Rightarrow> u64 \<Rightarrow> string option \<Rightarrow> string
   \<Rightarrow> blockchain_error + built_tx" where
  "assemble_and_sign L inputs outputs fee network_id ttl aux secret =
     (case stage_inputs L inputs of
        Inl e \<Rightarrow> Inl e
      | Inr ins \<Rightarrow>
          (case tl_build L \<lparr>sg_inputs = ins, sg_outputs = outputs, sg_fee = fee, sg_network_id = network_id,
                             sg_invalid_from_slot = ttl, sg_auxiliary = aux\<rparr> of
             Inl e \<Rightarrow> Inl (Internal (''tx build failed: '' @ e))
           | Inr b \<Rightarrow>
               (case tl_sign L secret b of
                  Inl e \<Rightarrow> Inl (Internal (''tx signing failed: '' @ e))
                | Inr t \<Rightarrow> Inr t)))"

text \<open>\<open>iter().sum()\<close> wraps in a release build.\<close>

definition sum_lovelace :: "utxo list \<Rightarrow> u64" where
  "sum_lovelace us = sum_list (map ut_lovelace us)"

text \<open>What the loop of \<open>build_signed_payment\<close> does not change, and its result: the transaction and its parts.\<close>

record payment =
  py_to :: string
  py_change_addr :: string
  py_network_id :: nat
  py_ttl :: u64
  py_secret :: string
  py_aux :: "string option"
  py_lovelace :: u64

text \<open>
  One round at a given fee: the transaction, its inputs and its change, with the fee it pays.
\<close>

definition balance ::
  "utxo list \<Rightarrow> payment \<Rightarrow> u64 \<Rightarrow> blockchain_error + utxo list \<times> u64 \<times> u64 option" where
  "balance utxos P fee =
     (case select_largest_first utxos (saturating_add_word (py_lovelace P) fee) of
        Inl e \<Rightarrow> Inl e
      | Inr chosen \<Rightarrow>
          (let remainder = sum_lovelace chosen - py_lovelace P - fee
           in if MIN_UTXO_LOVELACE \<le> remainder then Inr (chosen, fee, Some remainder)
              else Inr (chosen, fee + remainder, None)))"

definition payment_outputs :: "payment \<Rightarrow> u64 option \<Rightarrow> (string \<times> u64) list" where
  "payment_outputs P change =
     (py_to P, py_lovelace P) # (case change of None \<Rightarrow> [] | Some c \<Rightarrow> [(py_change_addr P, c)])"

fun fee_loop ::
  "tx_libs \<Rightarrow> protocol_params \<Rightarrow> utxo list \<Rightarrow> payment \<Rightarrow> nat \<Rightarrow> u64 \<Rightarrow> blockchain_error + signed_tx" where
  "fee_loop L pp utxos P n fee =
     (if n = 0 then Inl (Internal ''fee did not converge after several iterations'')
      else
        (case balance utxos P fee of
           Inl e \<Rightarrow> Inl e
         | Inr (chosen, eff_fee, change) \<Rightarrow>
             (case assemble_and_sign L chosen (payment_outputs P change) eff_fee (py_network_id P)
                     (py_ttl P) (py_aux P) (py_secret P) of
                Inl e \<Rightarrow> Inl e
              | Inr built \<Rightarrow>
                  let sz = of_nat (length (bt_cbor built))
                  in if pp_max_tx_size pp < sz
                     then Inl (Rejected (''built tx is '' @ show_word sz @ '' bytes, over the ''
                            @ show_word (pp_max_tx_size pp) @ '' limit''))
                     else
                       let required = min_fee pp (sz + FEE_SIZE_MARGIN)
                       in if required \<le> eff_fee
                          then Inr \<lparr>sx_tx_id = bt_hash_hex built, sx_cbor_hex = bt_cbor_hex built,
                                    sx_fee = eff_fee, sx_num_inputs = length chosen, sx_change = change\<rparr>
                          else fee_loop L pp utxos P (n - 1) required)))"

declare fee_loop.simps [simp del]

definition build_signed_payment ::
  "tx_libs \<Rightarrow> string \<Rightarrow> string \<Rightarrow> string \<Rightarrow> utxo list \<Rightarrow> protocol_params \<Rightarrow> string \<Rightarrow> u64 \<Rightarrow> u64
   \<Rightarrow> (nat \<times> metadatum) option \<Rightarrow> blockchain_error + signed_tx" where
  "build_signed_payment L wallet_address secret network utxos pp to_address lovelace tip_slot metadata =
     (case parse_address L to_address of
        Inl e \<Rightarrow> Inl e
      | Inr to \<Rightarrow>
          (case parse_address L wallet_address of
             Inl e \<Rightarrow> Inl e
           | Inr change_addr \<Rightarrow>
               (case (case metadata of
                        None \<Rightarrow> Inr None
                      | Some (label, datum) \<Rightarrow>
                          (case encode_auxiliary_data L label datum of Inl e \<Rightarrow> Inl e | Inr b \<Rightarrow> Inr (Some b))) of
                  Inl e \<Rightarrow> Inl e
                | Inr aux \<Rightarrow>
                    fee_loop L pp utxos
                      \<lparr>py_to = to, py_change_addr = change_addr, py_network_id = network_id_byte network,
                       py_ttl = saturating_add_word tip_slot TTL_SLOTS_AHEAD, py_secret = secret,
                       py_aux = aux, py_lovelace = lovelace\<rparr>
                      MAX_FEE_ITERS (min_fee pp 250))))"

section \<open>Metadata text\<close>

fun chunks :: "nat \<Rightarrow> 'a list \<Rightarrow> 'a list list" where
  "chunks n xs = (if n = 0 \<or> xs = [] then [] else take n xs # chunks n (drop n xs))"

declare chunks.simps [simp del]

definition text_value :: "string \<Rightarrow> metadatum" where
  "text_value s =
     (if length s \<le> METADATUM_VALUE_MAX then MText s
      else MArray (map (\<lambda>c. MText (utf8_lossy c)) (chunks METADATUM_VALUE_MAX s)))"

definition text_record_metadatum :: "(string \<times> string) list \<Rightarrow> metadatum" where
  "text_record_metadatum pairs = MMap (map (\<lambda>(k, v). (MText k, text_value v)) pairs)"

section \<open>Coin selection: facts\<close>

definition total :: "utxo list \<Rightarrow> nat" where
  "total us = sum_list (map (\<lambda>u. unat (ut_lovelace u)) us)"

lemma total_simps [simp]:
  "total [] = 0" "total (u # us) = unat (ut_lovelace u) + total us" "total (us @ vs) = total us + total vs"
  by (simp_all add: total_def)

lemma total_mset: "mset us = mset vs \<Longrightarrow> total us = total vs"
  unfolding total_def by (metis mset_map sum_mset_sum_list)

lemma unat_add_small: "unat (a :: u64) + unat b < 2 ^ 64 \<Longrightarrow> unat (a + b) = unat a + unat b"
  by (simp add: unat_add_lem [THEN iffD1])

lemma unat_saturating: "unat (saturating_add_word a b) = min (unat a + unat b) (2 ^ 64 - 1)"
proof (cases "unat a + unat b < 2 ^ 64")
  case True
  then have "unat (a + b) = unat a + unat b" by (simp add: unat_add_lem [THEN iffD1])
  with True show ?thesis by (simp add: saturating_add_word_def)
next
  case False
  have "unat (- 1 :: u64) = 2 ^ 64 - 1" by (simp add: unsigned_minus_1_eq_mask mask_eq_exp_minus_1)
  with False show ?thesis by (simp add: saturating_add_word_def)
qed

lemma unat_sum_lovelace: "total us < 2 ^ 64 \<Longrightarrow> unat (sum_lovelace us) = total us"
proof (induction us)
  case (Cons u us)
  then have "unat (sum_lovelace us) = total us" by simp
  with Cons.prems show ?case
    by (simp add: sum_lovelace_def unat_add_lem [THEN iffD1])
qed (simp add: sum_lovelace_def)

lemma unat_le_max: "unat (w :: u64) \<le> 2 ^ 64 - 1"
proof -
  have "unat w < 2 ^ LENGTH(64)" by (rule unsigned_less)
  then show ?thesis by simp
qed

text \<open>The selection is the shortest prefix that reaches the target, and fails only without funds.\<close>

lemma select_from_ok:
  "select_from target chosen acc us = Inr cs \<Longrightarrow>
   \<exists>us' rest. us = us' @ rest \<and> cs = chosen @ us' \<and> us' \<noteq> [] \<and>
     unat target \<le> unat acc + total us' \<and>
     (length us' > 1 \<longrightarrow> unat acc + total (butlast us') < unat target)"
proof (induction target chosen acc us rule: select_from.induct)
  case (2 target chosen acc u us)
  let ?acc = "saturating_add_word acc (ut_lovelace u)"
  show ?case
  proof (cases "target \<le> ?acc")
    case True
    with 2(2) have "cs = chosen @ [u]" by simp
    moreover have "unat target \<le> unat acc + unat (ut_lovelace u)"
      using True unat_saturating [of acc "ut_lovelace u"] by (simp add: word_le_nat_alt)
    ultimately show ?thesis by (intro exI [of _ "[u]"] exI [of _ us]) simp
  next
    case False
    with 2(2) have "select_from target (chosen @ [u]) ?acc us = Inr cs" by simp
    from 2(1) [OF refl False this] obtain us' rest where
      ih: "us = us' @ rest" "cs = (chosen @ [u]) @ us'" "us' \<noteq> []"
        "unat target \<le> unat ?acc + total us'"
        "length us' > 1 \<longrightarrow> unat ?acc + total (butlast us') < unat target" by blast
    from False have lt: "unat ?acc < unat target" by (simp add: word_le_nat_alt)
    moreover have "unat target \<le> 2 ^ 64 - 1" by (rule unat_le_max)
    ultimately have acc: "unat ?acc = unat acc + unat (ut_lovelace u)"
      using unat_saturating [of acc "ut_lovelace u"] by linarith
    have "unat acc + total (butlast (u # us')) < unat target"
      using ih(3,5) lt acc by (cases us') (auto split: if_splits)
    with ih acc show ?thesis by (intro exI [of _ "u # us'"] exI [of _ rest]) simp
  qed
qed simp

lemma select_from_fails:
  "select_from target chosen acc us = Inl e \<Longrightarrow>
   is_rejected e \<and> (us = [] \<or> unat acc + total us < unat target)"
proof (induction target chosen acc us rule: select_from.induct)
  case (1 target chosen acc)
  then show ?case by (auto simp: is_rejected_def)
next
  case (2 target chosen acc u us)
  let ?acc = "saturating_add_word acc (ut_lovelace u)"
  from 2(2) have f: "\<not> target \<le> ?acc" "select_from target (chosen @ [u]) ?acc us = Inl e"
    by (auto simp: Let_def split: if_splits)
  then have "unat ?acc < unat target" by (simp add: word_le_nat_alt)
  moreover have "unat target \<le> 2 ^ 64 - 1" by (rule unat_le_max)
  ultimately have "unat ?acc = unat acc + unat (ut_lovelace u)"
    using unat_saturating [of acc "ut_lovelace u"] by linarith
  with 2(1) [OF refl f] \<open>unat ?acc < unat target\<close> show ?case by auto
qed

lemma select_largest_ok:
  assumes "select_largest_first utxos target = Inr cs"
  shows "mset cs \<subseteq># mset utxos" "unat target \<le> total cs" "cs \<noteq> []"
    "length cs > 1 \<Longrightarrow> total (butlast cs) < unat target"
proof -
  from select_from_ok [OF assms [unfolded select_largest_first_def]] obtain rest where
    r: "sort_key utxo_key utxos = cs @ rest" "cs \<noteq> []" "unat target \<le> total cs"
      "length cs > 1 \<longrightarrow> total (butlast cs) < unat target" by auto
  then have "mset utxos = mset cs + mset rest" by (metis mset_append mset_sort)
  with r show "mset cs \<subseteq># mset utxos" "unat target \<le> total cs" "cs \<noteq> []"
    "length cs > 1 \<Longrightarrow> total (butlast cs) < unat target" by simp_all
qed

lemma select_largest_fails:
  assumes "select_largest_first utxos target = Inl e"
  shows "is_rejected e" "utxos = [] \<or> total utxos < unat target"
  using select_from_fails [OF assms [unfolded select_largest_first_def]]
    total_mset [of "sort_key utxo_key utxos" utxos]
  by (auto dest: arg_cong [of _ _ length])

lemma total_subset: "mset cs \<subseteq># mset us \<Longrightarrow> total cs \<le> total us"
proof -
  assume "mset cs \<subseteq># mset us"
  then obtain X where "mset us = mset cs + X" by (metis mset_subset_eq_exists_conv)
  then obtain xs where "mset us = mset (cs @ xs)" by (metis ex_mset mset_append)
  from total_mset [OF this] show ?thesis by simp
qed

section \<open>The payment balances\<close>

text \<open>
  Provided the wallet's outputs do not add up to the 64-bit limit (all ADA there is fits five
  hundred times), no arithmetic of a round wraps.
\<close>

lemma balance_ok:
  assumes "balance utxos P fee = Inr (chosen, eff, change)" and small: "total utxos < 2 ^ 64 - 1"
  shows "mset chosen \<subseteq># mset utxos"
    and "total chosen = unat (py_lovelace P) + unat eff + (case change of None \<Rightarrow> 0 | Some c \<Rightarrow> unat c)"
    and "unat fee \<le> unat eff"
    and "\<And>c. change = Some c \<Longrightarrow> MIN_UTXO_LOVELACE \<le> c"
proof -
  obtain cs where cs: "select_largest_first utxos (saturating_add_word (py_lovelace P) fee) = Inr cs"
    using assms(1) by (cases "select_largest_first utxos (saturating_add_word (py_lovelace P) fee)")
      (auto simp: balance_def)
  let ?r = "sum_lovelace cs - py_lovelace P - fee"
  have res: "(chosen, eff, change) =
      (if MIN_UTXO_LOVELACE \<le> ?r then (cs, fee, Some ?r) else (cs, fee + ?r, None))"
    using assms(1) cs by (auto simp: balance_def Let_def split: if_splits)
  then have chosen: "chosen = cs" by (auto split: if_splits)
  note sel = select_largest_ok [OF cs]
  show "mset chosen \<subseteq># mset utxos" using sel(1) chosen by simp
  have tot: "total cs < 2 ^ 64 - 1" using total_subset [OF sel(1)] small by simp
  have sum: "unat (sum_lovelace cs) = total cs" by (rule unat_sum_lovelace) (use tot in simp)
  have need: "unat (py_lovelace P) + unat fee \<le> total cs"
    using sel(2) tot unat_saturating [of "py_lovelace P" fee] by linarith
  have r1: "unat (sum_lovelace cs - py_lovelace P) = total cs - unat (py_lovelace P)"
    using need sum by (subst unat_sub) (simp_all add: word_le_nat_alt)
  have r: "unat ?r = total cs - unat (py_lovelace P) - unat fee"
    using need r1 by (subst unat_sub) (simp_all add: word_le_nat_alt)
  have "unat fee + unat ?r < 2 ^ 64" using need r tot by linarith
  then have f: "unat (fee + ?r) = unat fee + unat ?r" by (rule unat_add_small)
  show "total chosen = unat (py_lovelace P) + unat eff + (case change of None \<Rightarrow> 0 | Some c \<Rightarrow> unat c)"
    using res need r f by (auto split: if_splits)
  show "unat fee \<le> unat eff" using res f by (auto split: if_splits)
  show "MIN_UTXO_LOVELACE \<le> c" if "change = Some c" for c using res that by (auto split: if_splits)
qed

text \<open>What a built transaction is: balanced, paying its fee, within the size limit, with no dust.\<close>

definition payment_built ::
  "tx_libs \<Rightarrow> protocol_params \<Rightarrow> utxo list \<Rightarrow> payment \<Rightarrow> signed_tx \<Rightarrow> bool" where
  "payment_built L pp utxos P sx \<longleftrightarrow> (\<exists>chosen built.
     mset chosen \<subseteq># mset utxos \<and> sx_num_inputs sx = length chosen \<and>
     total chosen = unat (py_lovelace P) + unat (sx_fee sx) +
       (case sx_change sx of None \<Rightarrow> 0 | Some c \<Rightarrow> unat c) \<and>
     (\<forall>c. sx_change sx = Some c \<longrightarrow> MIN_UTXO_LOVELACE \<le> c) \<and>
     assemble_and_sign L chosen (payment_outputs P (sx_change sx)) (sx_fee sx) (py_network_id P)
       (py_ttl P) (py_aux P) (py_secret P) = Inr built \<and>
     sx_tx_id sx = bt_hash_hex built \<and> sx_cbor_hex sx = bt_cbor_hex built \<and>
     of_nat (length (bt_cbor built)) \<le> pp_max_tx_size pp \<and>
     min_fee pp (of_nat (length (bt_cbor built)) + FEE_SIZE_MARGIN) \<le> sx_fee sx)"

lemma fee_loop_built:
  "fee_loop L pp utxos P n fee = Inr sx \<Longrightarrow> total utxos < 2 ^ 64 - 1 \<Longrightarrow> payment_built L pp utxos P sx"
proof (induction L pp utxos P n fee rule: fee_loop.induct)
  case (1 L pp utxos P n fee)
  from 1(2) have n: "n \<noteq> 0" using fee_loop.simps [of L pp utxos P 0 fee] by (cases "n = 0") auto
  from 1(2) n obtain chosen eff change where b: "balance utxos P fee = Inr (chosen, eff, change)"
    by (cases "balance utxos P fee") (auto simp: fee_loop.simps [of L pp utxos P n fee])
  from 1(2) n b obtain built where a: "assemble_and_sign L chosen (payment_outputs P change) eff
      (py_network_id P) (py_ttl P) (py_aux P) (py_secret P) = Inr built"
    by (cases "assemble_and_sign L chosen (payment_outputs P change) eff
      (py_network_id P) (py_ttl P) (py_aux P) (py_secret P)")
       (auto simp: fee_loop.simps [of L pp utxos P n fee])
  let ?size = "of_nat (length (bt_cbor built)) :: u64"
  let ?req = "min_fee pp (?size + FEE_SIZE_MARGIN)"
  from 1(2) n b a have sz: "\<not> pp_max_tx_size pp < ?size"
    by (auto simp: fee_loop.simps [of L pp utxos P n fee] Let_def split: if_splits)
  show ?case
  proof (cases "?req \<le> eff")
    case True
    with 1(2) n b a sz have sx: "sx = \<lparr>sx_tx_id = bt_hash_hex built, sx_cbor_hex = bt_cbor_hex built,
        sx_fee = eff, sx_num_inputs = length chosen, sx_change = change\<rparr>"
      by (simp add: fee_loop.simps [of L pp utxos P n fee] Let_def)
    show ?thesis unfolding payment_built_def
      by (intro exI [of _ chosen] exI [of _ built])
         (use balance_ok [OF b 1(3)] a sz True sx in \<open>simp add: not_less\<close>)
  next
    case False
    with 1(2) n b a sz have "fee_loop L pp utxos P (n - 1) ?req = Inr sx"
      by (simp add: fee_loop.simps [of L pp utxos P n fee] Let_def)
    from 1(1) [OF n b refl refl a refl sz refl False this 1(3)] show ?thesis .
  qed
qed

text \<open>
  The fee converges: when the transactions that the rounds build, at fees of at most \<open>F\<close>, have
  sizes between \<open>s\<close> and \<open>s + d\<close> (the same inputs, with the encodings of fee and change varying by a
  few bytes) and no fee of such a size exceeds \<open>F\<close>, then \<open>d + 2\<close> rounds are enough: a
  round that fails makes the next transaction larger.
\<close>

definition sizes_within ::
  "tx_libs \<Rightarrow> utxo list \<Rightarrow> payment \<Rightarrow> nat \<Rightarrow> nat \<Rightarrow> nat \<Rightarrow> bool" where
  "sizes_within L utxos P F s d \<longleftrightarrow> (\<forall>fee chosen eff change built.
     unat fee \<le> F \<longrightarrow> balance utxos P fee = Inr (chosen, eff, change) \<longrightarrow>
     assemble_and_sign L chosen (payment_outputs P change) eff (py_network_id P) (py_ttl P) (py_aux P)
       (py_secret P) = Inr built \<longrightarrow>
     s \<le> length (bt_cbor built) \<and> length (bt_cbor built) \<le> s + d)"

lemma unat_min_fee:
  assumes "unat (pp_fee_constant pp) + unat (pp_fee_coefficient_per_byte pp) * (M + 4) < 2 ^ 64"
    and "x \<le> M" "M + 4 < 2 ^ 64"
  shows "unat (min_fee pp (of_nat x + FEE_SIZE_MARGIN)) =
    unat (pp_fee_constant pp) + unat (pp_fee_coefficient_per_byte pp) * (x + 4)"
proof -
  have "unat (of_nat x + FEE_SIZE_MARGIN :: u64) = x + 4"
  proof -
    have "x < 2 ^ 64" using assms(2,3) by linarith
    then have x: "unat (of_nat x :: u64) = x" by (simp add: unat_of_nat take_bit_nat_eq_self)
    have "unat (of_nat x + 4 :: u64) = unat (of_nat x :: u64) + unat (4 :: u64)"
      by (rule unat_add_small) (use x assms(2,3) in simp)
    with x show ?thesis by (simp add: FEE_SIZE_MARGIN_def)
  qed
  moreover have le: "unat (pp_fee_coefficient_per_byte pp) * (x + 4) \<le>
      unat (pp_fee_coefficient_per_byte pp) * (M + 4)" using assms(2) by simp
  moreover have "unat (pp_fee_coefficient_per_byte pp) * (x + 4) < 2 ^ 64"
    using le assms(1) by linarith
  ultimately have mult: "unat (pp_fee_coefficient_per_byte pp * (of_nat x + FEE_SIZE_MARGIN)) =
      unat (pp_fee_coefficient_per_byte pp) * (x + 4)"
    by (subst unat_mult_lem [THEN iffD1]) simp_all
  have "unat (pp_fee_constant pp) + unat (pp_fee_coefficient_per_byte pp) * (x + 4) < 2 ^ 64"
    using le assms(1) by linarith
  then show ?thesis unfolding min_fee_def by (subst unat_add_small) (simp_all add: mult)
qed

lemma min_fee_strict:
  assumes "\<not> min_fee pp (of_nat k + FEE_SIZE_MARGIN) \<le> eff"
    and "min_fee pp (of_nat m + FEE_SIZE_MARGIN) \<le> eff"
    and "unat (pp_fee_constant pp) + unat (pp_fee_coefficient_per_byte pp) * (M + 4) < 2 ^ 64"
    and "k \<le> M" "m \<le> M" "M + 4 < 2 ^ 64"
  shows "m < k"
proof -
  note f = unat_min_fee [OF assms(3) _ assms(6)]
  from assms(1,2) have "unat (min_fee pp (of_nat m + FEE_SIZE_MARGIN)) <
      unat (min_fee pp (of_nat k + FEE_SIZE_MARGIN))" by (simp add: word_le_nat_alt)
  then have "unat (pp_fee_coefficient_per_byte pp) * (m + 4) < unat (pp_fee_coefficient_per_byte pp) * (k + 4)"
    using f [OF assms(4)] f [OF assms(5)] by linarith
  then show "m < k" by (metis add_less_cancel_right mult_less_cancel1)
qed

lemma stage_inputs_error: "stage_inputs L us = Inl e \<Longrightarrow> \<exists>h. e = Internal (''bad utxo tx hash: '' @ h)"
  by (induction us) (auto split: option.splits sum.splits)

lemma assemble_error:
  "assemble_and_sign L us outs fee nid ttl aux sk = Inl e \<Longrightarrow>
   e \<noteq> Internal ''fee did not converge after several iterations''"
  by (auto simp: assemble_and_sign_def split: sum.splits dest: stage_inputs_error)

abbreviation no_convergence :: "blockchain_error + signed_tx" where
  "no_convergence \<equiv> Inl (Internal ''fee did not converge after several iterations'')"

lemma fee_loop_round:
  assumes "fee_loop L pp utxos P (Suc n) fee = no_convergence"
  obtains chosen eff change built where "balance utxos P fee = Inr (chosen, eff, change)"
    "assemble_and_sign L chosen (payment_outputs P change) eff (py_network_id P) (py_ttl P) (py_aux P)
       (py_secret P) = Inr built"
    "\<not> min_fee pp (of_nat (length (bt_cbor built)) + FEE_SIZE_MARGIN) \<le> eff"
    "fee_loop L pp utxos P n (min_fee pp (of_nat (length (bt_cbor built)) + FEE_SIZE_MARGIN)) = no_convergence"
proof (cases "balance utxos P fee")
  case (Inl e)
  then have "is_rejected e" using select_largest_fails(1)
    by (auto simp: balance_def Let_def split: sum.splits if_splits)
  with Inl assms show thesis by (auto simp: fee_loop.simps [of L pp utxos P "Suc n" fee] is_rejected_def)
next
  case (Inr q)
  obtain chosen eff change where q: "q = (chosen, eff, change)" by (cases q)
  note b = Inr [unfolded q]
  show thesis
  proof (cases "assemble_and_sign L chosen (payment_outputs P change) eff (py_network_id P)
      (py_ttl P) (py_aux P) (py_secret P)")
    case (Inl e)
    with assemble_error [OF Inl] b assms show thesis
      by (simp add: fee_loop.simps [of L pp utxos P "Suc n" fee])
  next
    case (Inr built)
    with b assms show thesis
      by (intro that [OF b Inr])
         (auto simp: fee_loop.simps [of L pp utxos P "Suc n" fee] Let_def split: if_splits)
  qed
qed

lemma fee_loop_converges_from:
  assumes "sizes_within L utxos P F s d" and "total utxos < 2 ^ 64 - 1"
    and "unat (pp_fee_constant pp) + unat (pp_fee_coefficient_per_byte pp) * (s + d + 4) \<le> F" and "F < 2 ^ 64"
    and "s + d + 4 < 2 ^ 64" and "m \<le> s + d" "s + d - m < n"
  shows "fee_loop L pp utxos P n (min_fee pp (of_nat m + FEE_SIZE_MARGIN)) \<noteq> no_convergence"
  using assms(6,7)
proof (induction n arbitrary: m)
  case (Suc n)
  have top: "unat (pp_fee_constant pp) + unat (pp_fee_coefficient_per_byte pp) * (s + d + 4) < 2 ^ 64"
    using assms(3,4) by simp
  have "unat (pp_fee_coefficient_per_byte pp) * (m + 4) \<le> unat (pp_fee_coefficient_per_byte pp) * (s + d + 4)"
    using Suc.prems(1) by simp
  then have F: "unat (min_fee pp (of_nat m + FEE_SIZE_MARGIN)) \<le> F"
    using unat_min_fee [OF top Suc.prems(1) assms(5)] assms(3) by linarith
  show ?case
  proof
    assume "fee_loop L pp utxos P (Suc n) (min_fee pp (of_nat m + FEE_SIZE_MARGIN)) = no_convergence"
    then obtain chosen eff change built where
      b: "balance utxos P (min_fee pp (of_nat m + FEE_SIZE_MARGIN)) = Inr (chosen, eff, change)" and
      a: "assemble_and_sign L chosen (payment_outputs P change) eff (py_network_id P) (py_ttl P) (py_aux P)
        (py_secret P) = Inr built" and
      r: "\<not> min_fee pp (of_nat (length (bt_cbor built)) + FEE_SIZE_MARGIN) \<le> eff"
        "fee_loop L pp utxos P n (min_fee pp (of_nat (length (bt_cbor built)) + FEE_SIZE_MARGIN)) = no_convergence"
      by (rule fee_loop_round)
    have k: "length (bt_cbor built) \<le> s + d" using assms(1) F b a unfolding sizes_within_def by blast
    have "min_fee pp (of_nat m + FEE_SIZE_MARGIN) \<le> eff"
      using balance_ok(3) [OF b assms(2)] by (simp add: word_le_nat_alt)
    from min_fee_strict [OF r(1) this top k Suc.prems(1) assms(5)] Suc.prems(2) k
    have "s + d - length (bt_cbor built) < n" by linarith
    from Suc.IH [OF k this] r(2) show False by simp
  qed
qed simp

lemma fee_loop_converges:
  assumes "sizes_within L utxos P F s d" and "total utxos < 2 ^ 64 - 1"
    and "unat (pp_fee_constant pp) + unat (pp_fee_coefficient_per_byte pp) * (s + d + 4) \<le> F" and "F < 2 ^ 64"
    and "s + d + 4 < 2 ^ 64" and "unat fee \<le> F" and "Suc d < n"
  shows "fee_loop L pp utxos P n fee \<noteq> no_convergence"
proof
  obtain n' where n: "n = Suc n'" using assms(7) by (cases n) auto
  assume "fee_loop L pp utxos P n fee = no_convergence"
  then obtain chosen eff change built where
    b: "balance utxos P fee = Inr (chosen, eff, change)" and
    a: "assemble_and_sign L chosen (payment_outputs P change) eff (py_network_id P) (py_ttl P) (py_aux P)
      (py_secret P) = Inr built" and
    r: "fee_loop L pp utxos P n' (min_fee pp (of_nat (length (bt_cbor built)) + FEE_SIZE_MARGIN)) = no_convergence"
    unfolding n by (rule fee_loop_round)
  have k: "s \<le> length (bt_cbor built)" "length (bt_cbor built) \<le> s + d"
    using assms(1,6) b a unfolding sizes_within_def by blast+
  with assms(7) n have "s + d - length (bt_cbor built) < n'" by linarith
  from fee_loop_converges_from [OF assms(1-5) k(2) this] r show False by simp
qed

section \<open>Metadata text: facts\<close>

lemma concat_chunks: "0 < n \<Longrightarrow> concat (chunks n xs) = xs"
proof (induction n xs rule: chunks.induct)
  case (1 n xs)
  then show ?case using chunks.simps [of n xs] by (cases "xs = []") auto
qed

lemma chunks_length: "c \<in> set (chunks n xs) \<Longrightarrow> length c \<le> n"
proof (induction n xs rule: chunks.induct)
  case (1 n xs)
  then show ?case by (cases "n = 0 \<or> xs = []") (auto simp: chunks.simps [of n xs])
qed

lemma chunks_ascii: "is_ascii xs \<Longrightarrow> c \<in> set (chunks n xs) \<Longrightarrow> is_ascii c"
proof (induction n xs rule: chunks.induct)
  case (1 n xs)
  have "is_ascii (take n xs)" "is_ascii (drop n xs)"
    using 1(2) by (auto simp: is_ascii_def list_all_iff dest: in_set_takeD in_set_dropD)
  with 1 show ?case by (cases "n = 0 \<or> xs = []") (auto simp: chunks.simps [of n xs])
qed

text \<open>The text a metadata value carries, and the longest piece of it.\<close>

fun metadatum_texts :: "metadatum \<Rightarrow> string list" where
  "metadatum_texts (MText s) = [s]"
| "metadatum_texts (MArray ms) = concat (map metadatum_texts ms)"
| "metadatum_texts (MMap kvs) = concat (map (\<lambda>(k, v). metadatum_texts k @ metadatum_texts v) kvs)"

lemma text_value_ascii:
  assumes "is_ascii s"
  shows "concat (metadatum_texts (text_value s)) = s"
    and "\<And>c. c \<in> set (metadatum_texts (text_value s)) \<Longrightarrow> length c \<le> METADATUM_VALUE_MAX"
proof -
  have m: "map utf8_lossy (chunks METADATUM_VALUE_MAX s) = chunks METADATUM_VALUE_MAX s"
    using chunks_ascii [OF assms] by (intro map_idI) (auto intro: utf8_lossy_ascii)
  have t: "metadatum_texts (text_value s) =
      (if length s \<le> METADATUM_VALUE_MAX then [s] else chunks METADATUM_VALUE_MAX s)"
    using m by (simp add: text_value_def comp_def concat_map_singleton)
  show "concat (metadatum_texts (text_value s)) = s"
    using t by (simp add: concat_chunks METADATUM_VALUE_MAX_def)
  show "length c \<le> METADATUM_VALUE_MAX" if "c \<in> set (metadatum_texts (text_value s))" for c
    using that t by (auto split: if_splits dest: chunks_length)
qed

end
