(* ===== verification/Ogmios.thy ===== *)
theory Ogmios
  imports Tx
begin

text \<open>
  The Ogmios client (\<open>crates/obp-blockchain/src/cardano/ogmios.rs\<close>). The WebSocket is the
  environment of a call: whether the connection opens, the request goes out and which messages
  arrive before the deadline. Printing requests and decoding answers (\<open>serde_json\<close>) are
  parameters. A call gives its result and the request that may have reached the server.
\<close>

datatype ogmios_error =
    OgConnect string
  | OgTransport string
  | OgProtocol string
  | OgTimeout nat
  | OgRpc int string

text \<open>The \<open>Display\<close> of the error; the deadlines are whole seconds.\<close>

fun show_ogmios_error :: "ogmios_error \<Rightarrow> string" where
  "show_ogmios_error (OgConnect m) = ''connection failed: '' @ m"
| "show_ogmios_error (OgTransport m) = ''transport: '' @ m"
| "show_ogmios_error (OgProtocol m) = ''protocol: '' @ m"
| "show_ogmios_error (OgTimeout s) = ''timeout after '' @ show_nat s @ ''s''"
| "show_ogmios_error (OgRpc code m) = ''rpc error '' @ show_int code @ '': '' @ m"

record chain_point =
  pt_slot :: u64
  pt_id :: string
  pt_height :: "u64 option"

record ogmios_libs =
  og_print :: "json \<Rightarrow> string + string"
  og_envelope :: "string \<Rightarrow> string + json option \<times> (int \<times> string) option"
  og_point :: "json \<Rightarrow> string + chain_point"
  og_show :: "json \<Rightarrow> string"

datatype ws_message = WsText string | WsBinary | WsPing | WsPong | WsFrame | WsClose

record socket_run =
  sk_connect :: "string option"
  sk_send :: "string option"
  sk_stream :: "(string + ws_message) list"
  sk_expired :: bool

record ogmios_client =
  og_url :: string
  og_timeout :: nat

definition DEFAULT_TIMEOUT :: nat where "DEFAULT_TIMEOUT = 15"

definition ogmios_new :: "string \<Rightarrow> ogmios_client" where
  "ogmios_new url = \<lparr>og_url = url, og_timeout = DEFAULT_TIMEOUT\<rparr>"

definition ogmios_with_timeout :: "string \<Rightarrow> nat \<Rightarrow> ogmios_client" where
  "ogmios_with_timeout url t = \<lparr>og_url = url, og_timeout = t\<rparr>"

section \<open>One call\<close>

definition rpc_request :: "string \<Rightarrow> json \<Rightarrow> json" where
  "rpc_request meth params =
     JObj [(''jsonrpc'', JStr ''2.0''), (''method'', JStr meth), (''params'', params), (''id'', JStr ''1'')]"

definition parse_response :: "ogmios_libs \<Rightarrow> string \<Rightarrow> ogmios_error + json" where
  "parse_response L s =
     (case og_envelope L s of
        Inl e \<Rightarrow> Inl (OgProtocol (''response decode: '' @ e))
      | Inr (_, Some (code, message)) \<Rightarrow> Inl (OgRpc code message)
      | Inr (Some v, None) \<Rightarrow> Inr v
      | Inr (None, None) \<Rightarrow> Inl (OgProtocol ''response had neither result nor error''))"

text \<open>The receive loop: the first text is the answer; pings, pongs and binary messages are skipped.\<close>

fun await_response :: "ogmios_libs \<Rightarrow> (string + ws_message) list \<Rightarrow> ogmios_error + json" where
  "await_response L [] = Inl (OgProtocol ''stream ended without response'')"
| "await_response L (m # ms) =
     (case m of
        Inl e \<Rightarrow> Inl (OgTransport e)
      | Inr (WsText s) \<Rightarrow> parse_response L s
      | Inr WsClose \<Rightarrow> Inl (OgProtocol ''server closed before response'')
      | Inr _ \<Rightarrow> await_response L ms)"

text \<open>\<open>OgmiosSession::request\<close> on an open connection; \<open>wait\<close> bounds it.\<close>

definition session_request ::
  "ogmios_libs \<Rightarrow> socket_run \<Rightarrow> string \<Rightarrow> json \<Rightarrow> nat \<Rightarrow> (ogmios_error + json) \<times> string option" where
  "session_request L K meth params wait =
     (case og_print L (rpc_request meth params) of
        Inl e \<Rightarrow> (Inl (OgProtocol (''request encode: '' @ e)), None)
      | Inr payload \<Rightarrow>
          (if sk_expired K then Inl (OgTimeout wait)
           else (case sk_send K of
                   Some e \<Rightarrow> Inl (OgTransport e)
                 | None \<Rightarrow> await_response L (sk_stream K)), Some payload))"

text \<open>\<open>OgmiosClient::call\<close>: a connection of its own, within one deadline.\<close>

definition ogmios_call ::
  "ogmios_libs \<Rightarrow> ogmios_client \<Rightarrow> socket_run \<Rightarrow> string \<Rightarrow> json \<Rightarrow> (ogmios_error + json) \<times> string option" where
  "ogmios_call L C K meth params =
     (case og_print L (rpc_request meth params) of
        Inl e \<Rightarrow> (Inl (OgProtocol (''request encode: '' @ e)), None)
      | Inr payload \<Rightarrow>
          if sk_expired K then (Inl (OgTimeout (og_timeout C)), Some payload)
          else (case sk_connect K of
                  Some e \<Rightarrow> (Inl (OgConnect e), None)
                | None \<Rightarrow>
                    (case sk_send K of
                       Some e \<Rightarrow> Inl (OgTransport e)
                     | None \<Rightarrow> await_response L (sk_stream K), Some payload)))"

section \<open>The queries\<close>

definition query_tip ::
  "ogmios_libs \<Rightarrow> ogmios_client \<Rightarrow> socket_run \<Rightarrow> ogmios_error + chain_point" where
  "query_tip L C K =
     (case fst (ogmios_call L C K ''queryNetwork/tip'' (JObj [])) of
        Inl e \<Rightarrow> Inl e
      | Inr v \<Rightarrow> (case og_point L v of
                    Inl e \<Rightarrow> Inl (OgProtocol (''tip decode: '' @ e))
                  | Inr p \<Rightarrow> Inr p))"

fun short_kind :: "json \<Rightarrow> string" where
  "short_kind JNull = ''null''"
| "short_kind (JBool _) = ''bool''"
| "short_kind (JInt _) = ''number''"
| "short_kind (JFloat _) = ''number''"
| "short_kind (JStr _) = ''string''"
| "short_kind (JArr _) = ''array''"
| "short_kind (JObj _) = ''object''"

definition utxos_at ::
  "ogmios_libs \<Rightarrow> ogmios_client \<Rightarrow> socket_run \<Rightarrow> string \<Rightarrow> ogmios_error + json list" where
  "utxos_at L C K address =
     (case fst (ogmios_call L C K ''queryLedgerState/utxo'' (JObj [(''addresses'', JArr [JStr address])])) of
        Inl e \<Rightarrow> Inl e
      | Inr v \<Rightarrow> (case v of
                    JArr arr \<Rightarrow> Inr arr
                  | other \<Rightarrow> Inl (OgProtocol (''utxo: expected array, got '' @ short_kind other))))"

definition protocol_parameters ::
  "ogmios_libs \<Rightarrow> ogmios_client \<Rightarrow> socket_run \<Rightarrow> ogmios_error + json" where
  "protocol_parameters L C K = fst (ogmios_call L C K ''queryLedgerState/protocolParameters'' (JObj []))"

definition submitted_tx_id :: "json \<Rightarrow> string option" where
  "submitted_tx_id v = Option.bind (jget_opt ''id'' (jget ''transaction'' v)) as_str"

definition submit_transaction ::
  "ogmios_libs \<Rightarrow> ogmios_client \<Rightarrow> socket_run \<Rightarrow> string \<Rightarrow> (ogmios_error + string) \<times> string option" where
  "submit_transaction L C K cbor_hex =
     (case ogmios_call L C K ''submitTransaction''
             (JObj [(''transaction'', JObj [(''cbor'', JStr cbor_hex)])]) of
        (Inl e, sent) \<Rightarrow> (Inl e, sent)
      | (Inr v, sent) \<Rightarrow>
          (ok_or (submitted_tx_id v) (OgProtocol ''submitTransaction: missing transaction.id''), sent))"

section \<open>Facts\<close>

text \<open>An RPC error is the server's own word: a response was decoded that carries it.\<close>

definition answers_rpc :: "ogmios_libs \<Rightarrow> socket_run \<Rightarrow> int \<Rightarrow> string \<Rightarrow> bool" where
  "answers_rpc L K code m \<longleftrightarrow>
     (\<exists>s v. Inr (WsText s) \<in> set (sk_stream K) \<and> og_envelope L s = Inr (v, Some (code, m)))"

lemma parse_response_rpc:
  "parse_response L s = Inl (OgRpc code m) \<Longrightarrow> \<exists>v. og_envelope L s = Inr (v, Some (code, m))"
  by (auto simp: parse_response_def split: sum.splits prod.splits option.splits)

lemma await_response_rpc:
  "await_response L ms = Inl (OgRpc code m) \<Longrightarrow>
   \<exists>s v. Inr (WsText s) \<in> set ms \<and> og_envelope L s = Inr (v, Some (code, m))"
proof (induction ms)
  case (Cons x ms)
  then show ?case
    by (cases x) (auto dest: parse_response_rpc split: ws_message.splits)
qed simp

lemma await_response_answers:
  "await_response L (sk_stream K) = Inl (OgRpc code m) \<Longrightarrow> answers_rpc L K code m"
  unfolding answers_rpc_def by (rule await_response_rpc)

lemma ogmios_call_rpc:
  "ogmios_call L C K meth params = (Inl (OgRpc code m), sent) \<Longrightarrow> answers_rpc L K code m"
  by (auto simp: ogmios_call_def dest: await_response_answers
      split: sum.splits option.splits if_splits)

lemma submit_transaction_rpc:
  "submit_transaction L C K cbor = (Inl (OgRpc code m), sent) \<Longrightarrow> answers_rpc L K code m"
  by (auto simp: submit_transaction_def ok_or_def dest: ogmios_call_rpc
      split: prod.splits sum.splits option.splits)

text \<open>Control frames before the answer do not matter.\<close>

lemma await_skips:
  "list_all (\<lambda>m. m \<in> {Inr WsBinary, Inr WsPing, Inr WsPong, Inr WsFrame}) pre \<Longrightarrow>
   await_response L (pre @ Inr (WsText s) # rest) = parse_response L s"
  by (induction pre) auto

lemma submit_transaction_ok_sent:
  "submit_transaction L C K cbor = (Inr i, sent) \<Longrightarrow>
   \<exists>payload. sent = Some payload \<and> og_print L (rpc_request ''submitTransaction''
     (JObj [(''transaction'', JObj [(''cbor'', JStr cbor)])])) = Inr payload"
  by (auto simp: submit_transaction_def ogmios_call_def split: sum.splits option.splits if_splits prod.splits)

end
