(* ===== verification/Amount.thy ===== *)
theory Amount
  imports Prelude
begin

text \<open>
  \<open>parse_minor_units\<close> of \<open>crates/obp-bank-node/src/interface_c/router.rs\<close>: a decimal amount in
  major units as integer minor units. The result is \<open>None\<close> where the code panics
  (\<open>String::truncate\<close> inside a multi-byte character), otherwise an error or a \<open>u128\<close>.
\<close>

datatype amount_error = EmptyAmount | InvalidAmount string | InvalidFraction string | AmountOverflow

text \<open>
  The \<open>Debug\<close> form of a string, quoted and escaped. (Rust also escapes code points it
  considers unprintable; those above ASCII are left as they are here.)
\<close>

definition debug_char :: "char \<Rightarrow> string" where
  "debug_char c =
     (let b = byte_val c in
      if b = 34 \<or> b = 92 then [byte 92, c]
      else if b = 10 then [byte 92, CHR ''n'']
      else if b = 13 then [byte 92, CHR ''r'']
      else if b = 9 then [byte 92, CHR ''t'']
      else if b = 0 then [byte 92, CHR ''0'']
      else if b < 16 then [byte 92, CHR ''u'', byte 123, hex_digit b, byte 125]
      else if b < 32 \<or> b = 127
        then [byte 92, CHR ''u'', byte 123, hex_digit (b div 16), hex_digit (b mod 16), byte 125]
      else [c])"

definition debug_str :: "string \<Rightarrow> string" where
  "debug_str s = [byte 34] @ concat (map debug_char s) @ [byte 34]"

fun show_amount_error :: "amount_error \<Rightarrow> string" where
  "show_amount_error EmptyAmount = ''empty amount''"
| "show_amount_error (InvalidAmount a) = ''invalid amount: '' @ debug_str a"
| "show_amount_error (InvalidFraction a) = ''invalid amount fraction: '' @ debug_str a"
| "show_amount_error AmountOverflow = ''amount overflow''"

definition pad_zeros :: "nat \<Rightarrow> string \<Rightarrow> string" where
  "pad_zeros width s = s @ replicate (width - length s) (CHR ''0'')"

definition parse_minor_units :: "string \<Rightarrow> nat \<Rightarrow> (amount_error + nat) option" where
  "parse_minor_units text decimals =
     (let amount = trim text;
          (int_part, frac_part) =
            (case split_once (CHR ''.'') amount of None \<Rightarrow> (amount, []) | Some p \<Rightarrow> p)
      in if int_part = [] \<and> frac_part = [] then Some (Inl EmptyAmount)
         else
           (case (if int_part = [] then Some 0 else parse_unsigned 128 int_part) of
              None \<Rightarrow> Some (Inl (InvalidAmount amount))
            | Some int_val \<Rightarrow>
                (case truncate_at frac_part decimals of
                   None \<Rightarrow> None
                 | Some kept \<Rightarrow>
                     let frac = pad_zeros decimals kept in
                     (case (if frac = [] then Some 0 else parse_unsigned 128 frac) of
                        None \<Rightarrow> Some (Inl (InvalidFraction amount))
                      | Some frac_val \<Rightarrow>
                          (case Option.bind (checked_mul 128 int_val (10 ^ decimals))
                                  (\<lambda>v. checked_add 128 v frac_val) of
                             None \<Rightarrow> Some (Inl AmountOverflow)
                           | Some v \<Rightarrow> Some (Inr v))))))"

section \<open>Well-formed amounts\<close>

text \<open>Nothing is trimmed off a text that starts and ends with a digit.\<close>

lemma digit_not_space_head:
  "is_digit c \<Longrightarrow> c \<notin> hd ` (set white_space - {[]})"
  by (auto simp: is_digit_def digit_val_def white_space_def split: if_splits)

lemma digit_not_space_last:
  "is_digit c \<Longrightarrow> c \<notin> hd ` (set (map rev white_space) - {[]})"
  by (auto simp: is_digit_def digit_val_def white_space_def split: if_splits)

lemma trim_digits:
  assumes "s \<noteq> []" "is_digit (hd s)" "is_digit (last s)"
  shows "trim s = s"
proof -
  have "trim_start s = s"
    unfolding trim_start_def using assms by (intro strip_while_id digit_not_space_head)
  moreover have "strip_while (map rev white_space) (rev s) = rev s"
    using assms by (intro strip_while_id digit_not_space_last) (auto simp: hd_rev)
  ultimately show ?thesis by (simp add: trim_def trim_end_def)
qed

lemma dot_not_digit: "list_all is_digit s \<Longrightarrow> CHR ''.'' \<notin> set s"
  by (auto simp: list_all_iff is_digit_def digit_val_def byte_val_def split: if_splits)

lemma is_digit_ascii: "list_all is_digit s \<Longrightarrow> is_ascii s"
  by (auto simp: list_all_iff is_digit_def digit_val_def is_ascii_def split: if_splits)

lemma pad_zeros_digits: "list_all is_digit s \<Longrightarrow> list_all is_digit (pad_zeros w s)"
proof -
  have "is_digit (CHR ''0'')" by (simp add: is_digit_def digit_val_def byte_val_def)
  then show "list_all is_digit s \<Longrightarrow> list_all is_digit (pad_zeros w s)"
    by (auto simp: pad_zeros_def list_all_iff set_replicate_conv_if)
qed

lemma length_pad_zeros: "length s \<le> w \<Longrightarrow> length (pad_zeros w s) = w"
  by (simp add: pad_zeros_def)

lemma digits_val_zeros: "digits_val 0 s = Some v \<Longrightarrow> digits_val 0 (s @ replicate k (CHR ''0'')) = Some (v * 10 ^ k)"
proof (induction k arbitrary: s v)
  case (Suc k)
  have "digit_val (CHR ''0'') = Some 0" by (simp add: digit_val_def byte_val_def)
  with Suc.prems have "digits_val 0 (s @ [CHR ''0'']) = Some (10 * v)" by (simp add: digits_val_append)
  from Suc.IH [OF this] show ?case by (simp add: algebra_simps)
qed simp

text \<open>The fraction, cut or padded to \<open>d\<close> digits, is its value at \<open>d\<close> decimals, rounded down.\<close>

lemma fraction_val:
  assumes "digits_val 0 f = Some v"
  shows "digits_val 0 (pad_zeros d (take d f)) = Some (v * 10 ^ d div 10 ^ length f)"
proof (cases "d \<le> length f")
  case True
  from assms have "digits_val 0 (take d f @ drop d f) = Some v" by simp
  then obtain a b where ab: "digits_val 0 (take d f) = Some a" "b < 10 ^ length (drop d f)"
    "v = a * 10 ^ length (drop d f) + b" by (rule digits_val_split)
  have "(10::nat) ^ length f = 10 ^ length (drop d f) * 10 ^ d"
    using True by (simp flip: power_add)
  then have "v * 10 ^ d div 10 ^ length f = v div 10 ^ length (drop d f)" by simp
  also have "\<dots> = a" using ab(2,3) by simp
  finally show ?thesis using ab(1) True by (simp add: pad_zeros_def)
next
  case False
  then have "10 ^ d = 10 ^ (d - length f) * (10::nat) ^ length f" by (simp flip: power_add)
  then have "v * 10 ^ d div 10 ^ length f = v * 10 ^ (d - length f)" by (simp flip: mult.assoc)
  with False digits_val_zeros [OF assms] show ?thesis by (simp add: pad_zeros_def)
qed

lemma split_once_decimal: "decimal_text s w f \<Longrightarrow> split_once (CHR ''.'') s = (if s = w then None else Some (w, f))"
  using dot_not_digit split_once_first split_once_none by (auto simp: decimal_text_def)

text \<open>
  A decimal amount is its value at \<open>d\<close> decimals, rounded down, when that is a \<open>u128\<close>; and else
  an error.
\<close>

lemma parse_minor_units_decimal:
  assumes s: "decimal_text (trim s) w f" and n: "digits_val 0 (w @ f) = Some n" and d: "d \<le> 38"
  shows "\<exists>e. parse_minor_units s d =
    Some (if n * 10 ^ d div 10 ^ length f < 2 ^ 128 then Inr (n * 10 ^ d div 10 ^ length f) else Inl e)"
proof -
  have digs: "list_all is_digit w" "list_all is_digit f" "w @ f \<noteq> []" using s by (auto simp: decimal_text_def)
  obtain iv v where iv: "digits_val 0 w = Some iv" and v: "digits_val 0 f = Some v" "v < 10 ^ length f"
    and nv: "n = iv * 10 ^ length f + v" using n by (rule digits_val_split)
  define fv where "fv = v * 10 ^ d div 10 ^ length f"
  have "n * 10 ^ d = iv * 10 ^ d * 10 ^ length f + v * 10 ^ d" by (simp add: nv algebra_simps)
  then have total: "n * 10 ^ d div 10 ^ length f = iv * 10 ^ d + fv" by (simp add: fv_def)
  have fval: "digits_val 0 (pad_zeros d (take d f)) = Some fv"
    unfolding fv_def by (rule fraction_val [OF v(1)])
  have len: "length (pad_zeros d (take d f)) = d" by (simp add: length_pad_zeros)
  have "fv < 10 ^ d" using digits_val_bound [OF fval] len by simp
  also have "\<dots> \<le> 10 ^ 38" using d by (intro power_increasing) simp_all
  also have "(10::nat) ^ 38 < 2 ^ 128" by simp
  finally have fv: "fv < 2 ^ 128" .
  have cut: "truncate_at f d = Some (take d f)"
    using is_ascii_boundary [OF is_digit_ascii [OF digs(2)], of d] by (simp add: truncate_at_def)
  have pdigs: "list_all is_digit (pad_zeros d (take d f))"
    using digs(2) by (intro pad_zeros_digits) (auto simp: list_all_iff dest: in_set_takeD)
  have frac: "(if pad_zeros d (take d f) = [] then Some 0 else parse_unsigned 128 (pad_zeros d (take d f))) = Some fv"
    using parse_unsigned_digits [OF pdigs _ fval fv] fval by auto
  have parts: "(case split_once (CHR ''.'') (trim s) of None \<Rightarrow> (trim s, []) | Some p \<Rightarrow> p) = (w, f)"
    using split_once_decimal [OF s] s by (auto simp: decimal_text_def)
  have whole: "(if w = [] then Some 0 else parse_unsigned 128 w) = (if iv < 2 ^ 128 then Some iv else None)"
  proof (cases "w = []")
    case False
    then obtain c r where w: "w = c # r" by (cases w) auto
    with digs(1) have "c \<noteq> CHR ''+''" by (simp add: is_digit_not_plus)
    with w iv show ?thesis by (simp add: parse_unsigned_def)
  qed (use iv in simp)
  have big: "iv \<le> iv * 10 ^ d + fv"
  proof -
    have "iv * 1 \<le> iv * 10 ^ d" by (intro mult_left_mono) auto
    then show ?thesis by linarith
  qed
  show ?thesis
    unfolding parse_minor_units_def Let_def parts prod.case total
    using digs(3) whole cut frac big
    by (auto simp: Let_def checked_mul_def checked_add_def)
qed

text \<open>Every accepted amount is a \<open>u128\<close>.\<close>

lemma parse_minor_units_bound:
  "parse_minor_units t d = Some (Inr v) \<Longrightarrow> v < 2 ^ 128"
  by (auto simp: parse_minor_units_def Let_def checked_mul_def checked_add_def
           split: option.splits if_splits prod.splits bind_splits)

text \<open>A negative amount is an error (or never parsed): no digit string starts with a minus sign.\<close>

lemma parse_unsigned_minus: "parse_unsigned bits (CHR ''-'' # s) = None"
  by (simp add: parse_unsigned_def digit_val_def byte_val_def)

text \<open>ASCII amounts never panic.\<close>

lemma split_once_ascii:
  assumes "split_once c s = Some (a, b)" and "is_ascii s"
  shows "is_ascii a \<and> is_ascii b"
proof -
  from assms(1) have ab: "a = takeWhile (\<lambda>x. x \<noteq> c) s" "b = tl (dropWhile (\<lambda>x. x \<noteq> c) s)"
    by (auto simp: split_once_def split: if_splits)
  have "set a \<subseteq> set s" using ab set_takeWhileD by fastforce
  moreover have "set b \<subseteq> set s"
    using ab list.set_sel(2) set_dropWhileD by (metis list.sel(2) subsetI)
  ultimately show ?thesis using assms(2) by (auto simp: is_ascii_def list_all_iff)
qed

text \<open>The one panic: the fraction is cut inside a character.\<close>

lemma parse_minor_units_panics_iff:
  "parse_minor_units s d = None \<longleftrightarrow>
   (\<exists>i f. split_once (CHR ''.'') (trim s) = Some (i, f) \<and> (i = [] \<or> parse_unsigned 128 i \<noteq> None) \<and>
      d < length f \<and> \<not> is_char_boundary f d)"
proof -
  have cut: "truncate_at f d = None \<longleftrightarrow> d < length f \<and> \<not> is_char_boundary f d" for f
    by (simp add: truncate_at_def)
  show ?thesis
  proof (cases "split_once (CHR ''.'') (trim s)")
    case None
    moreover have "truncate_at [] d = Some []" by (simp add: truncate_at_def)
    ultimately show ?thesis
      by (simp add: parse_minor_units_def Let_def split: option.split)
  next
    case (Some p)
    obtain i f where p: "p = (i, f)" by (cases p)
    show ?thesis
    proof (cases "i = []")
      case True
      with Some p cut [of f] show ?thesis
        by (cases "truncate_at f d") (auto simp: parse_minor_units_def Let_def split: option.split)
    next
      case False
      with Some p cut [of f] show ?thesis
        by (cases "parse_unsigned 128 i"; cases "truncate_at f d")
           (auto simp: parse_minor_units_def Let_def split: option.split)
    qed
  qed
qed

end
