(* ===== verification/Follower.thy ===== *)
theory Follower
  imports Ogmios Amount
begin

text \<open>
  The chain-sync follower (\<open>crates/obp-blockchain/src/cardano/follower.rs\<close>): its shared state and
  transitions, the decoding of \<open>nextBlock\<close> answers, a connection's life, and the refinement to
  the chain it has observed. \<open>lc\<close> is \<open>str::to_lowercase\<close>, whose Unicode tables are left out:
  everything here holds for any function in its place.
\<close>

section \<open>State\<close>

definition RECENT_POINTS_CAP :: nat where "RECENT_POINTS_CAP = 32"
definition NEXT_BLOCK_WAIT :: nat where "NEXT_BLOCK_WAIT = 900"
definition CALL_WAIT :: nat where "CALL_WAIT = 15"

datatype watch = WatchPending | Included u64 u64

record point =
  fp_slot :: u64
  fp_id :: string

record follower =
  fo_tip :: "u64 option"
  fo_watched :: "string \<rightharpoonup> watch"
  fo_recent :: "point list"

record block =
  bl_id :: string
  bl_slot :: u64
  bl_height :: u64
  bl_tx_ids :: "string list"

datatype sync_step = Forward block | Backward "u64 option"

definition follower_start :: follower where
  "follower_start = \<lparr>fo_tip = None, fo_watched = Map.empty, fo_recent = []\<rparr>"

section \<open>Transitions\<close>

definition follower_watch :: "(string \<Rightarrow> string) \<Rightarrow> string \<Rightarrow> follower \<Rightarrow> follower" where
  "follower_watch lc txid s = s\<lparr>fo_watched :=
     (case fo_watched s (lc txid) of
        None \<Rightarrow> (fo_watched s)(lc txid \<mapsto> WatchPending)
      | Some _ \<Rightarrow> fo_watched s)\<rparr>"

definition follower_unwatch :: "(string \<Rightarrow> string) \<Rightarrow> string \<Rightarrow> follower \<Rightarrow> follower" where
  "follower_unwatch lc txid s = s\<lparr>fo_watched := (fo_watched s)(lc txid := None)\<rparr>"

fun include_txs ::
  "(string \<Rightarrow> string) \<Rightarrow> watch \<Rightarrow> string list \<Rightarrow> (string \<rightharpoonup> watch) \<Rightarrow> (string \<rightharpoonup> watch)" where
  "include_txs lc w [] m = m"
| "include_txs lc w (i # ids) m =
     include_txs lc w ids (case m (lc i) of None \<Rightarrow> m | Some _ \<Rightarrow> m(lc i \<mapsto> w))"

text \<open>\<open>pop_front\<close> while the queue is longer than its cap.\<close>

definition trim_front :: "nat \<Rightarrow> 'a list \<Rightarrow> 'a list" where
  "trim_front cap xs = drop (length xs - cap) xs"

definition point_of :: "block \<Rightarrow> point" where
  "point_of b = \<lparr>fp_slot = bl_slot b, fp_id = bl_id b\<rparr>"

definition apply_forward :: "(string \<Rightarrow> string) \<Rightarrow> block \<Rightarrow> u64 option \<Rightarrow> follower \<Rightarrow> follower" where
  "apply_forward lc b tip_height s = s
     \<lparr>fo_watched := include_txs lc (Included (bl_height b) (bl_slot b)) (bl_tx_ids b) (fo_watched s),
      fo_recent := trim_front RECENT_POINTS_CAP (fo_recent s @ [point_of b]),
      fo_tip := Some (max (unwrap_or tip_height (bl_height b)) (bl_height b))\<rparr>"

definition rolled_back :: "u64 option \<Rightarrow> u64 \<Rightarrow> bool" where
  "rolled_back rb slot = (case rb of Some c \<Rightarrow> c < slot | None \<Rightarrow> True)"

definition apply_backward :: "u64 option \<Rightarrow> u64 option \<Rightarrow> follower \<Rightarrow> follower" where
  "apply_backward rb tip_height s = s
     \<lparr>fo_watched := (\<lambda>k. case fo_watched s k of
        Some (Included h slot) \<Rightarrow> if rolled_back rb slot then Some WatchPending else Some (Included h slot)
      | w \<Rightarrow> w),
      fo_recent := filter (\<lambda>p. case rb of None \<Rightarrow> False | Some c \<Rightarrow> fp_slot p \<le> c) (fo_recent s),
      fo_tip := (if tip_height \<noteq> None then tip_height else fo_tip s)\<rparr>"

text \<open>\<open>u32\<close> depth of a block of height \<open>h\<close> under the last known tip.\<close>

definition depth_of :: "u64 option \<Rightarrow> u64 \<Rightarrow> nat" where
  "depth_of tip_height h = min (unat (max (unwrap_or tip_height h) h - h + 1)) (2 ^ 32 - 1)"

definition follower_status ::
  "(string \<Rightarrow> string) \<Rightarrow> follower \<Rightarrow> string \<Rightarrow> confirmation_status option" where
  "follower_status lc s txid =
     (case fo_watched s (lc txid) of
        None \<Rightarrow> None
      | Some WatchPending \<Rightarrow> Some ConfPending
      | Some (Included h slot) \<Rightarrow> Some (Confirmed (depth_of (fo_tip s) h)))"

definition intersection_points :: "follower \<Rightarrow> point list" where
  "intersection_points s = rev (fo_recent s)"

section \<open>Decoding\<close>

definition parse_tip_height :: "json \<Rightarrow> u64 option" where
  "parse_tip_height v = Option.bind (jget_opt ''height'' (jget ''tip'' v)) as_word"

definition parse_block :: "json \<Rightarrow> string + sync_step" where
  "parse_block bl =
     (case Option.bind (jget ''id'' bl) as_str of
        None \<Rightarrow> Inl ''block missing id''
      | Some i \<Rightarrow>
          (case Option.bind (jget ''slot'' bl) as_word of
             None \<Rightarrow> Inl ''block missing slot''
           | Some slot \<Rightarrow>
               (case Option.bind (jget ''height'' bl) as_word of
                  None \<Rightarrow> Inl ''block missing height''
                | Some h \<Rightarrow>
                    Inr (Forward \<lparr>bl_id = i, bl_slot = slot, bl_height = h,
                      bl_tx_ids = unwrap_or (map_option
                        (List.map_filter (\<lambda>t. Option.bind (jget ''id'' t) as_str))
                        (Option.bind (jget ''transactions'' bl) as_array)) []\<rparr>))))"

definition parse_point :: "json \<Rightarrow> string + sync_step" where
  "parse_point p =
     (if p = JStr ''origin'' then Inr (Backward None)
      else (case Option.bind (jget ''slot'' p) as_word of
              None \<Rightarrow> Inl ''backward point missing slot''
            | Some slot \<Rightarrow> Inr (Backward (Some slot))))"

definition parse_step :: "json \<Rightarrow> string + sync_step" where
  "parse_step v =
     (case Option.bind (jget ''direction'' v) as_str of
        None \<Rightarrow> Inl ''unknown direction None''
      | Some d \<Rightarrow>
          if d = ''forward'' then
            (case jget ''block'' v of None \<Rightarrow> Inl ''forward without block'' | Some bl \<Rightarrow> parse_block bl)
          else if d = ''backward'' then
            (case jget ''point'' v of None \<Rightarrow> Inl ''backward without point'' | Some p \<Rightarrow> parse_point p)
          else Inl (''unknown direction Some('' @ debug_str d @ '')''))"

section \<open>A connection\<close>

record session_env =
  se_connect :: "string option"
  se_tip :: socket_run
  se_intersect :: socket_run
  se_blocks :: "socket_run list"

definition follow_response :: "(string \<Rightarrow> string) \<Rightarrow> json \<Rightarrow> follower \<Rightarrow> follower" where
  "follow_response lc v s =
     (case parse_step v of
        Inr (Forward b) \<Rightarrow> apply_forward lc b (parse_tip_height v) s
      | Inr (Backward rb) \<Rightarrow> apply_backward rb (parse_tip_height v) s
      | Inl e \<Rightarrow> s)"

text \<open>\<open>nextBlock\<close> until the connection errors; \<open>None\<close>: it is still up after the runs given.\<close>

fun follow_blocks ::
  "ogmios_libs \<Rightarrow> (string \<Rightarrow> string) \<Rightarrow> socket_run list \<Rightarrow> follower \<Rightarrow> ogmios_error option \<times> follower" where
  "follow_blocks L lc [] s = (None, s)"
| "follow_blocks L lc (K # Ks) s =
     (case fst (session_request L K ''nextBlock'' (JObj []) NEXT_BLOCK_WAIT) of
        Inl e \<Rightarrow> (Some e, s)
      | Inr v \<Rightarrow> follow_blocks L lc Ks (follow_response lc v s))"

definition tip_point :: "ogmios_libs \<Rightarrow> json \<Rightarrow> ogmios_error + point" where
  "tip_point L tip =
     (case (Option.bind (jget ''slot'' tip) as_word, Option.bind (jget ''id'' tip) as_str) of
        (Some slot, Some i) \<Rightarrow> Inr \<lparr>fp_slot = slot, fp_id = i\<rparr>
      | _ \<Rightarrow> Inl (OgProtocol (''tip: unexpected shape '' @ og_show L tip)))"

definition intersection_candidates :: "ogmios_libs \<Rightarrow> socket_run \<Rightarrow> follower \<Rightarrow> ogmios_error + point list" where
  "intersection_candidates L K s =
     (if intersection_points s = []
      then (case fst (session_request L K ''queryNetwork/tip'' (JObj []) CALL_WAIT) of
              Inl e \<Rightarrow> Inl e
            | Inr tip \<Rightarrow> (case tip_point L tip of Inl e \<Rightarrow> Inl e | Inr p \<Rightarrow> Inr [p]))
      else Inr (intersection_points s))"

definition intersection_request :: "point list \<Rightarrow> json" where
  "intersection_request ps = JObj [(''points'', JArr (map (\<lambda>p.
     JObj [(''slot'', JInt (uint (fp_slot p))), (''id'', JStr (fp_id p))]) ps))]"

definition follow ::
  "ogmios_libs \<Rightarrow> (string \<Rightarrow> string) \<Rightarrow> session_env \<Rightarrow> follower \<Rightarrow> ogmios_error option \<times> follower" where
  "follow L lc E s =
     (case se_connect E of
        Some e \<Rightarrow> (Some (OgConnect e), s)
      | None \<Rightarrow>
          (case intersection_candidates L (se_tip E) s of
             Inl e \<Rightarrow> (Some e, s)
           | Inr ps \<Rightarrow>
               (case fst (session_request L (se_intersect E) ''findIntersection'' (intersection_request ps)
                       CALL_WAIT) of
                  Inl e \<Rightarrow> (Some e, s)
                | Inr v \<Rightarrow> follow_blocks L lc (se_blocks E) s)))"

text \<open>The task: one connection after another on the same state.\<close>

fun follow_sessions ::
  "ogmios_libs \<Rightarrow> (string \<Rightarrow> string) \<Rightarrow> session_env list \<Rightarrow> follower \<Rightarrow> follower" where
  "follow_sessions L lc [] s = s"
| "follow_sessions L lc (E # Es) s = follow_sessions L lc Es (snd (follow L lc E s))"

section \<open>The chain that has been observed\<close>

text \<open>
  The specification: the blocks observed so far, oldest first. Where a transaction stands is
  read off the chain.
\<close>

definition tx_keys :: "(string \<Rightarrow> string) \<Rightarrow> block \<Rightarrow> string set" where
  "tx_keys lc b = lc ` set (bl_tx_ids b)"

definition block_of :: "(string \<Rightarrow> string) \<Rightarrow> block list \<Rightarrow> string \<Rightarrow> block option" where
  "block_of lc chain k = find (\<lambda>b. k \<in> tx_keys lc b) chain"

definition watch_of :: "(string \<Rightarrow> string) \<Rightarrow> block list \<Rightarrow> string \<Rightarrow> watch" where
  "watch_of lc chain k =
     (case block_of lc chain k of None \<Rightarrow> WatchPending | Some b \<Rightarrow> Included (bl_height b) (bl_slot b))"

definition kept :: "u64 option \<Rightarrow> block list \<Rightarrow> block list" where
  "kept rb chain = filter (\<lambda>b. \<not> rolled_back rb (bl_slot b)) chain"

text \<open>
  What the ledger guarantees of a block that extends a chain: a later slot, and transactions
  that the chain does not hold yet.
\<close>

definition extends :: "(string \<Rightarrow> string) \<Rightarrow> block list \<Rightarrow> block \<Rightarrow> bool" where
  "extends lc chain b \<longleftrightarrow> (\<forall>c \<in> set chain. bl_slot c < bl_slot b \<and> tx_keys lc c \<inter> tx_keys lc b = {})"

text \<open>
  The steps of follower and chain together. A transaction is watched before it is submitted, so
  a first registration is of one that is not on the chain.
\<close>

inductive sync :: "(string \<Rightarrow> string) \<Rightarrow> block list \<times> follower \<Rightarrow> block list \<times> follower \<Rightarrow> bool"
  for lc :: "string \<Rightarrow> string" where
  sync_forward: "extends lc chain b \<Longrightarrow> sync lc (chain, s) (chain @ [b], apply_forward lc b tip s)"
| sync_backward: "sync lc (chain, s) (kept rb chain, apply_backward rb tip s)"
| sync_watch: "block_of lc chain (lc txid) = None \<or> fo_watched s (lc txid) \<noteq> None \<Longrightarrow>
    sync lc (chain, s) (chain, follower_watch lc txid s)"
| sync_unwatch: "sync lc (chain, s) (chain, follower_unwatch lc txid s)"

inductive_cases syncE: "sync lc (chain, s) (chain', s')"

text \<open>The chain grows and shrinks consistently.\<close>

definition chain_ok :: "(string \<Rightarrow> string) \<Rightarrow> block list \<Rightarrow> bool" where
  "chain_ok lc chain \<longleftrightarrow>
     sorted_wrt (\<lambda>c b. bl_slot c < bl_slot b \<and> tx_keys lc c \<inter> tx_keys lc b = {}) chain"

lemma chain_ok_snoc: "chain_ok lc chain \<Longrightarrow> extends lc chain b \<Longrightarrow> chain_ok lc (chain @ [b])"
  by (auto simp: chain_ok_def extends_def sorted_wrt_append)

lemma chain_ok_kept: "chain_ok lc chain \<Longrightarrow> chain_ok lc (kept rb chain)"
  by (simp add: chain_ok_def kept_def sorted_wrt_filter)

lemma block_of_snoc:
  "block_of lc (chain @ [b]) k =
   (case block_of lc chain k of None \<Rightarrow> if k \<in> tx_keys lc b then Some b else None | Some c \<Rightarrow> Some c)"
  by (induction chain) (auto simp: block_of_def)

lemma block_of_Some: "block_of lc chain k = Some b \<Longrightarrow> b \<in> set chain \<and> k \<in> tx_keys lc b"
  by (auto simp: block_of_def find_Some_iff)

lemma block_of_None: "block_of lc chain k = None \<longleftrightarrow> (\<forall>b \<in> set chain. k \<notin> tx_keys lc b)"
  by (auto simp: block_of_def find_None_iff)

lemma block_of_unique:
  "chain_ok lc chain \<Longrightarrow> b \<in> set chain \<Longrightarrow> k \<in> tx_keys lc b \<Longrightarrow> block_of lc chain k = Some b"
  by (induction chain) (auto simp: block_of_def chain_ok_def)

lemma block_of_kept:
  assumes "chain_ok lc chain"
  shows "block_of lc (kept rb chain) k =
    (case block_of lc chain k of None \<Rightarrow> None
     | Some b \<Rightarrow> if rolled_back rb (bl_slot b) then None else Some b)"
proof (cases "block_of lc chain k")
  case None
  then have "block_of lc (kept rb chain) k = None" by (auto simp: block_of_None kept_def)
  with None show ?thesis by simp
next
  case (Some b)
  note b = block_of_Some [OF Some]
  have only: "c = b" if "c \<in> set chain" "k \<in> tx_keys lc c" for c
    using block_of_unique [OF assms that] Some by simp
  show ?thesis
  proof (cases "rolled_back rb (bl_slot b)")
    case True
    with Some only show ?thesis by (auto simp: block_of_None kept_def)
  next
    case False
    with b have "b \<in> set (kept rb chain)" by (simp add: kept_def)
    with block_of_unique [OF chain_ok_kept [OF assms] this] b Some False show ?thesis by simp
  qed
qed

lemma include_txs_find:
  "include_txs lc w ids m k =
   (case m k of None \<Rightarrow> None | Some v \<Rightarrow> Some (if k \<in> lc ` set ids then w else v))"
  by (induction lc w ids m rule: include_txs.induct) (auto split: option.splits)

text \<open>The refinement relation.\<close>

definition follows :: "(string \<Rightarrow> string) \<Rightarrow> block list \<times> follower \<Rightarrow> bool" where
  "follows lc cs \<longleftrightarrow> (case cs of (chain, s) \<Rightarrow>
     chain_ok lc chain \<and>
     (\<forall>k w. fo_watched s k = Some w \<longrightarrow> w = watch_of lc chain k) \<and>
     (\<exists>old. map point_of chain = old @ fo_recent s) \<and> length (fo_recent s) \<le> RECENT_POINTS_CAP)"

lemma follows_start: "follows lc ([], follower_start)"
  by (simp add: follows_def follower_start_def chain_ok_def)

lemma trim_front_suffix: "\<exists>old. xs = old @ trim_front n xs"
  by (metis append_take_drop_id trim_front_def)

lemma length_trim_front: "length (trim_front n xs) \<le> n"
  by (simp add: trim_front_def)

lemma follows_forward:
  assumes "follows lc (chain, s)" and "extends lc chain b"
  shows "follows lc (chain @ [b], apply_forward lc b tip s)"
proof -
  from assms obtain old where f: "chain_ok lc chain" "map point_of chain = old @ fo_recent s"
    "\<And>k w. fo_watched s k = Some w \<Longrightarrow> w = watch_of lc chain k"
    by (auto simp: follows_def)
  have new: "watch_of lc (chain @ [b]) k =
      (if k \<in> tx_keys lc b then Included (bl_height b) (bl_slot b) else watch_of lc chain k)" for k
    using assms(2) block_of_Some [of lc chain k]
    by (fastforce simp: watch_of_def block_of_snoc extends_def split: option.splits)
  obtain old2 where "fo_recent s @ [point_of b] =
      old2 @ trim_front RECENT_POINTS_CAP (fo_recent s @ [point_of b])"
    using trim_front_suffix by blast
  then have "map point_of (chain @ [b]) =
      (old @ old2) @ trim_front RECENT_POINTS_CAP (fo_recent s @ [point_of b])"
    using f(2) by simp
  moreover have "w = watch_of lc (chain @ [b]) k"
    if "fo_watched (apply_forward lc b tip s) k = Some w" for k w
    using that f(3) [of k]
    by (auto simp: new apply_forward_def include_txs_find tx_keys_def split: option.splits)
  ultimately show ?thesis
    using chain_ok_snoc [OF f(1) assms(2)] length_trim_front
    by (fastforce simp: follows_def apply_forward_def)
qed

lemma kept_points:
  "filter (\<lambda>p. case rb of None \<Rightarrow> False | Some c \<Rightarrow> fp_slot p \<le> c) (map point_of chain) =
   map point_of (kept rb chain)"
  by (induction chain) (auto simp: kept_def rolled_back_def point_of_def split: option.splits)

lemma follows_backward:
  assumes "follows lc (chain, s)"
  shows "follows lc (kept rb chain, apply_backward rb tip s)"
proof -
  from assms obtain old where f: "chain_ok lc chain" "map point_of chain = old @ fo_recent s"
    "\<And>k w. fo_watched s k = Some w \<Longrightarrow> w = watch_of lc chain k" "length (fo_recent s) \<le> RECENT_POINTS_CAP"
    by (auto simp: follows_def)
  let ?keep = "\<lambda>p. case rb of None \<Rightarrow> False | Some c \<Rightarrow> fp_slot p \<le> c"
  have "map point_of (kept rb chain) = filter ?keep old @ filter ?keep (fo_recent s)"
    unfolding kept_points [symmetric] f(2) by simp
  moreover have "length (filter ?keep (fo_recent s)) \<le> RECENT_POINTS_CAP"
    using f(4) length_filter_le [of ?keep "fo_recent s"] by linarith
  moreover have "w = watch_of lc (kept rb chain) k"
    if "fo_watched (apply_backward rb tip s) k = Some w" for k w
    using that f(3) [of k]
    by (auto simp: apply_backward_def watch_of_def block_of_kept [OF f(1)]
        split: option.splits watch.splits if_splits)
  ultimately show ?thesis using chain_ok_kept [OF f(1)] by (auto simp: follows_def apply_backward_def)
qed

lemma sync_follows: "sync lc (chain, s) (chain', s') \<Longrightarrow> follows lc (chain, s) \<Longrightarrow> follows lc (chain', s')"
proof (erule syncE)
  fix b tip
  assume "follows lc (chain, s)" "chain' = chain @ [b]" "s' = apply_forward lc b tip s" "extends lc chain b"
  then show "follows lc (chain', s')" using follows_forward by simp
next
  fix rb tip
  assume "follows lc (chain, s)" "chain' = kept rb chain" "s' = apply_backward rb tip s"
  then show "follows lc (chain', s')" using follows_backward by simp
qed (auto simp: follows_def follower_watch_def follower_unwatch_def watch_of_def split: option.splits if_splits)

lemma syncs_follow:
  assumes "(sync lc)\<^sup>*\<^sup>* ([], follower_start) (chain, s)"
  shows "follows lc (chain, s)"
proof -
  have "follows lc p" if "(sync lc)\<^sup>*\<^sup>* ([], follower_start) p" for p
    using that
  proof (induction rule: rtranclp_induct)
    case base
    show ?case by (rule follows_start)
  next
    case (step p q)
    then show ?case using sync_follows [of lc "fst p" "snd p" "fst q" "snd q"] by simp
  qed
  with assms show ?thesis by blast
qed

text \<open>What \<open>status\<close> answers.\<close>

lemma status_of_chain:
  assumes "follows lc (chain, s)"
  shows "follower_status lc s txid =
    (if fo_watched s (lc txid) = None then None
     else Some (case block_of lc chain (lc txid) of
                  None \<Rightarrow> ConfPending | Some b \<Rightarrow> Confirmed (depth_of (fo_tip s) (bl_height b))))"
proof -
  have "fo_watched s (lc txid) = Some w \<Longrightarrow> w = watch_of lc chain (lc txid)" for w
    using assms by (auto simp: follows_def)
  then show ?thesis
    by (cases "fo_watched s (lc txid)") (auto simp: follower_status_def watch_of_def split: option.splits)
qed

lemma depth_of_caught_up:
  assumes "unat h + n = unat t" and "unat t < 2 ^ 64 - 1"
  shows "depth_of (Some t) h = min (n + 1) (2 ^ 32 - 1)"
proof -
  have "h \<le> t" using assms(1) by (simp add: word_le_nat_alt)
  moreover have "unat (t - h) = n" using assms(1) \<open>h \<le> t\<close> by (simp add: unat_sub)
  moreover from this assms have "unat (t - h + 1) = n + 1"
    by (subst unat_add_small) auto
  ultimately show ?thesis by (simp add: depth_of_def max_def)
qed

section \<open>The protocol keeps to the chain\<close>

text \<open>An answer of a server that keeps to the ledger's rules is a step on the chain.\<close>

lemma follow_response_sync:
  assumes "\<And>b. parse_step v = Inr (Forward b) \<Longrightarrow> extends lc chain b"
  shows "\<exists>chain'. (sync lc)\<^sup>*\<^sup>* (chain, s) (chain', follow_response lc v s)"
proof (cases "parse_step v")
  case (Inl e)
  then show ?thesis by (auto simp: follow_response_def)
next
  case (Inr st)
  then show ?thesis
    using sync_forward [of lc chain _ s "parse_tip_height v"] sync_backward [of lc chain s _ "parse_tip_height v"]
      assms by (cases st) (auto simp: follow_response_def intro!: r_into_rtranclp)
qed

text \<open>
  The points offered on reconnect are the remembered ones as long as there is one; when the server
  knows none of them, every further connection offers the same points again.
\<close>

definition refuses_points :: "ogmios_libs \<Rightarrow> follower \<Rightarrow> session_env \<Rightarrow> bool" where
  "refuses_points L s E \<longleftrightarrow> se_connect E \<noteq> None \<or>
     (\<exists>e. fst (session_request L (se_intersect E) ''findIntersection''
        (intersection_request (intersection_points s)) CALL_WAIT) = Inl e)"

lemma follow_refused:
  assumes "fo_recent s \<noteq> []" and "refuses_points L s E"
  shows "snd (follow L lc E s) = s"
  using assms by (auto simp: refuses_points_def follow_def intersection_candidates_def
      intersection_points_def split: option.splits sum.splits)

lemma follow_sessions_stuck:
  assumes "fo_recent s \<noteq> []" and "list_all (refuses_points L s) Es"
  shows "follow_sessions L lc Es s = s"
  using assms by (induction Es) (simp_all add: follow_refused)

end
