(* ===== verification/Wallet.thy ===== *)
theory Wallet
  imports Prelude "HOL-Library.Word"
begin

unbundle bit_operations_syntax

text \<open>
  Loading the wallet (\<open>crates/obp-blockchain/src/cardano/wallet.rs\<close>): the key envelope, the CBOR
  byte string in it, the seed and the address. The hex decoder, the envelope's derived
  deserializer, the key derivation and the bech32 encoder are parameters.
\<close>

datatype wallet_error =
    WalletIo string string
  | WalletParse string string
  | UnknownNetwork string
  | AddressEncoding string

fun show_wallet_error :: "wallet_error \<Rightarrow> string" where
  "show_wallet_error (WalletIo path e) = ''reading '' @ path @ '': '' @ e"
| "show_wallet_error (WalletParse path m) = ''parsing '' @ path @ '': '' @ m"
| "show_wallet_error (UnknownNetwork n) =
     ''unknown network '' @ [CHR 0x27] @ n @ [CHR 0x27] @ '' (expected mainnet, preprod, or preview)''"
| "show_wallet_error (AddressEncoding e) = ''address encoding failed: '' @ e"

record key_envelope =
  ke_key_type :: string
  ke_cbor_hex :: string

record wallet =
  wa_address :: string
  wa_signing_key :: string
  wa_verifying_key :: string

datatype ledger_network = Mainnet | Testnet

record wallet_libs =
  wl_envelope :: "string \<Rightarrow> string + key_envelope"
  wl_hex :: "string \<Rightarrow> string + string"
  wl_verifying_key :: "string \<Rightarrow> string"
  wl_bech32 :: "ledger_network \<Rightarrow> string \<Rightarrow> string + string"

section \<open>The CBOR byte string\<close>

text \<open>A definite-length byte string with a length of at most two bytes; what follows it is ignored.\<close>

definition cbor_header :: "string \<Rightarrow> string + nat \<times> nat" where
  "cbor_header bytes =
     (let info = byte_val (hd bytes) AND 0x1f
      in if info \<le> 23 then Inr (info, 1)
         else if info = 24 then
           (if length bytes < 2 then Inl ''truncated 1-byte length'' else Inr (byte_val (bytes ! 1), 2))
         else if info = 25 then
           (if length bytes < 3 then Inl ''truncated 2-byte length''
            else Inr (256 * byte_val (bytes ! 1) + byte_val (bytes ! 2), 3))
         else Inl (''unsupported CBOR length encoding (additional info '' @ show_nat info @ '')''))"

definition decode_cbor_byte_string :: "wallet_libs \<Rightarrow> string \<Rightarrow> string + string" where
  "decode_cbor_byte_string L cbor_hex =
     (case wl_hex L cbor_hex of
        Inl e \<Rightarrow> Inl (''bad hex: '' @ e)
      | Inr bytes \<Rightarrow>
          if bytes = [] then Inl ''empty CBOR payload''
          else if byte_val (hd bytes) AND 0xe0 \<noteq> 0x40 then
            Inl (''CBOR major type 2 (byte string) expected, got first byte 0x''
                 @ [hex_digit (byte_val (hd bytes) div 16), hex_digit (byte_val (hd bytes) mod 16)])
          else
            (case cbor_header bytes of
               Inl e \<Rightarrow> Inl e
             | Inr (n, start) \<Rightarrow>
                 if length bytes < start + n then
                   Inl (''truncated payload: header says '' @ show_nat n @ '' bytes, only ''
                        @ show_nat (length bytes - start) @ '' available'')
                 else Inr (take n (drop start bytes))))"

section \<open>The wallet\<close>

definition load_key_envelope_payload ::
  "wallet_libs \<Rightarrow> string \<Rightarrow> string + string \<Rightarrow> string option \<Rightarrow> wallet_error + string" where
  "load_key_envelope_payload L path file keyword =
     (case file of
        Inl e \<Rightarrow> Inl (WalletIo path e)
      | Inr contents \<Rightarrow>
          (case wl_envelope L contents of
             Inl e \<Rightarrow> Inl (WalletParse path (''not a valid key envelope: '' @ e))
           | Inr env \<Rightarrow>
               (case filter_opt (\<lambda>want. find_at want (ke_key_type env) = None) keyword of
                  Some want \<Rightarrow>
                    Inl (WalletParse path (''expected type containing '' @ [CHR 0x27] @ want @ [CHR 0x27]
                         @ '', got '' @ [CHR 0x27] @ ke_key_type env @ [CHR 0x27]))
                | None \<Rightarrow>
                    (case decode_cbor_byte_string L (ke_cbor_hex env) of
                       Inl m \<Rightarrow> Inl (WalletParse path m)
                     | Inr payload \<Rightarrow> Inr payload))))"

definition enterprise_address :: "wallet_libs \<Rightarrow> string \<Rightarrow> string \<Rightarrow> wallet_error + string" where
  "enterprise_address L vkey network =
     (let encode = (\<lambda>net. case wl_bech32 L net vkey of Inl e \<Rightarrow> Inl (AddressEncoding e) | Inr a \<Rightarrow> Inr a)
      in if network = ''mainnet'' then encode Mainnet
         else if network = ''preprod'' \<or> network = ''preview'' then encode Testnet
         else Inl (UnknownNetwork network))"

definition wallet_load :: "wallet_libs \<Rightarrow> string \<Rightarrow> string + string \<Rightarrow> string \<Rightarrow> wallet_error + wallet" where
  "wallet_load L path file network =
     (case load_key_envelope_payload L path file (Some ''Signing'') of
        Inl e \<Rightarrow> Inl e
      | Inr seed \<Rightarrow>
          if length seed \<noteq> 32
          then Inl (WalletParse path (''expected 32-byte seed, got '' @ show_nat (length seed) @ '' bytes''))
          else
            (case enterprise_address L (wl_verifying_key L seed) network of
               Inl e \<Rightarrow> Inl e
             | Inr address \<Rightarrow>
                 Inr \<lparr>wa_address = address, wa_signing_key = seed,
                      wa_verifying_key = wl_verifying_key L seed\<rparr>))"

section \<open>Facts\<close>

text \<open>The encoder of CBOR's definite-length byte strings (RFC 8949), shortest form.\<close>

definition cbor_byte_string :: "string \<Rightarrow> string" where
  "cbor_byte_string bs =
     (let n = length bs
      in if n < 24 then byte (64 + n) # bs
         else if n < 256 then byte 0x58 # byte n # bs
         else byte 0x59 # byte (n div 256) # byte (n mod 256) # bs)"

lemma major_type_short: "n < 24 \<Longrightarrow> (64 + n) AND 224 = (64 :: nat) \<and> (64 + n) AND 31 = n"
proof -
  assume n: "n < 24"
  have "\<forall>m \<in> set [0..<24]. (64 + m) AND 224 = (64 :: nat) \<and> (64 + m) AND 31 = m" by code_simp
  with n show ?thesis by simp
qed

lemma decode_cbor_roundtrip:
  assumes "length bs < 65536" and "wl_hex L h = Inr (cbor_byte_string bs @ rest)"
  shows "decode_cbor_byte_string L h = Inr bs"
proof -
  let ?n = "length bs"
  consider "?n < 24" | "24 \<le> ?n" "?n < 256" | "256 \<le> ?n" by linarith
  then show ?thesis
  proof cases
    case 1
    with assms(2) major_type_short [OF 1] show ?thesis
      by (simp add: decode_cbor_byte_string_def cbor_header_def cbor_byte_string_def)
  next
    case 2
    with assms(2) show ?thesis
      by (simp add: decode_cbor_byte_string_def cbor_header_def cbor_byte_string_def)
  next
    case 3
    have "?n div 256 < 256" using assms(1) by simp
    moreover have "cbor_byte_string bs = byte 89 # byte (?n div 256) # byte (?n mod 256) # bs"
      using 3 by (simp add: cbor_byte_string_def Let_def)
    ultimately show ?thesis using assms(2)
      by (simp add: decode_cbor_byte_string_def cbor_header_def)
  qed
qed

text \<open>What a loaded wallet is: a 32-byte seed and the address of its verification key.\<close>

lemma wallet_load_ok:
  assumes "wallet_load L path file network = Inr w"
  shows "length (wa_signing_key w) = 32 \<and> wa_verifying_key w = wl_verifying_key L (wa_signing_key w) \<and>
    network \<in> {''mainnet'', ''preprod'', ''preview''} \<and>
    wl_bech32 L (if network = ''mainnet'' then Mainnet else Testnet) (wa_verifying_key w) =
      Inr (wa_address w)"
  using assms
  by (auto simp: wallet_load_def enterprise_address_def Let_def split: sum.splits if_splits)

end
