(* ===== verification/Settlement_Store.thy ===== *)
theory Settlement_Store
  imports Sql_Table
begin

text \<open>
  The durable settlement state (\<open>crates/obp-bank-node/src/settlement_store.rs\<close>): claim before
  pay, retryable and sticky errors, submitted and final. Amounts are \<open>u128\<close> minor units kept
  as decimal text. The backend's FX quote is the record of
  \<open>crates/obp-blockchain/src/settlement.rs\<close>, whose time stamp is kept as the text the store
  writes.
\<close>

section \<open>Rows\<close>

datatype settlement_status = SETTLING | SETTLE_SUBMITTED | FINAL | ERROR

text \<open>The stored text of a status.\<close>

fun show_settlement_status :: "settlement_status \<Rightarrow> string" where
  "show_settlement_status SETTLING = ''SETTLING''"
| "show_settlement_status SETTLE_SUBMITTED = ''SUBMITTED''"
| "show_settlement_status FINAL = ''FINAL''"
| "show_settlement_status ERROR = ''ERROR''"

record fx_quote =
  fx_asset :: string
  fx_currency :: string
  fx_minor_per_whole :: nat
  fx_as_of_text :: string
  fx_quote_source :: string

record settlement_row =
  sr_idempotency_key :: string
  sr_settlement_id :: "string option"
  sr_snapshot_id :: "string option"
  sr_currency :: string
  sr_net_amount_minor :: string
  sr_creditor_address :: string
  sr_status :: settlement_status
  sr_tx_id :: "string option"
  sr_blockchain :: "string option"
  sr_asset :: "string option"
  sr_asset_amount :: "string option"
  sr_fx_minor_per_whole_asset :: "string option"
  sr_fx_source :: "string option"
  sr_fx_as_of :: "string option"
  sr_last_depth :: nat
  sr_error_reason :: "string option"
  sr_retryable :: bool
  sr_created_at :: string
  sr_updated_at :: string
  sr_finalized_at :: "string option"
  sr_purpose :: "string option"

record new_claim =
  nc_idempotency_key :: string
  nc_settlement_id :: "string option"
  nc_snapshot_id :: "string option"
  nc_currency :: string
  nc_net_amount_minor :: nat
  nc_creditor_address :: string
  nc_purpose :: "string option"

datatype claim = Claimed | Existing settlement_row

type_synonym settlements = "settlement_row tbl"

section \<open>Operations\<close>

definition settlement_row_of :: "string \<Rightarrow> new_claim \<Rightarrow> settlement_row" where
  "settlement_row_of now c =
     \<lparr>sr_idempotency_key = nc_idempotency_key c,
      sr_settlement_id = nc_settlement_id c,
      sr_snapshot_id = nc_snapshot_id c,
      sr_currency = nc_currency c,
      sr_net_amount_minor = show_nat (nc_net_amount_minor c),
      sr_creditor_address = nc_creditor_address c,
      sr_status = SETTLING,
      sr_tx_id = None, sr_blockchain = None, sr_asset = None, sr_asset_amount = None,
      sr_fx_minor_per_whole_asset = None, sr_fx_source = None, sr_fx_as_of = None,
      sr_last_depth = 0, sr_error_reason = None, sr_retryable = False,
      sr_created_at = now, sr_updated_at = now, sr_finalized_at = None,
      sr_purpose = nc_purpose c\<rparr>"

definition store_get :: "dbcall \<Rightarrow> string \<Rightarrow> settlements \<Rightarrow> settlement_row option db_result" where
  "store_get c k t = run_query c (sql_find sr_idempotency_key k) t"

text \<open>
  \<open>claim\<close>: \<open>INSERT OR IGNORE\<close>, and when no row went in, a second statement reads the one that is
  there. The two statements have calls of their own.
\<close>

fun store_claim ::
  "dbcall \<Rightarrow> dbcall \<Rightarrow> new_claim \<Rightarrow> settlements \<Rightarrow> claim db_result \<times> settlements" where
  "store_claim (Fails e) c2 n t = (Inl (Db (Driver e)), t)"
| "store_claim (Runs now) c2 n t =
     (if sql_has_key sr_idempotency_key (nc_idempotency_key n) t
      then (case store_get c2 (nc_idempotency_key n) t of
              Inl e \<Rightarrow> (Inl e, t)
            | Inr None \<Rightarrow> (Inl (Db RowNotFound), t)
            | Inr (Some row) \<Rightarrow> (Inr (Existing row), t))
      else (Inr Claimed, t @ [settlement_row_of now n]))"

text \<open>\<open>reclaim_for_retry\<close>: only a retryable \<open>ERROR\<close> row goes back to \<open>SETTLING\<close>.\<close>

definition can_retry :: "settlement_row \<Rightarrow> bool" where
  "can_retry r \<longleftrightarrow> sr_status r = ERROR \<and> sr_retryable r"

definition store_reclaim_for_retry ::
  "dbcall \<Rightarrow> string \<Rightarrow> settlements \<Rightarrow> unit db_result \<times> settlements" where
  "store_reclaim_for_retry c k t =
     exec_update c (\<lambda>r. sr_idempotency_key r = k \<and> can_retry r)
       (\<lambda>now r. r\<lparr>sr_status := SETTLING, sr_error_reason := None, sr_retryable := False,
                    sr_updated_at := now\<rparr>) t"

definition store_mark_submitted ::
  "dbcall \<Rightarrow> string \<Rightarrow> string \<Rightarrow> string \<Rightarrow> string \<Rightarrow> string \<Rightarrow> fx_quote option \<Rightarrow> settlements
   \<Rightarrow> unit db_result \<times> settlements" where
  "store_mark_submitted c k tx_id chain asset amount fx t =
     exec_update c (\<lambda>r. sr_idempotency_key r = k)
       (\<lambda>now r. r\<lparr>sr_status := SETTLE_SUBMITTED, sr_tx_id := Some tx_id,
                    sr_blockchain := Some chain, sr_asset := Some asset,
                    sr_asset_amount := Some amount,
                    sr_fx_minor_per_whole_asset := map_option (\<lambda>q. show_nat (fx_minor_per_whole q)) fx,
                    sr_fx_source := map_option fx_quote_source fx,
                    sr_fx_as_of := map_option fx_as_of_text fx,
                    sr_updated_at := now\<rparr>) t"

definition store_mark_error ::
  "dbcall \<Rightarrow> string \<Rightarrow> string \<Rightarrow> bool \<Rightarrow> settlements \<Rightarrow> unit db_result \<times> settlements" where
  "store_mark_error c k reason retryable t =
     exec_update c (\<lambda>r. sr_idempotency_key r = k)
       (\<lambda>now r. r\<lparr>sr_status := ERROR, sr_error_reason := Some reason, sr_retryable := retryable,
                    sr_updated_at := now\<rparr>) t"

definition store_record_depth ::
  "dbcall \<Rightarrow> string \<Rightarrow> nat \<Rightarrow> settlements \<Rightarrow> unit db_result \<times> settlements" where
  "store_record_depth c k depth t =
     exec_update c (\<lambda>r. sr_idempotency_key r = k)
       (\<lambda>now r. r\<lparr>sr_last_depth := depth, sr_updated_at := now\<rparr>) t"

definition store_mark_final ::
  "dbcall \<Rightarrow> string \<Rightarrow> nat \<Rightarrow> settlements \<Rightarrow> unit db_result \<times> settlements" where
  "store_mark_final c k depth t =
     exec_update c (\<lambda>r. sr_idempotency_key r = k \<and> sr_status r = SETTLE_SUBMITTED)
       (\<lambda>now r. r\<lparr>sr_status := FINAL, sr_last_depth := depth, sr_finalized_at := Some now,
                    sr_updated_at := now\<rparr>) t"

text \<open>\<open>find\<close>: by key or settlement id, the row with the key first (\<open>ORDER BY (idempotency_key = ?) DESC\<close>).\<close>

definition store_find :: "dbcall \<Rightarrow> string \<Rightarrow> settlements \<Rightarrow> settlement_row option db_result" where
  "store_find c k t =
     run_query c
       (\<lambda>t. let hits = filter (\<lambda>r. sr_idempotency_key r = k \<or> sr_settlement_id r = Some k) t;
                ordered = filter (\<lambda>r. sr_idempotency_key r = k) hits
                        @ filter (\<lambda>r. sr_idempotency_key r \<noteq> k) hits
            in (case ordered of [] \<Rightarrow> None | r # _ \<Rightarrow> Some r)) t"

definition store_list :: "dbcall \<Rightarrow> int \<Rightarrow> settlements \<Rightarrow> settlement_row list db_result" where
  "store_list c limit t = run_query c (\<lambda>t. sql_limit limit (order_desc sr_created_at t)) t"

definition store_list_submitted ::
  "dbcall \<Rightarrow> int \<Rightarrow> settlements \<Rightarrow> settlement_row list db_result" where
  "store_list_submitted c limit t =
     run_query c (\<lambda>t. sql_limit limit (order_asc sr_updated_at
                        (filter (\<lambda>r. sr_status r = SETTLE_SUBMITTED) t))) t"

lemmas store_op_defs =
  store_reclaim_for_retry_def store_mark_submitted_def store_mark_error_def
  store_record_depth_def store_mark_final_def

section \<open>Steps of the store\<close>

inductive store_step :: "settlements \<Rightarrow> settlements \<Rightarrow> bool" where
  step_claim: "store_step t (snd (store_claim c c2 n t))"
| step_reclaim: "store_step t (snd (store_reclaim_for_retry c k t))"
| step_mark_submitted: "store_step t (snd (store_mark_submitted c k tx ch a am fx t))"
| step_mark_error: "store_step t (snd (store_mark_error c k reason b t))"
| step_record_depth: "store_step t (snd (store_record_depth c k d t))"
| step_mark_final: "store_step t (snd (store_mark_final c k d t))"

text \<open>The obligation a row stands for: fixed from the claim on.\<close>

definition obligation_of ::
  "settlement_row \<Rightarrow> string option \<times> string option \<times> string \<times> string \<times> string \<times> string option" where
  "obligation_of r = (sr_settlement_id r, sr_snapshot_id r, sr_currency r, sr_net_amount_minor r,
                      sr_creditor_address r, sr_purpose r)"

abbreviation sr_frame where
  "sr_frame r \<equiv> (sr_idempotency_key r, obligation_of r)"

lemma obligation_of_updates [simp]:
  "obligation_of (r\<lparr>sr_status := a\<rparr>) = obligation_of r"
  "obligation_of (r\<lparr>sr_tx_id := b\<rparr>) = obligation_of r"
  "obligation_of (r\<lparr>sr_blockchain := b\<rparr>) = obligation_of r"
  "obligation_of (r\<lparr>sr_asset := b\<rparr>) = obligation_of r"
  "obligation_of (r\<lparr>sr_asset_amount := b\<rparr>) = obligation_of r"
  "obligation_of (r\<lparr>sr_fx_minor_per_whole_asset := b\<rparr>) = obligation_of r"
  "obligation_of (r\<lparr>sr_fx_source := b\<rparr>) = obligation_of r"
  "obligation_of (r\<lparr>sr_fx_as_of := b\<rparr>) = obligation_of r"
  "obligation_of (r\<lparr>sr_last_depth := n\<rparr>) = obligation_of r"
  "obligation_of (r\<lparr>sr_error_reason := b\<rparr>) = obligation_of r"
  "obligation_of (r\<lparr>sr_retryable := d\<rparr>) = obligation_of r"
  "obligation_of (r\<lparr>sr_updated_at := e\<rparr>) = obligation_of r"
  "obligation_of (r\<lparr>sr_finalized_at := b\<rparr>) = obligation_of r"
  by (simp_all add: obligation_of_def)

lemma settlement_row_of_sel [simp]:
  "sr_idempotency_key (settlement_row_of now n) = nc_idempotency_key n"
  "sr_status (settlement_row_of now n) = SETTLING"
  "sr_retryable (settlement_row_of now n) = False"
  "sr_last_depth (settlement_row_of now n) = 0"
  by (simp_all add: settlement_row_of_def)

lemma store_updates_frame [simp]:
  "map sr_frame (snd (store_reclaim_for_retry c k t)) = map sr_frame t"
  "map sr_frame (snd (store_mark_submitted c k tx ch a am fx t)) = map sr_frame t"
  "map sr_frame (snd (store_mark_error c k reason b t)) = map sr_frame t"
  "map sr_frame (snd (store_record_depth c k d t)) = map sr_frame t"
  "map sr_frame (snd (store_mark_final c k d t)) = map sr_frame t"
  unfolding store_op_defs by (simp_all add: map_exec_update)

lemma store_keys_of_frame:
  "map sr_frame t' = map sr_frame t \<Longrightarrow> map sr_idempotency_key t' = map sr_idempotency_key t"
  by (metis (no_types, lifting) fst_conv map_eq_conv map_map comp_apply list.map_comp)

text \<open>The three outcomes of a claim.\<close>

lemma store_claim_cases:
  obtains (failed) e where "store_claim c c2 n t = (Inl e, t)"
  | (exists) row where "store_claim c c2 n t = (Inr (Existing row), t)"
      "sql_find sr_idempotency_key (nc_idempotency_key n) t = Some row"
  | (claimed) now where "c = Runs now" "nc_idempotency_key n \<notin> sr_idempotency_key ` set t"
      "store_claim c c2 n t = (Inr Claimed, t @ [settlement_row_of now n])"
proof (cases c)
  case (Fails e)
  then show thesis by (intro failed [of "Db (Driver e)"]) simp
next
  case (Runs now)
  show thesis
  proof (cases "sql_find sr_idempotency_key (nc_idempotency_key n) t")
    case None
    with Runs show thesis
      by (intro claimed [of now]) (auto simp: sql_has_key_iff sql_find_None_iff)
  next
    case (Some row)
    show thesis
    proof (cases c2)
      case (Fails e)
      with Runs Some show thesis
        by (intro failed [of "Db (Driver e)"]) (simp add: sql_has_key_iff store_get_def)
    next
      case (Runs now')
      with \<open>c = Runs now\<close> Some show thesis
        by (intro exists [of row]) (simp_all add: sql_has_key_iff store_get_def)
    qed
  qed
qed

lemma store_step_frame:
  assumes "store_step t t'"
  shows "map sr_frame t' = map sr_frame t \<or>
    (\<exists>now n. nc_idempotency_key n \<notin> sr_idempotency_key ` set t \<and> t' = t @ [settlement_row_of now n])"
  using assms
proof cases
  case (step_claim c c2 n)
  show ?thesis
    by (rule store_claim_cases [of c c2 n t]) (use step_claim in auto)
qed simp_all

interpretation st: durable_store sr_idempotency_key obligation_of store_step
proof unfold_locales
  fix t t' :: settlements
  assume s: "store_step t t'"
  show "\<exists>ys. map sr_frame t' = map sr_frame t @ ys"
    using store_step_frame [OF s] by auto
  assume "distinct (map sr_idempotency_key t)"
  then show "distinct (map sr_idempotency_key t')"
    using store_step_frame [OF s] by (auto dest: store_keys_of_frame)
qed

section \<open>Facts about the operations\<close>

lemma store_find_update:
  assumes "\<And>now r. sr_idempotency_key (f now r) = sr_idempotency_key r"
  shows "sql_find sr_idempotency_key k (snd (exec_update c P f t)) =
    map_option (\<lambda>r. case c of Fails _ \<Rightarrow> r | Runs now \<Rightarrow> if P r then f now r else r)
      (sql_find sr_idempotency_key k t)"
  using assms by (cases c) (auto simp: exec_update_simps sql_find_update option.map_ident)

lemma store_op_find:
  "sql_find sr_idempotency_key j (snd (store_mark_submitted (Runs now) k tx ch a am fx t)) =
   map_option (\<lambda>r. if sr_idempotency_key r = k
     then r\<lparr>sr_status := SETTLE_SUBMITTED, sr_tx_id := Some tx, sr_blockchain := Some ch,
            sr_asset := Some a, sr_asset_amount := Some am,
            sr_fx_minor_per_whole_asset := map_option (\<lambda>q. show_nat (fx_minor_per_whole q)) fx,
            sr_fx_source := map_option fx_quote_source fx,
            sr_fx_as_of := map_option fx_as_of_text fx, sr_updated_at := now\<rparr> else r)
     (sql_find sr_idempotency_key j t)"
  "sql_find sr_idempotency_key j (snd (store_mark_error (Runs now) k reason b t)) =
   map_option (\<lambda>r. if sr_idempotency_key r = k
     then r\<lparr>sr_status := ERROR, sr_error_reason := Some reason, sr_retryable := b,
            sr_updated_at := now\<rparr> else r) (sql_find sr_idempotency_key j t)"
  by (simp_all add: store_op_defs store_find_update)

text \<open>What \<open>find\<close> returns is a row the key names; the primary key wins.\<close>

lemma store_find_key_wins:
  assumes "sql_find sr_idempotency_key k t = Some r"
  shows "store_find (Runs now) k t = Inr (Some r)"
proof -
  have "find (\<lambda>r. sr_idempotency_key r = k) t = Some r" using assms by (simp add: sql_find_def)
  then have "\<exists>rest. filter (\<lambda>r. sr_idempotency_key r = k) t = r # rest"
    by (induction t) (auto split: if_splits)
  moreover have "filter (\<lambda>r. sr_idempotency_key r = k)
      (filter (\<lambda>r. sr_idempotency_key r = k \<or> sr_settlement_id r = Some k) t)
    = filter (\<lambda>r. sr_idempotency_key r = k) t"
    by (induction t) auto
  ultimately show ?thesis by (auto simp: store_find_def Let_def)
qed

lemma store_list_submitted_spec:
  assumes "store_list_submitted c limit t = Inr rs"
  shows "r \<in> set rs \<Longrightarrow> r \<in> set t \<and> sr_status r = SETTLE_SUBMITTED"
  using assms set_sql_limit
  by (cases c) (fastforce simp: store_list_submitted_def)+

end
