(* ===== verification/Evidence.thy ===== *)
theory Evidence
  imports Sql_Table
begin

text \<open>
  The beneficiary bank's evidence store (\<open>crates/obp-bank-node/src/evidence.rs\<close>): one row per
  received credit notification, replaced by a redelivery, then stamped with the CBS outcome,
  the return it triggered and the settlement that covered it.
\<close>

section \<open>Rows\<close>

record evidence_record =
  ev_transaction_request_id :: string
  ev_promise_commitment :: string
  ev_promise_salt :: string
  ev_promise_preimage :: string
  ev_promise_id :: "string option"
  ev_promise_blockchain :: "string option"
  ev_verified :: bool
  ev_currency :: "string option"
  ev_amount :: "string option"
  ev_originator_name :: "string option"
  ev_beneficiary_name :: "string option"
  ev_beneficiary_scheme :: "string option"
  ev_beneficiary_address :: "string option"
  ev_return_of :: "string option"
  ev_returned_by :: "string option"
  ev_raw_message :: string
  ev_received_at :: string
  ev_cbs_status :: "string option"
  ev_cbs_reference :: "string option"
  ev_cbs_recorded_at :: "string option"
  ev_settlement_id :: "string option"
  ev_settled_at :: "string option"

record new_evidence =
  ne_transaction_request_id :: string
  ne_promise_commitment :: string
  ne_promise_salt :: string
  ne_promise_preimage :: string
  ne_promise_id :: "string option"
  ne_promise_blockchain :: "string option"
  ne_verified :: bool
  ne_currency :: "string option"
  ne_amount :: "string option"
  ne_originator_name :: "string option"
  ne_beneficiary_name :: "string option"
  ne_beneficiary_scheme :: "string option"
  ne_beneficiary_address :: "string option"
  ne_return_of :: "string option"
  ne_raw_message :: string

type_synonym evidence = "evidence_record tbl"

section \<open>Operations\<close>

text \<open>
  \<open>upsert\<close>: the inserted row, and what \<open>ON CONFLICT DO UPDATE\<close> assigns to the row that is
  there: the columns of the notification and the receipt time, but not the CBS outcome, the
  return link or the settlement stamp.
\<close>

definition evidence_assign :: "string \<Rightarrow> new_evidence \<Rightarrow> evidence_record \<Rightarrow> evidence_record" where
  "evidence_assign now e r = r
     \<lparr>ev_promise_commitment := ne_promise_commitment e,
      ev_promise_salt := ne_promise_salt e,
      ev_promise_preimage := ne_promise_preimage e,
      ev_promise_id := ne_promise_id e,
      ev_promise_blockchain := ne_promise_blockchain e,
      ev_verified := ne_verified e,
      ev_currency := ne_currency e,
      ev_amount := ne_amount e,
      ev_originator_name := ne_originator_name e,
      ev_beneficiary_name := ne_beneficiary_name e,
      ev_beneficiary_scheme := ne_beneficiary_scheme e,
      ev_beneficiary_address := ne_beneficiary_address e,
      ev_return_of := ne_return_of e,
      ev_raw_message := ne_raw_message e,
      ev_received_at := now\<rparr>"

definition evidence_row :: "string \<Rightarrow> new_evidence \<Rightarrow> evidence_record" where
  "evidence_row now e =
     \<lparr>ev_transaction_request_id = ne_transaction_request_id e,
      ev_promise_commitment = ne_promise_commitment e,
      ev_promise_salt = ne_promise_salt e,
      ev_promise_preimage = ne_promise_preimage e,
      ev_promise_id = ne_promise_id e,
      ev_promise_blockchain = ne_promise_blockchain e,
      ev_verified = ne_verified e,
      ev_currency = ne_currency e,
      ev_amount = ne_amount e,
      ev_originator_name = ne_originator_name e,
      ev_beneficiary_name = ne_beneficiary_name e,
      ev_beneficiary_scheme = ne_beneficiary_scheme e,
      ev_beneficiary_address = ne_beneficiary_address e,
      ev_return_of = ne_return_of e,
      ev_returned_by = None,
      ev_raw_message = ne_raw_message e,
      ev_received_at = now,
      ev_cbs_status = None, ev_cbs_reference = None, ev_cbs_recorded_at = None,
      ev_settlement_id = None, ev_settled_at = None\<rparr>"

fun evidence_upsert :: "dbcall \<Rightarrow> new_evidence \<Rightarrow> evidence \<Rightarrow> unit db_result \<times> evidence" where
  "evidence_upsert (Fails err) e t = (Inl (Db (Driver err)), t)"
| "evidence_upsert (Runs now) e t =
     (if sql_has_key ev_transaction_request_id (ne_transaction_request_id e) t
      then (Inr (), sql_update (\<lambda>r. ev_transaction_request_id r = ne_transaction_request_id e)
                      (evidence_assign now e) t)
      else (Inr (), t @ [evidence_row now e]))"

definition evidence_record_cbs_result ::
  "dbcall \<Rightarrow> string \<Rightarrow> string \<Rightarrow> string option \<Rightarrow> evidence \<Rightarrow> unit db_result \<times> evidence" where
  "evidence_record_cbs_result c trid status ref t =
     exec_update c (\<lambda>r. ev_transaction_request_id r = trid)
       (\<lambda>now r. r\<lparr>ev_cbs_status := Some status, ev_cbs_reference := ref,
                    ev_cbs_recorded_at := Some now\<rparr>) t"

definition evidence_record_return ::
  "dbcall \<Rightarrow> string \<Rightarrow> string \<Rightarrow> evidence \<Rightarrow> unit db_result \<times> evidence" where
  "evidence_record_return c trid return_id t =
     exec_update c (\<lambda>r. ev_transaction_request_id r = trid)
       (\<lambda>now r. r\<lparr>ev_returned_by := Some return_id\<rparr>) t"

text \<open>
  \<open>mark_settled\<close>: one statement per id, the first failure ends the loop (what was stamped
  before stays stamped). The time is read once, before the loop; \<open>fails\<close> says which statement
  fails and with what.
\<close>

definition unsettled :: "string \<Rightarrow> evidence_record \<Rightarrow> bool" where
  "unsettled trid r \<longleftrightarrow> ev_transaction_request_id r = trid \<and> ev_settled_at r = None"

fun evidence_mark_settled_from ::
  "(nat \<Rightarrow> string option) \<Rightarrow> string \<Rightarrow> string \<Rightarrow> nat \<Rightarrow> nat \<Rightarrow> string list \<Rightarrow> evidence
   \<Rightarrow> nat db_result \<times> evidence" where
  "evidence_mark_settled_from fails now sid i stamped [] t = (Inr stamped, t)"
| "evidence_mark_settled_from fails now sid i stamped (trid # ids) t =
     (case fails i of
        Some e \<Rightarrow> (Inl (Db (Driver e)), t)
      | None \<Rightarrow> evidence_mark_settled_from fails now sid (Suc i)
                  (stamped + sql_affected (unsettled trid) t) ids
                  (sql_update (unsettled trid)
                     (\<lambda>r. r\<lparr>ev_settlement_id := Some sid, ev_settled_at := Some now\<rparr>) t))"

definition evidence_mark_settled ::
  "(nat \<Rightarrow> string option) \<Rightarrow> string \<Rightarrow> string list \<Rightarrow> string \<Rightarrow> evidence \<Rightarrow> nat db_result \<times> evidence" where
  "evidence_mark_settled fails now ids sid t = evidence_mark_settled_from fails now sid 0 0 ids t"

definition evidence_get :: "dbcall \<Rightarrow> string \<Rightarrow> evidence \<Rightarrow> evidence_record option db_result" where
  "evidence_get c trid t = run_query c (sql_find ev_transaction_request_id trid) t"

definition evidence_list :: "dbcall \<Rightarrow> int \<Rightarrow> evidence \<Rightarrow> evidence_record list db_result" where
  "evidence_list c limit t = run_query c (\<lambda>t. sql_limit limit (order_desc ev_received_at t)) t"

section \<open>Steps of the store\<close>

inductive evidence_step :: "evidence \<Rightarrow> evidence \<Rightarrow> bool" where
  step_upsert: "evidence_step t (snd (evidence_upsert c e t))"
| step_cbs: "evidence_step t (snd (evidence_record_cbs_result c trid s ref t))"
| step_return: "evidence_step t (snd (evidence_record_return c trid rid t))"
| step_settle: "evidence_step t (snd (evidence_mark_settled fails now ids sid t))"

abbreviation ev_keys :: "evidence \<Rightarrow> string list" where
  "ev_keys t \<equiv> map ev_transaction_request_id t"

lemma evidence_assign_key [simp]:
  "ev_transaction_request_id (evidence_assign now e r) = ev_transaction_request_id r"
  "ev_settlement_id (evidence_assign now e r) = ev_settlement_id r"
  "ev_settled_at (evidence_assign now e r) = ev_settled_at r"
  "ev_cbs_status (evidence_assign now e r) = ev_cbs_status r"
  "ev_returned_by (evidence_assign now e r) = ev_returned_by r"
  "ev_promise_salt (evidence_assign now e r) = ne_promise_salt e"
  "ev_promise_preimage (evidence_assign now e r) = ne_promise_preimage e"
  "ev_promise_commitment (evidence_assign now e r) = ne_promise_commitment e"
  "ev_verified (evidence_assign now e r) = ne_verified e"
  "ev_raw_message (evidence_assign now e r) = ne_raw_message e"
  by (simp_all add: evidence_assign_def)

lemma evidence_row_sel [simp]:
  "ev_transaction_request_id (evidence_row now e) = ne_transaction_request_id e"
  "ev_settlement_id (evidence_row now e) = None"
  "ev_settled_at (evidence_row now e) = None"
  "ev_promise_salt (evidence_row now e) = ne_promise_salt e"
  "ev_promise_preimage (evidence_row now e) = ne_promise_preimage e"
  "ev_promise_commitment (evidence_row now e) = ne_promise_commitment e"
  "ev_verified (evidence_row now e) = ne_verified e"
  "ev_raw_message (evidence_row now e) = ne_raw_message e"
  by (simp_all add: evidence_row_def)

lemma evidence_mark_settled_keys:
  "map ev_transaction_request_id (snd (evidence_mark_settled_from fails now sid i n ids t)) = ev_keys t"
  by (induction fails now sid i n ids t rule: evidence_mark_settled_from.induct)
     (auto simp: map_sql_update split: option.splits)

lemma evidence_updates_keys [simp]:
  "ev_keys (snd (evidence_record_cbs_result c trid s ref t)) = ev_keys t"
  "ev_keys (snd (evidence_record_return c trid rid t)) = ev_keys t"
  "ev_keys (snd (evidence_mark_settled fails now ids sid t)) = ev_keys t"
  unfolding evidence_record_cbs_result_def evidence_record_return_def evidence_mark_settled_def
  by (simp_all add: map_exec_update evidence_mark_settled_keys)

lemma evidence_upsert_keys:
  "ev_keys (snd (evidence_upsert c e t)) = ev_keys t \<or>
   ne_transaction_request_id e \<notin> set (ev_keys t) \<and>
   ev_keys (snd (evidence_upsert c e t)) = ev_keys t @ [ne_transaction_request_id e]"
  by (cases c) (auto simp: map_sql_update sql_has_key_def)

text \<open>Evidence is durable: no operation deletes a row (its columns are replaced by a redelivery).\<close>

interpretation ev: durable_store ev_transaction_request_id "\<lambda>r. ()" evidence_step
proof unfold_locales
  have keys: "map (\<lambda>r. (ev_transaction_request_id r, ())) u = map (\<lambda>k. (k, ())) (ev_keys u)" for u
    by simp
  fix t t' :: evidence
  assume s: "evidence_step t t'"
  from s have k: "\<exists>ys. ev_keys t' = ev_keys t @ ys \<and> set ys \<inter> set (ev_keys t) = {} \<and> distinct ys"
  proof cases
    case (step_upsert c e)
    then show ?thesis using evidence_upsert_keys [of c e t] by fastforce
  qed simp_all
  then show "\<exists>ys. map (\<lambda>r. (ev_transaction_request_id r, ())) t'
               = map (\<lambda>r. (ev_transaction_request_id r, ())) t @ ys"
    unfolding keys by fastforce
  assume "distinct (ev_keys t)"
  with k show "distinct (ev_keys t')" by (metis distinct_append Int_commute)
qed

section \<open>Facts about the operations\<close>

text \<open>After an upsert the row is there with the columns of the notification.\<close>

lemma evidence_upsert_get:
  assumes "evidence_upsert (Runs now) e t = (Inr (), t')"
  shows "\<exists>r. sql_find ev_transaction_request_id (ne_transaction_request_id e) t' = Some r \<and>
    ev_promise_salt r = ne_promise_salt e \<and> ev_promise_preimage r = ne_promise_preimage e \<and>
    ev_promise_commitment r = ne_promise_commitment e \<and> ev_verified r = ne_verified e \<and>
    ev_raw_message r = ne_raw_message e"
proof (cases "sql_find ev_transaction_request_id (ne_transaction_request_id e) t")
  case None
  with assms show ?thesis by (auto simp: sql_has_key_iff sql_find_append)
next
  case (Some r)
  with assms have "t' = sql_update (\<lambda>r. ev_transaction_request_id r = ne_transaction_request_id e)
      (evidence_assign now e) t"
    by (simp add: sql_has_key_iff)
  moreover have "ev_transaction_request_id r = ne_transaction_request_id e"
    using sql_find_SomeD [OF Some] by simp
  ultimately show ?thesis using Some by (simp add: sql_find_update)
qed

text \<open>A settlement stamp survives a redelivery of the notification and every later advice.\<close>

lemma evidence_upsert_keeps_stamp:
  assumes "sql_find ev_transaction_request_id k t = Some r"
  shows "\<exists>r'. sql_find ev_transaction_request_id k (snd (evidence_upsert c e t)) = Some r' \<and>
    ev_settlement_id r' = ev_settlement_id r \<and> ev_settled_at r' = ev_settled_at r \<and>
    ev_cbs_status r' = ev_cbs_status r \<and> ev_returned_by r' = ev_returned_by r"
  using assms by (cases c) (auto simp: sql_find_update sql_find_append split: option.splits)

lemma evidence_mark_settled_from_keeps:
  "sql_find ev_transaction_request_id k t = Some r \<Longrightarrow> ev_settled_at r \<noteq> None \<Longrightarrow>
   sql_find ev_transaction_request_id k (snd (evidence_mark_settled_from fails now sid i n ids t)) = Some r"
proof (induction fails now sid i n ids t rule: evidence_mark_settled_from.induct)
  case (1 fails now sid i stamped t)
  then show ?case by simp
next
  case (2 fails now sid i stamped trid ids t)
  have "sql_find ev_transaction_request_id k (sql_update (unsettled trid)
      (\<lambda>r. r\<lparr>ev_settlement_id := Some sid, ev_settled_at := Some now\<rparr>) t) = Some r"
    using 2(2,3) by (auto simp: sql_find_update unsettled_def)
  with 2(1) [OF _ _ 2(3)] 2(2) show ?case by (auto split: option.splits)
qed

lemma evidence_mark_settled_keeps:
  "sql_find ev_transaction_request_id k t = Some r \<Longrightarrow> ev_settled_at r \<noteq> None \<Longrightarrow>
   sql_find ev_transaction_request_id k (snd (evidence_mark_settled fails now ids sid t)) = Some r"
  by (simp add: evidence_mark_settled_def evidence_mark_settled_from_keeps)

text \<open>With no failure every listed row that is there ends up stamped.\<close>

lemma evidence_mark_settled_from_stamps:
  assumes "sql_find ev_transaction_request_id k t = Some r" and "k \<in> set ids"
    and "\<And>j. fails j = None"
  shows "\<exists>r'. sql_find ev_transaction_request_id k
           (snd (evidence_mark_settled_from fails now sid i n ids t)) = Some r' \<and> ev_settled_at r' \<noteq> None"
  using assms
proof (induction ids arbitrary: i n t r)
  case Nil
  then show ?case by simp
next
  case (Cons a ids)
  let ?t = "sql_update (unsettled a)
      (\<lambda>r. r\<lparr>ev_settlement_id := Some sid, ev_settled_at := Some now\<rparr>) t"
  have f: "sql_find ev_transaction_request_id k ?t =
      Some (if unsettled a r then r\<lparr>ev_settlement_id := Some sid, ev_settled_at := Some now\<rparr> else r)"
    using Cons.prems(1) by (simp add: sql_find_update)
  show ?case
  proof (cases "a = k")
    case True
    with sql_find_SomeD [OF Cons.prems(1)]
    have "ev_settled_at (if unsettled a r then r\<lparr>ev_settlement_id := Some sid,
        ev_settled_at := Some now\<rparr> else r) \<noteq> None"
      by (auto simp: unsettled_def)
    from evidence_mark_settled_from_keeps [OF f this] Cons.prems(3) this show ?thesis by auto
  next
    case False
    with Cons.prems(2) have "k \<in> set ids" by simp
    from Cons.IH [OF f this Cons.prems(3)] Cons.prems(3) show ?thesis by simp
  qed
qed

end
