(* ===== verification/Cbs.thy ===== *)
theory Cbs
  imports Http
begin

text \<open>
  Interface A2 (\<open>crates/obp-bank-node/src/cbs.rs\<close>): one POST to the bank's core banking system
  and the classification of its answer. \<open>None\<close> is a panic of the client. The parser of the
  acknowledgement is a parameter.
\<close>

datatype cbs_error = CbsTransport string | CbsRejected nat string

record cbs_ack =
  ack_status :: "string option"
  ack_cbs_reference :: "string option"

definition accepted_ack :: cbs_ack where
  "accepted_ack = \<lparr>ack_status = Some ''ACCEPTED'', ack_cbs_reference = None\<rparr>"

fun show_cbs_error :: "cbs_error \<Rightarrow> string" where
  "show_cbs_error (CbsTransport m) = ''CBS transport error: '' @ m"
| "show_cbs_error (CbsRejected status body) =
     ''CBS rejected the credit ('' @ show_nat status @ ''): '' @ body"

fun deliver_credit ::
  "(string \<Rightarrow> cbs_ack option) \<Rightarrow> http_answer \<Rightarrow> (cbs_error + cbs_ack) option" where
  "deliver_credit parse (NoResponse e) = Some (Inl (CbsTransport e))"
| "deliver_credit parse (BrokenBody status e) =
     Some (Inl (CbsTransport (''reading response body: '' @ e)))"
| "deliver_credit parse (Response status text) =
     (if \<not> is_success status
      then map_option (\<lambda>b. Inl (CbsRejected status b)) (truncate_text text 500)
      else Some (Inr (unwrap_or (parse text) accepted_ack)))"

lemma deliver_credit_accepted_iff:
  "(\<exists>ack. deliver_credit parse a = Some (Inr ack)) \<longleftrightarrow>
   (\<exists>status text. a = Response status text \<and> is_success status)"
  by (cases a) auto

lemma deliver_credit_rejected:
  "deliver_credit parse a = Some (Inl (CbsRejected status b)) \<Longrightarrow>
   \<exists>text. a = Response status text \<and> \<not> is_success status \<and> truncate_text text 500 = Some b"
  by (cases a) (auto split: if_splits)

lemma deliver_credit_total:
  "(\<And>status text. a = Response status text \<Longrightarrow> is_ascii text) \<Longrightarrow> deliver_credit parse a \<noteq> None"
  using truncate_text_ascii by (cases a) fastforce+

end
