(* ===== verification/Rest_Types.thy ===== *)
theory Rest_Types
  imports Json
begin

text \<open>
  The wire types of the south-side API (\<open>crates/obp-bank-node/src/rest/types.rs\<close>). Their
  derived (de)serializers are parameters where they are used.
\<close>

record money_value =
  mv_currency :: string
  mv_amount :: string

record beneficiary_routing =
  br_name :: string
  br_description :: string
  br_other_bank_routing_scheme :: string
  br_other_bank_routing_address :: string
  br_other_account_routing_scheme :: string
  br_other_account_routing_address :: string
  br_other_account_secondary_routing_scheme :: string
  br_other_account_secondary_routing_address :: string
  br_other_branch_routing_scheme :: string
  br_other_branch_routing_address :: string

record account_routing =
  ar_scheme :: string
  ar_address :: string

record originator =
  or_name :: string
  or_address :: string
  or_account_routing :: account_routing
  or_source :: "string option"

definition default_charge_policy :: string where
  "default_charge_policy = ''SHARED''"

record initiate_request =
  ir_value :: money_value
  ir_description :: string
  ir_to :: beneficiary_routing
  ir_originator :: originator
  ir_charge_policy :: string
  ir_return_of :: "string option"

record from_account =
  fa_bank_id :: string
  fa_account_id :: string

record initiated_response =
  rs_transaction_request_id :: string
  rs_type :: string
  rs_from :: from_account
  rs_to :: beneficiary_routing
  rs_originator :: originator
  rs_value :: money_value
  rs_description :: string
  rs_status :: string
  rs_promise_id :: "string option"
  rs_promise_blockchain :: "string option"
  rs_start_date :: string
  rs_challenge :: "unit option"

record error_body =
  eb_error_code :: string
  eb_message :: string

record settle_request =
  sq_other_bank_id :: string
  sq_currency :: string

end
