(* ===== verification/Interface_C.thy ===== *)
theory Interface_C
  imports Outbox Settlement_Store Evidence Commitment Utf8 Cbs Rest_Types Amount
begin

text \<open>
  Interface C: the wire types (\<open>interface_c/types.rs\<close>) and the message router
  (\<open>interface_c/router.rs\<close>) of \<open>crates/obp-bank-node/src\<close>. A handler takes the third-party
  functions (\<open>libs\<close>), the router's configuration, what its environment answers during this
  one message (each database call, the CBS, the rail, the fresh identifiers), the message and
  the bank's state, and gives the outcome and the new state. The state holds the three stores
  and, as ghost lists, the calls made to the CBS and to the settlement rail.
\<close>

section \<open>Message and error codes\<close>

definition CREDIT_NOTIFICATION :: string where "CREDIT_NOTIFICATION = ''obp_credit_notification''"
definition NETTING_SNAPSHOT :: string where "NETTING_SNAPSHOT = ''obp_netting_snapshot''"
definition SETTLEMENT_ADVICE :: string where "SETTLEMENT_ADVICE = ''obp_settlement_advice''"
definition SETTLEMENT_INSTRUCTION :: string where
  "SETTLEMENT_INSTRUCTION = ''obp_settlement_instruction''"
definition STATUS_UPDATE :: string where "STATUS_UPDATE = ''obp_status_update''"

lemmas message_ids = CREDIT_NOTIFICATION_def NETTING_SNAPSHOT_def SETTLEMENT_ADVICE_def
  SETTLEMENT_INSTRUCTION_def STATUS_UPDATE_def

definition NOT_IMPLEMENTED :: string where "NOT_IMPLEMENTED = ''OBP-BANK-NODE-NOT-IMPLEMENTED''"
definition COMMITMENT_MISMATCH :: string where
  "COMMITMENT_MISMATCH = ''OBP-BANK-NODE-COMMITMENT-MISMATCH''"
definition CBS_DELIVERY_FAILED :: string where
  "CBS_DELIVERY_FAILED = ''OBP-BANK-NODE-CBS-DELIVERY-FAILED''"
definition CBS_REJECTED :: string where "CBS_REJECTED = ''OBP-BANK-NODE-CBS-REJECTED''"
definition BAD_MESSAGE :: string where "BAD_MESSAGE = ''OBP-BANK-NODE-BAD-MESSAGE''"
definition PLATFORM :: string where "PLATFORM = ''OBP-BANK-NODE-PLATFORM-001''"
definition SETTLEMENT_FAILED :: string where
  "SETTLEMENT_FAILED = ''OBP-BANK-NODE-SETTLEMENT-FAILED''"
definition SETTLEMENT_NOT_CONFIGURED :: string where
  "SETTLEMENT_NOT_CONFIGURED = ''OBP-BANK-NODE-SETTLEMENT-NOT-CONFIGURED''"

lemmas error_codes = NOT_IMPLEMENTED_def COMMITMENT_MISMATCH_def CBS_DELIVERY_FAILED_def
  CBS_REJECTED_def BAD_MESSAGE_def PLATFORM_def SETTLEMENT_FAILED_def SETTLEMENT_NOT_CONFIGURED_def

section \<open>Replies\<close>

record reply_envelope =
  re_correlation_id :: string
  re_error_code :: string
  re_backend_messages :: "string list"
  re_data :: json

definition reply_ok :: "string \<Rightarrow> json \<Rightarrow> reply_envelope" where
  "reply_ok corr data = \<lparr>re_correlation_id = corr, re_error_code = [], re_backend_messages = [],
                          re_data = data\<rparr>"

definition reply_error :: "string \<Rightarrow> string \<Rightarrow> string \<Rightarrow> reply_envelope" where
  "reply_error corr code message =
     \<lparr>re_correlation_id = corr, re_error_code = code, re_backend_messages = [message],
      re_data = JNull\<rparr>"

definition reply_is_ok :: "reply_envelope \<Rightarrow> bool" where
  "reply_is_ok r \<longleftrightarrow> re_error_code r = []"

text \<open>A handler answers, or the task it runs in panics.\<close>

datatype outcome = Replied reply_envelope | Panicked

lemma reply_ok_sel [simp]:
  "re_error_code (reply_ok c d) = []" "re_data (reply_ok c d) = d"
  "re_correlation_id (reply_ok c d) = c" "reply_is_ok (reply_ok c d)"
  by (simp_all add: reply_ok_def reply_is_ok_def)

lemma reply_error_sel [simp]:
  "re_error_code (reply_error c e m) = e" "re_data (reply_error c e m) = JNull"
  "re_correlation_id (reply_error c e m) = c" "re_backend_messages (reply_error c e m) = [m]"
  by (simp_all add: reply_error_def)

section \<open>Bodies\<close>

record party_name =
  pn_name :: string
  pn_address :: "string option"

record beneficiary =
  be_name :: string
  be_scheme :: string
  be_address :: string

record credit_message =
  cn_transaction_request_id :: string
  cn_value :: money_value
  cn_description :: "string option"
  cn_originator :: "party_name option"
  cn_beneficiary :: "beneficiary option"
  cn_return_of :: "string option"
  cn_netting_snapshot_id :: "string option"
  cn_promise_id :: "string option"
  cn_promise_blockchain :: "string option"
  cn_promise_commitment :: "string option"
  cn_promise_salt :: "string option"
  cn_promise_preimage :: "string option"

record advice_message =
  sa_settlement_id :: string
  sa_currency :: "string option"
  sa_net_amount :: "string option"
  sa_debtor_bank_id :: "string option"
  sa_creditor_bank_id :: "string option"
  sa_covered :: "string list"
  sa_idempotency_key :: "string option"

record instruction_message =
  si_snapshot_id :: "string option"
  si_settlement_id :: "string option"
  si_settlement_system :: "string option"
  si_currency :: "string option"
  si_amount :: "string option"
  si_creditor_bank_id :: "string option"
  si_creditor_address :: "string option"
  si_idempotency_key :: "string option"
  si_purpose :: "string option"

record status_message =
  su_transaction_request_id :: string
  su_status :: string

section \<open>The rail\<close>

text \<open>The instruction and the outcome of \<open>crates/obp-blockchain/src/settlement.rs\<close>.\<close>

record party_ref =
  pa_bank_id :: string
  pa_account :: string

record rail_instruction =
  ri_snapshot_id :: string
  ri_debtor :: party_ref
  ri_creditor :: party_ref
  ri_currency :: string
  ri_net_amount_minor :: nat
  ri_idempotency_key :: string

record settlement_outcome =
  so_tx :: tx_reference
  so_asset :: string
  so_asset_amount :: string
  so_fx :: "fx_quote option"

type_synonym settle_answer = "blockchain_error + settlement_outcome"

section \<open>Libraries, configuration, state\<close>

record libs =
  lb_credit :: "string \<Rightarrow> string + credit_message"
  lb_advice :: "string \<Rightarrow> string + advice_message"
  lb_instruction :: "string \<Rightarrow> string + instruction_message"
  lb_status :: "string \<Rightarrow> string + status_message"
  lb_json :: "string \<Rightarrow> string + json"
  lb_ack :: "string \<Rightarrow> cbs_ack option"
  lb_ser_request :: "initiate_request \<Rightarrow> string + string"
  lb_hash :: "string \<Rightarrow> string"
  lb_show_outbox_error :: "outbox_error \<Rightarrow> string"

record settlement_service =
  ss_settles_from :: string
  ss_finality_depth :: nat

record router =
  rt_bank_id :: string
  rt_account_id :: string
  rt_settlement :: "settlement_service option"

record bank =
  bk_evidence :: evidence
  bk_outbox :: outbox
  bk_store :: settlements
  bk_cbs_posts :: "string list"
  bk_rail_calls :: "(rail_instruction \<times> settle_answer) list"

section \<open>Credit notifications\<close>

text \<open>What the environment answers while one credit notification is handled.\<close>

record credit_env =
  ce_upsert :: dbcall
  ce_cbs :: http_answer
  ce_record :: dbcall
  ce_return_id :: string
  ce_salt :: string
  ce_insert :: dbcall
  ce_link :: dbcall

definition evidence_present :: "credit_message \<Rightarrow> bool" where
  "evidence_present cn \<longleftrightarrow>
     cn_promise_commitment cn \<noteq> None \<and> cn_promise_salt cn \<noteq> None \<and> cn_promise_preimage cn \<noteq> None"

definition credit_verified :: "(string \<Rightarrow> string) \<Rightarrow> credit_message \<Rightarrow> bool" where
  "credit_verified hash cn =
     (case (cn_promise_commitment cn, cn_promise_salt cn, cn_promise_preimage cn) of
        (Some commitment, Some salt, Some preimage) \<Rightarrow> promise_verify_v1 hash preimage salt commitment
      | _ \<Rightarrow> False)"

definition credit_evidence :: "credit_message \<Rightarrow> bool \<Rightarrow> string \<Rightarrow> new_evidence" where
  "credit_evidence cn verified raw =
     \<lparr>ne_transaction_request_id = cn_transaction_request_id cn,
      ne_promise_commitment = unwrap_or (cn_promise_commitment cn) [],
      ne_promise_salt = unwrap_or (cn_promise_salt cn) [],
      ne_promise_preimage = unwrap_or (cn_promise_preimage cn) [],
      ne_promise_id = cn_promise_id cn,
      ne_promise_blockchain = cn_promise_blockchain cn,
      ne_verified = verified,
      ne_currency = Some (mv_currency (cn_value cn)),
      ne_amount = Some (mv_amount (cn_value cn)),
      ne_originator_name = map_option pn_name (cn_originator cn),
      ne_beneficiary_name = map_option be_name (cn_beneficiary cn),
      ne_beneficiary_scheme = map_option be_scheme (cn_beneficiary cn),
      ne_beneficiary_address = map_option be_address (cn_beneficiary cn),
      ne_return_of = cn_return_of cn,
      ne_raw_message = raw\<rparr>"

definition em_dash :: string where
  "em_dash = [byte 226, byte 128, byte 148]"

text \<open>The return's payment: the same value back to the originator named in the preimage.\<close>

definition return_request ::
  "router \<Rightarrow> credit_message \<Rightarrow> string \<Rightarrow> string \<Rightarrow> string \<Rightarrow> string \<Rightarrow> string \<Rightarrow> initiate_request" where
  "return_request R cn bank name scheme address reason =
     \<lparr>ir_value = cn_value cn,
      ir_description = ''Return of '' @ cn_transaction_request_id cn @ '': '' @ reason,
      ir_to = \<lparr>br_name = name,
               br_description = ''Return to originator of '' @ cn_transaction_request_id cn,
               br_other_bank_routing_scheme = ''OBP'',
               br_other_bank_routing_address = bank,
               br_other_account_routing_scheme = scheme,
               br_other_account_routing_address = address,
               br_other_account_secondary_routing_scheme = [],
               br_other_account_secondary_routing_address = [],
               br_other_branch_routing_scheme = [],
               br_other_branch_routing_address = []\<rparr>,
      ir_originator = \<lparr>or_name = ''Bank '' @ rt_bank_id R @ '' (return)'',
                       or_address = ''Settlement account '' @ rt_account_id R @ '' at '' @ rt_bank_id R,
                       or_account_routing = \<lparr>ar_scheme = ''OBP'', ar_address = rt_account_id R\<rparr>,
                       or_source = None\<rparr>,
      ir_charge_policy = ''SHARED'',
      ir_return_of = Some (cn_transaction_request_id cn)\<rparr>"

text \<open>The originator that the preimage names: bank, name, scheme, address, or why there is none.\<close>

definition return_target :: "libs \<Rightarrow> credit_message \<Rightarrow> string + string \<times> string \<times> string \<times> string" where
  "return_target L cn =
     (case cn_promise_preimage cn of
        None \<Rightarrow> Inl (''no preimage on the credit '' @ em_dash @ '' cannot derive the return beneficiary'')
      | Some text \<Rightarrow>
          (case lb_json L text of
             Inl e \<Rightarrow> Inl (''preimage is not JSON: '' @ e)
           | Inr preimage \<Rightarrow>
               (case filter_opt (\<lambda>s. \<not> is_blank s) (as_str (jindex ''originating_bank_id'' preimage)) of
                  None \<Rightarrow> Inl ''preimage has no originating_bank_id''
                | Some bank \<Rightarrow>
                    let orig = jindex ''originator'' (jindex ''instruction'' preimage);
                        name = unwrap_or (as_str (jindex ''name'' orig)) [];
                        scheme = unwrap_or (as_str (jindex ''scheme'' (jindex ''account_routing'' orig))) [];
                        address = unwrap_or (as_str (jindex ''address'' (jindex ''account_routing'' orig))) []
                    in if is_blank scheme \<or> is_blank address
                       then Inl ''preimage originator has no account routing''
                       else Inr (bank, name, scheme, address))))"

definition initiate_return ::
  "libs \<Rightarrow> router \<Rightarrow> credit_env \<Rightarrow> credit_message \<Rightarrow> string \<Rightarrow> outbox \<Rightarrow> (string + string) \<times> outbox" where
  "initiate_return L R E cn reason ob =
     (case return_target L cn of
        Inl e \<Rightarrow> (Inl e, ob)
      | Inr (bank, name, scheme, address) \<Rightarrow>
          (case lb_ser_request L (return_request R cn bank name scheme address (take_chars 120 reason)) of
             Inl e \<Rightarrow> (Inl (''serializing return: '' @ e), ob)
           | Inr payload \<Rightarrow>
               (case outbox_insert (ce_insert E)
                       \<lparr>en_transaction_request_id = ce_return_id E, en_bank_id = rt_bank_id R,
                        en_account_id = rt_account_id R, en_request_payload = payload,
                        en_commitment_salt = ce_salt E\<rparr> ob of
                  (Inl e, ob') \<Rightarrow> (Inl (''persisting return to outbox: '' @ lb_show_outbox_error L e), ob')
                | (Inr _, ob') \<Rightarrow> (Inr (ce_return_id E), ob'))))"

text \<open>The CBS refused the credit (a status below 500).\<close>

definition credit_refused ::
  "libs \<Rightarrow> router \<Rightarrow> credit_env \<Rightarrow> string \<Rightarrow> credit_message \<Rightarrow> bool \<Rightarrow> nat \<Rightarrow> string \<Rightarrow> bank
   \<Rightarrow> outcome \<times> bank" where
  "credit_refused L R E corr cn verified status body b =
     (let trid = cn_transaction_request_id cn;
          b1 = b\<lparr>bk_evidence :=
                  snd (evidence_record_cbs_result (ce_record E) trid ''REJECTED'' None (bk_evidence b))\<rparr>
      in if cn_return_of cn \<noteq> None
         then (Replied (reply_error corr CBS_REJECTED
                 (''CBS rejected a RETURN credit ('' @ show_nat status @ ''): '' @ body @ '' '' @ em_dash
                  @ '' not returning a return'')), b1)
         else
           (case initiate_return L R E cn body (bk_outbox b1) of
              (Inr return_id, ob) \<Rightarrow>
                (Replied (reply_ok corr
                   (JObj [(''transaction_request_id'', JStr trid), (''verified'', JBool verified),
                          (''cbs_reference'', JNull), (''cbs_status'', JStr ''REJECTED''),
                          (''return_transaction_request_id'', JStr return_id)])),
                 b1\<lparr>bk_outbox := ob,
                    bk_evidence := snd (evidence_record_return (ce_link E) trid return_id (bk_evidence b1))\<rparr>)
            | (Inl reason, ob) \<Rightarrow>
                (Replied (reply_error corr CBS_REJECTED
                   (''CBS rejected the credit ('' @ show_nat status @ ''): '' @ body
                    @ ''; no return initiated: '' @ reason)), b1\<lparr>bk_outbox := ob\<rparr>)))"

definition credit_deliver ::
  "libs \<Rightarrow> router \<Rightarrow> credit_env \<Rightarrow> string \<Rightarrow> credit_message \<Rightarrow> bool \<Rightarrow> string \<Rightarrow> bank \<Rightarrow> outcome \<times> bank" where
  "credit_deliver L R E corr cn verified raw b =
     (let trid = cn_transaction_request_id cn;
          b1 = b\<lparr>bk_cbs_posts := bk_cbs_posts b @ [raw]\<rparr>;
          record = (\<lambda>status ref. b1\<lparr>bk_evidence :=
             snd (evidence_record_cbs_result (ce_record E) trid status ref (bk_evidence b1))\<rparr>)
      in (case deliver_credit (lb_ack L) (ce_cbs E) of
            None \<Rightarrow> (Panicked, b1)
          | Some (Inr ack) \<Rightarrow>
              (Replied (reply_ok corr
                 (JObj [(''transaction_request_id'', JStr trid), (''verified'', JBool verified),
                        (''cbs_reference'', jopt (ack_cbs_reference ack))])),
               record ''DELIVERED'' (ack_cbs_reference ack))
          | Some (Inl (CbsRejected status body)) \<Rightarrow>
              if status < 500 then credit_refused L R E corr cn verified status body b1
              else (Replied (reply_error corr CBS_DELIVERY_FAILED
                       (show_cbs_error (CbsRejected status body))), record ''FAILED'' None)
          | Some (Inl e) \<Rightarrow>
              (Replied (reply_error corr CBS_DELIVERY_FAILED (show_cbs_error e)), record ''FAILED'' None)))"

definition credit_notification ::
  "libs \<Rightarrow> router \<Rightarrow> credit_env \<Rightarrow> string \<Rightarrow> string \<Rightarrow> bank \<Rightarrow> outcome \<times> bank" where
  "credit_notification L R E corr body b =
     (let raw = utf8_lossy body in
      case lb_credit L body of
        Inl e \<Rightarrow> (Replied (reply_error corr BAD_MESSAGE (''malformed credit_notification: '' @ e)), b)
      | Inr cn \<Rightarrow>
          let verified = credit_verified (lb_hash L) cn in
          (case evidence_upsert (ce_upsert E) (credit_evidence cn verified raw) (bk_evidence b) of
             (Inl e, ev) \<Rightarrow>
               (Replied (reply_error corr PLATFORM ''failed to persist evidence''),
                b\<lparr>bk_evidence := ev\<rparr>)
           | (Inr _, ev) \<Rightarrow>
               if evidence_present cn \<and> \<not> verified
               then (Replied (reply_error corr COMMITMENT_MISMATCH
                       ''promise commitment does not match the revealed salt and preimage''),
                     b\<lparr>bk_evidence := ev\<rparr>)
               else credit_deliver L R E corr cn verified raw (b\<lparr>bk_evidence := ev\<rparr>)))"

section \<open>Settlement advice\<close>

record advice_env =
  ae_credit_fails :: "nat \<Rightarrow> string option"
  ae_now :: string
  ae_promises :: dbcall

definition settlement_advice ::
  "libs \<Rightarrow> advice_env \<Rightarrow> string \<Rightarrow> string \<Rightarrow> bank \<Rightarrow> outcome \<times> bank" where
  "settlement_advice L E corr body b =
     (case lb_advice L body of
        Inl e \<Rightarrow> (Replied (reply_error corr BAD_MESSAGE (''malformed settlement_advice: '' @ e)), b)
      | Inr advice \<Rightarrow>
          let (credits, ev) = evidence_mark_settled (ae_credit_fails E) (ae_now E) (sa_covered advice)
                                (sa_settlement_id advice) (bk_evidence b);
              (promises, ob) = outbox_mark_settled (ae_promises E) (sa_covered advice)
                                 (sa_settlement_id advice) (bk_outbox b);
              b1 = b\<lparr>bk_evidence := ev, bk_outbox := ob\<rparr>
          in (case (credits, promises) of
                (Inr _, Inr _) \<Rightarrow>
                  (Replied (reply_ok corr (JObj [(''settlement_id'', JStr (sa_settlement_id advice)),
                                                 (''acknowledged'', JBool True)])), b1)
              | _ \<Rightarrow> (Replied (reply_error corr PLATFORM ''failed to stamp settled rows''), b1)))"

section \<open>Settlement instructions\<close>

record instruction_env =
  ie_claim :: dbcall
  ie_claim_read :: dbcall
  ie_reclaim :: dbcall
  ie_settle :: settle_answer
  ie_mark :: dbcall

definition reply_for_existing :: "string \<Rightarrow> settlement_row \<Rightarrow> nat \<Rightarrow> reply_envelope" where
  "reply_for_existing corr row finality_depth =
     (case sr_status row of
        ERROR \<Rightarrow> reply_error corr SETTLEMENT_FAILED (unwrap_or (sr_error_reason row) ''settlement failed'')
      | status \<Rightarrow>
          reply_ok corr
            (JObj [(''settlement_id'', jopt (sr_settlement_id row)),
                   (''status'', JStr (show_settlement_status status)),
                   (''tx_id'', jopt (sr_tx_id row)),
                   (''blockchain'', jopt (sr_blockchain row)),
                   (''asset'', jopt (sr_asset row)),
                   (''asset_amount'', jopt (sr_asset_amount row)),
                   (''depth'', JInt (int (sr_last_depth row))),
                   (''finality_depth'', JInt (int finality_depth))]))"

text \<open>The key an instruction is claimed by: its idempotency key, or else its settlement id, not blank.\<close>

definition instruction_key :: "instruction_message \<Rightarrow> string option" where
  "instruction_key si =
     filter_opt (\<lambda>k. \<not> is_blank k) (or_else (si_idempotency_key si) (si_settlement_id si))"

definition rail_instruction_of ::
  "router \<Rightarrow> settlement_service \<Rightarrow> instruction_message \<Rightarrow> string \<Rightarrow> nat \<Rightarrow> string \<Rightarrow> rail_instruction" where
  "rail_instruction_of R svc si creditor net key =
     \<lparr>ri_snapshot_id = unwrap_or (or_else (si_snapshot_id si) (si_settlement_id si)) [],
      ri_debtor = \<lparr>pa_bank_id = rt_bank_id R, pa_account = ss_settles_from svc\<rparr>,
      ri_creditor = \<lparr>pa_bank_id = unwrap_or (si_creditor_bank_id si) [], pa_account = creditor\<rparr>,
      ri_currency = unwrap_or (si_currency si) [],
      ri_net_amount_minor = net,
      ri_idempotency_key = key\<rparr>"

text \<open>The attempt this delivery owns: pay, then record what came of it.\<close>

definition settle_attempt ::
  "router \<Rightarrow> settlement_service \<Rightarrow> instruction_env \<Rightarrow> string \<Rightarrow> instruction_message \<Rightarrow> string \<Rightarrow> nat
   \<Rightarrow> string \<Rightarrow> bank \<Rightarrow> outcome \<times> bank" where
  "settle_attempt R svc E corr si creditor net key b =
     (let instruction = rail_instruction_of R svc si creditor net key;
          b1 = b\<lparr>bk_rail_calls := bk_rail_calls b @ [(instruction, ie_settle E)]\<rparr>
      in (case ie_settle E of
            Inr out \<Rightarrow>
              (Replied (reply_ok corr
                 (JObj [(''settlement_id'', jopt (si_settlement_id si)),
                        (''status'', JStr (show_settlement_status SETTLE_SUBMITTED)),
                        (''tx_id'', JStr (tx_id (so_tx out))),
                        (''blockchain'', JStr (tx_chain (so_tx out))),
                        (''asset'', JStr (so_asset out)),
                        (''asset_amount'', JStr (so_asset_amount out)),
                        (''depth'', JInt 0),
                        (''finality_depth'', JInt (int (ss_finality_depth svc)))])),
               b1\<lparr>bk_store := snd (store_mark_submitted (ie_mark E) key (tx_id (so_tx out))
                                 (tx_chain (so_tx out)) (so_asset out) (so_asset_amount out) (so_fx out)
                                 (bk_store b1))\<rparr>)
          | Inl e \<Rightarrow>
              (Replied (reply_error corr SETTLEMENT_FAILED (show_blockchain_error e)),
               b1\<lparr>bk_store := snd (store_mark_error (ie_mark E) key (show_blockchain_error e)
                                 (is_rejected e) (bk_store b1))\<rparr>)))"

text \<open>Claim before pay.\<close>

definition settle_claimed ::
  "router \<Rightarrow> settlement_service \<Rightarrow> instruction_env \<Rightarrow> string \<Rightarrow> instruction_message \<Rightarrow> string \<Rightarrow> nat
   \<Rightarrow> string \<Rightarrow> bank \<Rightarrow> outcome \<times> bank" where
  "settle_claimed R svc E corr si creditor net key b =
     (let n = \<lparr>nc_idempotency_key = key, nc_settlement_id = si_settlement_id si,
               nc_snapshot_id = si_snapshot_id si, nc_currency = unwrap_or (si_currency si) [],
               nc_net_amount_minor = net, nc_creditor_address = creditor, nc_purpose = si_purpose si\<rparr>
      in (case store_claim (ie_claim E) (ie_claim_read E) n (bk_store b) of
            (Inl e, t) \<Rightarrow>
              (Replied (reply_error corr PLATFORM ''settlement store unavailable''), b\<lparr>bk_store := t\<rparr>)
          | (Inr Claimed, t) \<Rightarrow> settle_attempt R svc E corr si creditor net key (b\<lparr>bk_store := t\<rparr>)
          | (Inr (Existing row), t) \<Rightarrow>
              if can_retry row
              then (case store_reclaim_for_retry (ie_reclaim E) key t of
                      (Inl e, t') \<Rightarrow>
                        (Replied (reply_error corr PLATFORM ''settlement store unavailable''),
                         b\<lparr>bk_store := t'\<rparr>)
                    | (Inr _, t') \<Rightarrow>
                        settle_attempt R svc E corr si creditor net key (b\<lparr>bk_store := t'\<rparr>))
              else (Replied (reply_for_existing corr row (ss_finality_depth svc)), b\<lparr>bk_store := t\<rparr>)))"

definition settlement_instruction ::
  "libs \<Rightarrow> router \<Rightarrow> instruction_env \<Rightarrow> string \<Rightarrow> string \<Rightarrow> bank \<Rightarrow> outcome \<times> bank" where
  "settlement_instruction L R E corr body b =
     (let bad = (\<lambda>m. (Replied (reply_error corr BAD_MESSAGE m), b)) in
      case lb_instruction L body of
        Inl e \<Rightarrow> bad (''malformed settlement_instruction: '' @ e)
      | Inr si \<Rightarrow>
         (case rt_settlement R of
            None \<Rightarrow> (Replied (reply_error corr SETTLEMENT_NOT_CONFIGURED
                       ''no settlement backend configured on this node''), b)
          | Some svc \<Rightarrow>
             (case si_amount si of
                None \<Rightarrow> bad ''settlement_instruction: amount is required''
              | Some amount \<Rightarrow>
                 (case parse_minor_units amount 2 of
                    None \<Rightarrow> (Panicked, b)
                  | Some (Inl e) \<Rightarrow> bad (''settlement_instruction: '' @ show_amount_error e)
                  | Some (Inr net) \<Rightarrow>
                     (case si_creditor_address si of
                        None \<Rightarrow> bad ''settlement_instruction: creditor_address is required''
                      | Some creditor \<Rightarrow>
                         (case instruction_key si of
                            None \<Rightarrow> bad ''settlement_instruction: idempotency_key (or settlement_id) is required''
                          | Some key \<Rightarrow> settle_claimed R svc E corr si creditor net key b))))))"

section \<open>Notices\<close>

definition netting_snapshot :: "libs \<Rightarrow> string \<Rightarrow> string \<Rightarrow> outcome" where
  "netting_snapshot L corr body =
     (case lb_json L body of
        Inr v \<Rightarrow> Replied (reply_ok corr (JObj [(''recorded'', JBool True)]))
      | Inl e \<Rightarrow> Replied (reply_error corr BAD_MESSAGE (''malformed netting_snapshot: '' @ e)))"

definition status_update :: "libs \<Rightarrow> string \<Rightarrow> string \<Rightarrow> outcome" where
  "status_update L corr body =
     (case lb_status L body of
        Inr su \<Rightarrow> Replied (reply_ok corr (JObj [(''recorded'', JBool True)]))
      | Inl e \<Rightarrow> Replied (reply_error corr BAD_MESSAGE (''malformed status_update: '' @ e)))"

section \<open>Dispatch\<close>

record message_env =
  me_credit :: credit_env
  me_advice :: advice_env
  me_instruction :: instruction_env

definition handle ::
  "libs \<Rightarrow> router \<Rightarrow> message_env \<Rightarrow> string \<Rightarrow> string \<Rightarrow> string \<Rightarrow> bank \<Rightarrow> outcome \<times> bank" where
  "handle L R E message_id corr body b =
     (if message_id = CREDIT_NOTIFICATION then credit_notification L R (me_credit E) corr body b
      else if message_id = SETTLEMENT_ADVICE then settlement_advice L (me_advice E) corr body b
      else if message_id = SETTLEMENT_INSTRUCTION
        then settlement_instruction L R (me_instruction E) corr body b
      else if message_id = NETTING_SNAPSHOT then (netting_snapshot L corr body, b)
      else if message_id = STATUS_UPDATE then (status_update L corr body, b)
      else (Replied (reply_error corr NOT_IMPLEMENTED (''unrecognised MessageId: '' @ message_id)), b))"

end
