(* ===== verification/Cardano.thy ===== *)
theory Cardano
  imports Follower Wallet Interface_C
begin

text \<open>
  The Cardano notary (\<open>crates/obp-blockchain/src/cardano/mod.rs\<close>) and the ADA settlement rail
  (\<open>cardano/settlement.rs\<close>) over one wallet. The state is the follower and, as a ghost, the
  transactions handed to the node. The wallet lock makes the steps from the UTxO query to the
  submission one atomic step of the model.
\<close>

record cardano_libs =
  cl_tx :: tx_libs
  cl_ogmios :: ogmios_libs
  cl_lower :: "string \<Rightarrow> string"

record cardano =
  cd_ogmios :: ogmios_client
  cd_wallet :: wallet
  cd_network :: string
  cd_followed :: bool

record submission =
  sb_key :: "string option"
  sb_cbor_hex :: string
  sb_sent :: "string option"
  sb_answer :: "ogmios_error + string"

record cardano_state =
  ca_follower :: follower
  ca_submissions :: "submission list"

record transfer_env =
  xf_params :: socket_run
  xf_tip :: socket_run
  xf_utxos :: socket_run
  xf_submit :: socket_run
  xf_now :: string

definition map_ogmios :: "ogmios_error \<Rightarrow> blockchain_error" where
  "map_ogmios e = (case e of
     OgRpc code message \<Rightarrow> Rejected (''ogmios rpc '' @ show_int code @ '': '' @ message)
   | other \<Rightarrow> Transport (show_ogmios_error other))"

section \<open>Building and submitting\<close>

text \<open>The steps both writers share: parameters, tip, inputs, and the signed payment.\<close>

definition prepare_payment ::
  "cardano_libs \<Rightarrow> cardano \<Rightarrow> transfer_env \<Rightarrow> string \<Rightarrow> u64 \<Rightarrow> metadatum \<Rightarrow> blockchain_error + signed_tx" where
  "prepare_payment L C E to_address lovelace datum =
     (case protocol_parameters (cl_ogmios L) (cd_ogmios C) (xf_params E) of
        Inl e \<Rightarrow> Inl (map_ogmios e)
      | Inr pp_json \<Rightarrow>
          (case params_from_ogmios pp_json of
             Inl e \<Rightarrow> Inl e
           | Inr pp \<Rightarrow>
               (case query_tip (cl_ogmios L) (cd_ogmios C) (xf_tip E) of
                  Inl e \<Rightarrow> Inl (map_ogmios e)
                | Inr tip \<Rightarrow>
                    (case utxos_at (cl_ogmios L) (cd_ogmios C) (xf_utxos E) (wa_address (cd_wallet C)) of
                       Inl e \<Rightarrow> Inl (map_ogmios e)
                     | Inr entries \<Rightarrow>
                         build_signed_payment (cl_tx L) (wa_address (cd_wallet C))
                           (wa_signing_key (cd_wallet C)) (cd_network C) (parse_utxos entries) pp
                           to_address lovelace (pt_slot tip) (Some (OBP_METADATA_LABEL, datum))))))"

text \<open>Watched before it is submitted; forgotten when the submission fails.\<close>

definition submit_signed ::
  "cardano_libs \<Rightarrow> cardano \<Rightarrow> socket_run \<Rightarrow> string option \<Rightarrow> signed_tx \<Rightarrow> cardano_state
   \<Rightarrow> (blockchain_error + string) \<times> cardano_state" where
  "submit_signed L C K key sx s =
     (let track = (\<lambda>f st. if cd_followed C then st\<lparr>ca_follower := f (ca_follower st)\<rparr> else st);
          s1 = track (follower_watch (cl_lower L) (sx_tx_id sx)) s;
          (answer, sent) = submit_transaction (cl_ogmios L) (cd_ogmios C) K (sx_cbor_hex sx);
          s2 = s1\<lparr>ca_submissions := ca_submissions s1 @
                 [\<lparr>sb_key = key, sb_cbor_hex = sx_cbor_hex sx, sb_sent = sent, sb_answer = answer\<rparr>]\<rparr>
      in (case answer of
            Inl e \<Rightarrow> (Inl (map_ogmios e), track (follower_unwatch (cl_lower L) (sx_tx_id sx)) s2)
          | Inr submitted_id \<Rightarrow>
              if \<not> eq_ignore_ascii_case submitted_id (sx_tx_id sx)
              then (Inl (Internal (''node reported tx id '' @ submitted_id @ '' but we computed ''
                         @ sx_tx_id sx)), s2)
              else (Inr (sx_tx_id sx), s2)))"

section \<open>The notary\<close>

definition write_notary ::
  "cardano_libs \<Rightarrow> cardano \<Rightarrow> transfer_env \<Rightarrow> string \<Rightarrow> string \<Rightarrow> cardano_state
   \<Rightarrow> (blockchain_error + tx_reference) \<times> cardano_state" where
  "write_notary L C E schema commitment s =
     (case prepare_payment L C E (wa_address (cd_wallet C)) MIN_UTXO_LOVELACE
             (text_record_metadatum [(''schema'', schema), (''commitment'', commitment), (''ts'', xf_now E)]) of
        Inl e \<Rightarrow> (Inl e, s)
      | Inr sx \<Rightarrow>
          (case submit_signed L C (xf_submit E) None sx s of
             (Inl e, s') \<Rightarrow> (Inl e, s')
           | (Inr tx, s') \<Rightarrow>
               (Inr \<lparr>tx_chain = ''cardano'', tx_id = tx, tx_submitted_at = xf_now E\<rparr>, s')))"

definition write_promise ::
  "cardano_libs \<Rightarrow> cardano \<Rightarrow> transfer_env \<Rightarrow> promise_record \<Rightarrow> cardano_state
   \<Rightarrow> (blockchain_error + tx_reference) \<times> cardano_state" where
  "write_promise L C E p = write_notary L C E (pr_schema p) (pr_commitment p)"

definition write_settlement ::
  "(string \<Rightarrow> string) \<Rightarrow> (settlement_record \<Rightarrow> string) \<Rightarrow> cardano_libs \<Rightarrow> cardano \<Rightarrow> transfer_env
   \<Rightarrow> settlement_record \<Rightarrow> string \<Rightarrow> cardano_state \<Rightarrow> (blockchain_error + tx_reference) \<times> cardano_state" where
  "write_settlement hash ser L C E r salt =
     write_notary L C E settlement_schema_v1 (settlement_commit_v1 hash ser r salt)"

definition write_exception ::
  "(string \<Rightarrow> string) \<Rightarrow> (exception_record \<Rightarrow> string) \<Rightarrow> cardano_libs \<Rightarrow> cardano \<Rightarrow> transfer_env
   \<Rightarrow> exception_record \<Rightarrow> string \<Rightarrow> cardano_state \<Rightarrow> (blockchain_error + tx_reference) \<times> cardano_state" where
  "write_exception hash ser L C E r salt =
     write_notary L C E exception_schema_v1 (exception_commit_v1 hash ser r salt)"

text \<open>Confirmation: the follower's word, else whether a UTxO of the wallet comes from the transaction.\<close>

definition utxo_from :: "string \<Rightarrow> json \<Rightarrow> bool" where
  "utxo_from txid u = unwrap_or (map_option (\<lambda>i. eq_ignore_ascii_case i txid)
     (Option.bind (jget_opt ''id'' (jget ''transaction'' u)) as_str)) False"

definition confirm ::
  "cardano_libs \<Rightarrow> cardano \<Rightarrow> socket_run \<Rightarrow> tx_reference \<Rightarrow> cardano_state
   \<Rightarrow> blockchain_error + confirmation_status" where
  "confirm L C K r s =
     (if tx_chain r \<noteq> ''cardano''
      then Inl (Internal (''confirm: TxReference is for chain '' @ [CHR 0x27] @ tx_chain r @ [CHR 0x27]
             @ '', expected '' @ [CHR 0x27] @ ''cardano'' @ [CHR 0x27]))
      else
        (case (if cd_followed C then follower_status (cl_lower L) (ca_follower s) (tx_id r) else None) of
           Some status \<Rightarrow> Inr status
         | None \<Rightarrow>
             (case utxos_at (cl_ogmios L) (cd_ogmios C) K (wa_address (cd_wallet C)) of
                Inl e \<Rightarrow> Inl (map_ogmios e)
              | Inr utxos \<Rightarrow>
                  Inr (if list_ex (utxo_from (tx_id r)) utxos then Confirmed 1 else ConfPending))))"

text \<open>The notary backend always has a follower; the rail may be built without one.\<close>

definition notary_confirm ::
  "cardano_libs \<Rightarrow> cardano \<Rightarrow> socket_run \<Rightarrow> tx_reference \<Rightarrow> cardano_state
   \<Rightarrow> blockchain_error + confirmation_status" where
  "notary_confirm L C = confirm L (C\<lparr>cd_followed := True\<rparr>)"

section \<open>The ADA rail\<close>

definition SCHEMA_ADA_SETTLEMENT :: string where
  "SCHEMA_ADA_SETTLEMENT = ''obp.settlement.ada.v1''"

text \<open>\<open>u128\<close> arithmetic: the product is checked, the quotient must fit 64 bits.\<close>

definition fiat_minor_to_lovelace :: "nat \<Rightarrow> nat \<Rightarrow> blockchain_error + u64" where
  "fiat_minor_to_lovelace net rate =
     (if rate = 0 then Inl (Rejected ''fx rate of zero'')
      else
        (case checked_mul 128 net 1000000 of
           None \<Rightarrow> Inl (Rejected (''amount overflow in fiat'' @ [byte 0xE2, byte 0x86, byte 0x92] @ ''lovelace''))
         | Some p \<Rightarrow>
             let lovelace = p div rate
             in if lovelace = 0 then Inl (Rejected ''net amount rounds to zero lovelace at this rate'')
                else if 2 ^ 64 \<le> lovelace
                then Inl (Rejected ''settlement exceeds u64 lovelace domain'')
                else Inr (of_nat lovelace)))"

definition submit_ada_transfer ::
  "cardano_libs \<Rightarrow> cardano \<Rightarrow> transfer_env \<Rightarrow> string \<Rightarrow> u64 \<Rightarrow> string \<Rightarrow> cardano_state
   \<Rightarrow> (blockchain_error + string) \<times> cardano_state" where
  "submit_ada_transfer L C E to_address lovelace key s =
     (case prepare_payment L C E to_address lovelace
             (text_record_metadatum [(''schema'', SCHEMA_ADA_SETTLEMENT), (''idempotency_key'', key)]) of
        Inl e \<Rightarrow> (Inl e, s)
      | Inr sx \<Rightarrow> submit_signed L C (xf_submit E) (Some key) sx s)"

record settle_run =
  sn_quote :: "blockchain_error + fx_quote"
  sn_transfer :: transfer_env
  sn_now :: string

definition ada_settle ::
  "cardano_libs \<Rightarrow> cardano \<Rightarrow> settle_run \<Rightarrow> rail_instruction \<Rightarrow> cardano_state
   \<Rightarrow> settle_answer \<times> cardano_state" where
  "ada_settle L C E i s =
     (if pa_account (ri_debtor i) \<noteq> wa_address (cd_wallet C)
      then (Inl (Rejected (''this node settles from '' @ wa_address (cd_wallet C)
              @ '', but instruction debtor account is '' @ pa_account (ri_debtor i))), s)
      else
        (case sn_quote E of
           Inl e \<Rightarrow> (Inl e, s)
         | Inr quote \<Rightarrow>
             (case fiat_minor_to_lovelace (ri_net_amount_minor i) (fx_minor_per_whole quote) of
                Inl e \<Rightarrow> (Inl e, s)
              | Inr lovelace \<Rightarrow>
                  (case submit_ada_transfer L C (sn_transfer E) (pa_account (ri_creditor i)) lovelace
                          (ri_idempotency_key i) s of
                     (Inl e, s') \<Rightarrow> (Inl e, s')
                   | (Inr tx, s') \<Rightarrow>
                       (Inr \<lparr>so_tx = \<lparr>tx_chain = ''cardano'', tx_id = tx, tx_submitted_at = sn_now E\<rparr>,
                              so_asset = ''ADA'', so_asset_amount = show_word lovelace,
                              so_fx = Some quote\<rparr>, s')))))"

end
