(* ===== verification/Finality.thy ===== *)
theory Finality
  imports Settlement_Store Commitment
begin

text \<open>
  The finality watcher (\<open>crates/obp-bank-node/src/finality.rs\<close>): one pass over the submitted
  settlements. The time parser of \<open>tx_ref\<close> is a parameter; the environment answers, per row of
  the pass, what the rail's \<open>confirm\<close> says and whether the write that follows runs.
\<close>

definition WORKLIST_LIMIT :: int where
  "WORKLIST_LIMIT = 100"

record watch_env =
  we_confirm :: "blockchain_error + confirmation_status"
  we_write :: dbcall

definition tx_ref :: "(string \<Rightarrow> string option) \<Rightarrow> settlement_row \<Rightarrow> tx_reference option" where
  "tx_ref parse_time row =
     (case (sr_blockchain row, sr_tx_id row, parse_time (sr_created_at row)) of
        (Some chain, Some tx, Some at) \<Rightarrow>
          Some \<lparr>tx_chain = chain, tx_id = tx, tx_submitted_at = at\<rparr>
      | _ \<Rightarrow> None)"

definition watch_row ::
  "(string \<Rightarrow> string option) \<Rightarrow> nat \<Rightarrow> watch_env \<Rightarrow> settlement_row \<Rightarrow> settlements
   \<Rightarrow> unit db_result \<times> settlements" where
  "watch_row parse_time finality_depth E row t =
     (case tx_ref parse_time row of
        None \<Rightarrow> (Inr (), t)
      | Some tx \<Rightarrow>
          (case we_confirm E of
             Inr (Confirmed depth) \<Rightarrow>
               if finality_depth \<le> depth
               then store_mark_final (we_write E) (sr_idempotency_key row) depth t
               else store_record_depth (we_write E) (sr_idempotency_key row) depth t
           | Inr ConfPending \<Rightarrow> store_record_depth (we_write E) (sr_idempotency_key row) 0 t
           | Inr ConfRejected \<Rightarrow>
               store_mark_error (we_write E) (sr_idempotency_key row) ''transaction rejected on chain'' False t
           | Inl e \<Rightarrow> (Inr (), t)))"

text \<open>The loop of \<open>tick\<close>: the first failed write ends the pass.\<close>

fun watch_rows ::
  "(string \<Rightarrow> string option) \<Rightarrow> nat \<Rightarrow> (nat \<Rightarrow> watch_env) \<Rightarrow> nat \<Rightarrow> settlement_row list \<Rightarrow> settlements
   \<Rightarrow> unit db_result \<times> settlements" where
  "watch_rows parse_time fd E i [] t = (Inr (), t)"
| "watch_rows parse_time fd E i (row # rows) t =
     (case watch_row parse_time fd (E i) row t of
        (Inl e, t') \<Rightarrow> (Inl e, t')
      | (Inr _, t') \<Rightarrow> watch_rows parse_time fd E (Suc i) rows t')"

definition watcher_tick ::
  "(string \<Rightarrow> string option) \<Rightarrow> nat \<Rightarrow> dbcall \<Rightarrow> (nat \<Rightarrow> watch_env) \<Rightarrow> settlements
   \<Rightarrow> unit db_result \<times> settlements" where
  "watcher_tick parse_time fd c E t =
     (case store_list_submitted c WORKLIST_LIMIT t of
        Inl e \<Rightarrow> (Inl e, t)
      | Inr rows \<Rightarrow> watch_rows parse_time fd E 0 rows t)"

section \<open>One row\<close>

text \<open>A row of another key is untouched; the row itself moves as its confirmation says.\<close>

lemma watch_row_cases:
  obtains (same) r0 where "watch_row parse fd E row t = (r0, t)"
  | (final) now d where "we_confirm E = Inr (Confirmed d)" "fd \<le> d"
      "watch_row parse fd E row t = (Inr (), sql_update
         (\<lambda>r. sr_idempotency_key r = sr_idempotency_key row \<and> sr_status r = SETTLE_SUBMITTED)
         (\<lambda>r. r\<lparr>sr_status := FINAL, sr_last_depth := d, sr_finalized_at := Some now,
                 sr_updated_at := now\<rparr>) t)"
  | (depth) now d where
      "watch_row parse fd E row t = (Inr (), sql_update
         (\<lambda>r. sr_idempotency_key r = sr_idempotency_key row)
         (\<lambda>r. r\<lparr>sr_last_depth := d, sr_updated_at := now\<rparr>) t)" "d < fd \<or> d = 0"
  | (refused) now where "we_confirm E = Inr ConfRejected"
      "watch_row parse fd E row t = (Inr (), sql_update
         (\<lambda>r. sr_idempotency_key r = sr_idempotency_key row)
         (\<lambda>r. r\<lparr>sr_status := ERROR, sr_error_reason := Some ''transaction rejected on chain'',
                 sr_retryable := False, sr_updated_at := now\<rparr>) t)"
proof (cases "tx_ref parse row")
  case None
  then show thesis by (intro same [of "Inr ()"]) (simp add: watch_row_def)
next
  case (Some tx)
  show thesis
  proof (cases "we_write E")
    case (Fails e)
    have "\<exists>r0. watch_row parse fd E row t = (r0, t)"
      using Some Fails
      by (auto simp: watch_row_def store_op_defs exec_update_simps
               split: sum.splits confirmation_status.splits)
    then show thesis using same by blast
  next
    case (Runs now)
    show thesis
    proof (cases "we_confirm E")
      case (Inl e)
      with Some show thesis by (intro same [of "Inr ()"]) (simp add: watch_row_def)
    next
      case (Inr c)
      show thesis
      proof (cases c)
        case ConfPending
        with Inr Some Runs show thesis
          by (intro depth [of now 0]) (simp_all add: watch_row_def store_op_defs exec_update_simps)
      next
        case ConfRejected
        with Inr Some Runs show thesis
          by (intro refused [of now]) (simp_all add: watch_row_def store_op_defs exec_update_simps)
      next
        case (Confirmed d)
        show thesis
        proof (cases "fd \<le> d")
          case True
          with Inr Some Runs Confirmed show thesis
            by (intro final [of d now]) (simp_all add: watch_row_def store_op_defs exec_update_simps)
        next
          case False
          with Inr Some Runs Confirmed show thesis
            by (intro depth [of now d]) (simp_all add: watch_row_def store_op_defs exec_update_simps)
        qed
      qed
    qed
  qed
qed

lemma watch_row_frame [simp]: "map sr_frame (snd (watch_row parse fd E row t)) = map sr_frame t"
  by (rule watch_row_cases [of parse fd E row t]) (simp_all add: map_sql_update)

lemma watch_rows_frame [simp]: "map sr_frame (snd (watch_rows parse fd E i rows t)) = map sr_frame t"
proof (induction rows arbitrary: i t)
  case (Cons row rows)
  obtain x t2 where w: "watch_row parse fd (E i) row t = (x, t2)" by fastforce
  then have "map sr_frame t2 = map sr_frame t" using watch_row_frame [of parse fd "E i" row t] by simp
  with w Cons.IH [of "Suc i" t2] show ?case by (cases x) simp_all
qed simp

lemma watcher_tick_frame [simp]: "map sr_frame (snd (watcher_tick parse fd c E t)) = map sr_frame t"
  by (auto simp: watcher_tick_def split: sum.splits)

lemma watch_row_other:
  "k \<noteq> sr_idempotency_key row \<Longrightarrow>
   sql_find sr_idempotency_key k (snd (watch_row parse fd E row t)) = sql_find sr_idempotency_key k t"
  by (rule watch_row_cases [of parse fd E row t]; cases "sql_find sr_idempotency_key k t")
     (auto simp: sql_find_update dest: sql_find_SomeD)

text \<open>What becomes of a row depends on that row only.\<close>

lemma watch_row_local:
  "sql_find sr_idempotency_key k t = sql_find sr_idempotency_key k u \<Longrightarrow>
   sql_find sr_idempotency_key k (snd (watch_row parse fd E row t)) =
   sql_find sr_idempotency_key k (snd (watch_row parse fd E row u))"
  by (auto simp: watch_row_def store_op_defs store_find_update
           split: option.splits sum.splits confirmation_status.splits)

section \<open>One pass\<close>

lemma watch_rows_find:
  "distinct (map sr_idempotency_key rows) \<Longrightarrow>
   sql_find sr_idempotency_key k (snd (watch_rows parse fd E i rows t)) = sql_find sr_idempotency_key k t \<or>
   (\<exists>E'. \<exists>row\<in>set rows. sr_idempotency_key row = k \<and>
      sql_find sr_idempotency_key k (snd (watch_rows parse fd E i rows t)) =
      sql_find sr_idempotency_key k (snd (watch_row parse fd E' row t)))"
proof (induction rows arbitrary: i t)
  case (Cons row rows)
  obtain x t2 where w: "watch_row parse fd (E i) row t = (x, t2)" by fastforce
  have other: "k \<noteq> sr_idempotency_key row \<Longrightarrow>
      sql_find sr_idempotency_key k t2 = sql_find sr_idempotency_key k t"
    using watch_row_other [of k row parse fd "E i" t] w by simp
  have here: "sql_find sr_idempotency_key k t2 = sql_find sr_idempotency_key k t \<or>
      (\<exists>E'. \<exists>row'\<in>set (row # rows). sr_idempotency_key row' = k \<and> sql_find sr_idempotency_key k t2 =
         sql_find sr_idempotency_key k (snd (watch_row parse fd E' row' t)))"
    using other w by (metis list.set_intros(1) snd_conv)
  show ?case
  proof (cases x)
    case (Inl e)
    with w here show ?thesis by simp
  next
    case (Inr u)
    with w have eq: "watch_rows parse fd E i (row # rows) t = watch_rows parse fd E (Suc i) rows t2"
      by simp
    from Cons.prems have "distinct (map sr_idempotency_key rows)" by simp
    from Cons.IH [OF this, of "Suc i" t2] show ?thesis
    proof
      assume "sql_find sr_idempotency_key k (snd (watch_rows parse fd E (Suc i) rows t2)) =
        sql_find sr_idempotency_key k t2"
      with here eq show ?thesis by simp
    next
      assume "\<exists>E'. \<exists>row\<in>set rows. sr_idempotency_key row = k \<and>
        sql_find sr_idempotency_key k (snd (watch_rows parse fd E (Suc i) rows t2)) =
        sql_find sr_idempotency_key k (snd (watch_row parse fd E' row t2))"
      then obtain E' row' where r: "row' \<in> set rows" "sr_idempotency_key row' = k"
        "sql_find sr_idempotency_key k (snd (watch_rows parse fd E (Suc i) rows t2)) =
         sql_find sr_idempotency_key k (snd (watch_row parse fd E' row' t2))" by blast
      with Cons.prems have "k \<noteq> sr_idempotency_key row" by (auto intro: rev_image_eqI)
      from watch_row_local [OF other [OF this]] r eq show ?thesis by auto
    qed
  qed
qed simp

lemma list_submitted_distinct:
  "store_list_submitted c limit t = Inr rs \<Longrightarrow> distinct (map sr_idempotency_key t) \<Longrightarrow>
   distinct (map sr_idempotency_key rs)"
  by (cases c) (auto simp: store_list_submitted_def
       intro!: distinct_sql_limit distinct_order_asc distinct_map_filter)

text \<open>How a row may differ after a pass: not at all, or it was submitted and is now one of three.\<close>

definition watch_move :: "nat \<Rightarrow> settlement_row \<Rightarrow> settlement_row \<Rightarrow> bool" where
  "watch_move fd r r' \<longleftrightarrow>
     r' = r \<or>
     sr_status r = SETTLE_SUBMITTED \<and> sr_tx_id r' = sr_tx_id r \<and>
       (sr_status r' = SETTLE_SUBMITTED \<and> sr_retryable r' = sr_retryable r \<or>
        sr_status r' = FINAL \<and> fd \<le> sr_last_depth r' \<and> sr_finalized_at r' \<noteq> None \<or>
        sr_status r' = ERROR \<and> \<not> sr_retryable r')"

lemma watch_row_move:
  assumes "sql_find sr_idempotency_key k t = Some r" "sr_status r = SETTLE_SUBMITTED"
    and "sql_find sr_idempotency_key k (snd (watch_row parse fd E row t)) = Some r'"
  shows "watch_move fd r r'"
proof (cases rule: watch_row_cases [of parse fd E row t])
  case (same r0)
  with assms show ?thesis by (simp add: watch_move_def)
next
  case (final now d)
  then have "r' = (if sr_idempotency_key r = sr_idempotency_key row
      then r\<lparr>sr_status := FINAL, sr_last_depth := d, sr_finalized_at := Some now, sr_updated_at := now\<rparr>
      else r)"
    using assms by (simp add: sql_find_update split del: if_split)
  with final(2) assms(2) show ?thesis
    by (cases "sr_idempotency_key r = sr_idempotency_key row") (simp_all only: if_True if_False, simp_all add: watch_move_def)
next
  case (depth now d)
  then have "r' = (if sr_idempotency_key r = sr_idempotency_key row
      then r\<lparr>sr_last_depth := d, sr_updated_at := now\<rparr> else r)"
    using assms by (simp add: sql_find_update split del: if_split)
  with assms(2) show ?thesis
    by (cases "sr_idempotency_key r = sr_idempotency_key row") (simp_all add: watch_move_def)
next
  case (refused now)
  then have "r' = (if sr_idempotency_key r = sr_idempotency_key row
      then r\<lparr>sr_status := ERROR, sr_error_reason := Some ''transaction rejected on chain'',
             sr_retryable := False, sr_updated_at := now\<rparr> else r)"
    using assms by (simp add: sql_find_update split del: if_split)
  with assms(2) show ?thesis
    by (cases "sr_idempotency_key r = sr_idempotency_key row") (simp_all add: watch_move_def)
qed

lemma watcher_tick_move:
  assumes "distinct (map sr_idempotency_key t)" "sql_find sr_idempotency_key k t = Some r"
    and "sql_find sr_idempotency_key k (snd (watcher_tick parse fd c E t)) = Some r'"
  shows "watch_move fd r r'"
proof (cases "store_list_submitted c WORKLIST_LIMIT t")
  case (Inl e)
  with assms show ?thesis by (simp add: watcher_tick_def watch_move_def)
next
  case (Inr rows)
  then have tick: "watcher_tick parse fd c E t = watch_rows parse fd E 0 rows t"
    by (simp add: watcher_tick_def)
  from watch_rows_find [OF list_submitted_distinct [OF Inr assms(1)], of k parse fd E 0 t]
  show ?thesis
  proof
    assume "sql_find sr_idempotency_key k (snd (watch_rows parse fd E 0 rows t)) =
      sql_find sr_idempotency_key k t"
    with assms tick show ?thesis by (simp add: watch_move_def)
  next
    assume "\<exists>E'. \<exists>row\<in>set rows. sr_idempotency_key row = k \<and>
      sql_find sr_idempotency_key k (snd (watch_rows parse fd E 0 rows t)) =
      sql_find sr_idempotency_key k (snd (watch_row parse fd E' row t))"
    then obtain E' row where r: "row \<in> set rows" "sr_idempotency_key row = k"
      "sql_find sr_idempotency_key k (snd (watch_row parse fd E' row t)) = Some r'"
      using assms tick by auto
    from store_list_submitted_spec [OF Inr r(1)] have "row \<in> set t" "sr_status row = SETTLE_SUBMITTED"
      by simp_all
    with sql_find_unique [OF assms(1)] r(2) assms(2) have "sr_status r = SETTLE_SUBMITTED" by auto
    from watch_row_move [OF assms(2) this r(3)] show ?thesis .
  qed
qed

end
