(* ===== verification/Settlement_Safety.thy ===== *)
theory Settlement_Safety
  imports Interface_C Finality
begin

text \<open>
  The settlement rail end to end: deliveries of any Interface C message and passes of the
  finality watcher, in any order and under any pattern of database failures, seen as one step
  relation on the bank. The section on payment shows that no idempotency key is paid twice, the
  section on rows that a settlement row follows its life cycle.
\<close>

section \<open>What one delivery does to the settlement store\<close>

lemma settle_attempt_calls:
  "bk_rail_calls (snd (settle_attempt R svc E corr si creditor net key b)) =
   bk_rail_calls b @ [(rail_instruction_of R svc si creditor net key, ie_settle E)]"
  by (simp add: settle_attempt_def Let_def split: sum.splits)

lemma settle_attempt_store:
  "bk_store (snd (settle_attempt R svc E corr si creditor net key b)) =
   (case ie_settle E of
      Inr out \<Rightarrow> snd (store_mark_submitted (ie_mark E) key (tx_id (so_tx out)) (tx_chain (so_tx out))
                   (so_asset out) (so_asset_amount out) (so_fx out) (bk_store b))
    | Inl e \<Rightarrow> snd (store_mark_error (ie_mark E) key (show_blockchain_error e) (is_rejected e) (bk_store b)))"
  by (simp add: settle_attempt_def Let_def split: sum.splits)

lemma rail_instruction_key [simp]:
  "ri_idempotency_key (rail_instruction_of R svc si creditor net key) = key"
  by (simp add: rail_instruction_of_def)

lemma settle_attempt_frame:
  "map sr_frame (bk_store (snd (settle_attempt R svc E corr si creditor net key b))) =
   map sr_frame (bk_store b)"
  by (simp add: settle_attempt_store split: sum.splits)

lemma settle_attempt_other:
  "k \<noteq> key \<Longrightarrow>
   sql_find sr_idempotency_key k (bk_store (snd (settle_attempt R svc E corr si creditor net key b))) =
   sql_find sr_idempotency_key k (bk_store b)"
  by (cases "ie_mark E"; cases "sql_find sr_idempotency_key k (bk_store b)")
     (auto simp: settle_attempt_store store_op_find store_op_defs exec_update_simps sql_find_update
           dest: sql_find_SomeD split: sum.splits)

text \<open>The row of the attempt afterwards: as it was when the write failed, else as the answer says.\<close>

lemma settle_attempt_row:
  assumes "sql_find sr_idempotency_key key (bk_store b) = Some r"
  obtains (unwritten) e where "ie_mark E = Fails e"
      "sql_find sr_idempotency_key key
         (bk_store (snd (settle_attempt R svc E corr si creditor net key b))) = Some r"
  | (submitted) r' out where "ie_settle E = Inr out" "sr_status r' = SETTLE_SUBMITTED"
      "sql_find sr_idempotency_key key
         (bk_store (snd (settle_attempt R svc E corr si creditor net key b))) = Some r'"
      "sr_tx_id r' = Some (tx_id (so_tx out))" "sr_retryable r' = sr_retryable r"
  | (failed) r' e where "ie_settle E = Inl e" "sr_status r' = ERROR" "sr_retryable r' = is_rejected e"
      "sql_find sr_idempotency_key key
         (bk_store (snd (settle_attempt R svc E corr si creditor net key b))) = Some r'"
proof (cases "ie_mark E")
  case (Fails e)
  with assms show thesis
    by (intro unwritten) (auto simp: settle_attempt_store store_op_defs exec_update_simps split: sum.splits)
next
  case (Runs now)
  have k: "sr_idempotency_key r = key" using sql_find_SomeD [OF assms] by simp
  show thesis
  proof (cases "ie_settle E")
    case (Inl e)
    let ?r = "r\<lparr>sr_status := ERROR, sr_error_reason := Some (show_blockchain_error e),
                sr_retryable := is_rejected e, sr_updated_at := now\<rparr>"
    from Inl Runs assms k show thesis
      by (intro failed [of e ?r]) (simp_all add: settle_attempt_store store_op_find)
  next
    case (Inr out)
    let ?r = "r\<lparr>sr_status := SETTLE_SUBMITTED, sr_tx_id := Some (tx_id (so_tx out)),
                sr_blockchain := Some (tx_chain (so_tx out)), sr_asset := Some (so_asset out),
                sr_asset_amount := Some (so_asset_amount out),
                sr_fx_minor_per_whole_asset := map_option (\<lambda>q. show_nat (fx_minor_per_whole q)) (so_fx out),
                sr_fx_source := map_option fx_quote_source (so_fx out),
                sr_fx_as_of := map_option fx_as_of_text (so_fx out), sr_updated_at := now\<rparr>"
    from Inr Runs assms k show thesis
      by (intro submitted [of out ?r]) (simp_all add: settle_attempt_store store_op_find)
  qed
qed

text \<open>Claim before pay: a payment is attempted only on a row this delivery just put in \<open>SETTLING\<close>.\<close>

abbreviation claim_of where
  "claim_of si creditor net key \<equiv>
     \<lparr>nc_idempotency_key = key, nc_settlement_id = si_settlement_id si,
      nc_snapshot_id = si_snapshot_id si, nc_currency = unwrap_or (si_currency si) [],
      nc_net_amount_minor = net, nc_creditor_address = creditor, nc_purpose = si_purpose si\<rparr>"

lemma settle_claimed_cases:
  obtains (idle) "snd (settle_claimed R svc E corr si creditor net key b) = b"
  | (first) now where "key \<notin> sr_idempotency_key ` set (bk_store b)"
      "settle_claimed R svc E corr si creditor net key b =
         settle_attempt R svc E corr si creditor net key
           (b\<lparr>bk_store := bk_store b @ [settlement_row_of now (claim_of si creditor net key)]\<rparr>)"
  | (again) now row where "sql_find sr_idempotency_key key (bk_store b) = Some row" "can_retry row"
      "settle_claimed R svc E corr si creditor net key b =
         settle_attempt R svc E corr si creditor net key
           (b\<lparr>bk_store := snd (store_reclaim_for_retry (Runs now) key (bk_store b))\<rparr>)"
proof (cases rule: store_claim_cases [of "ie_claim E" "ie_claim_read E" "claim_of si creditor net key" "bk_store b"])
  case (failed e)
  then show thesis by (intro idle) (simp add: settle_claimed_def)
next
  case (claimed now)
  then show thesis by (intro first) (simp_all add: settle_claimed_def)
next
  case (exists row)
  show thesis
  proof (cases "can_retry row")
    case False
    with exists show thesis by (intro idle) (simp add: settle_claimed_def)
  next
    case True
    show thesis
    proof (cases "ie_reclaim E")
      case (Fails e)
      with True exists show thesis
        by (intro idle) (simp add: settle_claimed_def store_reclaim_for_retry_def exec_update_simps)
    next
      case (Runs now)
      with True exists show thesis
        by (intro again [of row now])
           (simp_all add: settle_claimed_def store_reclaim_for_retry_def exec_update_simps)
    qed
  qed
qed

text \<open>Every other handler leaves the settlement store and the rail alone.\<close>

lemma credit_notification_settlements [simp]:
  "bk_store (snd (credit_notification L R E corr body b)) = bk_store b"
  "bk_rail_calls (snd (credit_notification L R E corr body b)) = bk_rail_calls b"
  by (simp_all add: credit_notification_def credit_deliver_def credit_refused_def Let_def
        split: sum.splits option.splits prod.splits cbs_error.splits)

lemma settlement_advice_settlements [simp]:
  "bk_store (snd (settlement_advice L E corr body b)) = bk_store b"
  "bk_rail_calls (snd (settlement_advice L E corr body b)) = bk_rail_calls b"
  by (simp_all add: settlement_advice_def Let_def split: sum.splits prod.splits)

lemma settlement_instruction_cases:
  obtains (idle) "snd (settlement_instruction L R E corr body b) = b"
  | (claims) svc si creditor net key where "lb_instruction L body = Inr si" "rt_settlement R = Some svc"
      "instruction_key si = Some key" "si_creditor_address si = Some creditor"
      "settlement_instruction L R E corr body b = settle_claimed R svc E corr si creditor net key b"
proof (cases "\<exists>svc si creditor net key. lb_instruction L body = Inr si \<and> rt_settlement R = Some svc \<and>
    instruction_key si = Some key \<and> si_creditor_address si = Some creditor \<and>
    settlement_instruction L R E corr body b = settle_claimed R svc E corr si creditor net key b")
  case True
  with claims show thesis by blast
next
  case False
  have "snd (settlement_instruction L R E corr body b) = b"
  proof (rule ccontr)
    assume c: "snd (settlement_instruction L R E corr body b) \<noteq> b"
    then obtain si svc where 1: "lb_instruction L body = Inr si" "rt_settlement R = Some svc"
      by (auto simp: settlement_instruction_def split: sum.splits option.splits)
    from c 1 obtain amount net where 2: "si_amount si = Some amount"
        "parse_minor_units amount 2 = Some (Inr net)"
      by (auto simp: settlement_instruction_def split: sum.splits option.splits)
    from c 1 2 obtain creditor key where 3: "si_creditor_address si = Some creditor"
        "instruction_key si = Some key"
      by (auto simp: settlement_instruction_def split: sum.splits option.splits)
    from 1 2 3 have "settlement_instruction L R E corr body b =
        settle_claimed R svc E corr si creditor net key b"
      by (simp add: settlement_instruction_def)
    with 1 3 False show False by blast
  qed
  then show thesis by (rule idle)
qed

lemma handle_settlement_cases:
  obtains (idle) "bk_store (snd (handle L R E mid corr body b)) = bk_store b"
      "bk_rail_calls (snd (handle L R E mid corr body b)) = bk_rail_calls b"
  | (claims) svc si creditor net key where
      "handle L R E mid corr body b = settle_claimed R svc (me_instruction E) corr si creditor net key b"
proof (cases "mid = SETTLEMENT_INSTRUCTION")
  case True
  then have h: "handle L R E mid corr body b = settlement_instruction L R (me_instruction E) corr body b"
    by (simp add: handle_def message_ids)
  show thesis
    by (cases rule: settlement_instruction_cases [of L R "me_instruction E" corr body b])
       (use h idle claims in simp_all)
next
  case False
  then show thesis by (intro idle) (simp_all add: handle_def)
qed

section \<open>Steps of the node\<close>

text \<open>
  A delivery of any message; a whole pass of the watcher; one row of a pass, with a row value
  that may be out of date, so that a pass may be interleaved with deliveries; and any write of
  the dispatcher or the south-side API to the outbox. Nothing is fixed about the libraries, the
  configuration or the answers of the environment: they may differ from step to step.
\<close>

inductive node_step :: "bank \<Rightarrow> bank \<Rightarrow> bool" where
  deliver: "node_step b (snd (handle L R E mid corr body b))"
| pass: "node_step b (b\<lparr>bk_store := snd (watcher_tick parse fd c W (bk_store b))\<rparr>)"
| watch: "node_step b (b\<lparr>bk_store := snd (watch_row parse fd V row (bk_store b))\<rparr>)"
| outbox: "outbox_step (bk_outbox b) t \<Longrightarrow> node_step b (b\<lparr>bk_outbox := t\<rparr>)"

inductive_cases node_stepE: "node_step b b'"

section \<open>A key is paid at most once\<close>

text \<open>
  A call to the rail that may have moved money: accepted, or failed with an error other than
  \<open>Rejected\<close>, which is the rail's word that nothing was submitted.
\<close>

definition may_have_moved :: "settle_answer \<Rightarrow> bool" where
  "may_have_moved a = (case a of Inr _ \<Rightarrow> True | Inl e \<Rightarrow> \<not> is_rejected e)"

definition transfers :: "string \<Rightarrow> bank \<Rightarrow> (rail_instruction \<times> settle_answer) list" where
  "transfers k b = filter (\<lambda>(i, a). ri_idempotency_key i = k \<and> may_have_moved a) (bk_rail_calls b)"

definition paid_guard :: "string \<Rightarrow> bank \<Rightarrow> bool" where
  "paid_guard k b \<longleftrightarrow> length (transfers k b) \<le> 1 \<and>
     (transfers k b = [] \<or>
      (case sql_find sr_idempotency_key k (bk_store b) of None \<Rightarrow> False | Some r \<Rightarrow> \<not> can_retry r))"

lemma paid_guard_idle:
  "paid_guard k b \<Longrightarrow> bk_store b' = bk_store b \<Longrightarrow> bk_rail_calls b' = bk_rail_calls b \<Longrightarrow>
   paid_guard k b'"
  by (simp add: paid_guard_def transfers_def)

lemma transfers_attempt:
  "transfers k (snd (settle_attempt R svc E corr si creditor net key b)) =
   transfers k b @ (if k = key \<and> may_have_moved (ie_settle E)
     then [(rail_instruction_of R svc si creditor net key, ie_settle E)] else [])"
  by (auto simp: transfers_def settle_attempt_calls)

text \<open>An attempt on a key with no transfer yet, on a row that is not retryable, keeps the guard.\<close>

lemma paid_guard_attempt_key:
  assumes "transfers key b = []" and "sql_find sr_idempotency_key key (bk_store b) = Some r"
    and "\<not> can_retry r"
  shows "paid_guard key (snd (settle_attempt R svc E corr si creditor net key b))"
proof (cases "may_have_moved (ie_settle E)")
  case False
  with assms(1) show ?thesis by (simp add: paid_guard_def transfers_attempt)
next
  case True
  show ?thesis
    by (rule settle_attempt_row [OF assms(2), of E R svc corr si creditor net])
       (use assms True in \<open>simp_all add: paid_guard_def transfers_attempt may_have_moved_def can_retry_def\<close>)
qed

lemma paid_guard_attempt_other:
  assumes "paid_guard k b" "k \<noteq> key"
  shows "paid_guard k (snd (settle_attempt R svc E corr si creditor net key b))"
  using assms by (simp add: paid_guard_def transfers_attempt settle_attempt_other)

lemma reclaim_find:
  "sql_find sr_idempotency_key k (snd (store_reclaim_for_retry (Runs now) key t)) =
   map_option (\<lambda>r. if sr_idempotency_key r = key \<and> can_retry r
     then r\<lparr>sr_status := SETTLING, sr_error_reason := None, sr_retryable := False, sr_updated_at := now\<rparr>
     else r) (sql_find sr_idempotency_key k t)"
  by (simp add: store_reclaim_for_retry_def exec_update_simps sql_find_update)

lemma paid_guard_deliver:
  assumes g: "\<And>k. paid_guard k b"
  shows "paid_guard k (snd (handle L R E mid corr body b))"
proof (cases rule: handle_settlement_cases [of L R E mid corr body b])
  case idle
  with g show ?thesis by (blast intro: paid_guard_idle)
next
  case (claims svc si creditor net key)
  show ?thesis
  proof (cases rule: settle_claimed_cases [of R svc "me_instruction E" corr si creditor net key b])
    case idle
    with claims g show ?thesis by simp
  next
    case (first now)
    let ?b = "b\<lparr>bk_store := bk_store b @ [settlement_row_of now (claim_of si creditor net key)]\<rparr>"
    have fresh: "sql_find sr_idempotency_key key (bk_store b) = None"
      using first(1) by (simp add: sql_find_None_iff)
    have none: "transfers key ?b = []" using g [of key] fresh by (simp add: paid_guard_def transfers_def)
    show ?thesis
    proof (cases "k = key")
      case True
      have "sql_find sr_idempotency_key key (bk_store ?b) =
          Some (settlement_row_of now (claim_of si creditor net key))"
        using fresh by (simp add: sql_find_append)
      from paid_guard_attempt_key [OF none this] True show ?thesis
        unfolding claims first(2) by (simp add: can_retry_def)
    next
      case False
      with g [of k] have "paid_guard k ?b"
        by (auto simp: paid_guard_def transfers_def sql_find_append split: option.splits)
      from paid_guard_attempt_other [OF this False] show ?thesis unfolding claims first(2) .
    qed
  next
    case (again now row)
    let ?b = "b\<lparr>bk_store := snd (store_reclaim_for_retry (Runs now) key (bk_store b))\<rparr>"
    have none: "transfers key ?b = []" using g [of key] again(1,2) by (simp add: paid_guard_def transfers_def)
    show ?thesis
    proof (cases "k = key")
      case True
      have "sr_idempotency_key row = key" using sql_find_SomeD [OF again(1)] by simp
      with again(1,2) have "\<exists>r. sql_find sr_idempotency_key key (bk_store ?b) = Some r \<and> \<not> can_retry r"
        by (simp add: reclaim_find) (simp add: can_retry_def)
      with paid_guard_attempt_key [OF none] True show ?thesis unfolding claims again(3) by blast
    next
      case False
      with g [of k] have "paid_guard k ?b"
        by (auto simp: paid_guard_def transfers_def reclaim_find can_retry_def
              dest: sql_find_SomeD split: option.splits)
      from paid_guard_attempt_other [OF this False] show ?thesis unfolding claims again(3) .
    qed
  qed
qed

text \<open>The watcher never makes a row retryable.\<close>

definition row_spent :: "string \<Rightarrow> settlements \<Rightarrow> bool" where
  "row_spent k t \<longleftrightarrow>
     (case sql_find sr_idempotency_key k t of None \<Rightarrow> False | Some r \<Rightarrow> \<not> can_retry r)"

lemma row_spent_update:
  assumes "row_spent k t" "\<And>r. sr_idempotency_key (f r) = sr_idempotency_key r"
    and "\<And>r. P r \<Longrightarrow> \<not> can_retry r \<Longrightarrow> \<not> can_retry (f r)"
  shows "row_spent k (sql_update P f t)"
  using assms by (auto simp: row_spent_def sql_find_update split: option.splits)

lemma watch_row_spent:
  assumes "row_spent k t"
  shows "row_spent k (snd (watch_row parse fd V row t))"
  by (rule watch_row_cases [of parse fd V row t])
     (use assms in \<open>auto intro!: row_spent_update simp: can_retry_def\<close>)

lemma watch_rows_spent: "row_spent k t \<Longrightarrow> row_spent k (snd (watch_rows parse fd W i rows t))"
proof (induction rows arbitrary: i t)
  case (Cons row rows)
  obtain x t2 where w: "watch_row parse fd (W i) row t = (x, t2)" by fastforce
  with watch_row_spent [OF Cons.prems, of parse fd "W i" row] have "row_spent k t2" by simp
  with w Cons.IH show ?case by (cases x) simp_all
qed simp

lemma watcher_tick_spent: "row_spent k t \<Longrightarrow> row_spent k (snd (watcher_tick parse fd c W t))"
  by (simp add: watcher_tick_def watch_rows_spent split: sum.splits)

lemma paid_guard_watch:
  assumes "paid_guard k b" "row_spent k (bk_store b) \<Longrightarrow> row_spent k t"
  shows "paid_guard k (b\<lparr>bk_store := t\<rparr>)"
  using assms by (auto simp: paid_guard_def transfers_def row_spent_def)

lemma node_step_paid_guard:
  assumes "node_step b b'" "\<And>k. paid_guard k b"
  shows "paid_guard k b'"
  using assms(1)
proof cases
  case (deliver L R E mid corr body)
  with assms(2) show ?thesis by (simp add: paid_guard_deliver)
next
  case (pass parse fd c W)
  with assms(2) show ?thesis by (simp add: paid_guard_watch watcher_tick_spent)
next
  case (watch parse fd V row)
  with assms(2) show ?thesis by (simp add: paid_guard_watch watch_row_spent)
next
  case (outbox t)
  with assms(2) show ?thesis by (simp add: paid_guard_idle [of k b])
qed

lemma node_steps_paid_guard:
  "node_step\<^sup>*\<^sup>* b b' \<Longrightarrow> (\<And>k. paid_guard k b) \<Longrightarrow> paid_guard k b'"
proof (induction arbitrary: k rule: rtranclp_induct)
  case (step u v)
  then show ?case by (blast intro: node_step_paid_guard)
qed blast

lemma paid_guard_start: "bk_rail_calls b = [] \<Longrightarrow> paid_guard k b"
  by (simp add: paid_guard_def transfers_def)

section \<open>The life cycle of a settlement row\<close>

text \<open>
  A delivery or a pass of the watcher, seen from the settlement store. The order on statuses: a
  retryable error may be tried again and so lead anywhere; a submitted settlement becomes final
  or a final error; every other status is where the row stays.
\<close>

inductive settle_step :: "settlements \<Rightarrow> settlements \<Rightarrow> bool" where
  delivered: "settle_step (bk_store b) (bk_store (snd (handle L R E mid corr body b)))"
| watched: "settle_step t (snd (watcher_tick parse fd c W t))"

definition status_of_row :: "settlement_row \<Rightarrow> settlement_status \<times> bool" where
  "status_of_row r = (sr_status r, sr_status r = ERROR \<and> sr_retryable r)"

definition settle_edge :: "settlement_status \<times> bool \<Rightarrow> settlement_status \<times> bool \<Rightarrow> bool" where
  "settle_edge s s' \<longleftrightarrow>
     s' = s \<or> s = (ERROR, True) \<or>
     s = (SETTLE_SUBMITTED, False) \<and> s' \<in> {(FINAL, False), (ERROR, False)}"

lemma watch_move_edge: "watch_move fd r r' \<Longrightarrow> settle_edge (status_of_row r) (status_of_row r')"
  by (auto simp: watch_move_def settle_edge_def status_of_row_def)

lemma handle_frame:
  "map sr_frame (bk_store (snd (handle L R E mid corr body b))) = map sr_frame (bk_store b) \<or>
   (\<exists>now n. nc_idempotency_key n \<notin> sr_idempotency_key ` set (bk_store b) \<and>
      map sr_frame (bk_store (snd (handle L R E mid corr body b))) =
      map sr_frame (bk_store b @ [settlement_row_of now n]))"
proof (cases rule: handle_settlement_cases [of L R E mid corr body b])
  case (claims svc si creditor net key)
  show ?thesis
  proof (cases rule: settle_claimed_cases [of R svc "me_instruction E" corr si creditor net key b])
    case (first now)
    have "map sr_frame (bk_store (snd (handle L R E mid corr body b))) =
        map sr_frame (bk_store b @ [settlement_row_of now (claim_of si creditor net key)])"
      unfolding claims first(2) settle_attempt_frame by simp
    with first(1) show ?thesis
      by (intro disjI2 exI [of _ now] exI [of _ "claim_of si creditor net key"]) simp
  next
    case (again now row)
    with claims show ?thesis by (simp add: settle_attempt_frame)
  qed (simp add: claims)
qed simp

lemma handle_row_edge:
  assumes "sql_find sr_idempotency_key k (bk_store b) = Some r"
    and "sql_find sr_idempotency_key k (bk_store (snd (handle L R E mid corr body b))) = Some r'"
  shows "r' = r \<or> can_retry r"
proof (cases rule: handle_settlement_cases [of L R E mid corr body b])
  case idle
  with assms show ?thesis by simp
next
  case (claims svc si creditor net key)
  show ?thesis
  proof (cases rule: settle_claimed_cases [of R svc "me_instruction E" corr si creditor net key b])
    case idle
    with assms claims show ?thesis by simp
  next
    case (first now)
    then have "k \<noteq> key" using assms(1) by (auto simp: sql_find_None_iff dest: sql_find_SomeD)
    with first(2) claims assms show ?thesis by (simp add: settle_attempt_other sql_find_append)
  next
    case (again now row)
    show ?thesis
    proof (cases "k = key")
      case True
      with again(1,2) assms(1) show ?thesis by simp
    next
      case False
      have "sr_idempotency_key r = k" using sql_find_SomeD [OF assms(1)] by simp
      with False again(3) claims assms show ?thesis
        by (simp add: settle_attempt_other reclaim_find)
    qed
  qed
qed

interpretation life: lifecycle_store sr_idempotency_key obligation_of settle_step status_of_row settle_edge
proof unfold_locales
  fix t t' :: settlements
  assume s: "settle_step t t'"
  then have f: "map sr_frame t' = map sr_frame t \<or>
    (\<exists>now n. nc_idempotency_key n \<notin> sr_idempotency_key ` set t \<and>
      map sr_frame t' = map sr_frame (t @ [settlement_row_of now n]))"
  proof cases
    case (delivered b L R E mid corr body)
    then show ?thesis using handle_frame [of L R E mid corr body b] by simp
  qed simp
  then show "\<exists>ys. map sr_frame t' = map sr_frame t @ ys" by auto
  from f have "map sr_idempotency_key t' = map sr_idempotency_key t \<or>
    (\<exists>k. k \<notin> sr_idempotency_key ` set t \<and>
      map sr_idempotency_key t' = map sr_idempotency_key t @ [k])"
  proof
    assume "map sr_frame t' = map sr_frame t"
    then show ?thesis by (intro disjI1 store_keys_of_frame)
  next
    assume "\<exists>now n. nc_idempotency_key n \<notin> sr_idempotency_key ` set t \<and>
      map sr_frame t' = map sr_frame (t @ [settlement_row_of now n])"
    then obtain now n where "nc_idempotency_key n \<notin> sr_idempotency_key ` set t"
      "map sr_frame t' = map sr_frame (t @ [settlement_row_of now n])" by blast
    from this(1) store_keys_of_frame [OF this(2)] show ?thesis by simp
  qed
  then show "distinct (map sr_idempotency_key t')" if "distinct (map sr_idempotency_key t)"
    using that by auto
next
  fix t t' :: settlements and k r r'
  assume s: "settle_step t t'" and d: "distinct (map sr_idempotency_key t)"
    and r: "sql_find sr_idempotency_key k t = Some r" "sql_find sr_idempotency_key k t' = Some r'"
  from s show "settle_edge (status_of_row r) (status_of_row r')"
  proof cases
    case (delivered b L R E mid corr body)
    with r handle_row_edge [of k b r L R E mid corr body r'] have "r' = r \<or> can_retry r" by simp
    then show ?thesis by (auto simp: settle_edge_def status_of_row_def can_retry_def)
  next
    case (watched parse fd c W)
    with d r show ?thesis by (auto intro: watch_move_edge dest: watcher_tick_move)
  qed
qed (auto simp: settle_edge_def)

text \<open>The statuses with no way out.\<close>

definition settle_terminal :: "settlement_row \<Rightarrow> bool" where
  "settle_terminal r \<longleftrightarrow> sr_status r \<in> {FINAL, SETTLING} \<or> sr_status r = ERROR \<and> \<not> sr_retryable r"

lemma settle_terminal_stays:
  assumes "settle_step\<^sup>*\<^sup>* t t'" "distinct (map sr_idempotency_key t)"
    and "sql_find sr_idempotency_key k t = Some r" "settle_terminal r"
  shows "\<exists>r'. sql_find sr_idempotency_key k t' = Some r' \<and> status_of_row r' = status_of_row r"
  by (rule life.terminal_stays [OF _ assms(1-3)])
     (use assms(4) in \<open>auto simp: settle_edge_def status_of_row_def settle_terminal_def\<close>)

section \<open>Final means deep enough\<close>

definition final_deep :: "nat \<Rightarrow> settlements \<Rightarrow> bool" where
  "final_deep fd t \<longleftrightarrow>
     list_all (\<lambda>r. sr_status r = FINAL \<longrightarrow> fd \<le> sr_last_depth r \<and> sr_finalized_at r \<noteq> None) t"

text \<open>Deliveries and passes of a watcher that runs at finality depth \<open>fd\<close>.\<close>

inductive settle_step_at :: "nat \<Rightarrow> settlements \<Rightarrow> settlements \<Rightarrow> bool" where
  delivered_at: "settle_step_at fd (bk_store b) (bk_store (snd (handle L R E mid corr body b)))"
| watched_at: "settle_step_at fd t (snd (watcher_tick parse fd c W t))"

lemma settle_step_at_step: "settle_step_at fd t t' \<Longrightarrow> settle_step t t'"
  by (induction rule: settle_step_at.induct) (auto intro: settle_step.intros)

definition deep_row :: "nat \<Rightarrow> settlement_row \<Rightarrow> bool" where
  "deep_row fd r \<longleftrightarrow> (sr_status r = FINAL \<longrightarrow> fd \<le> sr_last_depth r \<and> sr_finalized_at r \<noteq> None)"

lemma settle_step_at_distinct:
  "settle_step_at fd t t' \<Longrightarrow> distinct (map sr_idempotency_key t) \<Longrightarrow> distinct (map sr_idempotency_key t')"
  by (rule life.step_distinct [OF settle_step_at_step])

text \<open>A row that a step changes or adds is not final, unless a pass of the watcher finalised it.\<close>

lemma handle_new_row:
  assumes "sql_find sr_idempotency_key k (bk_store (snd (handle L R E mid corr body b))) = Some r'"
  shows "sql_find sr_idempotency_key k (bk_store b) = Some r' \<or> sr_status r' \<noteq> FINAL"
proof (cases rule: handle_settlement_cases [of L R E mid corr body b])
  case idle
  with assms show ?thesis by simp
next
  case (claims svc si creditor net key)
  have attempt: "sr_status r' \<noteq> FINAL"
    if "sql_find sr_idempotency_key key (bk_store c) = Some r" "sr_status r \<noteq> FINAL"
      "sql_find sr_idempotency_key key
         (bk_store (snd (settle_attempt R svc (me_instruction E) corr si creditor net key c))) = Some r'"
    for c r
    by (rule settle_attempt_row [OF that(1), of "me_instruction E" R svc corr si creditor net])
       (use that in auto)
  show ?thesis
  proof (cases rule: settle_claimed_cases [of R svc "me_instruction E" corr si creditor net key b])
    case idle
    with assms claims show ?thesis by simp
  next
    case (first now)
    show ?thesis
    proof (cases "k = key")
      case True
      have "sql_find sr_idempotency_key key (bk_store (b\<lparr>bk_store := bk_store b @
          [settlement_row_of now (claim_of si creditor net key)]\<rparr>)) =
          Some (settlement_row_of now (claim_of si creditor net key))"
        using first(1) by (auto simp: sql_find_append sql_find_None_iff split: option.splits
            dest: sql_find_SomeD)
      from attempt [OF this] assms True show ?thesis unfolding claims first(2) by simp
    next
      case False
      with assms show ?thesis unfolding claims first(2)
        by (simp add: settle_attempt_other sql_find_append split: option.splits)
    qed
  next
    case (again now row)
    show ?thesis
    proof (cases "k = key")
      case True
      have "\<exists>r. sql_find sr_idempotency_key key
          (bk_store (b\<lparr>bk_store := snd (store_reclaim_for_retry (Runs now) key (bk_store b))\<rparr>)) = Some r \<and>
          sr_status r \<noteq> FINAL"
        using again(1,2) sql_find_SomeD [OF again(1)] by (simp add: reclaim_find)
      then show ?thesis using attempt assms True unfolding claims again(3) by blast
    next
      case False
      have "sql_find sr_idempotency_key k (snd (store_reclaim_for_retry (Runs now) key (bk_store b))) =
          sql_find sr_idempotency_key k (bk_store b)"
        using False sql_find_SomeD [of sr_idempotency_key k "bk_store b"]
        by (cases "sql_find sr_idempotency_key k (bk_store b)") (auto simp: reclaim_find)
      with assms False show ?thesis unfolding claims again(3) by (simp add: settle_attempt_other)
    qed
  qed
qed

lemma watch_move_deep: "watch_move fd r r' \<Longrightarrow> deep_row fd r \<Longrightarrow> deep_row fd r'"
  by (auto simp: watch_move_def deep_row_def)

lemma settle_step_at_deep:
  assumes "settle_step_at fd t t'" "distinct (map sr_idempotency_key t)"
    and "\<And>r. sql_find sr_idempotency_key k t = Some r \<Longrightarrow> deep_row fd r"
    and "sql_find sr_idempotency_key k t' = Some r'"
  shows "deep_row fd r'"
  using assms(1)
proof cases
  case (delivered_at b L R E mid corr body)
  with assms(3,4) handle_new_row [of k L R E mid corr body b r'] show ?thesis
    by (auto simp: deep_row_def)
next
  case (watched_at parse c W)
  have "map sr_idempotency_key t' = map sr_idempotency_key t"
    unfolding watched_at by (rule store_keys_of_frame) simp
  with assms(4) have "\<exists>r. sql_find sr_idempotency_key k t = Some r"
    by (metis list.set_map not_None_eq sql_find_None_iff)
  then obtain r where r: "sql_find sr_idempotency_key k t = Some r" by blast
  from watcher_tick_move [OF assms(2) r] assms(4) watched_at have "watch_move fd r r'" by simp
  then show ?thesis by (rule watch_move_deep) (rule assms(3) [OF r])
qed

lemma settle_steps_at_deep:
  assumes "(settle_step_at fd)\<^sup>*\<^sup>* [] t"
  shows "distinct (map sr_idempotency_key t) \<and>
    (\<forall>r. sql_find sr_idempotency_key k t = Some r \<longrightarrow> deep_row fd r)"
  using assms
proof (induction rule: rtranclp_induct)
  case (step t t')
  then show ?case using settle_step_at_distinct settle_step_at_deep by blast
qed simp

lemma settle_reachable_final_deep:
  assumes "(settle_step_at fd)\<^sup>*\<^sup>* [] t"
  shows "final_deep fd t"
proof -
  have "deep_row fd r" if "r \<in> set t" for r
    using settle_steps_at_deep [OF assms, of "sr_idempotency_key r"]
      sql_find_unique [of sr_idempotency_key t r] that by simp
  then show ?thesis by (auto simp: final_deep_def deep_row_def list_all_iff)
qed

end
