(* ===== verification/Cardano_Safety.thy ===== *)
theory Cardano_Safety
  imports Cardano Settlement_Safety
begin

text \<open>
  What the settlement rail owes the node. The interface is the trait \<open>SettlementBackend\<close>
  (\<open>crates/obp-blockchain/src/settlement.rs\<close>): its promise is that \<open>Rejected\<close> means nothing was
  submitted. The ADA rail keeps it, so with the node's claim-before-pay no key gets two
  transactions. The second part is about confirmations: a deep one is a block of the chain.
\<close>

section \<open>The interface\<close>

text \<open>
  The life of a rail's state while the node makes the listed calls: calls in order, and between
  them anything that submits no settlement (the notary's writes, the follower's progress).
\<close>

inductive rail_run ::
  "('s \<Rightarrow> rail_instruction \<Rightarrow> settle_answer \<Rightarrow> 's \<Rightarrow> bool) \<Rightarrow> ('s \<Rightarrow> string list)
   \<Rightarrow> 's \<Rightarrow> (rail_instruction \<times> settle_answer) list \<Rightarrow> 's \<Rightarrow> bool"
  for settle :: "'s \<Rightarrow> rail_instruction \<Rightarrow> settle_answer \<Rightarrow> 's \<Rightarrow> bool"
    and paid :: "'s \<Rightarrow> string list"
  where
  run_start: "rail_run settle paid s [] s"
| run_other: "rail_run settle paid s calls s' \<Longrightarrow> paid s'' = paid s' \<Longrightarrow> rail_run settle paid s calls s''"
| run_call: "rail_run settle paid s calls s' \<Longrightarrow> settle s' i a s'' \<Longrightarrow>
    rail_run settle paid s (calls @ [(i, a)]) s''"

locale settlement_rail =
  fixes settle :: "'s \<Rightarrow> rail_instruction \<Rightarrow> settle_answer \<Rightarrow> 's \<Rightarrow> bool"
    and paid :: "'s \<Rightarrow> string list"
  assumes one_transfer: "settle s i a s' \<Longrightarrow> paid s' = paid s \<or> paid s' = paid s @ [ri_idempotency_key i]"
    and rejected_nothing: "settle s i (Inl e) s' \<Longrightarrow> is_rejected e \<Longrightarrow> paid s' = paid s"
begin

lemma run_paid:
  assumes "rail_run settle paid s calls s'"
  shows "length (filter (\<lambda>k'. k' = k) (paid s')) \<le> length (filter (\<lambda>k'. k' = k) (paid s)) +
    length (filter (\<lambda>(i, a). ri_idempotency_key i = k \<and> may_have_moved a) calls)"
  using assms
proof (induction rule: rail_run.induct)
  case (run_call s calls s' i a s'')
  show ?case
  proof (cases "may_have_moved a")
    case True
    with one_transfer [OF run_call.hyps(2)] run_call.IH show ?thesis by auto
  next
    case False
    then obtain e where e: "a = Inl e" "is_rejected e" by (auto simp: may_have_moved_def split: sum.splits)
    from rejected_nothing [OF run_call.hyps(2) [unfolded e(1)] e(2)] run_call.IH False show ?thesis by auto
  qed
qed simp_all

end

section \<open>The ADA rail\<close>

text \<open>
  A transaction may be on its way unless the request never left the node or the Cardano node
  answered it with an RPC error, its refusal.
\<close>

definition on_its_way :: "submission \<Rightarrow> bool" where
  "on_its_way sb \<longleftrightarrow> sb_sent sb \<noteq> None \<and> (case sb_answer sb of Inl (OgRpc _ _) \<Rightarrow> False | _ \<Rightarrow> True)"

definition settled_keys :: "cardano_state \<Rightarrow> string list" where
  "settled_keys s = List.map_filter sb_key (filter on_its_way (ca_submissions s))"

definition ada_call ::
  "cardano_libs \<Rightarrow> cardano \<Rightarrow> cardano_state \<Rightarrow> rail_instruction \<Rightarrow> settle_answer \<Rightarrow> cardano_state \<Rightarrow> bool" where
  "ada_call L C s i a s' \<longleftrightarrow> (\<exists>E. ada_settle L C E i s = (a, s'))"

lemma settled_keys_append [simp]:
  "settled_keys (s\<lparr>ca_submissions := ca_submissions s @ [sb]\<rparr>) =
   settled_keys s @ (if on_its_way sb then (case sb_key sb of None \<Rightarrow> [] | Some k \<Rightarrow> [k]) else [])"
  by (simp add: settled_keys_def map_filter_def split: option.splits)

lemma settled_keys_follower [simp]: "settled_keys (s\<lparr>ca_follower := f\<rparr>) = settled_keys s"
  by (simp add: settled_keys_def)

lemma map_ogmios_rejected: "is_rejected (map_ogmios e) \<longleftrightarrow> (\<exists>code m. e = OgRpc code m)"
  by (cases e) (simp_all add: map_ogmios_def is_rejected_def)

lemma submit_signed_keys:
  assumes "submit_signed L C K key sx s = (r, s')"
  shows "settled_keys s' = settled_keys s \<or>
    settled_keys s' = settled_keys s @ (case key of None \<Rightarrow> [] | Some k \<Rightarrow> [k])"
    and "r = Inl e \<Longrightarrow> is_rejected e \<Longrightarrow> settled_keys s' = settled_keys s"
proof -
  obtain answer sent where st: "submit_transaction (cl_ogmios L) (cd_ogmios C) K (sx_cbor_hex sx) =
      (answer, sent)" by fastforce
  let ?sb = "\<lparr>sb_key = key, sb_cbor_hex = sx_cbor_hex sx, sb_sent = sent, sb_answer = answer\<rparr>"
  from assms st have keys: "settled_keys s' =
      settled_keys s @ (if on_its_way ?sb then (case key of None \<Rightarrow> [] | Some k \<Rightarrow> [k]) else [])"
    by (cases "cd_followed C")
       (auto simp: submit_signed_def Let_def settled_keys_def map_filter_def split: sum.splits if_splits)
  then show "settled_keys s' = settled_keys s \<or>
    settled_keys s' = settled_keys s @ (case key of None \<Rightarrow> [] | Some k \<Rightarrow> [k])" by auto
  assume "r = Inl e" "is_rejected e"
  with assms st have "\<exists>code m. answer = Inl (OgRpc code m)"
    by (auto simp: submit_signed_def Let_def is_rejected_def map_ogmios_rejected [unfolded is_rejected_def]
        split: sum.splits if_splits)
  with keys show "settled_keys s' = settled_keys s" by (auto simp: on_its_way_def)
qed

lemma ada_settle_keys:
  assumes "ada_settle L C E i s = (a, s')"
  shows "settled_keys s' = settled_keys s \<or> settled_keys s' = settled_keys s @ [ri_idempotency_key i]"
    and "a = Inl e \<Longrightarrow> is_rejected e \<Longrightarrow> settled_keys s' = settled_keys s"
proof -
  have "s' = s \<or> (\<exists>sx r. submit_signed L C (xf_submit (sn_transfer E)) (Some (ri_idempotency_key i)) sx s =
      (r, s') \<and> (\<forall>e. a = Inl e \<longrightarrow> r = Inl e))"
    using assms
    by (auto simp: ada_settle_def submit_ada_transfer_def split: if_splits sum.splits prod.splits)
  then show "settled_keys s' = settled_keys s \<or> settled_keys s' = settled_keys s @ [ri_idempotency_key i]"
    and "a = Inl e \<Longrightarrow> is_rejected e \<Longrightarrow> settled_keys s' = settled_keys s"
    using submit_signed_keys by (metis option.simps(5))+
qed

interpretation ada: settlement_rail "ada_call L C" settled_keys for L C
proof unfold_locales
  fix s i a s'
  assume "ada_call L C s i a s'"
  then show "settled_keys s' = settled_keys s \<or> settled_keys s' = settled_keys s @ [ri_idempotency_key i]"
    unfolding ada_call_def by (blast dest: ada_settle_keys(1))
next
  fix s i e s'
  assume "ada_call L C s i (Inl e) s'" "is_rejected e"
  then show "settled_keys s' = settled_keys s"
    unfolding ada_call_def by (blast dest: ada_settle_keys(2))
qed

text \<open>The notary's writes submit no settlement.\<close>

lemma write_notary_keys: "settled_keys (snd (write_notary L C E schema commitment s)) = settled_keys s"
proof (cases "prepare_payment L C E (wa_address (cd_wallet C)) MIN_UTXO_LOVELACE
    (text_record_metadatum [(''schema'', schema), (''commitment'', commitment), (''ts'', xf_now E)])")
  case (Inl e)
  then show ?thesis by (simp add: write_notary_def)
next
  case (Inr sx)
  obtain r s' where "submit_signed L C (xf_submit E) None sx s = (r, s')" by fastforce
  with submit_signed_keys(1) [OF this] Inr show ?thesis
    by (auto simp: write_notary_def split: sum.splits)
qed

section \<open>What a settlement pays\<close>

lemma fiat_to_lovelace_ok:
  "fiat_minor_to_lovelace net rate = Inr w \<longleftrightarrow>
     rate \<noteq> 0 \<and> net * 1000000 < 2 ^ 128 \<and> 0 < net * 1000000 div rate \<and> net * 1000000 div rate < 2 ^ 64 \<and>
     w = of_nat (net * 1000000 div rate)"
  by (auto simp: fiat_minor_to_lovelace_def checked_mul_def Let_def split: if_splits)

lemma fiat_to_lovelace_rejected:
  "fiat_minor_to_lovelace net rate = Inl e \<Longrightarrow> is_rejected e"
  by (auto simp: fiat_minor_to_lovelace_def checked_mul_def Let_def is_rejected_def split: if_splits)

text \<open>The transfer never pays more than the obligation is worth, and less than one lovelace below it.\<close>

lemma fiat_to_lovelace_bounds:
  assumes "fiat_minor_to_lovelace net rate = Inr w"
  shows "unat w * rate \<le> net * 1000000" "net * 1000000 < (unat w + 1) * rate"
proof -
  from assms have w: "rate \<noteq> 0" "unat w = net * 1000000 div rate"
    by (auto simp: fiat_to_lovelace_ok unat_of_nat)
  show "unat w * rate \<le> net * 1000000" unfolding w(2) by (rule div_times_less_eq_dividend)
  show "net * 1000000 < (unat w + 1) * rate"
    using w dividend_less_div_times [of rate "net * 1000000"] by simp
qed

section \<open>Confirmations\<close>

lemma confirm_unknown_depth:
  assumes "confirm L C K r s = Inr (Confirmed d)"
    and "\<not> cd_followed C \<or> fo_watched (ca_follower s) (cl_lower L (tx_id r)) = None"
  shows "d = 1"
  using assms by (auto simp: confirm_def follower_status_def split: if_splits option.splits sum.splits)

text \<open>Depth two and more is the depth of a block on the chain the follower has observed.\<close>

lemma confirm_deep:
  assumes "(sync (cl_lower L))\<^sup>*\<^sup>* ([], follower_start) (chain, ca_follower s)"
    and "confirm L C K r s = Inr (Confirmed d)" and "2 \<le> d"
  shows "\<exists>b. block_of (cl_lower L) chain (cl_lower L (tx_id r)) = Some b \<and>
    d = depth_of (fo_tip (ca_follower s)) (bl_height b)"
proof -
  from assms(2,3) confirm_unknown_depth [OF assms(2)]
  have "follower_status (cl_lower L) (ca_follower s) (tx_id r) = Some (Confirmed d)"
    by (auto simp: confirm_def follower_status_def split: if_splits option.splits sum.splits)
  with status_of_chain [OF syncs_follow [OF assms(1)]] show ?thesis
    by (auto split: if_splits option.splits)
qed

text \<open>After a rollback of its block a transaction is pending again.\<close>

lemma confirm_after_rollback:
  assumes "(sync (cl_lower L))\<^sup>*\<^sup>* ([], follower_start) (chain, f)"
    and "block_of (cl_lower L) chain (cl_lower L (tx_id r)) = Some b" and "rolled_back rb (bl_slot b)"
    and "fo_watched f (cl_lower L (tx_id r)) \<noteq> None" and "cd_followed C" and "tx_chain r = ''cardano''"
    and "ca_follower s = apply_backward rb tip f"
  shows "confirm L C K r s = Inr ConfPending"
proof -
  let ?k = "cl_lower L (tx_id r)"
  have f: "follows (cl_lower L) (chain, f)" by (rule syncs_follow [OF assms(1)])
  then have "chain_ok (cl_lower L) chain" by (simp add: follows_def)
  then have "block_of (cl_lower L) (kept rb chain) ?k = None" using assms(2,3) by (simp add: block_of_kept)
  moreover have "fo_watched (apply_backward rb tip f) ?k \<noteq> None"
    using assms(4) by (auto simp: apply_backward_def split: option.splits watch.splits)
  ultimately have "follower_status (cl_lower L) (ca_follower s) (tx_id r) = Some ConfPending"
    using status_of_chain [OF follows_backward [OF f, of rb tip], of "tx_id r"] assms(7) by simp
  with assms(5,6) show ?thesis by (simp add: confirm_def)
qed

end
