(* ===== verification/Credit_Safety.thy ===== *)
theory Credit_Safety
  imports Interface_C
begin

text \<open>
  Credit notifications end to end: what a delivery has done by the time the core banking system
  is called, when a return is initiated and to whom, and what each answer means.
\<close>

section \<open>The branches of the handler\<close>

abbreviation credit_upsert where
  "credit_upsert L E cn body b \<equiv>
     evidence_upsert (ce_upsert E) (credit_evidence cn (credit_verified (lb_hash L) cn) (utf8_lossy body))
       (bk_evidence b)"

lemma credit_notification_cases:
  obtains (malformed) e where "lb_credit L body = Inl e"
      "credit_notification L R E corr body b =
         (Replied (reply_error corr BAD_MESSAGE (''malformed credit_notification: '' @ e)), b)"
  | (unsaved) cn e where "lb_credit L body = Inr cn" "ce_upsert E = Fails e"
      "credit_notification L R E corr body b =
         (Replied (reply_error corr PLATFORM ''failed to persist evidence''), b)"
  | (mismatch) cn now ev where "lb_credit L body = Inr cn" "ce_upsert E = Runs now"
      "credit_upsert L E cn body b = (Inr (), ev)"
      "evidence_present cn" "\<not> credit_verified (lb_hash L) cn"
      "credit_notification L R E corr body b =
         (Replied (reply_error corr COMMITMENT_MISMATCH
            ''promise commitment does not match the revealed salt and preimage''),
          b\<lparr>bk_evidence := ev\<rparr>)"
  | (delivers) cn now ev where "lb_credit L body = Inr cn" "ce_upsert E = Runs now"
      "credit_upsert L E cn body b = (Inr (), ev)"
      "evidence_present cn \<longrightarrow> credit_verified (lb_hash L) cn"
      "credit_notification L R E corr body b =
         credit_deliver L R E corr cn (credit_verified (lb_hash L) cn) (utf8_lossy body)
           (b\<lparr>bk_evidence := ev\<rparr>)"
proof (cases "lb_credit L body")
  case (Inl e)
  then show thesis by (intro malformed) (simp_all add: credit_notification_def)
next
  case (Inr cn)
  show thesis
  proof (cases "ce_upsert E")
    case (Fails e)
    with Inr show thesis by (intro unsaved) (simp_all add: credit_notification_def)
  next
    case (Runs now)
    obtain ev where ev: "credit_upsert L E cn body b = (Inr (), ev)"
      using Runs by (cases "sql_has_key ev_transaction_request_id (ne_transaction_request_id
        (credit_evidence cn (credit_verified (lb_hash L) cn) (utf8_lossy body))) (bk_evidence b)") auto
    have eq: "credit_notification L R E corr body b =
        (if evidence_present cn \<and> \<not> credit_verified (lb_hash L) cn
         then (Replied (reply_error corr COMMITMENT_MISMATCH
                 ''promise commitment does not match the revealed salt and preimage''),
               b\<lparr>bk_evidence := ev\<rparr>)
         else credit_deliver L R E corr cn (credit_verified (lb_hash L) cn) (utf8_lossy body)
                (b\<lparr>bk_evidence := ev\<rparr>))"
      using Inr ev by (simp add: credit_notification_def Let_def del: evidence_upsert.simps)
    show thesis
    proof (cases "evidence_present cn \<and> \<not> credit_verified (lb_hash L) cn")
      case True
      then have e: "evidence_present cn" "\<not> credit_verified (lb_hash L) cn" by simp_all
      show thesis by (rule mismatch [OF Inr Runs ev e]) (simp add: eq e)
    next
      case False
      then have e: "evidence_present cn \<longrightarrow> credit_verified (lb_hash L) cn" by simp
      show thesis by (rule delivers [OF Inr Runs ev e]) (simp only: eq False if_False)
    qed
  qed
qed

section \<open>What delivering does to the state\<close>

lemma credit_refused_posts [simp]:
  "bk_cbs_posts (snd (credit_refused L R E corr cn verified status body b)) = bk_cbs_posts b"
  by (simp add: credit_refused_def Let_def split: sum.splits prod.splits)

lemma credit_deliver_posts [simp]:
  "bk_cbs_posts (snd (credit_deliver L R E corr cn verified raw b)) = bk_cbs_posts b @ [raw]"
  by (simp add: credit_deliver_def Let_def split: option.splits sum.splits cbs_error.splits)

text \<open>The evidence columns a credit is defended with.\<close>

definition reveals :: "evidence_record \<Rightarrow> string \<times> string \<times> string \<times> bool \<times> string" where
  "reveals r = (ev_promise_commitment r, ev_promise_salt r, ev_promise_preimage r, ev_verified r,
                ev_raw_message r)"

lemma reveals_updates [simp]:
  "reveals (r\<lparr>ev_cbs_status := a\<rparr>) = reveals r"
  "reveals (r\<lparr>ev_cbs_reference := a\<rparr>) = reveals r"
  "reveals (r\<lparr>ev_cbs_recorded_at := a\<rparr>) = reveals r"
  "reveals (r\<lparr>ev_returned_by := a\<rparr>) = reveals r"
  by (simp_all add: reveals_def)

definition revealed :: "string \<Rightarrow> evidence \<Rightarrow> (string \<times> string \<times> string \<times> bool \<times> string) option" where
  "revealed k t = map_option reveals (sql_find ev_transaction_request_id k t)"

lemma revealed_later [simp]:
  "revealed k (snd (evidence_record_cbs_result c trid s ref t)) = revealed k t"
  "revealed k (snd (evidence_record_return c trid rid t)) = revealed k t"
proof -
  have *: "revealed k (snd (exec_update c P f t)) = revealed k t"
    if "\<And>now r. ev_transaction_request_id (f now r) = ev_transaction_request_id r"
      "\<And>now r. reveals (f now r) = reveals r" for P f
    using that by (cases c; cases "sql_find ev_transaction_request_id k t")
      (auto simp: exec_update_simps revealed_def sql_find_update)
  show "revealed k (snd (evidence_record_cbs_result c trid s ref t)) = revealed k t"
    "revealed k (snd (evidence_record_return c trid rid t)) = revealed k t"
    unfolding evidence_record_cbs_result_def evidence_record_return_def by (rule *; simp)+
qed

lemma credit_refused_revealed [simp]:
  "revealed k (bk_evidence (snd (credit_refused L R E corr cn verified status body b))) =
   revealed k (bk_evidence b)"
  by (simp add: credit_refused_def Let_def split: sum.splits prod.splits)

lemma credit_deliver_revealed [simp]:
  "revealed k (bk_evidence (snd (credit_deliver L R E corr cn verified raw b))) =
   revealed k (bk_evidence b)"
  by (simp add: credit_deliver_def Let_def split: option.splits sum.splits cbs_error.splits)

lemma credit_evidence_sel [simp]:
  "ne_transaction_request_id (credit_evidence cn v raw) = cn_transaction_request_id cn"
  "ne_promise_commitment (credit_evidence cn v raw) = unwrap_or (cn_promise_commitment cn) []"
  "ne_promise_salt (credit_evidence cn v raw) = unwrap_or (cn_promise_salt cn) []"
  "ne_promise_preimage (credit_evidence cn v raw) = unwrap_or (cn_promise_preimage cn) []"
  "ne_verified (credit_evidence cn v raw) = v"
  "ne_raw_message (credit_evidence cn v raw) = raw"
  by (simp_all add: credit_evidence_def)

text \<open>What an evidence row must show for a notification.\<close>

definition evidence_for :: "(string \<Rightarrow> string) \<Rightarrow> credit_message \<Rightarrow> string
    \<Rightarrow> string \<times> string \<times> string \<times> bool \<times> string" where
  "evidence_for hash cn raw =
     (unwrap_or (cn_promise_commitment cn) [], unwrap_or (cn_promise_salt cn) [],
      unwrap_or (cn_promise_preimage cn) [], credit_verified hash cn, raw)"

lemma upsert_revealed:
  assumes "credit_upsert L E cn body b = (Inr (), ev)" "ce_upsert E = Runs now"
  shows "revealed (cn_transaction_request_id cn) ev =
    Some (evidence_for (lb_hash L) cn (utf8_lossy body))"
  using evidence_upsert_get [OF assms(1) [unfolded assms(2)]]
  by (auto simp: revealed_def reveals_def evidence_for_def)

section \<open>Evidence first\<close>

text \<open>
  A delivery posts to the core banking system at most once, and only after the evidence of this
  very notification is stored and (where the notification carries a commitment) verified.
\<close>

lemma credit_post_evidence:
  assumes "credit_notification L R E corr body b = (r, b')"
  shows "bk_cbs_posts b' = bk_cbs_posts b \<or>
    (\<exists>cn. lb_credit L body = Inr cn \<and> bk_cbs_posts b' = bk_cbs_posts b @ [utf8_lossy body] \<and>
       (evidence_present cn \<longrightarrow> credit_verified (lb_hash L) cn) \<and>
       revealed (cn_transaction_request_id cn) (bk_evidence b') =
         Some (evidence_for (lb_hash L) cn (utf8_lossy body)))"
proof (cases rule: credit_notification_cases [of L body R E corr b])
  case (delivers cn now ev)
  from delivers(5) assms have b': "b' = snd (credit_deliver L R E corr cn
      (credit_verified (lb_hash L) cn) (utf8_lossy body) (b\<lparr>bk_evidence := ev\<rparr>))"
    by (metis snd_conv)
  with delivers upsert_revealed [OF delivers(3,2)] show ?thesis by simp
qed (use assms in auto)

section \<open>Returns\<close>

lemma initiate_return_cases:
  obtains (none) e where "initiate_return L R E cn reason ob = (Inl e, ob)"
  | (placed) bank name scheme address payload now where
      "return_target L cn = Inr (bank, name, scheme, address)"
      "lb_ser_request L (return_request R cn bank name scheme address (take_chars 120 reason)) = Inr payload"
      "ce_return_id E \<notin> ob_transaction_request_id ` set ob"
      "initiate_return L R E cn reason ob =
         (Inr (ce_return_id E), ob @ [outbox_row now
            \<lparr>en_transaction_request_id = ce_return_id E, en_bank_id = rt_bank_id R,
             en_account_id = rt_account_id R, en_request_payload = payload,
             en_commitment_salt = ce_salt E\<rparr>])"
proof (cases "return_target L cn")
  case (Inl e)
  then show thesis by (intro none) (simp add: initiate_return_def)
next
  case (Inr q)
  obtain bank name scheme address where q: "q = (bank, name, scheme, address)" by (cases q)
  show thesis
  proof (cases "lb_ser_request L (return_request R cn bank name scheme address (take_chars 120 reason))")
    case (Inl e)
    with Inr q show thesis by (intro none) (simp add: initiate_return_def)
  next
    case (Inr payload)
    let ?en = "\<lparr>en_transaction_request_id = ce_return_id E, en_bank_id = rt_bank_id R,
                 en_account_id = rt_account_id R, en_request_payload = payload,
                 en_commitment_salt = ce_salt E\<rparr>"
    show thesis
    proof (cases rule: outbox_insert_cases [of "ce_insert E" ?en ob])
      case (same e)
      with Inr q \<open>return_target L cn = Inr q\<close> show thesis
        by (intro none) (simp add: initiate_return_def)
    next
      case (added now)
      with Inr q \<open>return_target L cn = Inr q\<close> show thesis
        by (intro placed [of bank name scheme address payload now]) (simp_all add: initiate_return_def)
    qed
  qed
qed

text \<open>The originator has a bank and an account.\<close>

lemma return_target_nonblank:
  "return_target L cn = Inr (bank, name, scheme, address) \<Longrightarrow>
   \<not> is_blank bank \<and> \<not> is_blank scheme \<and> \<not> is_blank address"
  by (auto simp: return_target_def Let_def dest: filter_opt_SomeD
           split: option.splits sum.splits if_splits)

text \<open>
  A payment leaves the node on a credit only as the return of a credit that is not itself a
  return, that the CBS refused with a status below 500, and whose commitment verified.
\<close>

lemma credit_refused_outbox:
  assumes "credit_refused L R E corr cn verified status answer b = (r, b')"
  shows "bk_outbox b' = bk_outbox b \<or>
    (cn_return_of cn = None \<and>
     (\<exists>bank name scheme address payload now.
        return_target L cn = Inr (bank, name, scheme, address) \<and>
        lb_ser_request L (return_request R cn bank name scheme address (take_chars 120 answer)) = Inr payload \<and>
        ce_return_id E \<notin> ob_transaction_request_id ` set (bk_outbox b) \<and>
        bk_outbox b' = bk_outbox b @ [outbox_row now
            \<lparr>en_transaction_request_id = ce_return_id E, en_bank_id = rt_bank_id R,
             en_account_id = rt_account_id R, en_request_payload = payload,
             en_commitment_salt = ce_salt E\<rparr>]))"
proof (cases "cn_return_of cn")
  case (Some x)
  with assms show ?thesis by (auto simp: credit_refused_def Let_def)
next
  case None
  show ?thesis
    by (cases rule: initiate_return_cases [of L R E cn answer "bk_outbox b"])
       (use assms None in \<open>auto simp: credit_refused_def Let_def\<close>)
qed

lemma credit_deliver_outbox:
  assumes "credit_deliver L R E corr cn verified raw b = (r, b')"
    and "bk_outbox b' \<noteq> bk_outbox b"
  shows "\<exists>status answer. deliver_credit (lb_ack L) (ce_cbs E) = Some (Inl (CbsRejected status answer)) \<and>
    status < 500 \<and> (r, b') =
      credit_refused L R E corr cn verified status answer (b\<lparr>bk_cbs_posts := bk_cbs_posts b @ [raw]\<rparr>)"
  using assms
  by (auto simp: credit_deliver_def Let_def split: option.splits sum.splits cbs_error.splits if_splits)

end
