(* ===== verification/Consumer.thy ===== *)
theory Consumer
  imports Interface_C
begin

text \<open>
  The transport shell of Interface C (\<open>crates/obp-bank-node/src/interface_c/consumer.rs\<close>): the
  reconnect backoff, the shared status, one consuming session and the supervisor. The broker
  (\<open>lapin\<close>) is the environment: it says whether a session connects and which deliveries it
  brings. The serializer of replies is a parameter.
\<close>

section \<open>Status and backoff\<close>

record consumer_status =
  cs_state :: string
  cs_detail :: "string option"

definition CONNECTING :: string where "CONNECTING = ''connecting''"
definition CONNECTED :: string where "CONNECTED = ''connected''"
definition RECONNECTING :: string where "RECONNECTING = ''reconnecting''"
definition DISABLED :: string where "DISABLED = ''disabled''"

definition new_status :: consumer_status where
  "new_status = \<lparr>cs_state = CONNECTING, cs_detail = None\<rparr>"

definition set_status :: "string \<Rightarrow> string option \<Rightarrow> consumer_status" where
  "set_status state detail = \<lparr>cs_state = state, cs_detail = detail\<rparr>"

definition is_connected :: "consumer_status \<Rightarrow> bool" where
  "is_connected s \<longleftrightarrow> cs_state s = CONNECTED"

definition BACKOFF_BASE :: nat where "BACKOFF_BASE = 1"
definition BACKOFF_MAX :: nat where "BACKOFF_MAX = 30"

definition next_backoff :: "nat \<Rightarrow> nat" where
  "next_backoff current = min (current * 2) BACKOFF_MAX"

section \<open>A delivery\<close>

record delivery =
  dv_message_id :: "string option"
  dv_correlation_id :: "string option"
  dv_reply_to :: "string option"
  dv_data :: string

definition str_prop :: "string option \<Rightarrow> string" where
  "str_prop p = unwrap_or p []"

text \<open>The node as its consumer sees it; replies are (queue, correlation id, bytes).\<close>

record shell =
  sh_bank :: bank
  sh_published :: "(string \<times> string \<times> string) list"
  sh_acked :: nat

text \<open>\<open>None\<close>: the handler panicked, and the task with it; nothing is published or acknowledged.\<close>

definition consume_one ::
  "libs \<Rightarrow> router \<Rightarrow> (reply_envelope \<Rightarrow> string + string) \<Rightarrow> message_env \<Rightarrow> delivery \<Rightarrow> shell
   \<Rightarrow> bool \<times> shell" where
  "consume_one L R ser E d s =
     (case handle L R E (str_prop (dv_message_id d)) (str_prop (dv_correlation_id d)) (dv_data d) (sh_bank s) of
        (Panicked, b) \<Rightarrow> (False, s\<lparr>sh_bank := b\<rparr>)
      | (Replied reply, b) \<Rightarrow>
          (True, s\<lparr>sh_bank := b,
                   sh_published := sh_published s @
                     (case (dv_reply_to d, ser reply) of
                        (Some q, Inr bytes) \<Rightarrow> [(q, str_prop (dv_correlation_id d), bytes)]
                      | _ \<Rightarrow> []),
                   sh_acked := sh_acked s + 1\<rparr>))"

text \<open>The stream of a session: delivery errors are skipped; it ends, or a panic ends it.\<close>

fun consume ::
  "libs \<Rightarrow> router \<Rightarrow> (reply_envelope \<Rightarrow> string + string) \<Rightarrow> (message_env \<times> delivery) option list
   \<Rightarrow> shell \<Rightarrow> bool \<times> shell" where
  "consume L R ser [] s = (True, s)"
| "consume L R ser (None # ds) s = consume L R ser ds s"
| "consume L R ser (Some (E, d) # ds) s =
     (case consume_one L R ser E d s of
        (False, s') \<Rightarrow> (False, s')
      | (True, s') \<Rightarrow> consume L R ser ds s')"

section \<open>Sessions and the supervisor\<close>

datatype session =
    SetupFailed string
  | Streamed "(message_env \<times> delivery) option list"

record consumer =
  cm_shell :: shell
  cm_status :: consumer_status
  cm_backoff :: nat
  cm_sleeps :: "nat list"

text \<open>\<open>run\<close>: the detail of its outcome, or \<open>None\<close> for a panic.\<close>

definition run_session ::
  "libs \<Rightarrow> router \<Rightarrow> (reply_envelope \<Rightarrow> string + string) \<Rightarrow> session \<Rightarrow> consumer
   \<Rightarrow> string option \<times> consumer" where
  "run_session L R ser ss c =
     (case ss of
        SetupFailed e \<Rightarrow> (Some e, c)
      | Streamed ds \<Rightarrow>
          (case consume L R ser ds (cm_shell c) of
             (alive, s') \<Rightarrow>
               (if alive then Some ''consumer stream ended'' else None,
                c\<lparr>cm_shell := s', cm_status := set_status CONNECTED None\<rparr>)))"

text \<open>
  The supervisor, one round per session; the result says whether its task is still there. The
  status outlives a session, so a session that fails to set up is judged by \<open>reconnecting\<close>.
\<close>

fun run_supervised ::
  "libs \<Rightarrow> router \<Rightarrow> (reply_envelope \<Rightarrow> string + string) \<Rightarrow> session list \<Rightarrow> consumer \<Rightarrow> bool \<times> consumer" where
  "run_supervised L R ser [] c = (True, c)"
| "run_supervised L R ser (ss # rest) c =
     (case run_session L R ser ss c of
        (None, c1) \<Rightarrow> (False, c1)
      | (Some detail, c1) \<Rightarrow>
          let backoff = (if is_connected (cm_status c1) then BACKOFF_BASE else cm_backoff c1)
          in run_supervised L R ser rest
               (c1\<lparr>cm_status := set_status RECONNECTING (Some detail),
                   cm_sleeps := cm_sleeps c1 @ [backoff],
                   cm_backoff := next_backoff backoff\<rparr>))"

section \<open>Logging without credentials\<close>

text \<open>\<open>str::rfind\<close> on a character, as a byte position.\<close>

definition rfind_char :: "char \<Rightarrow> string \<Rightarrow> nat option" where
  "rfind_char c s =
     (if c \<in> set s then Some (length s - 1 - length (takeWhile (\<lambda>x. x \<noteq> c) (rev s))) else None)"

definition redact :: "string \<Rightarrow> string" where
  "redact uri =
     (case (find_at ''://'' uri, rfind_char CHR ''@'' uri) of
        (Some scheme_end, Some at) \<Rightarrow>
          if scheme_end + 3 < at
          then take scheme_end uri @ ''://***@'' @ drop (at + 1) uri else uri
      | _ \<Rightarrow> uri)"

section \<open>Facts\<close>

lemma next_backoff_bounds: "1 \<le> b \<Longrightarrow> 1 \<le> next_backoff b \<and> next_backoff b \<le> BACKOFF_MAX"
  by (simp add: next_backoff_def BACKOFF_MAX_def)

lemma run_session_backoff [simp]:
  "cm_backoff (snd (run_session L R ser ss c)) = cm_backoff c"
  "cm_sleeps (snd (run_session L R ser ss c)) = cm_sleeps c"
  by (simp_all add: run_session_def split: session.splits prod.splits)

text \<open>Every wait between two attempts is between one and thirty seconds.\<close>

lemma run_supervised_sleeps:
  assumes "1 \<le> cm_backoff c" "cm_backoff c \<le> BACKOFF_MAX"
    and "list_all (\<lambda>d. 1 \<le> d \<and> d \<le> BACKOFF_MAX) (cm_sleeps c)"
  shows "list_all (\<lambda>d. 1 \<le> d \<and> d \<le> BACKOFF_MAX) (cm_sleeps (snd (run_supervised L R ser sss c)))"
  using assms
proof (induction sss arbitrary: c)
  case (Cons ss rest)
  obtain r c1 where 1: "run_session L R ser ss c = (r, c1)" by fastforce
  with run_session_backoff [of L R ser ss c]
  have b: "cm_backoff c1 = cm_backoff c" "cm_sleeps c1 = cm_sleeps c" by simp_all
  show ?case
  proof (cases r)
    case None
    with 1 b Cons.prems show ?thesis by simp
  next
    case (Some detail)
    let ?b = "if is_connected (cm_status c1) then BACKOFF_BASE else cm_backoff c1"
    have "1 \<le> ?b" "?b \<le> BACKOFF_MAX" using b Cons.prems by (auto simp: BACKOFF_BASE_def BACKOFF_MAX_def)
    with Cons.IH [of "c1\<lparr>cm_status := set_status RECONNECTING (Some detail),
        cm_sleeps := cm_sleeps c1 @ [?b], cm_backoff := next_backoff ?b\<rparr>"]
      1 Some b Cons.prems next_backoff_bounds [of ?b] show ?thesis by (simp add: Let_def)
  qed
qed simp

text \<open>A task that is gone left the status as its last session set it: connected.\<close>

lemma run_supervised_dead:
  assumes "run_supervised L R ser sss c = (False, c')"
  shows "cs_state (cm_status c') = CONNECTED"
  using assms
proof (induction sss arbitrary: c)
  case (Cons ss rest)
  obtain r c1 where 1: "run_session L R ser ss c = (r, c1)" by fastforce
  show ?case
  proof (cases r)
    case None
    with 1 Cons.prems show ?thesis
      by (auto simp: run_session_def set_status_def split: session.splits prod.splits if_splits)
  next
    case (Some detail)
    with 1 Cons show ?thesis by (auto simp: Let_def)
  qed
qed simp

text \<open>A reply answers the message it is published for.\<close>

lemma settle_claimed_correlation:
  "settle_claimed R svc E corr si creditor net key b = (Replied r, b') \<Longrightarrow> re_correlation_id r = corr"
  by (auto simp: settle_claimed_def settle_attempt_def reply_for_existing_def Let_def
      split: sum.splits claim.splits prod.splits if_splits settlement_status.splits)

lemma credit_deliver_correlation:
  "credit_deliver L R E corr cn v raw b = (Replied r, b') \<Longrightarrow> re_correlation_id r = corr"
  by (auto simp: credit_deliver_def credit_refused_def Let_def
      split: option.splits sum.splits cbs_error.splits prod.splits if_splits)

lemma handle_correlation:
  assumes "handle L R E mid corr body b = (Replied r, b')"
  shows "re_correlation_id r = corr"
proof -
  have "re_correlation_id r = corr" if "credit_notification L R E' corr body b = (Replied r, b')" for E'
    using that credit_deliver_correlation
    by (auto simp: credit_notification_def Let_def split: sum.splits prod.splits if_splits)
  moreover have "re_correlation_id r = corr" if "settlement_advice L E' corr body b = (Replied r, b')" for E'
    using that by (auto simp: settlement_advice_def Let_def split: sum.splits prod.splits)
  moreover have "re_correlation_id r = corr" if "settlement_instruction L R E' corr body b = (Replied r, b')" for E'
    using that settle_claimed_correlation
    by (auto simp: settlement_instruction_def split: sum.splits option.splits)
  ultimately show ?thesis using assms
    by (auto simp: handle_def netting_snapshot_def status_update_def split: if_splits sum.splits)
qed

lemma find_at_first:
  "CHR '':'' \<notin> set s \<Longrightarrow> find_at ''://'' (s @ ''://'' @ t) = Some (length s)"
proof (induction s)
  case Nil
  then show ?case by (simp add: starts_with_def)
next
  case (Cons c s)
  then have "\<not> starts_with ''://'' (c # s @ ''://'' @ t)" by (auto simp: starts_with_def)
  with Cons show ?case by simp
qed

lemma rfind_char_last: "c \<notin> set r \<Longrightarrow> rfind_char c (x @ c # r) = Some (length x)"
proof -
  assume "c \<notin> set r"
  then have "takeWhile (\<lambda>y. y \<noteq> c) (rev r @ c # rev x) = rev r"
    by (subst takeWhile_append2) auto
  then show ?thesis by (simp add: rfind_char_def)
qed

text \<open>Whatever stands between the scheme and the last at sign is gone.\<close>

lemma redact_credentials:
  assumes "CHR '':'' \<notin> set scheme" "creds \<noteq> []" "CHR ''@'' \<notin> set host"
  shows "redact (scheme @ ''://'' @ creds @ CHR ''@'' # host) = scheme @ ''://***@'' @ host"
proof -
  have "find_at ''://'' (scheme @ ''://'' @ creds @ CHR ''@'' # host) = Some (length scheme)"
    by (rule find_at_first [OF assms(1)])
  moreover have "rfind_char CHR ''@'' ((scheme @ ''://'' @ creds) @ CHR ''@'' # host) =
      Some (length (scheme @ ''://'' @ creds))"
    by (rule rfind_char_last [OF assms(3)])
  moreover have "drop (length x + 1) (x @ c # r) = r" for x r :: string and c by (induction x) auto
  from this [of "scheme @ ''://'' @ creds" "CHR ''@''" host]
  have "drop (length (scheme @ ''://'' @ creds) + 1) (scheme @ ''://'' @ creds @ CHR ''@'' # host) = host"
    by (simp only: append_assoc)
  moreover have "length scheme + 3 < length (scheme @ ''://'' @ creds)" using assms(2) by simp
  ultimately show ?thesis
    by (simp add: redact_def del: append_Cons length_append drop_append)
qed

end
