(* ===== verification/Routing.thy ===== *)
theory Routing
  imports Obp_Client
begin

text \<open>
  The cached registry of routing schemes (\<open>crates/obp-bank-node/src/routing.rs\<close>). The regular
  expression engine is a parameter: \<open>compile\<close> gives the matcher of a pattern, if it compiles.
\<close>

record scheme_rule =
  ru_pattern :: "(string \<Rightarrow> bool) option"
  ru_example_address :: string

type_synonym registry = "(string \<rightharpoonup> scheme_rule) option"

datatype routing_violation =
    UnknownScheme string string
  | AddressMismatch string string string

definition scheme_rule_of :: "(string \<Rightarrow> (string \<Rightarrow> bool) option) \<Rightarrow> routing_scheme \<Rightarrow> scheme_rule" where
  "scheme_rule_of compile s =
     \<lparr>ru_pattern = (if rg_address_pattern s = [] then None else compile (rg_address_pattern s)),
      ru_example_address = rg_example_address s\<rparr>"

definition registry_load ::
  "(string \<Rightarrow> (string \<Rightarrow> bool) option) \<Rightarrow> routing_scheme list \<Rightarrow> registry" where
  "registry_load compile schemes =
     Some (foldl (\<lambda>m s. m(rg_scheme s \<mapsto> scheme_rule_of compile s)) Map.empty schemes)"

definition is_loaded :: "registry \<Rightarrow> bool" where
  "is_loaded r \<longleftrightarrow> r \<noteq> None"

definition registry_check :: "registry \<Rightarrow> string \<Rightarrow> string \<Rightarrow> string \<Rightarrow> routing_violation + unit" where
  "registry_check r field scheme address =
     (case r of
        None \<Rightarrow> Inr ()
      | Some m \<Rightarrow>
          (case m scheme of
             None \<Rightarrow> Inl (UnknownScheme field scheme)
           | Some rule \<Rightarrow>
               (case ru_pattern rule of
                  None \<Rightarrow> Inr ()
                | Some matches \<Rightarrow>
                    if matches address then Inr ()
                    else Inl (AddressMismatch field scheme (ru_example_address rule)))))"

text \<open>One round of the background refresher, and its period. \<open>None\<close> when the task panics or never returns.\<close>

definition refresh_once ::
  "(string \<Rightarrow> (string \<Rightarrow> bool) option) \<Rightarrow> (routing_scheme list client_result \<times> cached_token option) option
   \<Rightarrow> registry \<Rightarrow> registry option" where
  "refresh_once compile fetched r =
     (case fetched of
        Some (Some (Inr schemes), _) \<Rightarrow> Some (registry_load compile schemes)
      | Some (Some (Inl e), _) \<Rightarrow> Some r
      | _ \<Rightarrow> None)"

definition refresh_interval :: "nat \<Rightarrow> nat" where
  "refresh_interval refresh_secs = max refresh_secs 10"

lemma foldl_registry:
  "foldl (\<lambda>m s. m(rg_scheme s \<mapsto> scheme_rule_of compile s)) m0 schemes scheme =
   (case find (\<lambda>s. rg_scheme s = scheme) (rev schemes) of
      None \<Rightarrow> m0 scheme | Some s \<Rightarrow> Some (scheme_rule_of compile s))"
  by (induction schemes arbitrary: m0 rule: rev_induct) auto

text \<open>Before the first load everything passes; afterwards exactly the schemes last listed do.\<close>

lemma check_unloaded [simp]: "registry_check None field scheme address = Inr ()"
  by (simp add: registry_check_def)

lemma check_loaded_ok_iff:
  "registry_check (registry_load compile schemes) field scheme address = Inr () \<longleftrightarrow>
   (\<exists>s. find (\<lambda>s. rg_scheme s = scheme) (rev schemes) = Some s \<and>
      (case ru_pattern (scheme_rule_of compile s) of None \<Rightarrow> True | Some matches \<Rightarrow> matches address))"
  by (auto simp: registry_check_def registry_load_def foldl_registry split: option.splits)

lemma refresh_keeps_on_failure:
  "refresh_once compile (Some (Some (Inl e), c)) r = Some r"
  by (simp add: refresh_once_def)

end
