(* ===== verification/Float_Text.thy ===== *)
theory Float_Text
  imports Prelude
begin

text \<open>
  Rust's \<open>str::parse::<f64>()\<close>, as far as the sign check of \<open>rest/handlers.rs\<close> observes it: which
  strings parse, and whether the number they round to is at most zero.
\<close>

datatype f64_text =
    NotANumber
  | Infinite bool
  | Finite bool nat int

definition lower_is :: "string \<Rightarrow> string \<Rightarrow> bool" where
  "lower_is s w \<longleftrightarrow> to_ascii_lowercase s = w"

definition digit_prefix :: "string \<Rightarrow> string \<times> string" where
  "digit_prefix s = (takeWhile is_digit s, dropWhile is_digit s)"

text \<open>The exponent stops growing once it has reached 65536.\<close>

definition exponent_step :: "nat \<Rightarrow> char \<Rightarrow> nat" where
  "exponent_step e c = (if e < 65536 then 10 * e + unwrap_or (digit_val c) 0 else e)"

definition exponent_val :: "string \<Rightarrow> nat" where
  "exponent_val ds = foldl exponent_step 0 ds"

definition strip_sign :: "string \<Rightarrow> bool \<times> string" where
  "strip_sign s =
     (case s of
        [] \<Rightarrow> (False, s)
      | c # r \<Rightarrow> if c = CHR ''-'' then (True, r) else if c = CHR ''+'' then (False, r) else (False, s))"

text \<open>The rest of a number after its mantissa: nothing, or an exponent with at least one digit.\<close>

definition parse_exponent :: "string \<Rightarrow> int option" where
  "parse_exponent s =
     (case s of
        [] \<Rightarrow> Some 0
      | c # r \<Rightarrow>
          if c = CHR ''e'' \<or> c = CHR ''E'' then
            (case strip_sign r of (neg, ds) \<Rightarrow>
               if ds \<noteq> [] \<and> list_all is_digit ds
               then Some (if neg then - int (exponent_val ds) else int (exponent_val ds)) else None)
          else None)"

definition parse_number :: "bool \<Rightarrow> string \<Rightarrow> f64_text option" where
  "parse_number neg s =
     (case digit_prefix s of (whole, rest) \<Rightarrow>
        (case (case rest of
                 [] \<Rightarrow> ([], [])
               | c # r \<Rightarrow> if c = CHR ''.'' then digit_prefix r else ([], rest)) of
           (frac, rest2) \<Rightarrow>
             if whole = [] \<and> frac = [] then None
             else (case parse_exponent rest2 of
                     None \<Rightarrow> None
                   | Some e \<Rightarrow>
                       Some (Finite neg (unwrap_or (digits_val 0 (whole @ frac)) 0)
                               (e - int (length frac))))))"

definition parse_f64 :: "string \<Rightarrow> f64_text option" where
  "parse_f64 s =
     (case strip_sign s of (neg, t) \<Rightarrow>
        if lower_is t ''nan'' then Some NotANumber
        else if lower_is t ''inf'' \<or> lower_is t ''infinity'' then Some (Infinite neg)
        else parse_number neg t)"

text \<open>
  \<open>x <= 0.0\<close>: false on NaN. A positive decimal rounds to zero when it is at most half of the
  smallest subnormal, \<open>2 ^ -1075\<close> (the tie goes to the even zero).
\<close>

definition rounds_to_zero :: "nat \<Rightarrow> int \<Rightarrow> bool" where
  "rounds_to_zero m e \<longleftrightarrow>
     m = 0 \<or> (e < 0 \<and> m * 2 ^ 1075 \<le> 10 ^ nat (- e))"

fun at_most_zero :: "f64_text \<Rightarrow> bool" where
  "at_most_zero NotANumber = False"
| "at_most_zero (Infinite neg) = neg"
| "at_most_zero (Finite neg m e) = (neg \<or> rounds_to_zero m e)"

section \<open>Facts\<close>

lemma takeWhile_digits: "list_all is_digit ds \<Longrightarrow> r = [] \<or> \<not> is_digit (hd r) \<Longrightarrow>
    digit_prefix (ds @ r) = (ds, r)"
  by (induction ds) (auto simp: digit_prefix_def takeWhile_eq_Nil_iff dropWhile_eq_self_iff)

lemma is_digit_simps:
  "\<not> is_digit (CHR ''.'')" "\<not> is_digit (CHR ''-'')" "\<not> is_digit (CHR ''+'')" "\<not> is_digit (CHR ''n'')"
  "\<not> is_digit (CHR ''i'')"
  by (simp_all add: is_digit_def digit_val_def byte_val_def)

lemma digit_lower: "is_digit c \<Longrightarrow> to_ascii_lower c = c"
  by (auto simp: is_digit_def digit_val_def to_ascii_lower_def split: if_splits)

text \<open>A decimal amount parses to its value.\<close>

lemma parse_f64_decimal:
  assumes "decimal_text s w f"
  shows "parse_f64 s = Some (Finite False (unwrap_or (digits_val 0 (w @ f)) 0) (- int (length f)))"
proof -
  have digs: "list_all is_digit w" "list_all is_digit f" "w @ f \<noteq> []" and s: "s = w @ CHR ''.'' # f \<or> s = w \<and> f = []"
    using assms by (auto simp: decimal_text_def)
  obtain c cs where c: "s = c # cs" "is_digit c \<or> c = CHR ''.''"
    using digs(1,3) s by (cases w) auto
  then have "c \<noteq> CHR ''-''" "c \<noteq> CHR ''+''" "to_ascii_lower c \<noteq> CHR ''n''" "to_ascii_lower c \<noteq> CHR ''i''"
    using is_digit_simps digit_lower [of c] by (auto simp: to_ascii_lower_def byte_val_def)
  with c(1) have sign: "strip_sign s = (False, s)"
    and word: "\<not> lower_is s ''nan''" "\<not> lower_is s ''inf''" "\<not> lower_is s ''infinity''"
    by (auto simp: strip_sign_def lower_is_def to_ascii_lowercase_def)
  have "digit_prefix f = (f, [])" using takeWhile_digits [OF digs(2), of "[]"] by simp
  moreover have "digit_prefix s = (w, drop (length w) s)"
    using s takeWhile_digits [OF digs(1), of "drop (length w) s"] by (auto simp: is_digit_simps)
  ultimately have "parse_number False s =
      Some (Finite False (unwrap_or (digits_val 0 (w @ f)) 0) (- int (length f)))"
    using s digs(3) by (auto simp: parse_number_def parse_exponent_def)
  with sign word show ?thesis by (simp add: parse_f64_def)
qed

end
