(* ===== verification/Rest.thy ===== *)
theory Rest
  imports Consumer Routing Float_Text Dispatcher
begin

text \<open>
  The south-side REST API (\<open>crates/obp-bank-node/src/rest/handlers.rs\<close>). A handler takes the
  node's configuration, what its environment answers, the request (already deserialized, or the
  text of the rejection) and the bank's state; a response is its status and its body.
\<close>

record rest_libs =
  rl_obp :: obp_libs
  rl_ser_request :: "initiate_request \<Rightarrow> string + string"
  rl_parse_request :: "string \<Rightarrow> initiate_request option"
  rl_parse_time :: "string \<Rightarrow> string option"

record rest_config =
  rn_bank_id :: string
  rn_account_id :: string
  rn_blockchain_label :: string
  rn_finality_depth :: nat
  rn_obp :: obp_client

record status_view =
  sv_transaction_request_id :: string
  sv_status :: outbox_status
  sv_value :: "money_value option"
  sv_other_bank_id :: "string option"
  sv_description :: "string option"
  sv_promise_id :: "string option"
  sv_promise_blockchain :: "string option"
  sv_netting_snapshot_id :: "string option"
  sv_netting_blockchain :: "string option"
  sv_settlement_id :: "string option"
  sv_settlement_system :: "string option"
  sv_created_at :: string
  sv_settled_at :: "string option"

record settlement_view =
  vw_idempotency_key :: string
  vw_settlement_id :: "string option"
  vw_snapshot_id :: "string option"
  vw_currency :: string
  vw_net_amount_minor :: string
  vw_creditor_address :: string
  vw_status :: settlement_status
  vw_tx_id :: "string option"
  vw_blockchain :: "string option"
  vw_asset :: "string option"
  vw_asset_amount :: "string option"
  vw_fx_minor_per_whole_asset :: "string option"
  vw_fx_source :: "string option"
  vw_fx_as_of :: "string option"
  vw_purpose :: "string option"
  vw_depth :: nat
  vw_finality_depth :: nat
  vw_error_reason :: "string option"
  vw_retryable :: bool
  vw_created_at :: string
  vw_updated_at :: string
  vw_finalized_at :: "string option"

text \<open>The evidence view has every column of the row but the raw message.\<close>

record evidence_view =
  ew_transaction_request_id :: string
  ew_promise_commitment :: string
  ew_promise_salt :: string
  ew_promise_preimage :: string
  ew_promise_id :: "string option"
  ew_promise_blockchain :: "string option"
  ew_verified :: bool
  ew_currency :: "string option"
  ew_amount :: "string option"
  ew_originator_name :: "string option"
  ew_beneficiary_name :: "string option"
  ew_beneficiary_scheme :: "string option"
  ew_beneficiary_address :: "string option"
  ew_return_of :: "string option"
  ew_returned_by :: "string option"
  ew_cbs_status :: "string option"
  ew_cbs_reference :: "string option"
  ew_cbs_recorded_at :: "string option"
  ew_received_at :: string
  ew_settlement_id :: "string option"
  ew_settled_at :: "string option"

record health_body =
  hb_status :: string
  hb_service :: string
  hb_version :: string
  hb_blockchain :: string
  hb_bank_id :: string
  hb_account_id :: string
  hb_interface_c :: string
  hb_interface_c_detail :: "string option"
  hb_timestamp :: string

datatype response_body =
    ErrorBody error_body
  | InitiatedBody initiated_response
  | StatusBody status_view
  | StatusesBody "status_view list"
  | SettlementBody settlement_view
  | SettlementsBody "settlement_view list"
  | EvidenceBody evidence_view
  | EvidencesBody "evidence_view list"
  | HealthBody health_body
  | RawJson json

record response =
  rp_status :: nat
  rp_body :: response_body

definition error_response :: "nat \<Rightarrow> string \<Rightarrow> string \<Rightarrow> response" where
  "error_response status code message =
     \<lparr>rp_status = status, rp_body = ErrorBody \<lparr>eb_error_code = code, eb_message = message\<rparr>\<rparr>"

definition ok_response :: "response_body \<Rightarrow> response" where
  "ok_response b = \<lparr>rp_status = 200, rp_body = b\<rparr>"

definition OBP_INVALID :: string where "OBP_INVALID = ''OBP-10001''"
definition OBP_AMOUNT :: string where "OBP_AMOUNT = ''OBP-40008''"
definition ORIGINATOR_001 :: string where "ORIGINATOR_001 = ''OBP-BANK-NODE-ORIGINATOR-001''"
definition PLATFORM_001 :: string where "PLATFORM_001 = ''OBP-BANK-NODE-PLATFORM-001''"
definition NOT_FOUND_001 :: string where "NOT_FOUND_001 = ''OBP-BANK-NODE-NOT-FOUND-001''"
definition INTERFACE_B_001 :: string where "INTERFACE_B_001 = ''OBP-BANK-NODE-INTERFACE-B-001''"

section \<open>Validation\<close>

definition required_to :: "beneficiary_routing \<Rightarrow> (string \<times> string) list" where
  "required_to r =
     [(''other_bank_routing_scheme'', br_other_bank_routing_scheme r),
      (''other_bank_routing_address'', br_other_bank_routing_address r),
      (''other_account_routing_scheme'', br_other_account_routing_scheme r),
      (''other_account_routing_address'', br_other_account_routing_address r)]"

fun first_blank :: "(string \<times> string) list \<Rightarrow> string option" where
  "first_blank [] = None"
| "first_blank ((field, v) # fs) = (if is_blank v then Some field else first_blank fs)"

definition originator_blank :: "originator \<Rightarrow> bool" where
  "originator_blank r \<longleftrightarrow>
     is_blank (or_name r) \<or> is_blank (or_address r) \<or>
     is_blank (ar_scheme (or_account_routing r)) \<or> is_blank (ar_address (or_account_routing r))"

definition validate :: "initiate_request \<Rightarrow> nat \<times> string \<times> string + unit" where
  "validate req =
     (if is_blank (mv_currency (ir_value req))
      then Inl (400, OBP_INVALID, ''value.currency is required'')
      else
        (case parse_f64 (trim (mv_amount (ir_value req))) of
           None \<Rightarrow> Inl (400, OBP_INVALID,
                     ''value.amount is not a valid number: '' @ debug_str (mv_amount (ir_value req)))
         | Some amount \<Rightarrow>
             if at_most_zero amount
             then Inl (400, OBP_AMOUNT, ''value.amount must be greater than zero'')
             else
               (case first_blank (required_to (ir_to req)) of
                  Some field \<Rightarrow> Inl (400, OBP_INVALID, ''to.'' @ field @ '' is required'')
                | None \<Rightarrow>
                    if originator_blank (ir_originator req)
                    then Inl (400, ORIGINATOR_001, ''originator.name, originator.address, and ''
                           @ ''originator.account_routing must all be present and non-empty'')
                    else Inr ())))"

fun routing_violation_message :: "routing_violation \<Rightarrow> string \<times> string" where
  "routing_violation_message (UnknownScheme field scheme) =
     (''OBP-BANK-NODE-ROUTING-002'',
      ''unknown or inactive routing scheme '' @ [CHR 0x27] @ scheme @ [CHR 0x27] @ '' in '' @ field)"
| "routing_violation_message (AddressMismatch field scheme ex) =
     (''OBP-BANK-NODE-ROUTING-003'',
      ''address in '' @ field @ '' does not match the pattern registered for scheme ''
      @ [CHR 0x27] @ scheme @ [CHR 0x27] @ '' (example: '' @ ex @ '')'')"

definition check_routing :: "registry \<Rightarrow> beneficiary_routing \<Rightarrow> routing_violation + unit" where
  "check_routing reg r =
     (case registry_check reg ''to.other_bank_routing'' (br_other_bank_routing_scheme r)
             (br_other_bank_routing_address r) of
        Inl v \<Rightarrow> Inl v
      | Inr _ \<Rightarrow> registry_check reg ''to.other_account_routing'' (br_other_account_routing_scheme r)
                  (br_other_account_routing_address r))"

section \<open>Initiating a payment\<close>

record initiate_env =
  in_id :: string
  in_salt :: string
  in_insert :: dbcall
  in_now :: string

definition initiated :: "rest_config \<Rightarrow> initiate_env \<Rightarrow> initiate_request \<Rightarrow> initiated_response" where
  "initiated C E req =
     \<lparr>rs_transaction_request_id = in_id E, rs_type = ''OPEN_CORRIDOR_PROMISE'',
      rs_from = \<lparr>fa_bank_id = rn_bank_id C, fa_account_id = rn_account_id C\<rparr>,
      rs_to = ir_to req,
      rs_originator = (ir_originator req)\<lparr>or_source := Some ''explicit''\<rparr>,
      rs_value = ir_value req, rs_description = ir_description req, rs_status = ''INITIATED'',
      rs_promise_id = None, rs_promise_blockchain = None, rs_start_date = in_now E,
      rs_challenge = None\<rparr>"

definition initiate_payment ::
  "rest_libs \<Rightarrow> rest_config \<Rightarrow> registry \<Rightarrow> initiate_env \<Rightarrow> string + initiate_request \<Rightarrow> outbox
   \<Rightarrow> response \<times> outbox" where
  "initiate_payment L C reg E body ob =
     (case body of
        Inl rejection \<Rightarrow> (error_response 400 OBP_INVALID rejection, ob)
      | Inr req \<Rightarrow>
          (case validate req of
             Inl (status, code, message) \<Rightarrow> (error_response status code message, ob)
           | Inr _ \<Rightarrow>
               (case check_routing reg (ir_to req) of
                  Inl v \<Rightarrow> (case routing_violation_message v of
                             (code, message) \<Rightarrow> (error_response 400 code message, ob))
                | Inr _ \<Rightarrow>
                    (case rl_ser_request L req of
                       Inl e \<Rightarrow> (error_response 500 PLATFORM_001
                                  ''failed to serialize transaction request'', ob)
                     | Inr payload \<Rightarrow>
                         (case outbox_insert (in_insert E)
                                 \<lparr>en_transaction_request_id = in_id E, en_bank_id = rn_bank_id C,
                                  en_account_id = rn_account_id C, en_request_payload = payload,
                                  en_commitment_salt = in_salt E\<rparr> ob of
                            (Inl e, ob') \<Rightarrow> (error_response 500 PLATFORM_001
                                             ''failed to persist transaction request'', ob')
                          | (Inr _, ob') \<Rightarrow>
                              (\<lparr>rp_status = 202, rp_body = InitiatedBody (initiated C E req)\<rparr>, ob'))))))"

section \<open>Reading\<close>

definition LIST_LIMIT :: int where "LIST_LIMIT = 200"

text \<open>A stored time stamp, or the present time where one does not parse.\<close>

definition parse_rfc3339 :: "rest_libs \<Rightarrow> string \<Rightarrow> string \<Rightarrow> string" where
  "parse_rfc3339 L now s = unwrap_or (rl_parse_time L s) now"

definition status_from_record :: "rest_libs \<Rightarrow> string \<Rightarrow> outbox_record \<Rightarrow> status_view" where
  "status_from_record L now rec =
     (let parsed = rl_parse_request L (ob_request_payload rec) in
      \<lparr>sv_transaction_request_id = ob_transaction_request_id rec,
       sv_status = ob_status rec,
       sv_value = map_option ir_value parsed,
       sv_other_bank_id = map_option (\<lambda>r. br_other_bank_routing_address (ir_to r)) parsed,
       sv_description = map_option ir_description parsed,
       sv_promise_id = ob_promise_tx_id rec,
       sv_promise_blockchain = ob_promise_blockchain rec,
       sv_netting_snapshot_id = None, sv_netting_blockchain = None,
       sv_settlement_id = ob_settlement_id rec, sv_settlement_system = None,
       sv_created_at = parse_rfc3339 L now (ob_created_at rec),
       sv_settled_at = map_option (parse_rfc3339 L now) (ob_settled_at rec)\<rparr>)"

definition get_transaction_request ::
  "rest_libs \<Rightarrow> dbcall \<Rightarrow> string \<Rightarrow> string \<Rightarrow> outbox \<Rightarrow> response" where
  "get_transaction_request L c now trid ob =
     (case outbox_get c trid ob of
        Inr (Some rec) \<Rightarrow> ok_response (StatusBody (status_from_record L now rec))
      | Inr None \<Rightarrow> error_response 404 NOT_FOUND_001 (''no transaction request with id '' @ trid)
      | Inl e \<Rightarrow> error_response 500 PLATFORM_001 ''failed to read transaction request'')"

definition list_transaction_requests :: "rest_libs \<Rightarrow> dbcall \<Rightarrow> string \<Rightarrow> outbox \<Rightarrow> response" where
  "list_transaction_requests L c now ob =
     (case outbox_list c LIST_LIMIT ob of
        Inr recs \<Rightarrow> ok_response (StatusesBody (map (status_from_record L now) recs))
      | Inl e \<Rightarrow> error_response 500 PLATFORM_001 ''failed to list transaction requests'')"

definition settlement_view_of :: "settlement_row \<Rightarrow> nat \<Rightarrow> settlement_view" where
  "settlement_view_of row fd =
     \<lparr>vw_idempotency_key = sr_idempotency_key row, vw_settlement_id = sr_settlement_id row,
      vw_snapshot_id = sr_snapshot_id row, vw_currency = sr_currency row,
      vw_net_amount_minor = sr_net_amount_minor row, vw_creditor_address = sr_creditor_address row,
      vw_status = sr_status row, vw_tx_id = sr_tx_id row, vw_blockchain = sr_blockchain row,
      vw_asset = sr_asset row, vw_asset_amount = sr_asset_amount row,
      vw_fx_minor_per_whole_asset = sr_fx_minor_per_whole_asset row, vw_fx_source = sr_fx_source row,
      vw_fx_as_of = sr_fx_as_of row, vw_purpose = sr_purpose row, vw_depth = sr_last_depth row,
      vw_finality_depth = fd, vw_error_reason = sr_error_reason row, vw_retryable = sr_retryable row,
      vw_created_at = sr_created_at row, vw_updated_at = sr_updated_at row,
      vw_finalized_at = sr_finalized_at row\<rparr>"

definition evidence_view_of :: "evidence_record \<Rightarrow> evidence_view" where
  "evidence_view_of r =
     \<lparr>ew_transaction_request_id = ev_transaction_request_id r,
      ew_promise_commitment = ev_promise_commitment r, ew_promise_salt = ev_promise_salt r,
      ew_promise_preimage = ev_promise_preimage r,
      ew_promise_id = ev_promise_id r, ew_promise_blockchain = ev_promise_blockchain r,
      ew_verified = ev_verified r, ew_currency = ev_currency r, ew_amount = ev_amount r,
      ew_originator_name = ev_originator_name r,
      ew_beneficiary_name = ev_beneficiary_name r, ew_beneficiary_scheme = ev_beneficiary_scheme r,
      ew_beneficiary_address = ev_beneficiary_address r,
      ew_return_of = ev_return_of r, ew_returned_by = ev_returned_by r,
      ew_cbs_status = ev_cbs_status r, ew_cbs_reference = ev_cbs_reference r,
      ew_cbs_recorded_at = ev_cbs_recorded_at r,
      ew_received_at = ev_received_at r, ew_settlement_id = ev_settlement_id r,
      ew_settled_at = ev_settled_at r\<rparr>"

definition list_settlements :: "rest_config \<Rightarrow> dbcall \<Rightarrow> settlements \<Rightarrow> response" where
  "list_settlements C c t =
     (case store_list c LIST_LIMIT t of
        Inr rows \<Rightarrow> ok_response (SettlementsBody (map (\<lambda>r. settlement_view_of r (rn_finality_depth C)) rows))
      | Inl e \<Rightarrow> error_response 500 PLATFORM_001 ''failed to list settlements'')"

definition get_settlement_row :: "rest_config \<Rightarrow> dbcall \<Rightarrow> string \<Rightarrow> settlements \<Rightarrow> response" where
  "get_settlement_row C c key t =
     (case store_find c key t of
        Inr (Some row) \<Rightarrow> ok_response (SettlementBody (settlement_view_of row (rn_finality_depth C)))
      | Inr None \<Rightarrow> error_response 404 NOT_FOUND_001
                     (''no settlement with idempotency_key or settlement_id '' @ key)
      | Inl e \<Rightarrow> error_response 500 PLATFORM_001 ''failed to read settlement'')"

definition list_evidence :: "dbcall \<Rightarrow> evidence \<Rightarrow> response" where
  "list_evidence c t =
     (case evidence_list c LIST_LIMIT t of
        Inr recs \<Rightarrow> ok_response (EvidencesBody (map evidence_view_of recs))
      | Inl e \<Rightarrow> error_response 500 PLATFORM_001 ''failed to list evidence'')"

definition get_evidence :: "dbcall \<Rightarrow> string \<Rightarrow> evidence \<Rightarrow> response" where
  "get_evidence c trid t =
     (case evidence_get c trid t of
        Inr (Some rec) \<Rightarrow> ok_response (EvidenceBody (evidence_view_of rec))
      | Inr None \<Rightarrow> error_response 404 NOT_FOUND_001 (''no evidence for transaction request '' @ trid)
      | Inl e \<Rightarrow> error_response 500 PLATFORM_001 ''failed to read evidence'')"

text \<open>The health probe answers \<open>healthy\<close> whatever the consumer's state is; the state is a field beside it.\<close>

definition root_health :: "rest_config \<Rightarrow> consumer_status \<Rightarrow> string \<Rightarrow> string \<Rightarrow> response" where
  "root_health C interface_c version now = ok_response (HealthBody
     \<lparr>hb_status = ''healthy'', hb_service = ''OBP-Bank-Node'', hb_version = version,
      hb_blockchain = rn_blockchain_label C, hb_bank_id = rn_bank_id C, hb_account_id = rn_account_id C,
      hb_interface_c = cs_state interface_c, hb_interface_c_detail = cs_detail interface_c,
      hb_timestamp = now\<rparr>)"

section \<open>Settling\<close>

fun obp_error_response :: "obp_error \<Rightarrow> response" where
  "obp_error_response (ObpRejected status code message) =
     error_response (if 100 \<le> status \<and> status < 1000 then status else 400) code message"
| "obp_error_response (ObpTransport message) =
     error_response 502 INTERFACE_B_001
       (''OBP-API unreachable or gave no authoritative answer: '' @ message)"

text \<open>The request is refused, panics (\<open>None\<close>), or relays OBP-API's answer.\<close>

record settle_env =
  qe_call :: call_env
  qe_stamp :: dbcall

definition stamp_covered ::
  "dbcall \<Rightarrow> settlement_response \<Rightarrow> outbox \<Rightarrow> nat \<times> outbox" where
  "stamp_covered c result ob =
     (case os_settlement_id result of
        None \<Rightarrow> (0, ob)
      | Some sid \<Rightarrow>
          (case outbox_mark_settled c (os_covered result) sid ob of
             (Inl e, ob') \<Rightarrow> (0, ob') | (Inr n, ob') \<Rightarrow> (n, ob')))"

definition request_settlement ::
  "rest_libs \<Rightarrow> rest_config \<Rightarrow> settle_env \<Rightarrow> string + settle_request \<Rightarrow> outbox \<Rightarrow> cached_token option
   \<Rightarrow> response option \<times> outbox \<times> cached_token option \<times> http_request option" where
  "request_settlement L C E body ob cache =
     (case body of
        Inl rejection \<Rightarrow> (Some (error_response 400 OBP_INVALID rejection), ob, cache, None)
      | Inr req \<Rightarrow>
          if is_blank (sq_other_bank_id req) \<or> is_blank (sq_currency req)
          then (Some (error_response 400 OBP_INVALID ''other_bank_id and currency are required''),
                ob, cache, None)
          else if sq_other_bank_id req = rn_bank_id C
          then (Some (error_response 400 OBP_INVALID
                  (''other_bank_id must differ from this node'' @ [CHR 0x27] @ ''s own bank'')), ob, cache, None)
          else
            (case create_settlement (rl_obp L) (rn_obp C) (qe_call E) (rn_bank_id C)
                    (sq_other_bank_id req) (sq_currency req) cache of
               (None, cache', sent) \<Rightarrow> (None, ob, cache', sent)
             | (Some (Inl e), cache', sent) \<Rightarrow> (Some (obp_error_response e), ob, cache', sent)
             | (Some (Inr result), cache', sent) \<Rightarrow>
                 (case stamp_covered (qe_stamp E) result ob of
                    (stamped, ob') \<Rightarrow>
                      (Some \<lparr>rp_status = 201, rp_body = RawJson
                         (case os_raw result of
                            JObj kvs \<Rightarrow> JObj (jinsert ''covered_outbox_rows_stamped'' (JInt (int stamped)) kvs)
                          | raw \<Rightarrow> raw)\<rparr>, ob', cache', sent))))"

definition get_corridor_settlement ::
  "rest_libs \<Rightarrow> rest_config \<Rightarrow> settle_env \<Rightarrow> string \<Rightarrow> outbox \<Rightarrow> cached_token option
   \<Rightarrow> response option \<times> outbox \<times> cached_token option \<times> http_request option" where
  "get_corridor_settlement L C E key ob cache =
     (case get_settlement (rl_obp L) (rn_obp C) (qe_call E) (rn_bank_id C) key cache of
        (None, cache', sent) \<Rightarrow> (None, ob, cache', sent)
      | (Some (Inl e), cache', sent) \<Rightarrow> (Some (obp_error_response e), ob, cache', sent)
      | (Some (Inr result), cache', sent) \<Rightarrow>
          (Some (ok_response (RawJson (os_raw result))),
           snd (stamp_covered (qe_stamp E) result ob), cache', sent))"

section \<open>Facts\<close>

lemma first_blank_None_iff: "first_blank fs = None \<longleftrightarrow> list_all (\<lambda>(f, v). \<not> is_blank v) fs"
  by (induction fs rule: first_blank.induct) auto

lemma validate_ok_iff:
  "validate req = Inr () \<longleftrightarrow>
     \<not> is_blank (mv_currency (ir_value req)) \<and>
     (\<exists>x. parse_f64 (trim (mv_amount (ir_value req))) = Some x \<and> \<not> at_most_zero x) \<and>
     list_all (\<lambda>(f, v). \<not> is_blank v) (required_to (ir_to req)) \<and>
     \<not> originator_blank (ir_originator req)"
  by (auto simp: validate_def first_blank_None_iff [symmetric] split: option.splits)

text \<open>Everything but the amount is given.\<close>

definition fields_given :: "initiate_request \<Rightarrow> bool" where
  "fields_given req \<longleftrightarrow>
     \<not> is_blank (mv_currency (ir_value req)) \<and> list_all (\<lambda>(field, v). \<not> is_blank v) (required_to (ir_to req))
     \<and> \<not> originator_blank (ir_originator req)"

lemma zero_or_above:
  assumes "1 < (m :: nat)"
  shows "(n = 0 \<or> 0 < k \<and> n * m \<le> 10 ^ k) \<longleftrightarrow> \<not> 10 ^ k < n * m"
  using assms by (cases n; cases k) (auto simp: not_less)

text \<open>A decimal amount passes when it does not round to zero: one of at most 323 decimals when it is positive.\<close>

lemma validate_decimal_iff:
  assumes "decimal_text (trim (mv_amount (ir_value req))) w f" and "digits_val 0 (w @ f) = Some n"
  shows "validate req = Inr () \<longleftrightarrow> fields_given req \<and> 10 ^ length f < n * 2 ^ 1075"
    and "length f \<le> 323 \<Longrightarrow> validate req = Inr () \<longleftrightarrow> fields_given req \<and> 0 < n"
proof -
  have "rounds_to_zero n (- int (length f)) \<longleftrightarrow> \<not> 10 ^ length f < n * 2 ^ 1075"
  proof -
    have "rounds_to_zero n (- int k) \<longleftrightarrow> n = 0 \<or> 0 < k \<and> n * 2 ^ 1075 \<le> 10 ^ k" for k
      unfolding rounds_to_zero_def minus_minus nat_int by (simp only: neg_less_0_iff_less of_nat_0_less_iff)
    with zero_or_above [of "2 ^ 1075" n "length f"] show ?thesis by (metis one_less_numeral_iff one_less_power semiring_norm(76) zero_less_numeral)
  qed
  then show exact: "validate req = Inr () \<longleftrightarrow> fields_given req \<and> 10 ^ length f < n * 2 ^ 1075"
    by (auto simp: validate_ok_iff fields_given_def parse_f64_decimal [OF assms(1)] assms(2) unwrap_or_def)
  assume len: "length f \<le> 323"
  have "10 ^ length f < n * 2 ^ 1075" if "0 < n"
  proof -
    have "(10::nat) ^ length f \<le> 10 ^ 323" using len by (intro power_increasing) simp_all
    also have "(10::nat) ^ 323 < 2 ^ 1075" by simp
    also have "2 ^ 1075 \<le> n * 2 ^ 1075" using that by simp
    finally show ?thesis .
  qed
  with exact show "validate req = Inr () \<longleftrightarrow> fields_given req \<and> 0 < n" by auto
qed

lemma validate_status:
  "validate req = Inl (status, code, m) \<Longrightarrow>
   status = 400 \<and> code \<in> {OBP_INVALID, OBP_AMOUNT, ORIGINATOR_001}"
  by (auto simp: validate_def split: option.splits if_splits)

lemma error_response_sel [simp]:
  "rp_status (error_response s c m) = s"
  by (simp add: error_response_def)

text \<open>A payment is accepted exactly when the request passes every check and its row is written.\<close>

lemma initiate_payment_accepted:
  assumes "initiate_payment L C reg E body ob = (resp, ob')" and "rp_status resp = 202"
  obtains req payload now where "body = Inr req" "validate req = Inr ()"
    "check_routing reg (ir_to req) = Inr ()" "rl_ser_request L req = Inr payload"
    "resp = \<lparr>rp_status = 202, rp_body = InitiatedBody (initiated C E req)\<rparr>"
    "sql_find ob_transaction_request_id (in_id E) ob' = Some (outbox_row now
       \<lparr>en_transaction_request_id = in_id E, en_bank_id = rn_bank_id C, en_account_id = rn_account_id C,
        en_request_payload = payload, en_commitment_salt = in_salt E\<rparr>)"
proof -
  have e: "(r, o1) = (resp, ob') \<Longrightarrow> rp_status r \<noteq> 202 \<Longrightarrow> False" for r o1 using assms(2) by auto
  from assms obtain req where 1: "body = Inr req"
    by (cases body) (auto simp: initiate_payment_def)
  with assms have 2: "validate req = Inr ()"
    by (cases "validate req") (auto simp: initiate_payment_def dest: validate_status)
  with 1 assms have 3: "check_routing reg (ir_to req) = Inr ()"
    by (cases "check_routing reg (ir_to req)") (auto simp: initiate_payment_def split: prod.splits)
  with 1 2 assms obtain payload where 4: "rl_ser_request L req = Inr payload"
    by (cases "rl_ser_request L req") (auto simp: initiate_payment_def)
  let ?en = "\<lparr>en_transaction_request_id = in_id E, en_bank_id = rn_bank_id C, en_account_id = rn_account_id C,
        en_request_payload = payload, en_commitment_salt = in_salt E\<rparr>"
  obtain x t where ins: "outbox_insert (in_insert E) ?en ob = (x, t)" by fastforce
  with 1 2 3 4 assms have x: "x = Inr ()" "t = ob'"
      "resp = \<lparr>rp_status = 202, rp_body = InitiatedBody (initiated C E req)\<rparr>"
    by (auto simp: initiate_payment_def split: sum.splits)
  with outbox_insert_get [of "in_insert E" ?en ob t] ins obtain now where
    "sql_find ob_transaction_request_id (in_id E) ob' = Some (outbox_row now ?en)" by auto
  from that [OF 1 2 3 4 x(3) this] show thesis .
qed

text \<open>Anything else leaves the outbox as it was.\<close>

lemma initiate_payment_refused:
  assumes "initiate_payment L C reg E body ob = (resp, ob')" and "rp_status resp \<noteq> 202"
  shows "ob' = ob \<and> rp_status resp \<in> {400, 500}"
proof (cases body)
  case (Inl r)
  with assms show ?thesis by (auto simp: initiate_payment_def)
next
  case (Inr req)
  show ?thesis
  proof (cases "validate req")
    case (Inl v)
    with Inr assms show ?thesis
      by (cases v) (auto simp: initiate_payment_def dest: validate_status)
  next
    case (Inr u)
    note v = this
    show ?thesis
    proof (cases "check_routing reg (ir_to req)")
      case (Inl w)
      with v \<open>body = Inr req\<close> assms show ?thesis
        by (auto simp: initiate_payment_def split: prod.splits)
    next
      case (Inr u2)
      note c = this
      show ?thesis
      proof (cases "rl_ser_request L req")
        case (Inl e)
        with c v \<open>body = Inr req\<close> assms show ?thesis by (auto simp: initiate_payment_def)
      next
        case (Inr payload)
        let ?en = "\<lparr>en_transaction_request_id = in_id E, en_bank_id = rn_bank_id C,
          en_account_id = rn_account_id C, en_request_payload = payload, en_commitment_salt = in_salt E\<rparr>"
        show ?thesis
          by (cases rule: outbox_insert_cases [of "in_insert E" ?en ob])
             (use Inr c v \<open>body = Inr req\<close> assms in \<open>auto simp: initiate_payment_def\<close>)
      qed
    qed
  qed
qed

text \<open>What OBP-API covers is stamped once: rows stamped before keep their settlement.\<close>

lemma stamp_covered_step:
  "snd (stamp_covered c result ob) = ob \<or> outbox_life_step ob (snd (stamp_covered c result ob))"
proof (cases "os_settlement_id result")
  case None
  then show ?thesis by (simp add: stamp_covered_def)
next
  case (Some sid)
  obtain x t where op: "outbox_mark_settled c (os_covered result) sid ob = (x, t)" by fastforce
  with settled [of ob c "os_covered result" sid] have "outbox_life_step ob t" by simp
  with Some op show ?thesis by (cases x) (simp_all add: stamp_covered_def)
qed

end
