(* ===== verification/Config.thy ===== *)
theory Config
  imports Consumer Obp_Client
begin

text \<open>
  The parts of the node's wiring that compute (\<open>crates/obp-bank-node/src/main.rs\<close>): the AMQP
  address, the choice of credentials, the network check and the value-or-list setting.
\<close>

record rabbitmq_config =
  rq_enabled :: bool
  rq_host :: string
  rq_port :: nat
  rq_username :: string
  rq_password :: string
  rq_virtual_host :: string
  rq_request_queue :: string

definition default_rabbitmq :: rabbitmq_config where
  "default_rabbitmq = \<lparr>rq_enabled = False, rq_host = ''localhost'', rq_port = 5672, rq_username = ''guest'',
     rq_password = ''guest'', rq_virtual_host = ''/'', rq_request_queue = ''obp_rpc_queue''\<rparr>"

record obp_api_config =
  oa_base_url :: string
  oa_token_url :: string
  oa_client_id :: string
  oa_client_secret :: string
  oa_scope :: "string option"
  oa_direct_login_token :: string
  oa_routing_refresh_secs :: nat

definition default_obp_api :: obp_api_config where
  "default_obp_api = \<lparr>oa_base_url = ''http://localhost:8080'', oa_token_url = [], oa_client_id = [],
     oa_client_secret = [], oa_scope = None, oa_direct_login_token = [], oa_routing_refresh_secs = 300\<rparr>"

datatype 'a one_or_many = One 'a | Many "'a list"

fun to_vec :: "'a one_or_many \<Rightarrow> 'a list" where
  "to_vec (One t) = [t]"
| "to_vec (Many v) = v"

definition replace_char :: "char \<Rightarrow> string \<Rightarrow> string \<Rightarrow> string" where
  "replace_char c w s = concat (map (\<lambda>x. if x = c then w else [x]) s)"

definition build_amqp_uri :: "rabbitmq_config \<Rightarrow> string" where
  "build_amqp_uri cfg =
     ''amqp://'' @ rq_username cfg @ '':'' @ rq_password cfg @ ''@'' @ rq_host cfg @ '':''
     @ show_nat (rq_port cfg) @ ''/'' @ replace_char CHR ''/'' ''%2f'' (rq_virtual_host cfg)"

definition build_obp_auth :: "obp_api_config \<Rightarrow> obp_auth" where
  "build_obp_auth cfg =
     (if oa_client_id cfg \<noteq> []
      then ClientCredentials (oa_token_url cfg) (oa_client_id cfg) (oa_client_secret cfg) (oa_scope cfg)
      else if oa_direct_login_token cfg \<noteq> [] then DirectLogin (oa_direct_login_token cfg)
      else AuthNone)"

text \<open>The image's network and the one of the YAML file must agree when both are set.\<close>

definition network_conflict :: "string option \<Rightarrow> string option \<Rightarrow> bool" where
  "network_conflict env_network yaml_network =
     (case (env_network, yaml_network) of (Some e, Some y) \<Rightarrow> e \<noteq> y | _ \<Rightarrow> False)"

section \<open>Facts\<close>

lemma show_nat_no_at: "CHR ''@'' \<notin> set (show_nat n)"
proof
  assume "CHR ''@'' \<in> set (show_nat n)"
  with digits_val_is_digit [OF digits_val_show_nat, of n] have "is_digit (CHR ''@'')"
    by (auto simp: list_all_iff)
  then show False by (simp add: is_digit_def digit_val_def byte_val_def)
qed

lemma replace_char_set: "c \<notin> set w \<Longrightarrow> c \<notin> set s \<Longrightarrow> c \<notin> set (replace_char d w s)"
  by (auto simp: replace_char_def)

text \<open>
  What the consumer logs of its address names neither user nor password, whatever they contain;
  host and virtual host must be free of at signs.
\<close>

lemma redact_amqp_uri:
  assumes "CHR ''@'' \<notin> set (rq_host cfg)" and "CHR ''@'' \<notin> set (rq_virtual_host cfg)"
  shows "redact (build_amqp_uri cfg) =
    ''amqp://***@'' @ rq_host cfg @ '':'' @ show_nat (rq_port cfg) @ ''/''
      @ replace_char CHR ''/'' ''%2f'' (rq_virtual_host cfg)"
proof -
  let ?creds = "rq_username cfg @ '':'' @ rq_password cfg"
  let ?host = "rq_host cfg @ '':'' @ show_nat (rq_port cfg) @ ''/''
      @ replace_char CHR ''/'' ''%2f'' (rq_virtual_host cfg)"
  have "CHR ''@'' \<notin> set ?host"
    using assms show_nat_no_at replace_char_set [of "CHR ''@''" "''%2f''" "rq_virtual_host cfg"] by auto
  from redact_credentials [of "''amqp''" ?creds ?host, OF _ _ this]
  show ?thesis by (simp add: build_amqp_uri_def)
qed

end
