(* ===== verification/Mock.thy ===== *)
theory Mock
  imports Interface_C
begin

text \<open>
  The backends for offline use: the mock notary (\<open>crates/obp-blockchain/src/mock.rs\<close>), whose
  state is the list of references it gave out, and the fixed-rate FX source
  (\<open>crates/obp-blockchain/src/settlement.rs\<close>).
\<close>

definition make_ref :: "(string \<Rightarrow> string) \<Rightarrow> string \<Rightarrow> string \<Rightarrow> string \<Rightarrow> tx_reference" where
  "make_ref hash now kind i =
     \<lparr>tx_chain = ''mock'', tx_id = hash (kind @ '':'' @ i), tx_submitted_at = now\<rparr>"

definition mock_write ::
  "(string \<Rightarrow> string) \<Rightarrow> string \<Rightarrow> string \<Rightarrow> string \<Rightarrow> tx_reference list
   \<Rightarrow> (blockchain_error + tx_reference) \<times> tx_reference list" where
  "mock_write hash now kind i writes =
     (let r = make_ref hash now kind i in (Inr r, writes @ [r]))"

definition mock_write_promise ::
  "(string \<Rightarrow> string) \<Rightarrow> string \<Rightarrow> promise_record \<Rightarrow> tx_reference list
   \<Rightarrow> (blockchain_error + tx_reference) \<times> tx_reference list" where
  "mock_write_promise hash now p = mock_write hash now ''promise'' (pr_commitment p)"

definition mock_write_settlement ::
  "(string \<Rightarrow> string) \<Rightarrow> (settlement_record \<Rightarrow> string) \<Rightarrow> string \<Rightarrow> settlement_record \<Rightarrow> string
   \<Rightarrow> tx_reference list \<Rightarrow> (blockchain_error + tx_reference) \<times> tx_reference list" where
  "mock_write_settlement hash ser now s salt =
     mock_write hash now ''settlement'' (settlement_commit_v1 hash ser s salt)"

definition mock_write_exception ::
  "(string \<Rightarrow> string) \<Rightarrow> (exception_record \<Rightarrow> string) \<Rightarrow> string \<Rightarrow> exception_record \<Rightarrow> string
   \<Rightarrow> tx_reference list \<Rightarrow> (blockchain_error + tx_reference) \<times> tx_reference list" where
  "mock_write_exception hash ser now e salt =
     mock_write hash now ''exception'' (exception_commit_v1 hash ser e salt)"

definition mock_confirm :: "tx_reference \<Rightarrow> blockchain_error + confirmation_status" where
  "mock_confirm r = Inr (Confirmed 1)"

definition stub_quote :: "nat \<Rightarrow> string \<Rightarrow> string \<Rightarrow> string \<Rightarrow> blockchain_error + fx_quote" where
  "stub_quote rate now asset currency =
     Inr \<lparr>fx_asset = asset, fx_currency = currency, fx_minor_per_whole = rate,
          fx_as_of_text = now, fx_quote_source = ''stub''\<rparr>"

text \<open>The identifier depends on the record only, and every write is recorded.\<close>

lemma mock_write_same_id:
  "mock_write hash now kind i w = (Inr r, w') \<Longrightarrow> mock_write hash now' kind i v = (Inr r', v') \<Longrightarrow>
   tx_id r = tx_id r' \<and> w' = w @ [r]"
  by (auto simp: mock_write_def make_ref_def Let_def)

end
