(* ===== verification/Examples.thy ===== *)
theory Examples
  imports Cardano_Safety Credit_Safety Dispatcher Rest Config Mock
begin

text \<open>
  Concrete libraries, configurations and environments: the inputs at which the properties of the
  root theory are evaluated. The parsers are constant functions, the hash is the identity.
\<close>

definition demo_value :: money_value where
  "demo_value = \<lparr>mv_currency = ''KES'', mv_amount = ''10.00''\<rparr>"

definition demo_credit :: credit_message where
  "demo_credit =
     \<lparr>cn_transaction_request_id = ''tr-1'', cn_value = demo_value, cn_description = None,
      cn_originator = None, cn_beneficiary = None, cn_return_of = None, cn_netting_snapshot_id = None,
      cn_promise_id = None, cn_promise_blockchain = None, cn_promise_commitment = Some ''saltpre'',
      cn_promise_salt = Some ''salt'', cn_promise_preimage = Some ''pre''\<rparr>"

definition demo_instruction :: instruction_message where
  "demo_instruction =
     \<lparr>si_snapshot_id = None, si_settlement_id = Some ''s-1'', si_settlement_system = None,
      si_currency = Some ''KES'', si_amount = Some ''12.50'', si_creditor_bank_id = Some ''ke.01'',
      si_creditor_address = Some ''addr1'', si_idempotency_key = Some ''k-1'', si_purpose = None\<rparr>"

definition demo_preimage :: json where
  "demo_preimage = JObj
     [(''originating_bank_id'', JStr ''ke.02''),
      (''instruction'', JObj [(''originator'', JObj
         [(''name'', JStr ''Ann''),
          (''account_routing'', JObj [(''scheme'', JStr ''IBAN''), (''address'', JStr ''KE02'')])])])]"

definition demo_libs :: libs where
  "demo_libs =
     \<lparr>lb_credit = (\<lambda>_. Inr demo_credit),
      lb_advice = (\<lambda>_. Inr \<lparr>sa_settlement_id = ''s-1'', sa_currency = None, sa_net_amount = None,
                     sa_debtor_bank_id = None, sa_creditor_bank_id = None, sa_covered = [''tr-1''],
                     sa_idempotency_key = None\<rparr>),
      lb_instruction = (\<lambda>_. Inr demo_instruction),
      lb_status = (\<lambda>_. Inl ''no''),
      lb_json = (\<lambda>_. Inr demo_preimage),
      lb_ack = (\<lambda>_. None),
      lb_ser_request = (\<lambda>_. Inr ''payload''),
      lb_hash = (\<lambda>x. x),
      lb_show_outbox_error = (\<lambda>_. ''db'')\<rparr>"

definition demo_router :: router where
  "demo_router = \<lparr>rt_bank_id = ''ke.01'', rt_account_id = ''acc'',
     rt_settlement = Some \<lparr>ss_settles_from = ''addr0'', ss_finality_depth = 10\<rparr>\<rparr>"

definition demo_bank :: bank where
  "demo_bank = \<lparr>bk_evidence = [], bk_outbox = [], bk_store = [], bk_cbs_posts = [], bk_rail_calls = []\<rparr>"

definition demo_credit_env :: "http_answer \<Rightarrow> string \<Rightarrow> credit_env" where
  "demo_credit_env answer rid =
     \<lparr>ce_upsert = Runs ''t1'', ce_cbs = answer, ce_record = Runs ''t2'', ce_return_id = rid,
      ce_salt = ''s'', ce_insert = Runs ''t3'', ce_link = Runs ''t4''\<rparr>"

definition demo_outcome :: settlement_outcome where
  "demo_outcome = \<lparr>so_tx = \<lparr>tx_chain = ''cardano'', tx_id = ''tx-1'', tx_submitted_at = ''t''\<rparr>,
     so_asset = ''ADA'', so_asset_amount = ''1.0'', so_fx = None\<rparr>"

definition demo_instruction_env :: "settle_answer \<Rightarrow> instruction_env" where
  "demo_instruction_env answer =
     \<lparr>ie_claim = Runs ''t1'', ie_claim_read = Runs ''t1'', ie_reclaim = Runs ''t2'', ie_settle = answer,
      ie_mark = Runs ''t3''\<rparr>"

definition demo_env :: "http_answer \<Rightarrow> string \<Rightarrow> settle_answer \<Rightarrow> message_env" where
  "demo_env cbs rid rail =
     \<lparr>me_credit = demo_credit_env cbs rid,
      me_advice = \<lparr>ae_credit_fails = (\<lambda>_. None), ae_now = ''t5'', ae_promises = Runs ''t6''\<rparr>,
      me_instruction = demo_instruction_env rail\<rparr>"

text \<open>The settlement instruction delivered to an empty node whose rail accepts it.\<close>

definition demo_paid :: bank where
  "demo_paid = snd (handle demo_libs demo_router (demo_env (NoResponse ''x'') ''r-1'' (Inr demo_outcome))
     SETTLEMENT_INSTRUCTION ''c-1'' ''body'' demo_bank)"

lemma demo_paid_store:
  "map (\<lambda>r. (sr_idempotency_key r, sr_status r, sr_tx_id r)) (bk_store demo_paid) =
     [(''k-1'', SETTLE_SUBMITTED, Some ''tx-1'')]"
  "length (bk_rail_calls demo_paid) = 1"
  by code_simp+

text \<open>The watcher sees the payment twelve blocks deep: the row becomes final.\<close>

definition demo_watch :: "nat \<Rightarrow> watch_env" where
  "demo_watch i = \<lparr>we_confirm = Inr (Confirmed 12), we_write = Runs ''t9''\<rparr>"

definition demo_final :: settlements where
  "demo_final = snd (watcher_tick (\<lambda>s. Some s) 10 (Runs ''t9'') demo_watch (bk_store demo_paid))"

lemma demo_final_rows:
  "map (\<lambda>r. (sr_idempotency_key r, sr_status r, sr_last_depth r)) demo_final = [(''k-1'', FINAL, 12)]"
  by code_simp

lemma demo_final_reached: "(settle_step_at 10)\<^sup>*\<^sup>* [] demo_final"
proof -
  have "settle_step_at 10 (bk_store demo_bank) (bk_store demo_paid)"
    unfolding demo_paid_def by (rule delivered_at)
  then have "settle_step_at 10 [] (bk_store demo_paid)" by (simp add: demo_bank_def)
  moreover have "settle_step_at 10 (bk_store demo_paid) demo_final"
    unfolding demo_final_def by (rule watched_at)
  ultimately show ?thesis by auto
qed

text \<open>The same instruction delivered again to the node whose payment is final.\<close>

definition demo_again :: bank where
  "demo_again = snd (handle demo_libs demo_router (demo_env (NoResponse ''x'') ''r-1'' (Inr demo_outcome))
     SETTLEMENT_INSTRUCTION ''c-2'' ''body'' (demo_bank\<lparr>bk_store := demo_final\<rparr>))"

lemma demo_again_reached: "settle_step demo_final (bk_store demo_again)"
proof -
  have "settle_step (bk_store (demo_bank\<lparr>bk_store := demo_final\<rparr>)) (bk_store demo_again)"
    unfolding demo_again_def by (rule delivered)
  then show ?thesis by simp
qed

text \<open>A payment request that OBP-API, the rail and OBP-API again accept in one pass of the dispatcher.\<close>

definition demo_obp_libs :: obp_libs where
  "demo_obp_libs =
     \<lparr>ol_json = (\<lambda>_. Inr (JObj [(''transaction_request_id'', JStr ''obp-1'')])),
      ol_error_message = (\<lambda>_. Inr None), ol_token = (\<lambda>_. Inl ''no''), ol_routing_page = (\<lambda>_. Inl ''no''),
      ol_show_status = show_nat\<rparr>"

definition demo_dispatch_libs :: dispatch_libs where
  "demo_dispatch_libs = \<lparr>dl_obp = demo_obp_libs, dl_print = (\<lambda>_. Inr ''canonical''), dl_hash = (\<lambda>x. x)\<rparr>"

definition demo_dispatcher :: dispatcher where
  "demo_dispatcher = \<lparr>di_obp = new_client ''http://obp/'' AuthNone, di_blockchain_label = ''cardano''\<rparr>"

definition demo_call :: call_env where
  "demo_call = \<lparr>oe_token = \<lparr>te_now = 0, te_answer = NoResponse ''x'', te_later = 0\<rparr>,
                oe_answer = Response 201 ''{}''\<rparr>"

definition demo_row_env :: "nat \<Rightarrow> row_env" where
  "demo_row_env i =
     \<lparr>de_attempt = Runs ''t1'', de_submit = demo_call, de_mark_submitted = Runs ''t2'',
      de_created_at = ''t3'',
      de_promise = Inr \<lparr>tx_chain = ''cardano'', tx_id = ''p-1'', tx_submitted_at = ''t''\<rparr>,
      de_mark_promise = Runs ''t4'', de_report = demo_call, de_mark_reported = Runs ''t5'',
      de_mark_exception = Runs ''t6''\<rparr>"

definition demo_entry :: outbox_entry where
  "demo_entry = \<lparr>en_transaction_request_id = ''tr-7'', en_bank_id = ''ke.01'', en_account_id = ''acc'',
     en_request_payload = ''payload'', en_commitment_salt = ''salt''\<rparr>"

definition demo_inserted :: outbox where
  "demo_inserted = snd (outbox_insert (Runs ''t0'') demo_entry [])"

definition demo_pass :: "nat db_result option \<times> dispatch_state" where
  "demo_pass = process_due_once demo_dispatch_libs demo_dispatcher (Runs ''q'') ''t0'' 10 demo_row_env
     \<lparr>ds_outbox = demo_inserted, ds_token = None, ds_log = []\<rparr>"

definition demo_reported :: outbox where
  "demo_reported = ds_outbox (snd demo_pass)"

lemma demo_reported_rows:
  "map (\<lambda>r. (ob_transaction_request_id r, ob_status r, ob_promise_tx_id r)) demo_reported =
     [(''tr-7'', REPORTED, Some ''p-1'')]"
  by code_simp

lemma demo_reported_reached: "outbox_life_step\<^sup>*\<^sup>* [] demo_reported"
proof -
  have "outbox_life_step [] demo_inserted" unfolding demo_inserted_def by (rule inserted)
  moreover have "outbox_life_step (ds_outbox \<lparr>ds_outbox = demo_inserted, ds_token = None, ds_log = []\<rparr>)
      demo_reported"
    unfolding demo_reported_def demo_pass_def by (rule dispatched)
  then have "outbox_life_step demo_inserted demo_reported" by simp
  ultimately show ?thesis by auto
qed

section \<open>A Cardano node that accepts a transfer\<close>

definition demo_utxo :: json where
  "demo_utxo = JObj [(''transaction'', JObj [(''id'', JStr ''aa'')]), (''index'', JInt 0),
     (''value'', JObj [(''ada'', JObj [(''lovelace'', JInt 100000000)])])]"

definition demo_parameters :: json where
  "demo_parameters = JObj [(''minFeeCoefficient'', JInt 44), (''minFeeConstant'', JInt 155381),
     (''maxTransactionSize'', JInt 16384)]"

definition demo_envelope :: "string \<Rightarrow> string + json option \<times> (int \<times> string) option" where
  "demo_envelope s =
     (if s = ''params'' then Inr (Some demo_parameters, None)
      else if s = ''tip'' then Inr (Some (JObj []), None)
      else if s = ''utxos'' then Inr (Some (JArr [demo_utxo]), None)
      else if s = ''accepted'' then Inr (Some (JObj [(''transaction'', JObj [(''id'', JStr ''TX-1'')])]), None)
      else Inr (None, Some (3125, ''refused'')))"

definition demo_tx_libs :: tx_libs where
  "demo_tx_libs =
     \<lparr>tl_address = (\<lambda>s. Inr s), tl_hash = (\<lambda>s. Some s), tl_aux = (\<lambda>_ _. Inr ''aux''),
      tl_build = (\<lambda>_. Inr ''body''),
      tl_sign = (\<lambda>_ _. Inr \<lparr>bt_hash_hex = ''tx-1'', bt_cbor = replicate 200 CHR ''c'', bt_cbor_hex = ''6363''\<rparr>)\<rparr>"

definition demo_cardano_libs :: cardano_libs where
  "demo_cardano_libs =
     \<lparr>cl_tx = demo_tx_libs,
      cl_ogmios = \<lparr>og_print = (\<lambda>_. Inr ''request''), og_envelope = demo_envelope,
                   og_point = (\<lambda>_. Inr \<lparr>pt_slot = 5, pt_id = ''p'', pt_height = None\<rparr>), og_show = (\<lambda>_. [])\<rparr>,
      cl_lower = to_ascii_lowercase\<rparr>"

definition demo_cardano :: cardano where
  "demo_cardano = \<lparr>cd_ogmios = ogmios_new ''ws://node'',
     cd_wallet = \<lparr>wa_address = ''addr0'', wa_signing_key = ''seed'', wa_verifying_key = ''key''\<rparr>,
     cd_network = ''preprod'', cd_followed = True\<rparr>"

definition demo_socket :: "string \<Rightarrow> socket_run" where
  "demo_socket s = \<lparr>sk_connect = None, sk_send = None, sk_stream = [Inr WsPing, Inr (WsText s)], sk_expired = False\<rparr>"

definition demo_settle_run :: settle_run where
  "demo_settle_run =
     \<lparr>sn_quote = stub_quote 3542 ''t'' ''ADA'' ''KES'',
      sn_transfer = \<lparr>xf_params = demo_socket ''params'', xf_tip = demo_socket ''tip'',
                     xf_utxos = demo_socket ''utxos'', xf_submit = demo_socket ''accepted'', xf_now = ''t''\<rparr>,
      sn_now = ''t''\<rparr>"

definition demo_chain_start :: cardano_state where
  "demo_chain_start = \<lparr>ca_follower = follower_start, ca_submissions = []\<rparr>"

definition demo_rail_instruction :: rail_instruction where
  "demo_rail_instruction = fst (hd (bk_rail_calls demo_paid))"

definition demo_transfer :: "settle_answer \<times> cardano_state" where
  "demo_transfer = ada_settle demo_cardano_libs demo_cardano demo_settle_run demo_rail_instruction demo_chain_start"

definition demo_ada_paid :: bank where
  "demo_ada_paid = snd (handle demo_libs demo_router (demo_env (NoResponse ''x'') ''r-1'' (fst demo_transfer))
     SETTLEMENT_INSTRUCTION ''c-1'' ''body'' demo_bank)"

lemma demo_transfer_answer:
  "fst demo_transfer = Inr \<lparr>so_tx = \<lparr>tx_chain = ''cardano'', tx_id = ''tx-1'', tx_submitted_at = ''t''\<rparr>,
     so_asset = ''ADA'', so_asset_amount = ''352907'',
     so_fx = Some \<lparr>fx_asset = ''ADA'', fx_currency = ''KES'', fx_minor_per_whole = 3542,
                    fx_as_of_text = ''t'', fx_quote_source = ''stub''\<rparr>\<rparr>"
  by code_simp

lemma demo_ada_calls: "bk_rail_calls demo_ada_paid = [(demo_rail_instruction, fst demo_transfer)]"
  by code_simp

lemma demo_transfer_keys: "settled_keys (snd demo_transfer) = [''k-1'']"
  by code_simp

lemma demo_rail_run:
  "rail_run (ada_call demo_cardano_libs demo_cardano) settled_keys demo_chain_start
     (bk_rail_calls demo_ada_paid) (snd demo_transfer)"
proof -
  have "ada_call demo_cardano_libs demo_cardano demo_chain_start demo_rail_instruction (fst demo_transfer)
      (snd demo_transfer)"
    unfolding ada_call_def demo_transfer_def by (intro exI [of _ demo_settle_run]) simp
  from run_call [of "ada_call demo_cardano_libs demo_cardano" settled_keys demo_chain_start "[]" demo_chain_start, OF run_start this]
  show ?thesis by (simp add: demo_ada_calls)
qed

end
