(* ===== verification/Float64.thy ===== *)
theory Float64
  imports Float_Text "HOL-Library.Word" Complex_Main
begin

text \<open>
  Rust's \<open>f64\<close> as the price sources use it: values, rounding to nearest with ties to even,
  multiplication, division, the comparisons with constants, conversion from integers and from
  text. A finite value is a sign, a mantissa and a binary exponent. \<open>f64::powi\<close>, whose precision
  the standard library leaves open, and \<open>Display\<close> are parameters where they are used.
\<close>

datatype f64 = FNaN | FInf bool | FFin bool nat int

section \<open>Rounding\<close>

fun bit_count :: "nat \<Rightarrow> nat" where
  "bit_count n = (if n = 0 then 0 else Suc (bit_count (n div 2)))"

declare bit_count.simps [simp del]

text \<open>The integer \<open>d\<close> with \<open>2 ^ d \<le> p / q < 2 ^ (d + 1)\<close>.\<close>

definition floor_log2 :: "nat \<Rightarrow> nat \<Rightarrow> int" where
  "floor_log2 p q =
     (let d = int (bit_count p) - int (bit_count q)
      in if q * 2 ^ nat d \<le> p * 2 ^ nat (- d) then d else d - 1)"

text \<open>A quotient, rounded to the nearest integer, a tie to the even one.\<close>

definition nearest_int :: "nat \<Rightarrow> nat \<Rightarrow> nat" where
  "nearest_int num den =
     (let n = num div den; r = num mod den
      in if 2 * r < den \<or> 2 * r = den \<and> even n then n else n + 1)"

definition div_nearest :: "nat \<Rightarrow> nat \<Rightarrow> int \<Rightarrow> nat" where
  "div_nearest p q e = nearest_int (p * 2 ^ nat (- e)) (q * 2 ^ nat e)"

text \<open>
  The double nearest to \<open>p / q\<close>: 53 bits of mantissa, fewer below the smallest normal number;
  what rounds to \<open>2 ^ 1024\<close> or more is infinite.
\<close>

definition f64_round :: "bool \<Rightarrow> nat \<Rightarrow> nat \<Rightarrow> f64" where
  "f64_round s p q =
     (if p = 0 then FFin s 0 0
      else
        let e = max (- 1074) (floor_log2 p q - 52); n = div_nearest p q e
        in if 971 < e \<or> e = 971 \<and> 2 ^ 53 \<le> n then FInf s else FFin s n e)"

definition f64_of_ratio :: "bool \<Rightarrow> nat \<Rightarrow> int \<Rightarrow> nat \<Rightarrow> f64" where
  "f64_of_ratio s m e q = f64_round s (m * 2 ^ nat e) (q * 2 ^ nat (- e))"

section \<open>Operations\<close>

definition f64_of_nat :: "nat \<Rightarrow> f64" where
  "f64_of_nat n = f64_round False n 1"

definition f64_of_int :: "int \<Rightarrow> f64" where
  "f64_of_int i = f64_round (i < 0) (nat \<bar>i\<bar>) 1"

fun f64_of_text :: "f64_text \<Rightarrow> f64" where
  "f64_of_text NotANumber = FNaN"
| "f64_of_text (Infinite s) = FInf s"
| "f64_of_text (Finite s m e) = f64_round s (m * 10 ^ nat e) (10 ^ nat (- e))"

fun f64_mul :: "f64 \<Rightarrow> f64 \<Rightarrow> f64" where
  "f64_mul (FFin s m e) (FFin s' m' e') = f64_of_ratio (s \<noteq> s') (m * m') (e + e') 1"
| "f64_mul (FInf s) (FFin s' m e) = (if m = 0 then FNaN else FInf (s \<noteq> s'))"
| "f64_mul (FFin s m e) (FInf s') = (if m = 0 then FNaN else FInf (s \<noteq> s'))"
| "f64_mul (FInf s) (FInf s') = FInf (s \<noteq> s')"
| "f64_mul FNaN _ = FNaN"
| "f64_mul _ FNaN = FNaN"

fun f64_div :: "f64 \<Rightarrow> f64 \<Rightarrow> f64" where
  "f64_div (FFin s m e) (FFin s' m' e') =
     (if m' = 0 then (if m = 0 then FNaN else FInf (s \<noteq> s')) else f64_of_ratio (s \<noteq> s') m (e - e') m')"
| "f64_div (FInf s) (FFin s' m e) = FInf (s \<noteq> s')"
| "f64_div (FFin s m e) (FInf s') = FFin (s \<noteq> s') 0 0"
| "f64_div (FInf s) (FInf s') = FNaN"
| "f64_div FNaN _ = FNaN"
| "f64_div _ FNaN = FNaN"

fun f64_is_finite :: "f64 \<Rightarrow> bool" where
  "f64_is_finite (FFin s m e) = True"
| "f64_is_finite _ = False"

text \<open>\<open>x <= 0.0\<close> and \<open>x > 0.0\<close>; a NaN is neither.\<close>

fun f64_le_zero :: "f64 \<Rightarrow> bool" where
  "f64_le_zero (FFin s m e) = (s \<or> m = 0)"
| "f64_le_zero (FInf s) = s"
| "f64_le_zero FNaN = False"

fun f64_gt_zero :: "f64 \<Rightarrow> bool" where
  "f64_gt_zero (FFin s m e) = (\<not> s \<and> m \<noteq> 0)"
| "f64_gt_zero (FInf s) = (\<not> s)"
| "f64_gt_zero FNaN = False"

text \<open>\<open>x >= y\<close> for a positive finite \<open>y\<close>.\<close>

fun f64_ge_pos :: "f64 \<Rightarrow> f64 \<Rightarrow> bool" where
  "f64_ge_pos (FFin s m e) (FFin s' m' e') =
     (\<not> s \<and> m' * 2 ^ nat e' * 2 ^ nat (- e) \<le> m * 2 ^ nat e * 2 ^ nat (- e'))"
| "f64_ge_pos (FInf s) y = (\<not> s)"
| "f64_ge_pos _ _ = False"

text \<open>\<open>x.round() as u128\<close>: half away from zero; the cast saturates and takes NaN to zero.\<close>

fun f64_round_u128 :: "f64 \<Rightarrow> nat" where
  "f64_round_u128 (FFin s m e) =
     (if s then 0
      else min (2 ^ 128 - 1) (if 0 \<le> e then m * 2 ^ nat e else (m + 2 ^ nat (- e - 1)) div 2 ^ nat (- e)))"
| "f64_round_u128 (FInf s) = (if s then 0 else 2 ^ 128 - 1)"
| "f64_round_u128 FNaN = 0"

text \<open>Evaluation on numerals.\<close>

lemmas f64_eval = f64_of_nat_def f64_of_int_def f64_of_ratio_def f64_round_def floor_log2_def bit_count.simps
  div_nearest_def nearest_int_def Let_def

section \<open>The value of a double\<close>

fun f64_val :: "f64 \<Rightarrow> real" where
  "f64_val (FFin s m e) = (if s then - 1 else 1) * real m * 2 powi e"
| "f64_val _ = 0"

lemma powi_nat: "(2 :: real) powi e = 2 ^ nat e / 2 ^ nat (- e)"
  by (cases "0 \<le> e") (simp_all add: power_int_def field_simps)

lemma bit_count_bounds: "0 < n \<Longrightarrow> 2 ^ (bit_count n - 1) \<le> n \<and> n < 2 ^ bit_count n \<and> 0 < bit_count n"
proof (induction n rule: bit_count.induct)
  case (1 n)
  show ?case
  proof (cases "n = 1")
    case True
    moreover have "bit_count 1 = 1" using bit_count.simps [of 1] bit_count.simps [of 0] by simp
    ultimately show ?thesis by simp
  next
    case False
    with 1(2) have h: "0 < n div 2" "n \<noteq> 0" by auto
    from 1(1) [OF h(2,1)] obtain k where k: "bit_count (n div 2) = Suc k" "2 ^ k \<le> n div 2" "n div 2 < 2 * 2 ^ k"
      by (cases "bit_count (n div 2)") auto
    have "bit_count n = Suc (Suc k)" using h(2) k(1) bit_count.simps [of n] by simp
    with k show ?thesis by auto
  qed
qed

text \<open>The floor of the logarithm, as inequalities between naturals scaled to reals.\<close>

lemma floor_log2_bounds:
  assumes "0 < p" "0 < q"
  shows "2 powi floor_log2 p q \<le> real p / real q" "real p / real q < 2 powi (floor_log2 p q + 1)"
proof -
  let ?d = "int (bit_count p) - int (bit_count q)"
  obtain a b where ab: "bit_count p = Suc a" "bit_count q = Suc b"
    using bit_count_bounds [OF assms(1)] bit_count_bounds [OF assms(2)] gr0_conv_Suc by metis
  have "2 ^ a \<le> p" "p < 2 * 2 ^ a" "2 ^ b \<le> q" "q < 2 * 2 ^ b"
    using bit_count_bounds [OF assms(1)] bit_count_bounds [OF assms(2)] ab by simp_all
  then have B: "real (2 ^ a) \<le> real p" "real p < real (2 * 2 ^ a)" "real (2 ^ b) \<le> real q" "real q < real (2 * 2 ^ b)"
    by (simp_all only: of_nat_le_iff of_nat_less_iff)
  have d: "(2 :: real) powi ?d = 2 ^ a / 2 ^ b" by (simp add: ab power_int_diff)
  have up: "real p / real q < 2 * 2 powi ?d"
  proof -
    have "real p * 2 ^ b < 2 * 2 ^ a * 2 ^ b" using B(2) by simp
    also have "\<dots> \<le> 2 * 2 ^ a * real q" using B(3) by simp
    finally show ?thesis using assms by (simp add: d field_simps)
  qed
  have lo: "2 powi ?d / 2 \<le> real p / real q"
  proof -
    have "2 ^ a * real q \<le> 2 ^ a * (2 * 2 ^ b)" using B(4) by simp
    also have "\<dots> \<le> real p * (2 * 2 ^ b)" using B(1) by simp
    finally show ?thesis using assms by (simp add: d field_simps)
  qed
  have test: "q * 2 ^ nat ?d \<le> p * 2 ^ nat (- ?d) \<longleftrightarrow> 2 powi ?d \<le> real p / real q"
  proof -
    have "q * 2 ^ nat ?d \<le> p * 2 ^ nat (- ?d) \<longleftrightarrow> real q * 2 ^ nat ?d \<le> real p * 2 ^ nat (- ?d)"
      using of_nat_le_iff [of "q * 2 ^ nat ?d" "p * 2 ^ nat (- ?d)", where 'a = real] by simp
    then show ?thesis using assms by (simp add: powi_nat field_simps)
  qed
  have half: "(2 :: real) powi (?d - 1) = 2 powi ?d / 2" by (simp add: power_int_diff)
  have dbl: "(2 :: real) powi (?d + 1) = 2 * 2 powi ?d" by (simp add: power_int_add)
  have "2 powi floor_log2 p q \<le> real p / real q \<and> real p / real q < 2 powi (floor_log2 p q + 1)"
  proof (cases "2 powi ?d \<le> real p / real q")
    case True
    with test have "floor_log2 p q = ?d" unfolding floor_log2_def Let_def by (rule if_P [OF iffD2])
    with True up dbl show ?thesis by simp
  next
    case False
    with test have "floor_log2 p q = ?d - 1" unfolding floor_log2_def Let_def by (intro if_not_P) blast
    then have "2 powi floor_log2 p q = (2 :: real) powi ?d / 2" "floor_log2 p q + 1 = ?d" using half by simp_all
    with False lo show ?thesis by (metis not_le)
  qed
  then show "2 powi floor_log2 p q \<le> real p / real q" "real p / real q < 2 powi (floor_log2 p q + 1)"
    by blast+
qed

text \<open>The nearest integer is within one half.\<close>

lemma half_iff:
  assumes "0 < b"
  shows "real a / real b \<le> 1 / 2 \<longleftrightarrow> 2 * a \<le> b" and "1 / 2 \<le> real a / real b \<longleftrightarrow> b \<le> 2 * a"
proof -
  have "real a / real b \<le> 1 / 2 \<longleftrightarrow> real (2 * a) \<le> real b" using assms by (simp add: field_simps)
  then show "real a / real b \<le> 1 / 2 \<longleftrightarrow> 2 * a \<le> b" by (simp only: of_nat_le_iff)
  have "1 / 2 \<le> real a / real b \<longleftrightarrow> real b \<le> real (2 * a)" using assms by (simp add: field_simps)
  then show "1 / 2 \<le> real a / real b \<longleftrightarrow> b \<le> 2 * a" by (simp only: of_nat_le_iff)
qed

lemma div_mod_real: "0 < den \<Longrightarrow> real num / real den = real (num div den) + real (num mod den) / real den"
  by (metis add_divide_distrib less_irrefl nonzero_mult_div_cancel_right of_nat_0_less_iff
      div_mult_mod_eq of_nat_add of_nat_mult)

lemma mod_frac_less: "0 < den \<Longrightarrow> real (num mod den) / real den < 1"
  using mod_less_divisor [of den num] by simp

lemma nearest_int_close:
  assumes "0 < den"
  shows "\<bar>real (nearest_int num den) - real num / real den\<bar> \<le> 1 / 2"
proof -
  let ?n = "real (num div den)" and ?t = "real (num mod den) / real den"
  note x = div_mod_real [OF assms, of num]
  have "num mod den < den" using assms by simp
  then have t: "?t < 1" "0 \<le> ?t" using assms by simp_all
  show ?thesis
  proof (cases "2 * (num mod den) < den \<or> 2 * (num mod den) = den \<and> even (num div den)")
    case True
    then have "real (nearest_int num den) = ?n" by (simp add: nearest_int_def Let_def)
    moreover have "?t \<le> 1 / 2" using True half_iff(1) [OF assms, of "num mod den"] by linarith
    ultimately show ?thesis unfolding x using t by linarith
  next
    case False
    then have "nearest_int num den = num div den + 1" unfolding nearest_int_def Let_def by (rule if_not_P)
    then have "real (nearest_int num den) = ?n + 1" by simp
    moreover have "1 / 2 \<le> ?t" using False half_iff(2) [OF assms, of "num mod den"] by linarith
    ultimately show ?thesis unfolding x using t by linarith
  qed
qed

lemma div_nearest_close:
  assumes "0 < q"
  shows "\<bar>real (div_nearest p q e) - real p / (real q * 2 powi e)\<bar> \<le> 1 / 2"
proof -
  have "real p / (real q * 2 powi e) = real (p * 2 ^ nat (- e)) / real (q * 2 ^ nat e)"
    by (simp add: powi_nat)
  with nearest_int_close [of "q * 2 ^ nat e" "p * 2 ^ nat (- e)"] assms show ?thesis
    by (simp add: div_nearest_def)
qed

text \<open>
  The rounding error: a finite result is within \<open>2 ^ -53\<close> of the value, relatively, from the smallest
  normal number on.
\<close>

lemma f64_round_close:
  assumes "f64_round s p q = FFin s' m e" and "0 < q" and "2 powi (- 1022) \<le> real p / real q"
  shows "s' = s \<and> \<bar>real m * 2 powi e - real p / real q\<bar> \<le> real p / real q / 2 ^ 53"
proof -
  have p: "0 < p" using assms(3) by (cases "p = 0") (auto simp: not_le)
  let ?l = "floor_log2 p q"
  note l = floor_log2_bounds [OF p assms(2)]
  have "(2 :: real) powi (- 1022) < 2 powi (?l + 1)" using l(2) assms(3) by linarith
  then have "- 1022 < ?l + 1"
    using power_int_increasing [of "?l + 1" "- 1022" "2 :: real"] by (meson not_le one_le_numeral)
  then have e: "e = ?l - 52" "m = div_nearest p q e" "s' = s"
    using assms(1) p by (auto simp: f64_round_def Let_def split: if_splits)
  have pos: "(0 :: real) < 2 powi e" by simp
  let ?x = "real p / real q"
  have "?x = real p / (real q * 2 powi e) * 2 powi e" using pos by simp
  then have "\<bar>real m * 2 powi e - ?x\<bar> = \<bar>real m - real p / (real q * 2 powi e)\<bar> * 2 powi e"
    using pos by (metis abs_mult_pos left_diff_distrib less_imp_le)
  also have "\<dots> \<le> 1 / 2 * 2 powi e"
    using div_nearest_close [OF assms(2), of p e] pos e(2) by (intro mult_right_mono) simp_all
  also have "\<dots> = 2 powi ?l / 2 ^ 53" by (simp add: e(1) power_int_diff)
  also have "\<dots> \<le> ?x / 2 ^ 53" using l(1) by (intro divide_right_mono) simp_all
  finally show ?thesis using e(3) by simp
qed

end
