(* ===== verification/Fx.thy ===== *)
theory Fx
  imports Settlement_Store Commitment Json Http Float64
begin

text \<open>
  The settle-time price sources (\<open>crates/obp-bank-node/src/fx.rs\<close>): the direct CoinGecko quote and
  the cross rate of two legs, each a list of sources tried in order. The HTTP client is the
  environment: a function from the request to the answer. JSON, the texts of third-party errors,
  \<open>powi\<close> and \<open>Display\<close> of floats are parameters. A panic is the outer \<open>None\<close>.
\<close>

record fx_libs =
  fl_json :: "string \<Rightarrow> string + json"
  fl_float :: "string \<Rightarrow> f64"
  fl_status_error :: "string \<Rightarrow> nat \<Rightarrow> string"
  fl_show_status :: "nat \<Rightarrow> string"
  fl_show_json :: "json \<Rightarrow> string"
  fl_show_f64 :: "f64 \<Rightarrow> string"
  fl_powi10 :: "int \<Rightarrow> f64"

datatype fx_request = FxGet string | FxPost string json

text \<open>What the environment answers to one leg, and the clock it reads (Unix seconds).\<close>

record leg_env =
  le_http :: "fx_request \<Rightarrow> http_answer"
  le_timestamp :: int

type_synonym 'a fx_result = "(blockchain_error + 'a) option"

section \<open>Shared\<close>

definition coin_id :: "string \<Rightarrow> string option" where
  "coin_id asset = (if to_ascii_uppercase asset = ''ADA'' then Some ''cardano'' else None)"

definition price_to_minor :: "fx_libs \<Rightarrow> f64 \<Rightarrow> int \<Rightarrow> string + nat" where
  "price_to_minor L price exponent =
     (if \<not> f64_is_finite price \<or> f64_le_zero price
      then Inl (''unusable price '' @ fl_show_f64 L price)
      else
        let scaled = f64_mul price (fl_powi10 L exponent) in
        if f64_ge_pos scaled (f64_of_nat (10 ^ 30))
        then Inl (''price '' @ fl_show_f64 L price @ '' overflows minor-unit domain'')
        else
          let minor = f64_round_u128 scaled in
          if minor = 0 then Inl (''price '' @ fl_show_f64 L price @ '' rounds to zero minor units'')
          else Inr minor)"

text \<open>\<open>Value::as_f64\<close>: an integer is rounded; a literal with a fraction was read by the parser.\<close>

fun as_f64 :: "fx_libs \<Rightarrow> json \<Rightarrow> f64 option" where
  "as_f64 L (JInt i) = Some (f64_of_int i)"
| "as_f64 L (JFloat s) = Some (fl_float L s)"
| "as_f64 L _ = None"

text \<open>\<open>.send()?.error_for_status()?.json()?\<close>, with the three texts in front of an error.\<close>

definition fetch_json ::
  "fx_libs \<Rightarrow> leg_env \<Rightarrow> fx_request \<Rightarrow> string \<Rightarrow> string \<Rightarrow> string \<Rightarrow> blockchain_error + json" where
  "fetch_json L E req sent status body =
     (let url = (case req of FxGet u \<Rightarrow> u | FxPost u _ \<Rightarrow> u);
          refused = (\<lambda>code. Inl (Rejected (status @ fl_status_error L url code)))
      in case le_http E req of
        NoResponse e \<Rightarrow> Inl (Rejected (sent @ e))
      | BrokenBody code e \<Rightarrow>
          if 400 \<le> code \<and> code < 600 then refused code else Inl (Rejected (body @ e))
      | Response code answer \<Rightarrow>
          if 400 \<le> code \<and> code < 600 then refused code
          else (case fl_json L answer of
                  Inl e \<Rightarrow> Inl (Rejected (body @ e))
                | Inr v \<Rightarrow> Inr v))"

section \<open>The direct quote\<close>

definition coingecko_new :: "string \<Rightarrow> string" where
  "coingecko_new base_url = rev (dropWhile (\<lambda>c. c = CHR ''/'') (rev base_url))"

definition coingecko_quote ::
  "fx_libs \<Rightarrow> leg_env \<Rightarrow> string \<Rightarrow> string \<Rightarrow> string \<Rightarrow> string \<Rightarrow> blockchain_error + fx_quote" where
  "coingecko_quote L E base_url now asset currency =
     (case coin_id asset of
        None \<Rightarrow> Inl (Rejected (''fx: no CoinGecko mapping for asset '' @ asset))
      | Some i \<Rightarrow>
          let vs = to_ascii_lowercase currency;
              url = base_url @ ''/api/v3/simple/price?ids='' @ i @ ''&vs_currencies='' @ vs @ ''&precision=full''
          in (case le_http E (FxGet url) of
                NoResponse e \<Rightarrow> Inl (Rejected (''fx: request failed: '' @ e))
              | BrokenBody code e \<Rightarrow>
                  if \<not> is_success code
                  then Inl (Rejected (''fx: CoinGecko returned HTTP '' @ fl_show_status L code))
                  else Inl (Rejected (''fx: bad response body: '' @ e))
              | Response code answer \<Rightarrow>
                  if \<not> is_success code
                  then Inl (Rejected (''fx: CoinGecko returned HTTP '' @ fl_show_status L code))
                  else
                    (case fl_json L answer of
                       Inl e \<Rightarrow> Inl (Rejected (''fx: bad response body: '' @ e))
                     | Inr body \<Rightarrow>
                         (case Option.bind (jget_opt vs (jget i body)) (as_f64 L) of
                            None \<Rightarrow> Inl (Rejected (''fx: no '' @ asset @ ''/'' @ currency @ '' quote in response''))
                          | Some price \<Rightarrow>
                              (case price_to_minor L price 2 of
                                 Inl e \<Rightarrow> Inl (Rejected (''fx: '' @ e))
                               | Inr minor \<Rightarrow>
                                   Inr \<lparr>fx_asset = to_ascii_uppercase asset,
                                        fx_currency = to_ascii_uppercase currency,
                                        fx_minor_per_whole = minor, fx_as_of_text = now,
                                        fx_quote_source = ''coingecko''\<rparr>)))))"

section \<open>The legs of the cross rate\<close>

datatype crypto_usd_leg =
    LegCoinGecko string
  | LegApi3 string string
  | LegPyth string

fun crypto_label :: "crypto_usd_leg \<Rightarrow> string" where
  "crypto_label (LegCoinGecko base_url) = ''coingecko''"
| "crypto_label (LegApi3 rpc_url proxy_address) = ''api3''"
| "crypto_label (LegPyth hermes_url) = ''pyth''"

datatype fiat_usd_leg = LegErApi string | LegFiatPyth string

fun fiat_label :: "fiat_usd_leg \<Rightarrow> string" where
  "fiat_label (LegErApi base_url) = ''er-api''"
| "fiat_label (LegFiatPyth hermes_url) = ''pyth''"

definition PYTH_ADA_USD :: string where
  "PYTH_ADA_USD = ''2a01deaec9e51a579277b34b122399984d0bbf57e2458a7e42fecd2829867a0d''"

definition pyth_usd_fiat_ids :: "(string \<times> string) list" where
  "pyth_usd_fiat_ids =
     [(''AOA'', ''d4bd2c4174efaef9f9d54a62ac2753ce24a4e9144149417e09bab4ee764a17c3''),
      (''BWP'', ''ba7898c34e6b7ffc472bad521a67efd11ca9a046562fe63c4059c7de2bcbd590''),
      (''EGP'', ''b6b6addd0750cb48e816234b7630f358e8aa290190fb4eb5166a38c4542952f8''),
      (''GHS'', ''cdbc5039dad626cc503512321a527f18a1d8d2a168dc248ee4f487be93139272''),
      (''KES'', ''33cc660971b0e63062d2f67b7183ba17f67b246d4a7170788649979258f7d007''),
      (''MAD'', ''d23d9dd73b502074685a8c0b6692723805a9a847d760b2534ab667ca80eb6798''),
      (''MUR'', ''6887223d3d6c8c737cbe66ffe2d38006cb76eea0d7c7db418b6c83f75cece7d2''),
      (''MWK'', ''e7c1c00d4fda3005c14eb31b781c9d9e4581ace53a2577ee23066988b8d8b46b''),
      (''MZN'', ''c27ec5e190f7daa21bd1ca76aad9248f2b3a605ac27af09024c4f2525b2693d2''),
      (''NGN'', ''2f1601cdfed62c03d39fce4720f5d53e8517af244915fbd24ce8175bb25ab318''),
      (''RWF'', ''2f425f5904e2a110eed99894f228e047a483baa6bd7bfb9f4501629b60a98e83''),
      (''TND'', ''7e4f6ce047acde1f5c03951f49bf8a57c6b0b1e1e2e07252a2b570e258eff3d6''),
      (''TZS'', ''abfb0c861c25124c54a818ec7bb9b02243bff01e9014ecf3e50808f5736f8f8e''),
      (''UGX'', ''1f946ee84ce82dbbaa0fec69cdd4cb9e911076788c77c6f36d42a3491a284ce1''),
      (''XOF'', ''78ce64c90dff33ef2f48e999eb4638ec44da416d5dd99dc6ddd7aeaffec64f0c''),
      (''ZAR'', ''389d889017db82bf42141f23b61b8de938a4e2d156e36312175bebf797f493f1''),
      (''ZMW'', ''e6ee7f0254857de0602c124de8cc8c91e3db17928125454e691c03763239dede'')]"

definition pyth_usd_fiat_id :: "string \<Rightarrow> string option" where
  "pyth_usd_fiat_id currency = map_of pyth_usd_fiat_ids (to_ascii_uppercase currency)"

text \<open>The sources in their order, and the age limit of a Pyth price as the configured \<open>u64\<close>.\<close>

record cross_rate =
  cr_crypto :: "crypto_usd_leg list"
  cr_fiat :: "fiat_usd_leg list"
  cr_max_stale_secs :: nat

definition cross_new ::
  "crypto_usd_leg list \<Rightarrow> fiat_usd_leg list \<Rightarrow> nat \<Rightarrow> blockchain_error + cross_rate" where
  "cross_new crypto fiat max_stale_secs =
     (if crypto = [] \<or> fiat = []
      then Inl (Internal ''cross-rate FX source needs at least one source per leg'')
      else Inr \<lparr>cr_crypto = crypto, cr_fiat = fiat, cr_max_stale_secs = max_stale_secs\<rparr>)"

text \<open>The casts \<open>u64 as i64\<close> and \<open>i64 as i32\<close>, and \<open>i64::saturating_sub\<close>.\<close>

definition u64_as_i64 :: "nat \<Rightarrow> int" where
  "u64_as_i64 n = (if n < 2 ^ 63 then int n else int n - 2 ^ 64)"

definition i64_as_i32 :: "int \<Rightarrow> int" where
  "i64_as_i32 i = (i + 2 ^ 31) mod 2 ^ 32 - 2 ^ 31"

definition saturating_sub_i64 :: "int \<Rightarrow> int \<Rightarrow> int" where
  "saturating_sub_i64 a b = max (- (2 ^ 63)) (min (2 ^ 63 - 1) (a - b))"

text \<open>What is left of \<open>pyth_price\<close> once the reply is there.\<close>

definition pyth_mantissa :: "fx_libs \<Rightarrow> json \<Rightarrow> f64 option" where
  "pyth_mantissa L price_obj =
     (case jget ''price'' price_obj of
        Some (JStr s) \<Rightarrow> map_option f64_of_text (parse_f64 s)
      | Some v \<Rightarrow> as_f64 L v
      | None \<Rightarrow> None)"

definition pyth_reading :: "fx_libs \<Rightarrow> nat \<Rightarrow> int \<Rightarrow> string \<Rightarrow> json \<Rightarrow> blockchain_error + f64" where
  "pyth_reading L max_stale_secs timestamp what price_obj =
     (case pyth_mantissa L price_obj of
        None \<Rightarrow> Inl (Rejected (''fx: pyth '' @ what @ '' price unreadable''))
      | Some raw \<Rightarrow>
          (case Option.bind (jget ''expo'' price_obj) as_i64 of
             None \<Rightarrow> Inl (Rejected (''fx: pyth '' @ what @ '' expo missing''))
           | Some expo \<Rightarrow>
               let publish_time = unwrap_or (Option.bind (jget ''publish_time'' price_obj) as_i64) 0;
                   age = saturating_sub_i64 timestamp publish_time;
                   price = f64_mul raw (fl_powi10 L (i64_as_i32 expo))
               in if publish_time \<le> 0
                  then Inl (Rejected (''fx: pyth '' @ what @ '' feed has never published (coming soon)''))
                  else if u64_as_i64 max_stale_secs < age
                  then Inl (Rejected (''fx: pyth '' @ what @ '' price is '' @ show_int age @ ''s old (max ''
                         @ show_nat max_stale_secs @ '')''))
                  else if \<not> f64_is_finite price \<or> f64_le_zero price
                  then Inl (Rejected (''fx: pyth '' @ what @ '' price unusable: '' @ fl_show_f64 L price))
                  else Inr price))"

definition pyth_price ::
  "fx_libs \<Rightarrow> nat \<Rightarrow> leg_env \<Rightarrow> string \<Rightarrow> string \<Rightarrow> string \<Rightarrow> blockchain_error + f64" where
  "pyth_price L max_stale_secs E hermes_url feed_id what =
     (let url = rev (dropWhile (\<lambda>c. c = CHR ''/'') (rev hermes_url))
            @ ''/v2/updates/price/latest?ids[]='' @ feed_id @ ''&parsed=true''
      in case fetch_json L E (FxGet url) ''fx: pyth request failed: '' ''fx: pyth: '' ''fx: pyth bad body: '' of
           Inl e \<Rightarrow> Inl e
         | Inr body \<Rightarrow>
             (case jget_opt ''price'' (Option.bind (Option.bind (jget ''parsed'' body) as_array)
                      (\<lambda>a. case a of [] \<Rightarrow> None | f # _ \<Rightarrow> Some f)) of
                None \<Rightarrow> Inl (Rejected (''fx: pyth reply has no parsed '' @ what @ '' price''))
              | Some price_obj \<Rightarrow> pyth_reading L max_stale_secs (le_timestamp E) what price_obj))"

section \<open>API3\<close>

text \<open>The two words of \<open>read()\<close>; only the value is looked at. \<open>None\<close>: a slice inside a character.\<close>

definition hex_val :: "char \<Rightarrow> nat option" where
  "hex_val c =
     (let b = byte_val c in
      if 48 \<le> b \<and> b \<le> 57 then Some (b - 48)
      else if 97 \<le> b \<and> b \<le> 102 then Some (b - 87)
      else if 65 \<le> b \<and> b \<le> 70 then Some (b - 55)
      else None)"

fun hex_digits_val :: "nat \<Rightarrow> string \<Rightarrow> nat option" where
  "hex_digits_val acc [] = Some acc"
| "hex_digits_val acc (c # cs) =
     (case hex_val c of None \<Rightarrow> None | Some d \<Rightarrow> hex_digits_val (16 * acc + d) cs)"

text \<open>\<open>u128::from_str_radix(s, 16)\<close> on 32 bytes: a leading plus sign is taken, nothing overflows.\<close>

definition u128_from_hex :: "string \<Rightarrow> string + nat" where
  "u128_from_hex s =
     (let t = (case s of [] \<Rightarrow> [] | c # r \<Rightarrow> if c = CHR ''+'' then r else s)
      in case (if t = [] then None else hex_digits_val 0 t) of
           None \<Rightarrow> Inl ''invalid digit found in string''
         | Some v \<Rightarrow> Inr v)"

definition E18 :: f64 where "E18 = f64_of_nat (10 ^ 18)"

definition strip_0x :: "string \<Rightarrow> string" where
  "strip_0x s = (if starts_with ''0x'' s then drop 2 s else s)"

definition decode_api3_read :: "string \<Rightarrow> (string + f64) option" where
  "decode_api3_read result =
     (let hex = strip_0x result
      in if length hex < 64
         then Some (Inl (''result too short ('' @ show_nat (length hex) @ '' hex chars)''))
         else
           (case slice_to hex 64 of
              None \<Rightarrow> None
            | Some word \<Rightarrow>
                (case slice_to word 32 of
                   None \<Rightarrow> None
                 | Some high \<Rightarrow>
                     if list_ex (\<lambda>b. b \<noteq> CHR ''0'') high
                     then Some (Inl ''value exceeds expected price range'')
                     else
                       (case u128_from_hex (drop 32 word) of
                          Inl e \<Rightarrow> Some (Inl (''bad value word: '' @ e))
                        | Inr raw \<Rightarrow>
                            if raw = 0 then Some (Inl ''feed value is zero'')
                            else Some (Inr (f64_div (f64_of_nat raw) E18))))))"

definition api3_call :: "string \<Rightarrow> json" where
  "api3_call proxy_address = JObj
     [(''jsonrpc'', JStr ''2.0''), (''id'', JInt 1), (''method'', JStr ''eth_call''),
      (''params'', JArr [JObj [(''to'', JStr proxy_address), (''data'', JStr ''0x57de26a4'')], JStr ''latest''])]"

section \<open>The cross rate\<close>

definition crypto_leg_usd ::
  "fx_libs \<Rightarrow> nat \<Rightarrow> leg_env \<Rightarrow> crypto_usd_leg \<Rightarrow> string \<Rightarrow> f64 fx_result" where
  "crypto_leg_usd L max_stale E leg asset =
     (case leg of
        LegCoinGecko base_url \<Rightarrow>
          Some (case coin_id asset of
             None \<Rightarrow> Inl (Rejected (''fx: no CoinGecko mapping for asset '' @ asset))
           | Some i \<Rightarrow>
               (case fetch_json L E (FxGet (base_url @ ''/api/v3/simple/price?ids='' @ i
                        @ ''&vs_currencies=usd&precision=full''))
                       ''fx: request failed: '' ''fx: '' ''fx: bad response body: '' of
                  Inl e \<Rightarrow> Inl e
                | Inr body \<Rightarrow>
                    (case Option.bind (jget_opt ''usd'' (jget i body)) (as_f64 L) of
                       None \<Rightarrow> Inl (Rejected (''fx: no '' @ asset @ ''/USD quote in response''))
                     | Some price \<Rightarrow> Inr price)))
      | LegApi3 rpc_url proxy_address \<Rightarrow>
          if \<not> eq_ignore_ascii_case asset ''ADA''
          then Some (Inl (Rejected (''fx: API3 leg is configured for ADA/USD, cannot price '' @ asset)))
          else
            (case fetch_json L E (FxPost rpc_url (api3_call proxy_address))
                    ''fx: api3 rpc failed: '' ''fx: api3 rpc: '' ''fx: api3 rpc bad body: '' of
               Inl e \<Rightarrow> Some (Inl e)
             | Inr body \<Rightarrow>
                 (case jget ''error'' body of
                    Some err \<Rightarrow> Some (Inl (Rejected (''fx: api3 rpc error: '' @ fl_show_json L err)))
                  | None \<Rightarrow>
                      (case Option.bind (jget ''result'' body) as_str of
                         None \<Rightarrow> Some (Inl (Rejected ''fx: api3 rpc reply has no result''))
                       | Some result \<Rightarrow>
                           (case decode_api3_read result of
                              None \<Rightarrow> None
                            | Some (Inl e) \<Rightarrow> Some (Inl (Rejected (''fx: api3: '' @ e)))
                            | Some (Inr price) \<Rightarrow> Some (Inr price)))))
      | LegPyth hermes_url \<Rightarrow>
          if \<not> eq_ignore_ascii_case asset ''ADA''
          then Some (Inl (Rejected (''fx: pyth crypto leg is Crypto.ADA/USD, cannot price '' @ asset)))
          else Some (pyth_price L max_stale E hermes_url PYTH_ADA_USD ''ADA/USD''))"

definition fiat_leg_rate ::
  "fx_libs \<Rightarrow> nat \<Rightarrow> leg_env \<Rightarrow> fiat_usd_leg \<Rightarrow> string \<Rightarrow> f64 fx_result" where
  "fiat_leg_rate L max_stale E leg currency =
     Some (case leg of
        LegErApi base_url \<Rightarrow>
          (case fetch_json L E (FxGet (rev (dropWhile (\<lambda>c. c = CHR ''/'') (rev base_url)) @ ''/v6/latest/USD''))
                  ''fx: fiat request failed: '' ''fx: fiat: '' ''fx: fiat bad body: '' of
             Inl e \<Rightarrow> Inl e
           | Inr body \<Rightarrow>
               (case filter_opt (\<lambda>r. f64_is_finite r \<and> f64_gt_zero r)
                       (Option.bind (jget_opt (to_ascii_uppercase currency) (jget ''rates'' body)) (as_f64 L)) of
                  None \<Rightarrow> Inl (Rejected (''fx: no USD/'' @ currency @ '' rate in fiat table''))
                | Some rate \<Rightarrow> Inr rate))
      | LegFiatPyth hermes_url \<Rightarrow>
          (case pyth_usd_fiat_id currency of
             None \<Rightarrow> Inl (Rejected (''fx: pyth lists no FX.USD/'' @ currency @ '' feed''))
           | Some i \<Rightarrow> pyth_price L max_stale E hermes_url i (''USD/'' @ currency)))"

text \<open>
  The loop that both legs have: the first source that answers, with its label; \<open>failures\<close> collects
  the errors of those before it. The environment is indexed by the position of the source.
\<close>

fun first_answer ::
  "('leg \<Rightarrow> string) \<Rightarrow> (nat \<Rightarrow> 'leg \<Rightarrow> f64 fx_result) \<Rightarrow> string \<Rightarrow> string list \<Rightarrow> nat \<Rightarrow> 'leg list
   \<Rightarrow> (f64 \<times> string) fx_result" where
  "first_answer label ask none failures i [] = Some (Inl (Rejected (none @ join_with ''; '' failures)))"
| "first_answer label ask none failures i (leg # legs) =
     (case ask i leg of
        None \<Rightarrow> None
      | Some (Inr price) \<Rightarrow> Some (Inr (price, label leg))
      | Some (Inl e) \<Rightarrow>
          first_answer label ask none (failures @ [label leg @ '': '' @ show_blockchain_error e]) (Suc i) legs)"

definition usd_per_asset ::
  "fx_libs \<Rightarrow> cross_rate \<Rightarrow> (nat \<Rightarrow> leg_env) \<Rightarrow> string \<Rightarrow> (f64 \<times> string) fx_result" where
  "usd_per_asset L X E asset =
     first_answer crypto_label (\<lambda>i leg. crypto_leg_usd L (cr_max_stale_secs X) (E i) leg asset)
       (''fx: every crypto/USD source failed for '' @ asset @ '': '') [] 0 (cr_crypto X)"

definition usd_to_fiat ::
  "fx_libs \<Rightarrow> cross_rate \<Rightarrow> (nat \<Rightarrow> leg_env) \<Rightarrow> string \<Rightarrow> (f64 \<times> string) fx_result" where
  "usd_to_fiat L X E currency =
     first_answer fiat_label (\<lambda>i leg. fiat_leg_rate L (cr_max_stale_secs X) (E i) leg currency)
       (''fx: every USD/fiat source failed for '' @ currency @ '': '') [] 0 (cr_fiat X)"

text \<open>The environment of a quote: one per source of each leg, and the time of the quote.\<close>

record quote_env =
  qe_crypto :: "nat \<Rightarrow> leg_env"
  qe_fiat :: "nat \<Rightarrow> leg_env"
  qe_now :: string

definition times_sign :: string where
  "times_sign = [byte 0xC3, byte 0x97]"

definition cross_quote ::
  "fx_libs \<Rightarrow> cross_rate \<Rightarrow> quote_env \<Rightarrow> string \<Rightarrow> string \<Rightarrow> fx_quote fx_result" where
  "cross_quote L X E asset currency =
     (case usd_per_asset L X (qe_crypto E) asset of
        None \<Rightarrow> None
      | Some (Inl e) \<Rightarrow> Some (Inl e)
      | Some (Inr (usd, crypto_source)) \<Rightarrow>
          (case usd_to_fiat L X (qe_fiat E) currency of
             None \<Rightarrow> None
           | Some (Inl e) \<Rightarrow> Some (Inl e)
           | Some (Inr (fiat, fiat_source)) \<Rightarrow>
               (case price_to_minor L (f64_mul usd fiat) 2 of
                  Inl e \<Rightarrow> Some (Inl (Rejected (''fx: '' @ e)))
                | Inr minor \<Rightarrow>
                    Some (Inr \<lparr>fx_asset = to_ascii_uppercase asset, fx_currency = to_ascii_uppercase currency,
                               fx_minor_per_whole = minor, fx_as_of_text = qe_now E,
                               fx_quote_source = crypto_source @ times_sign @ fiat_source\<rparr>))))"

end
