(* ===== verification/Startup.thy ===== *)
theory Startup
  imports Config Cardano Fx Rest Mock
begin

text \<open>
  How the node is put together (\<open>crates/obp-bank-node/src/main.rs\<close> and the constructors of
  \<open>obp-blockchain/src/cardano/\<close>): the configuration with its defaults, the choice of the
  price source, the backends, and which tasks run with which settings. The configuration loader
  is third-party; file system, Ogmios probe and listeners are the environment.
\<close>

section \<open>Configuration\<close>

record cardano_config =
  cc_ogmios_url :: string
  cc_network :: string
  cc_wallet_skey_path :: string
  cc_query_timeout_secs :: nat

definition default_cardano :: cardano_config where
  "default_cardano = \<lparr>cc_ogmios_url = ''ws://localhost:1337'', cc_network = ''preprod'',
     cc_wallet_skey_path = ''./secrets/cardano.skey'', cc_query_timeout_secs = 90\<rparr>"

datatype fx_source_kind = KindCoingecko | KindCross | KindStub
datatype fx_crypto_leg = CryptoCoingecko | CryptoApi3 | CryptoPyth
datatype fx_fiat_leg = FiatErApi | FiatPyth

record settlement_config =
  sc_fx_source :: fx_source_kind
  sc_fx_base_url :: string
  sc_fx_timeout_secs :: nat
  sc_fx_crypto_leg :: "fx_crypto_leg one_or_many"
  sc_fx_fiat_leg :: "fx_fiat_leg one_or_many"
  sc_fx_fiat_base_url :: string
  sc_fx_hermes_base_url :: string
  sc_fx_pyth_max_stale_secs :: nat
  sc_fx_api3_rpc_url :: string
  sc_fx_api3_proxy_address :: string
  sc_ada_rate_minor_per_whole_ada :: nat
  sc_finality_depth :: nat
  sc_finality_poll_secs :: nat
  sc_store_path :: string

definition default_settlement :: settlement_config where
  "default_settlement =
     \<lparr>sc_fx_source = KindCross, sc_fx_base_url = ''https://api.coingecko.com'', sc_fx_timeout_secs = 10,
      sc_fx_crypto_leg = Many [CryptoPyth, CryptoCoingecko], sc_fx_fiat_leg = Many [FiatPyth, FiatErApi],
      sc_fx_fiat_base_url = ''https://open.er-api.com'', sc_fx_hermes_base_url = ''https://hermes.pyth.network'',
      sc_fx_pyth_max_stale_secs = 259200, sc_fx_api3_rpc_url = [], sc_fx_api3_proxy_address = [],
      sc_ada_rate_minor_per_whole_ada = 3542, sc_finality_depth = 15, sc_finality_poll_secs = 30,
      sc_store_path = ''./outbox/settlements.db''\<rparr>"

record cbs_config =
  cw_mode :: string
  cw_url :: string
  cw_timeout_seconds :: nat

definition default_cbs :: cbs_config where
  "default_cbs = \<lparr>cw_mode = ''webhook_obp'', cw_url = ''http://localhost:9000/credit-notifications'',
     cw_timeout_seconds = 30\<rparr>"

datatype blockchain_kind = KindMock | KindCardano

record config =
  cf_bind :: string
  cf_bank_id :: string
  cf_account_id :: string
  cf_blockchain :: blockchain_kind
  cf_cardano :: cardano_config
  cf_obp_api :: obp_api_config
  cf_outbox_path :: string
  cf_rabbitmq :: rabbitmq_config
  cf_cbs :: cbs_config
  cf_evidence_path :: string
  cf_settlement :: settlement_config
  cf_local_secret :: "string option"

definition default_config :: config where
  "default_config =
     \<lparr>cf_bind = ''0.0.0.0:8088'', cf_bank_id = ''PLACEHOLDER-bank-id'',
      cf_account_id = ''PLACEHOLDER-account-id'', cf_blockchain = KindMock, cf_cardano = default_cardano,
      cf_obp_api = default_obp_api, cf_outbox_path = ''./outbox/obp-bank-node.db'',
      cf_rabbitmq = default_rabbitmq, cf_cbs = default_cbs, cf_evidence_path = ''./outbox/evidence.db'',
      cf_settlement = default_settlement, cf_local_secret = None\<rparr>"

section \<open>The price source\<close>

datatype fx_source = SourceCoingecko string | SourceCross cross_rate | SourceStub nat

fun crypto_leg_of :: "settlement_config \<Rightarrow> fx_crypto_leg \<Rightarrow> string + crypto_usd_leg" where
  "crypto_leg_of c CryptoCoingecko = Inr (LegCoinGecko (sc_fx_base_url c))"
| "crypto_leg_of c CryptoApi3 =
     (if is_blank (sc_fx_api3_rpc_url c) \<or> is_blank (sc_fx_api3_proxy_address c)
      then Inl ''fx_crypto_leg api3 needs fx_api3_rpc_url and fx_api3_proxy_address''
      else Inr (LegApi3 (sc_fx_api3_rpc_url c) (sc_fx_api3_proxy_address c)))"
| "crypto_leg_of c CryptoPyth = Inr (LegPyth (sc_fx_hermes_base_url c))"

fun fiat_leg_of :: "settlement_config \<Rightarrow> fx_fiat_leg \<Rightarrow> fiat_usd_leg" where
  "fiat_leg_of c FiatErApi = LegErApi (sc_fx_fiat_base_url c)"
| "fiat_leg_of c FiatPyth = LegFiatPyth (sc_fx_hermes_base_url c)"

text \<open>\<open>collect\<close> into a result: the first error, else all.\<close>

fun collect :: "('e + 'a) list \<Rightarrow> 'e + 'a list" where
  "collect [] = Inr []"
| "collect (Inl e # xs) = Inl e"
| "collect (Inr a # xs) = (case collect xs of Inl e \<Rightarrow> Inl e | Inr as \<Rightarrow> Inr (a # as))"

definition build_fx :: "settlement_config \<Rightarrow> string + fx_source" where
  "build_fx c =
     (case sc_fx_source c of
        KindCoingecko \<Rightarrow> Inr (SourceCoingecko (coingecko_new (sc_fx_base_url c)))
      | KindStub \<Rightarrow> Inr (SourceStub (sc_ada_rate_minor_per_whole_ada c))
      | KindCross \<Rightarrow>
          (case collect (map (crypto_leg_of c) (to_vec (sc_fx_crypto_leg c))) of
             Inl e \<Rightarrow> Inl e
           | Inr crypto \<Rightarrow>
               (case cross_new crypto (map (fiat_leg_of c) (to_vec (sc_fx_fiat_leg c)))
                       (sc_fx_pyth_max_stale_secs c) of
                  Inl e \<Rightarrow> Inl ''failed to build cross-rate FX source''
                | Inr X \<Rightarrow> Inr (SourceCross X))))"

text \<open>\<open>FxSource::quote\<close> of the source that was built; \<open>None\<close> is a panic.\<close>

definition fx_source_quote ::
  "fx_libs \<Rightarrow> fx_source \<Rightarrow> quote_env \<Rightarrow> string \<Rightarrow> string \<Rightarrow> fx_quote fx_result" where
  "fx_source_quote L s E asset currency =
     (case s of
        SourceCoingecko base_url \<Rightarrow> Some (coingecko_quote L (qe_crypto E 0) base_url (qe_now E) asset currency)
      | SourceCross X \<Rightarrow> cross_quote L X E asset currency
      | SourceStub rate \<Rightarrow> Some (stub_quote rate (qe_now E) asset currency))"

section \<open>The backends\<close>

text \<open>
  \<open>CardanoBackend::new\<close>: the client with the configured deadline, one probe of the tip, the wallet. Its
  follower is started on the same address; \<open>from_backend\<close> shares all of it with the rail.
\<close>

definition cardano_new ::
  "ogmios_libs \<Rightarrow> wallet_libs \<Rightarrow> socket_run \<Rightarrow> string + string \<Rightarrow> cardano_config \<Rightarrow> blockchain_error + cardano" where
  "cardano_new L W probe keyfile c =
     (let client = ogmios_with_timeout (cc_ogmios_url c) (cc_query_timeout_secs c)
      in case query_tip L client probe of
           Inl e \<Rightarrow> Inl (map_ogmios e)
         | Inr tip \<Rightarrow>
             (case wallet_load W (cc_wallet_skey_path c) keyfile (cc_network c) of
                Inl e \<Rightarrow> Inl (Internal (''wallet load failed: '' @ show_wallet_error e))
              | Inr w \<Rightarrow> Inr \<lparr>cd_ogmios = client, cd_wallet = w, cd_network = cc_network c, cd_followed = True\<rparr>))"

definition settlement_new :: "ogmios_client \<Rightarrow> wallet \<Rightarrow> string \<Rightarrow> cardano" where
  "settlement_new client w network =
     \<lparr>cd_ogmios = client, cd_wallet = w, cd_network = network, cd_followed = False\<rparr>"

definition from_backend :: "cardano \<Rightarrow> cardano" where
  "from_backend C = \<lparr>cd_ogmios = cd_ogmios C, cd_wallet = cd_wallet C, cd_network = cd_network C, cd_followed = True\<rparr>"

text \<open>The notary (\<open>None\<close> is the mock) and, on Cardano, the rail with its price source.\<close>

definition build_backend ::
  "ogmios_libs \<Rightarrow> wallet_libs \<Rightarrow> socket_run \<Rightarrow> string + string \<Rightarrow> config
   \<Rightarrow> string + cardano option \<times> (cardano \<times> fx_source) option" where
  "build_backend L W probe keyfile c =
     (case cf_blockchain c of
        KindMock \<Rightarrow> Inr (None, None)
      | KindCardano \<Rightarrow>
          (case cardano_new L W probe keyfile (cf_cardano c) of
             Inl e \<Rightarrow> Inl ''failed to construct CardanoBackend''
           | Inr C \<Rightarrow>
               (case build_fx (cf_settlement c) of
                  Inl e \<Rightarrow> Inl e
                | Inr fx \<Rightarrow> Inr (Some C, Some (from_backend C, fx)))))"

section \<open>The tasks\<close>

text \<open>Seconds, except for the batch size.\<close>

record dispatcher_config =
  dc_tick_interval :: nat
  dc_retry_interval :: nat
  dc_batch_size :: nat

definition default_dispatcher :: dispatcher_config where
  "default_dispatcher = \<lparr>dc_tick_interval = 5, dc_retry_interval = 15, dc_batch_size = 50\<rparr>"

record consumer_config =
  cu_uri :: string
  cu_queue :: string
  cu_consumer_tag :: string

record cbs_client =
  cb_url :: string
  cb_bearer :: "string option"
  cb_timeout_secs :: nat

definition cbs_new :: "string \<Rightarrow> string option \<Rightarrow> nat \<Rightarrow> cbs_client" where
  "cbs_new url bearer timeout_secs = \<lparr>cb_url = url, cb_bearer = bearer, cb_timeout_secs = max timeout_secs 1\<rparr>"

datatype task =
    RunDispatcher dispatcher dispatcher_config
  | RunWatcher nat nat
  | RunConsumer consumer_config router cbs_client
  | RunRefresher nat
  | Serve string rest_config consumer_status

definition consumer_config_of :: "config \<Rightarrow> consumer_config" where
  "consumer_config_of c =
     \<lparr>cu_uri = build_amqp_uri (cf_rabbitmq c), cu_queue = rq_request_queue (cf_rabbitmq c),
      cu_consumer_tag = ''obp-bank-node.'' @ cf_bank_id c\<rparr>"

definition blockchain_label :: "config \<Rightarrow> string" where
  "blockchain_label c = (case cf_blockchain c of KindMock \<Rightarrow> ''mock'' | KindCardano \<Rightarrow> ''cardano'')"

text \<open>What \<open>main\<close> starts once backends and stores are open, in its order; \<open>rail\<close> is the rail's account.\<close>

definition node_tasks :: "config \<Rightarrow> string option \<Rightarrow> task list" where
  "node_tasks c rail =
     (let obp = new_client (oa_base_url (cf_obp_api c)) (build_obp_auth (cf_obp_api c));
          label = blockchain_label c;
          depth = sc_finality_depth (cf_settlement c);
          service = map_option (\<lambda>account. \<lparr>ss_settles_from = account, ss_finality_depth = depth\<rparr>) rail;
          enabled = rq_enabled (cf_rabbitmq c)
      in [RunDispatcher \<lparr>di_obp = obp, di_blockchain_label = label\<rparr> default_dispatcher]
         @ (if rail = None then [] else [RunWatcher depth (sc_finality_poll_secs (cf_settlement c))])
         @ (if enabled
            then [RunConsumer (consumer_config_of c)
                   \<lparr>rt_bank_id = cf_bank_id c, rt_account_id = cf_account_id c, rt_settlement = service\<rparr>
                   (cbs_new (cw_url (cf_cbs c)) (cf_local_secret c) (cw_timeout_seconds (cf_cbs c)))]
            else [])
         @ (if 0 < oa_routing_refresh_secs (cf_obp_api c)
            then [RunRefresher (oa_routing_refresh_secs (cf_obp_api c))] else [])
         @ [Serve (cf_bind c)
              \<lparr>rn_bank_id = cf_bank_id c, rn_account_id = cf_account_id c, rn_blockchain_label = label,
               rn_finality_depth = depth, rn_obp = obp\<rparr>
              (if enabled then new_status else set_status DISABLED None)])"

section \<open>Facts\<close>

text \<open>With the mock notary there is no rail, and so nothing that could settle or become final.\<close>

lemma mock_has_no_rail:
  assumes "build_backend L W probe keyfile c = Inr (notary, rail)" and "cf_blockchain c = KindMock"
  shows "notary = None \<and> rail = None"
  using assms by (simp add: build_backend_def)

text \<open>The default price source prefers Pyth on both legs and falls back.\<close>

lemma default_fx:
  "build_fx default_settlement = Inr (SourceCross
     \<lparr>cr_crypto = [LegPyth ''https://hermes.pyth.network'', LegCoinGecko ''https://api.coingecko.com''],
      cr_fiat = [LegFiatPyth ''https://hermes.pyth.network'', LegErApi ''https://open.er-api.com''],
      cr_max_stale_secs = 259200\<rparr>)"
  by (simp add: build_fx_def default_settlement_def cross_new_def)

lemma from_backend_shares:
  assumes "cardano_new L W probe keyfile c = Inr C"
  shows "from_backend C = C"
  using assms by (auto simp: cardano_new_def from_backend_def Let_def split: sum.splits)

end
