(* ===== verification/Fx_Safety.thy ===== *)
theory Fx_Safety
  imports Fx
begin

text \<open>
  Facts about the price sources: every failure is a rejection before anything was submitted, the
  first source that answers is the one that is used and named, a Pyth price is fresh, and the
  integer rate is the product of the two readings up to half a minor unit and the rounding of
  doubles.
\<close>

section \<open>Every failure is a rejection\<close>

named_theorems rejects

lemma is_rejected_simps [simp]:
  "is_rejected (Rejected m)" "\<not> is_rejected (Transport m)" "\<not> is_rejected (NotFound m)" "\<not> is_rejected (Internal m)"
  by (simp_all add: is_rejected_def)

lemma fetch_json_rejects [rejects]: "fetch_json L E req a b c = Inl e \<Longrightarrow> is_rejected e"
  by (auto simp: fetch_json_def Let_def split: http_answer.splits if_splits sum.splits)

lemma coingecko_quote_rejects [rejects]:
  "coingecko_quote L E base now asset currency = Inl e \<Longrightarrow> is_rejected e"
  by (auto simp: coingecko_quote_def Let_def split: option.splits http_answer.splits if_splits sum.splits)

lemma pyth_reading_rejects [rejects]: "pyth_reading L ms ts what v = Inl e \<Longrightarrow> is_rejected e"
  by (auto simp: pyth_reading_def Let_def split: option.splits if_splits)

lemma pyth_price_rejects [rejects]: "pyth_price L ms E url feed what = Inl e \<Longrightarrow> is_rejected e"
  by (auto simp: pyth_price_def Let_def split: option.splits sum.splits dest: rejects)

lemma first_answer_rejects:
  "first_answer label ask none fs i legs = Some (Inl e) \<Longrightarrow> is_rejected e"
  by (induction label ask none fs i legs rule: first_answer.induct) (auto split: option.splits sum.splits)

lemma cross_quote_rejects:
  assumes "cross_quote L X E asset currency = Some (Inl e)"
  shows "is_rejected e"
proof -
  have usd: "usd_per_asset L X E' asset = Some (Inl e') \<Longrightarrow> is_rejected e'" for E' e'
    unfolding usd_per_asset_def by (rule first_answer_rejects)
  have fiat: "usd_to_fiat L X E' currency = Some (Inl e') \<Longrightarrow> is_rejected e'" for E' e'
    unfolding usd_to_fiat_def by (rule first_answer_rejects)
  from assms show ?thesis
    by (auto simp: cross_quote_def split: option.splits sum.splits prod.splits dest: usd fiat)
qed

section \<open>The first source that answers\<close>

definition answers_at :: "(nat \<Rightarrow> 'leg \<Rightarrow> f64 fx_result) \<Rightarrow> 'leg list \<Rightarrow> nat \<Rightarrow> f64 \<Rightarrow> bool" where
  "answers_at ask legs n price \<longleftrightarrow> n < length legs \<and> ask n (legs ! n) = Some (Inr price) \<and>
     (\<forall>m < n. \<exists>e. ask m (legs ! m) = Some (Inl e))"

lemma first_answer_from:
  assumes "first_answer label ask none fs i legs = Some (Inr (price, l))"
  shows "\<exists>n < length legs. l = label (legs ! n) \<and> ask (i + n) (legs ! n) = Some (Inr price) \<and>
    (\<forall>m < n. \<exists>e. ask (i + m) (legs ! m) = Some (Inl e))"
  using assms
proof (induction label ask none fs i legs rule: first_answer.induct)
  case (2 label ask none fs i leg legs)
  show ?case
  proof (cases "ask i leg")
    case None
    with 2(2) show ?thesis by simp
  next
    case (Some r)
    show ?thesis
    proof (cases r)
      case (Inr p)
      with Some 2(2) show ?thesis by (intro exI [of _ 0]) simp
    next
      case (Inl e)
      with Some 2(2) have "first_answer label ask none (fs @ [label leg @ '': '' @ show_blockchain_error e])
          (Suc i) legs = Some (Inr (price, l))" by simp
      from 2(1) [OF Some Inl this] obtain n where n: "n < length legs" "l = label (legs ! n)"
        "ask (Suc i + n) (legs ! n) = Some (Inr price)" "\<And>m. m < n \<Longrightarrow> \<exists>e. ask (Suc i + m) (legs ! m) = Some (Inl e)"
        by blast
      have "\<exists>e. ask (i + m) ((leg # legs) ! m) = Some (Inl e)" if "m < Suc n" for m
        using that n(4) Some Inl by (cases m) auto
      with n show ?thesis by (intro exI [of _ "Suc n"]) simp
    qed
  qed
qed simp

lemma first_answer_at:
  assumes "first_answer label ask none [] 0 legs = Some (Inr (price, l))"
  obtains n where "answers_at ask legs n price" "l = label (legs ! n)"
  using first_answer_from [OF assms] that by (auto simp: answers_at_def)

lemma cross_quote_from:
  assumes "cross_quote L X E asset currency = Some (Inr q)"
  obtains usd fiat i j where
    "answers_at (\<lambda>i leg. crypto_leg_usd L (cr_max_stale_secs X) (qe_crypto E i) leg asset) (cr_crypto X) i usd"
    "answers_at (\<lambda>j leg. fiat_leg_rate L (cr_max_stale_secs X) (qe_fiat E j) leg currency) (cr_fiat X) j fiat"
    "fx_quote_source q = crypto_label (cr_crypto X ! i) @ times_sign @ fiat_label (cr_fiat X ! j)"
    "price_to_minor L (f64_mul usd fiat) 2 = Inr (fx_minor_per_whole q)"
proof -
  obtain usd cs where u: "usd_per_asset L X (qe_crypto E) asset = Some (Inr (usd, cs))"
    using assms by (auto simp: cross_quote_def split: option.splits sum.splits prod.splits)
  obtain fiat fs where f: "usd_to_fiat L X (qe_fiat E) currency = Some (Inr (fiat, fs))"
    using assms u by (auto simp: cross_quote_def split: option.splits sum.splits prod.splits)
  obtain minor where m: "price_to_minor L (f64_mul usd fiat) 2 = Inr minor"
    using assms u f by (auto simp: cross_quote_def split: sum.splits)
  from assms u f m have q: "fx_minor_per_whole q = minor" "fx_quote_source q = cs @ times_sign @ fs"
    by (auto simp: cross_quote_def)
  from u obtain i where i: "answers_at (\<lambda>i leg. crypto_leg_usd L (cr_max_stale_secs X) (qe_crypto E i) leg asset)
      (cr_crypto X) i usd" "cs = crypto_label (cr_crypto X ! i)"
    unfolding usd_per_asset_def by (rule first_answer_at)
  from f obtain j where j: "answers_at (\<lambda>j leg. fiat_leg_rate L (cr_max_stale_secs X) (qe_fiat E j) leg currency)
      (cr_fiat X) j fiat" "fs = fiat_label (cr_fiat X ! j)"
    unfolding usd_to_fiat_def by (rule first_answer_at)
  show thesis by (rule that [OF i(1) j(1)]) (use q m i(2) j(2) in simp_all)
qed

section \<open>A Pyth price is fresh\<close>

lemma pyth_reading_fresh:
  assumes "pyth_reading L ms ts what v = Inr price" and "0 \<le> ts" and "ts < 2 ^ 63" and "ms < 2 ^ 63"
  shows "f64_is_finite price \<and> f64_gt_zero price \<and>
    (\<exists>published. Option.bind (jget ''publish_time'' v) as_i64 = Some published \<and> 0 < published \<and>
       ts - published \<le> int ms)"
proof -
  let ?p = "unwrap_or (Option.bind (jget ''publish_time'' v) as_i64) 0"
  from assms(1) have 1: "\<not> ?p \<le> 0" "\<not> u64_as_i64 ms < saturating_sub_i64 ts ?p"
    "f64_is_finite price" "\<not> f64_le_zero price"
    by (auto simp: pyth_reading_def Let_def split: option.splits if_splits)
  then obtain published where p: "Option.bind (jget ''publish_time'' v) as_i64 = Some published" "?p = published"
    by (cases "Option.bind (jget ''publish_time'' v) as_i64") auto
  with 1(1) have "0 < published" by simp
  moreover have "ts - published \<le> int ms"
    using 1(2) p assms(2-4) \<open>0 < published\<close> by (auto simp: saturating_sub_i64_def u64_as_i64_def)
  moreover have "f64_gt_zero price" using 1(3,4) by (cases price) auto
  ultimately show ?thesis using 1(3) p(1) by blast
qed

text \<open>Every fiat rate is finite and positive.\<close>

lemma pyth_reading_positive: "pyth_reading L ms ts what v = Inr price \<Longrightarrow> f64_is_finite price \<and> f64_gt_zero price"
  by (cases price) (auto simp: pyth_reading_def Let_def split: option.splits if_splits)

lemma fiat_leg_rate_positive:
  "fiat_leg_rate L ms E leg currency = Some (Inr rate) \<Longrightarrow> f64_is_finite rate \<and> f64_gt_zero rate"
  by (auto simp: fiat_leg_rate_def pyth_price_def Let_def filter_opt_def dest: pyth_reading_positive
      split: fiat_usd_leg.splits sum.splits option.splits if_splits)

section \<open>The integer rate\<close>

text \<open>The error of rounding a value that is not tiny, and a bound on what a tiny one rounds to.\<close>

lemma f64_round_tiny:
  assumes "f64_round s p q = FFin s' m e" and "0 < q" and "real p / real q < 2 powi (- 1022)"
  shows "real m * 2 powi e < 1 / 1000"
proof (cases "p = 0")
  case True
  with assms(1) show ?thesis by (simp add: f64_round_def)
next
  case False
  then have p: "0 < p" by simp
  note l = floor_log2_bounds [OF p assms(2)]
  have "(2 :: real) powi floor_log2 p q < 2 powi (- 1022)" using l(1) assms(3) by linarith
  then have "floor_log2 p q < - 1022"
    using power_int_increasing [of "- 1022" "floor_log2 p q" "2 :: real"] by (meson not_le one_le_numeral)
  then have e: "e = - 1074" "m = div_nearest p q e"
    using assms(1) p by (auto simp: f64_round_def Let_def split: if_splits)
  have pos: "(0 :: real) < 2 powi e" by simp
  have "real m \<le> real p / (real q * 2 powi e) + 1 / 2"
    using div_nearest_close [OF assms(2), of p e] e(2) by linarith
  then have "real m * 2 powi e \<le> (real p / (real q * 2 powi e) + 1 / 2) * 2 powi e"
    using pos by (intro mult_right_mono) simp_all
  also have "\<dots> = real p / real q + 2 powi e / 2" using pos by (simp add: field_simps)
  also have "\<dots> < 2 powi (- 1022) + 2 powi e / 2" using assms(3) by simp
  also have "\<dots> \<le> (1 / 4096 :: real) + 1 / 4096"
  proof -
    have "(2 :: real) powi (- 1022) \<le> 2 powi (- 12)" "(2 :: real) powi e \<le> 2 powi (- 12)"
      by (rule power_int_increasing; simp add: e)+
    moreover have "(2 :: real) powi (- 12) = 1 / 4096" by (simp add: power_int_minus)
    moreover have "(0 :: real) < 2 powi e" by simp
    ultimately show ?thesis by linarith
  qed
  finally show ?thesis by simp
qed

lemma f64_of_ratio_value:
  "real (m * 2 ^ nat e) / real (q * 2 ^ nat (- e)) = real m * 2 powi e / real q"
  by (simp add: powi_nat)

text \<open>A product that is at least a thousandth is the product of the values up to one part in \<open>2 ^ 53\<close>.\<close>

lemma f64_mul_close:
  assumes "f64_mul (FFin False m e) (FFin False m' e') = FFin s n d" and "1 / 1000 \<le> real n * 2 powi d"
  shows "\<not> s \<and> \<bar>f64_val (FFin s n d) - f64_val (FFin False m e) * f64_val (FFin False m' e')\<bar>
    \<le> f64_val (FFin False m e) * f64_val (FFin False m' e') / 2 ^ 53"
proof -
  let ?p = "m * m' * 2 ^ nat (e + e')" and ?q = "1 * 2 ^ nat (- (e + e')) :: nat"
  have r: "f64_round False ?p ?q = FFin s n d" using assms(1) by (simp add: f64_of_ratio_def)
  have v: "real ?p / real ?q = f64_val (FFin False m e) * f64_val (FFin False m' e')"
    using f64_of_ratio_value [of "m * m'" "e + e'" 1] by (simp add: power_int_add mult_ac)
  have q: "0 < ?q" by simp
  have "2 powi (- 1022) \<le> real ?p / real ?q"
    using f64_round_tiny [OF r q] assms(2) by (meson not_le)
  from f64_round_close [OF r q this, unfolded v] show ?thesis by simp
qed

text \<open>Rounding to an integer, half up.\<close>

lemma f64_round_u128_close:
  assumes "real m * 2 powi e < 2 ^ 127"
  shows "\<bar>real (f64_round_u128 (FFin False m e)) - real m * 2 powi e\<bar> \<le> 1 / 2"
proof -
  let ?r = "if 0 \<le> e then m * 2 ^ nat e else (m + 2 ^ nat (- e - 1)) div 2 ^ nat (- e)"
  have close: "\<bar>real ?r - real m * 2 powi e\<bar> \<le> 1 / 2"
  proof (cases "0 \<le> e")
    case True
    then show ?thesis by (simp add: powi_nat)
  next
    case False
    define k where "k = nat (- e - 1)"
    have e: "nat (- e) = Suc k" "e < 0" using False by (simp_all add: k_def)
    let ?a = "m + 2 ^ k" and ?b = "2 * 2 ^ k :: nat"
    have "0 < ?b" by simp
    then have "real ?a / real ?b = real (?a div ?b) + real (?a mod ?b) / real ?b" by (rule div_mod_real)
    moreover have "real (?a mod ?b) / real ?b < 1" using \<open>0 < ?b\<close> by (rule mod_frac_less)
    moreover have "0 \<le> real (?a mod ?b) / real ?b" by simp
    moreover have "real ?a / real ?b = real m * 2 powi e + 1 / 2"
      using e by (simp add: powi_nat add_divide_distrib)
    moreover have "?r = ?a div ?b" using e k_def by simp
    ultimately show ?thesis by linarith
  qed
  then have "real ?r < 2 ^ 127 + 1" using assms by linarith
  then have "real ?r < real (2 ^ 128 - 1 :: nat)" by (simp add: of_nat_diff)
  then have "?r < 2 ^ 128 - 1" by (simp only: of_nat_less_iff)
  then have "f64_round_u128 (FFin False m e) = ?r" by simp
  with close show ?thesis by simp
qed

text \<open>The integer rate of a price: half a minor unit and the rounding of the product.\<close>

lemma price_to_minor_close:
  assumes "price_to_minor L (FFin False m e) 2 = Inr minor" and "fl_powi10 L 2 = f64_of_nat 100"
  shows "\<bar>real minor - 100 * f64_val (FFin False m e)\<bar> \<le> 1 / 2 + 100 * f64_val (FFin False m e) / 2 ^ 53"
    and "0 < minor"
proof -
  define scaled where "scaled = f64_mul (FFin False m e) (f64_of_nat 100)"
  define lim where "lim = f64_of_nat (10 ^ 30)"
  have hundred: "f64_of_nat 100 = FFin False (100 * 2 ^ 46) (- 46)" by (simp add: f64_eval)
  have million: "lim = FFin False 7105427357601002 47" unfolding lim_def by (simp add: f64_eval)
  from assms(1) [unfolded price_to_minor_def Let_def assms(2), folded scaled_def lim_def]
  have 1: "\<not> f64_ge_pos scaled lim" "minor = f64_round_u128 scaled" "minor \<noteq> 0"
    by (auto split: if_splits)
  show "0 < minor" using 1(3) by simp
  obtain s n d where sc: "scaled = FFin s n d"
    using 1 by (cases scaled) (auto split: if_splits)
  have s: "s = False" using 1(2,3) sc by (cases s) auto
  have big: "real n * 2 powi d < 2 ^ 127"
  proof -
    have "n * 2 ^ nat d * 2 ^ 0 < 7105427357601002 * 2 ^ 47 * 2 ^ nat (- d)"
      using 1(1) s unfolding sc million f64_ge_pos.simps by simp
    then have "real (n * 2 ^ nat d) < real (7105427357601002 * 2 ^ 47 * 2 ^ nat (- d))"
      by (simp only: of_nat_less_iff power_0 mult_1_right)
    then have "real n * 2 powi d < 7105427357601002 * 2 ^ 47"
      by (simp add: powi_nat divide_less_eq)
    then show ?thesis by simp
  qed
  have close: "\<bar>real minor - real n * 2 powi d\<bar> \<le> 1 / 2"
    using f64_round_u128_close [OF big] 1(2) s sc by simp
  moreover have "1 \<le> real minor" using 1(3) by simp
  ultimately have "1 / 1000 \<le> real n * 2 powi d" by linarith
  from f64_mul_close [OF sc [unfolded scaled_def hundred] this]
  have "\<bar>real n * 2 powi d - f64_val (FFin False m e) * 100\<bar> \<le> f64_val (FFin False m e) * 100 / 2 ^ 53"
    by (simp add: s power_int_minus)
  with close show "\<bar>real minor - 100 * f64_val (FFin False m e)\<bar>
      \<le> 1 / 2 + 100 * f64_val (FFin False m e) / 2 ^ 53" by linarith
qed

lemma f64_round_sign: "f64_round s p q = FFin s' m e \<Longrightarrow> s' = s"
  by (auto simp: f64_round_def Let_def split: if_splits)

lemma two_roundings:
  fixes M P X :: real
  assumes "\<bar>M - 100 * P\<bar> \<le> 1 / 2 + 100 * P / 2 ^ 53" and "\<bar>P - X\<bar> \<le> X / 2 ^ 53"
  shows "\<bar>M - 100 * X\<bar> \<le> 1 / 2 + 100 * X / 2 ^ 51"
proof -
  have "(2 :: real) ^ 53 = 9007199254740992" "(2 :: real) ^ 51 = 2251799813685248" by simp_all
  note n = assms [unfolded this abs_le_iff] and m = this
  have "0 \<le> X" using n(2) by linarith
  with n show ?thesis unfolding m abs_le_iff by linarith
qed

text \<open>A quote is the product of the two readings, up to half a minor unit and the rounding of doubles.\<close>

lemma product_to_minor_close:
  assumes "price_to_minor L (f64_mul usd fiat) 2 = Inr minor" and "fl_powi10 L 2 = f64_of_nat 100"
    and "f64_is_finite fiat" and "f64_gt_zero fiat"
  shows "\<bar>real minor - 100 * (f64_val usd * f64_val fiat)\<bar> \<le> 1 / 2 + 100 * (f64_val usd * f64_val fiat) / 2 ^ 51"
    and "0 < minor"
proof -
  from assms(3,4) obtain m' e' where fiat: "fiat = FFin False m' e'" "m' \<noteq> 0" by (cases fiat) auto
  from assms(1) have fin: "f64_is_finite (f64_mul usd fiat)" "\<not> f64_le_zero (f64_mul usd fiat)"
    by (auto simp: price_to_minor_def split: if_splits)
  with fiat obtain s m e where usd: "usd = FFin s m e" by (cases usd) auto
  from fin obtain t n d where p: "f64_mul usd fiat = FFin t n d" by (cases "f64_mul usd fiat") auto
  with fin(2) have t: "t = False" by simp
  have "f64_of_ratio (s \<noteq> False) (m * m') (e + e') 1 = FFin False n d" using p t usd fiat by simp
  then have s: "s = False" unfolding f64_of_ratio_def by (auto dest: f64_round_sign)
  note close = price_to_minor_close [OF assms(1) [unfolded p t] assms(2)]
  show "0 < minor" by (rule close(2))
  let ?P = "f64_val (FFin False n d)" and ?x = "f64_val usd * f64_val fiat"
  have "1 \<le> real minor" using close(2) by simp
  with close(1) have "1 / 1000 \<le> ?P" by (simp add: abs_if split: if_splits)
  then have "1 / 1000 \<le> real n * 2 powi d" by simp
  from f64_mul_close [OF p [unfolded usd fiat(1) s] this]
  have "\<bar>?P - ?x\<bar> \<le> ?x / 2 ^ 53" unfolding usd fiat(1) s t by simp
  with close(1) show "\<bar>real minor - 100 * ?x\<bar> \<le> 1 / 2 + 100 * ?x / 2 ^ 51" by (rule two_roundings)
qed

section \<open>API3: the reading is the value of the feed\<close>

text \<open>\<open>{:064x}\<close>: lower-case hexadecimal digits, padded with zeros.\<close>

fun hex_pad :: "nat \<Rightarrow> nat \<Rightarrow> string" where
  "hex_pad 0 v = []"
| "hex_pad (Suc k) v = hex_pad k (v div 16) @ [hex_digit (v mod 16)]"

lemma hex_digit_facts:
  assumes "n < 16"
  shows "hex_val (hex_digit n) = Some n" "byte_val (hex_digit n) < 128" "hex_digit n \<noteq> CHR ''+''"
proof -
  have "\<forall>n \<in> set [0..<16]. hex_val (hex_digit n) = Some n \<and> byte_val (hex_digit n) < 128 \<and> hex_digit n \<noteq> CHR ''+''"
    by code_simp
  with assms show "hex_val (hex_digit n) = Some n" "byte_val (hex_digit n) < 128" "hex_digit n \<noteq> CHR ''+''"
    by simp_all
qed

lemma length_hex_pad [simp]: "length (hex_pad k v) = k"
  by (induction k arbitrary: v) auto

lemma hex_pad_ascii: "is_ascii (hex_pad k v)"
  by (induction k arbitrary: v) (auto simp: hex_digit_facts)

lemma hex_pad_split: "hex_pad (j + k) v = hex_pad j (v div 16 ^ k) @ hex_pad k v"
  by (induction k arbitrary: v) (auto simp: div_mult2_eq)

lemma hex_pad_zero: "hex_pad k 0 = replicate k CHR ''0''"
proof (induction k)
  case (Suc k)
  have "hex_digit 0 = CHR ''0''" by code_simp
  with Suc show ?case by (simp add: replicate_append_same [symmetric])
qed simp

lemma hex_digits_val_append:
  "hex_digits_val acc (s @ t) = Option.bind (hex_digits_val acc s) (\<lambda>v. hex_digits_val v t)"
  by (induction s arbitrary: acc) (auto split: option.split)

lemma hex_digits_val_pad: "hex_digits_val acc (hex_pad k v) = Some (acc * 16 ^ k + v mod 16 ^ k)"
proof (induction k arbitrary: v)
  case (Suc k)
  have "v mod 16 ^ Suc k = v div 16 mod 16 ^ k * 16 + v mod 16"
    by (metis mod_mult2_eq mult.commute power_Suc)
  with Suc show ?case by (simp add: hex_digits_val_append hex_digit_facts algebra_simps)
qed simp

lemma hex_pad_no_plus: "CHR ''+'' \<notin> set (hex_pad k v)"
proof (induction k arbitrary: v)
  case (Suc k)
  have "hex_digit (v mod 16) \<noteq> CHR ''+''" by (rule hex_digit_facts(3)) simp
  then show ?case using Suc by simp
qed simp

lemma decode_api3_roundtrip:
  assumes "0 < raw" "raw < 2 ^ 128"
  shows "decode_api3_read (''0x'' @ hex_pad 64 raw @ hex_pad 64 stamp) = Some (Inr (f64_div (f64_of_nat raw) E18))"
proof -
  let ?hex = "hex_pad 64 raw @ hex_pad 64 stamp"
  have strip: "strip_0x (''0x'' @ ?hex) = ?hex" by (simp add: strip_0x_def starts_with_def)
  have small: "raw < 16 ^ 32" using assms(2) by simp
  have word: "hex_pad 64 raw = replicate 32 CHR ''0'' @ hex_pad 32 raw"
    using hex_pad_split [of 32 32 raw] small by (simp add: hex_pad_zero)
  have "is_char_boundary (hex_pad 64 raw) 32" "is_char_boundary ?hex 64"
    by (rule is_ascii_boundary; simp add: hex_pad_ascii)+
  then have cut: "slice_to ?hex 64 = Some (hex_pad 64 raw)" "slice_to (hex_pad 64 raw) 32 = Some (replicate 32 CHR ''0'')"
    using word by (simp_all add: slice_to_def)
  have rest: "drop 32 (hex_pad 64 raw) = hex_pad 32 raw" using word by simp
  have val: "hex_digits_val 0 (hex_pad 32 raw) = Some raw"
    using hex_digits_val_pad [of 0 32 raw] small by simp
  obtain c cs where c: "hex_pad 32 raw = c # cs" using length_hex_pad [of 32 raw] by (cases "hex_pad 32 raw") auto
  with hex_pad_no_plus [of 32 raw] have "c \<noteq> CHR ''+''" by auto
  with val c have num: "u128_from_hex (hex_pad 32 raw) = Inr raw" by (simp add: u128_from_hex_def)
  have zeros: "\<not> list_ex (\<lambda>b. b \<noteq> CHR ''0'') (replicate 32 CHR ''0'')" by (simp add: list_ex_iff)
  show ?thesis
    unfolding decode_api3_read_def strip Let_def using cut rest num assms(1) zeros by simp
qed

end
