(* ===== verification/Examples_More.thy ===== *)
theory Examples_More
  imports Examples Startup Fx_Safety
begin

text \<open>
  Further inputs: an observed chain with a rollback, retried settlements, credits that are refused,
  and a wallet with funds.
\<close>

section \<open>A chain of four blocks\<close>

definition demo_block :: "nat \<Rightarrow> string list \<Rightarrow> block" where
  "demo_block n txs = \<lparr>bl_id = show_nat n, bl_slot = of_nat (10 * n), bl_height = of_nat n, bl_tx_ids = txs\<rparr>"

definition demo_blocks :: "block list" where
  "demo_blocks = [demo_block 1 [''other''], demo_block 2 [''TX-1''], demo_block 3 [], demo_block 4 []]"

definition demo_watching :: follower where
  "demo_watching = follower_watch to_ascii_lowercase ''tx-1'' follower_start"

definition demo_synced :: follower where
  "demo_synced = foldl (\<lambda>s b. apply_forward to_ascii_lowercase b None s) demo_watching demo_blocks"

lemma sync_foldl:
  assumes "(sync lc)\<^sup>*\<^sup>* p (chain, s)" and "chain_ok lc (chain @ bs)"
  shows "(sync lc)\<^sup>*\<^sup>* p (chain @ bs, foldl (\<lambda>s b. apply_forward lc b None s) s bs)"
  using assms
proof (induction bs arbitrary: chain s)
  case (Cons b bs)
  from Cons.prems(2) have "extends lc chain b"
    by (auto simp: chain_ok_def extends_def sorted_wrt_append)
  from Cons.IH [of "chain @ [b]" "apply_forward lc b None s"] Cons.prems
    sync_forward [OF this, of s None]
  show ?case by (auto intro: rtranclp.rtrancl_into_rtrancl)
qed simp

lemma demo_synced_reached: "(sync to_ascii_lowercase)\<^sup>*\<^sup>* ([], follower_start) (demo_blocks, demo_synced)"
proof -
  have "sync to_ascii_lowercase ([], follower_start) ([], demo_watching)"
    unfolding demo_watching_def by (rule sync_watch) (simp add: block_of_def)
  then have "(sync to_ascii_lowercase)\<^sup>*\<^sup>* ([], follower_start) ([], demo_watching)" by blast
  moreover have "chain_ok to_ascii_lowercase ([] @ demo_blocks)"
    by (simp add: chain_ok_def demo_blocks_def demo_block_def tx_keys_def to_ascii_lowercase_def
        to_ascii_lower_def byte_val_def byte_def)
  ultimately have "(sync to_ascii_lowercase)\<^sup>*\<^sup>* ([], follower_start)
      ([] @ demo_blocks, foldl (\<lambda>s b. apply_forward to_ascii_lowercase b None s) demo_watching demo_blocks)"
    by (rule sync_foldl)
  then show ?thesis by (simp add: demo_synced_def)
qed

definition demo_chain_state :: cardano_state where
  "demo_chain_state = \<lparr>ca_follower = demo_synced, ca_submissions = []\<rparr>"

definition demo_ref :: tx_reference where
  "demo_ref = \<lparr>tx_chain = ''cardano'', tx_id = ''tx-1'', tx_submitted_at = ''t1''\<rparr>"

definition demo_row :: settlement_row where
  "demo_row = hd (bk_store demo_paid)"

lemma demo_row_facts:
  "tx_ref (\<lambda>s. Some s) demo_row = Some demo_ref" "sr_status demo_row = SETTLE_SUBMITTED"
  "sql_find sr_idempotency_key ''k-1'' (bk_store demo_paid) = Some demo_row"
  by code_simp+

lemma demo_confirmed:
  "confirm demo_cardano_libs demo_cardano (demo_socket ''utxos'') demo_ref demo_chain_state = Inr (Confirmed 3)"
  "confirm demo_cardano_libs demo_cardano (demo_socket ''utxos'') demo_ref demo_chain_start = Inr ConfPending"
  by code_simp+

section \<open>A settlement that the rail refused, and its retry on other terms\<close>

definition demo_refused :: bank where
  "demo_refused = snd (handle demo_libs demo_router
     (demo_env (NoResponse ''x'') ''r-1'' (Inl (Rejected ''no funds'')))
     SETTLEMENT_INSTRUCTION ''c-1'' ''body'' demo_bank)"

definition demo_other_instruction :: instruction_message where
  "demo_other_instruction = demo_instruction\<lparr>si_amount := Some ''99'', si_creditor_address := Some ''addr2''\<rparr>"

definition demo_other_libs :: libs where
  "demo_other_libs = demo_libs\<lparr>lb_instruction := (\<lambda>_. Inr demo_other_instruction)\<rparr>"

definition demo_refused_row :: settlement_row where
  "demo_refused_row = hd (bk_store demo_refused)"

lemma demo_refused_facts:
  "sql_find sr_idempotency_key ''k-1'' (bk_store demo_refused) = Some demo_refused_row"
  "can_retry demo_refused_row" "sr_net_amount_minor demo_refused_row = ''1250''"
  "parse_minor_units ''99'' 2 = Some (Inr 9900)" "instruction_key demo_other_instruction = Some ''k-1''"
  by code_simp+

section \<open>A credit that the core banking system refuses, twice\<close>

definition demo_refusal :: "string \<Rightarrow> message_env" where
  "demo_refusal rid = demo_env (Response 422 ''closed account'') rid (Inr demo_outcome)"

lemma demo_credit_facts:
  "return_target demo_libs demo_credit = Inr (''ke.02'', ''Ann'', ''IBAN'', ''KE02'')"
  "credit_verified (lb_hash demo_libs) demo_credit" "evidence_present demo_credit"
  "deliver_credit (lb_ack demo_libs) (ce_cbs (me_credit (demo_refusal rid))) =
     Some (Inl (CbsRejected 422 ''closed account''))"
proof -
  show "return_target demo_libs demo_credit = Inr (''ke.02'', ''Ann'', ''IBAN'', ''KE02'')" by code_simp
  show "credit_verified (lb_hash demo_libs) demo_credit" "evidence_present demo_credit" by code_simp+
  show "deliver_credit (lb_ack demo_libs) (ce_cbs (me_credit (demo_refusal rid))) =
      Some (Inl (CbsRejected 422 ''closed account''))"
    by (simp add: demo_refusal_def demo_env_def demo_credit_env_def is_success_def truncate_text_def)
qed

definition demo_forged :: credit_message where
  "demo_forged = demo_credit\<lparr>cn_promise_commitment := Some ''forged''\<rparr>"

definition demo_forged_libs :: libs where
  "demo_forged_libs = demo_libs\<lparr>lb_credit := (\<lambda>_. Inr demo_forged)\<rparr>"

lemma demo_forged_facts: "evidence_present demo_forged" "\<not> credit_verified (lb_hash demo_forged_libs) demo_forged"
  by code_simp+

section \<open>A request to initiate a payment\<close>

definition demo_rest_libs :: rest_libs where
  "demo_rest_libs = \<lparr>rl_obp = demo_obp_libs, rl_ser_request = (\<lambda>_. Inr ''payload''),
     rl_parse_request = (\<lambda>_. None), rl_parse_time = (\<lambda>s. Some s)\<rparr>"

definition demo_rest_config :: rest_config where
  "demo_rest_config = \<lparr>rn_bank_id = ''ke.01'', rn_account_id = ''acc'', rn_blockchain_label = ''cardano'',
     rn_finality_depth = 10, rn_obp = new_client ''http://obp/'' AuthNone\<rparr>"

definition demo_request :: initiate_request where
  "demo_request =
     \<lparr>ir_value = \<lparr>mv_currency = ''KES'', mv_amount = ''10.00''\<rparr>, ir_description = ''rent'',
      ir_to = \<lparr>br_name = ''Ben'', br_description = [], br_other_bank_routing_scheme = ''OBP'',
               br_other_bank_routing_address = ''ke.02'', br_other_account_routing_scheme = ''IBAN'',
               br_other_account_routing_address = ''KE02'', br_other_account_secondary_routing_scheme = [],
               br_other_account_secondary_routing_address = [], br_other_branch_routing_scheme = [],
               br_other_branch_routing_address = []\<rparr>,
      ir_originator = \<lparr>or_name = ''Ann'', or_address = ''Nairobi'',
               or_account_routing = \<lparr>ar_scheme = ''IBAN'', ar_address = ''KE01''\<rparr>, or_source = None\<rparr>,
      ir_charge_policy = default_charge_policy, ir_return_of = None\<rparr>"

definition demo_initiate_env :: initiate_env where
  "demo_initiate_env = \<lparr>in_id = ''tr-7'', in_salt = ''salt'', in_insert = Runs ''t0'', in_now = ''t0''\<rparr>"

definition demo_initiated :: "response \<times> outbox" where
  "demo_initiated = initiate_payment demo_rest_libs demo_rest_config None demo_initiate_env (Inr demo_request) []"

lemma demo_request_amount:
  "decimal_text (trim (mv_amount (ir_value demo_request))) ''10'' ''00''"
  "digits_val 0 (''10'' @ ''00'') = Some 1000" "fields_given demo_request"
  by code_simp+

lemma demo_request_valid: "validate demo_request = Inr ()"
  using validate_decimal_iff(2) [OF demo_request_amount(1,2)] demo_request_amount(3) by simp

text \<open>The same request for a whole amount.\<close>

definition demo_whole_request :: initiate_request where
  "demo_whole_request = demo_request\<lparr>ir_value := (ir_value demo_request)\<lparr>mv_amount := ''100''\<rparr>\<rparr>"

lemma demo_whole_amount:
  "decimal_text (trim (mv_amount (ir_value demo_whole_request))) ''100'' []"
  "digits_val 0 (''100'' @ []) = Some 100" "fields_given demo_whole_request"
  by code_simp+

text \<open>A server that lists 501 routing schemes, in a full page and a page of one.\<close>

definition demo_scheme :: routing_scheme where
  "demo_scheme = \<lparr>rg_scheme = ''IBAN'', rg_status = ''ACTIVE'', rg_address_pattern = [], rg_example_address = []\<rparr>"

definition demo_pages_libs :: obp_libs where
  "demo_pages_libs = demo_obp_libs\<lparr>ol_routing_page := (\<lambda>answer. Inr
     \<lparr>rp_routing_schemes = replicate (if answer = ''first'' then ROUTING_PAGE else 1) demo_scheme, rp_total = 501\<rparr>)\<rparr>"

definition demo_pages :: "nat \<Rightarrow> call_env" where
  "demo_pages i = demo_call\<lparr>oe_answer := Response 200 (if i = 0 then ''first'' else ''last'')\<rparr>"

lemma demo_initiated_facts:
  "rp_status (fst demo_initiated) = 202" "snd demo_initiated = demo_inserted"
  by (simp_all add: demo_initiated_def initiate_payment_def demo_request_valid check_routing_def demo_rest_libs_def
      demo_initiate_env_def demo_rest_config_def demo_inserted_def demo_entry_def sql_has_key_def)

lemma demo_stamped: "outbox_life_step demo_inserted (snd (outbox_mark_settled (Runs ''t8'') [''tr-7''] ''s-1'' demo_inserted))"
  by (rule settled)

section \<open>A delivery whose handling panics\<close>

text \<open>An amount with a character of three bytes where the code cuts after two.\<close>

definition euro_amount :: string where
  "euro_amount = ''1.'' @ [byte 0xE2, byte 0x82, byte 0xAC]"

definition demo_panic_libs :: libs where
  "demo_panic_libs = demo_libs\<lparr>lb_instruction := (\<lambda>_. Inr (demo_instruction\<lparr>si_amount := Some euro_amount\<rparr>))\<rparr>"

definition demo_delivery :: delivery where
  "demo_delivery = \<lparr>dv_message_id = Some SETTLEMENT_INSTRUCTION, dv_correlation_id = Some ''c-1'',
     dv_reply_to = Some ''replies'', dv_data = ''body''\<rparr>"

definition demo_consumer :: consumer where
  "demo_consumer = \<lparr>cm_shell = \<lparr>sh_bank = demo_bank, sh_published = [], sh_acked = 0\<rparr>,
     cm_status = new_status, cm_backoff = BACKOFF_BASE, cm_sleeps = []\<rparr>"

definition demo_sessions :: "session list" where
  "demo_sessions = [SetupFailed ''refused'', SetupFailed ''refused'',
     Streamed [Some (demo_env (NoResponse ''x'') ''r-1'' (Inr demo_outcome), demo_delivery)]]"

lemma demo_panic: "fst (run_supervised demo_panic_libs demo_router (\<lambda>_. Inr ''bytes'') demo_sessions demo_consumer) = False"
  by code_simp

end
