(* ===== verification/Task_Loops.thy ===== *)
theory Task_Loops
  imports Startup Settlement_Safety
begin

text \<open>
  The loops of the background tasks (\<open>run\<close> in \<open>dispatcher.rs\<close> and \<open>finality.rs\<close>, the refresher of
  \<open>routing.rs\<close>): a pass, then a wait, for ever; a failed pass is logged and the next one follows,
  only a panic ends the task. They run here for any number of passes; the result says whether the
  task is still there. The waits have no effect on the state.
\<close>

section \<open>The dispatcher\<close>

text \<open>What the environment answers in one pass; the cutoff is the clock less the retry interval.\<close>

record dispatch_tick =
  dt_claim :: dbcall
  dt_cutoff :: string
  dt_rows :: "nat \<Rightarrow> row_env"

fun dispatcher_run ::
  "dispatch_libs \<Rightarrow> dispatcher \<Rightarrow> dispatcher_config \<Rightarrow> (nat \<Rightarrow> dispatch_tick) \<Rightarrow> nat \<Rightarrow> nat \<Rightarrow> dispatch_state
   \<Rightarrow> bool \<times> dispatch_state" where
  "dispatcher_run L D dc T i 0 s = (True, s)"
| "dispatcher_run L D dc T i (Suc n) s =
     (case process_due_once L D (dt_claim (T i)) (dt_cutoff (T i)) (int (dc_batch_size dc)) (dt_rows (T i)) s of
        (None, s') \<Rightarrow> (False, s')
      | (Some _, s') \<Rightarrow> dispatcher_run L D dc T (Suc i) n s')"

lemma dispatcher_run_life:
  "outbox_life_step\<^sup>*\<^sup>* (ds_outbox s) (ds_outbox (snd (dispatcher_run L D dc T i n s)))"
proof (induction n arbitrary: i s)
  case (Suc n)
  obtain r s' where p: "process_due_once L D (dt_claim (T i)) (dt_cutoff (T i)) (int (dc_batch_size dc))
      (dt_rows (T i)) s = (r, s')" by fastforce
  have step: "outbox_life_step (ds_outbox s) (ds_outbox s')"
    using dispatched [of s L D "dt_claim (T i)" "dt_cutoff (T i)" "int (dc_batch_size dc)" "dt_rows (T i)"] p
    by simp
  with p Suc.IH [of s' "Suc i"] show ?case
    by (cases r) (auto intro: converse_rtranclp_into_rtranclp)
qed simp

text \<open>More passes go on from where fewer stopped; a task that has panicked stays gone.\<close>

lemma dispatcher_run_add:
  "dispatcher_run L D dc T i (m + n) s =
     (case dispatcher_run L D dc T i m s of
        (True, s') \<Rightarrow> dispatcher_run L D dc T (i + m) n s'
      | (False, s') \<Rightarrow> (False, s'))"
  by (induction m arbitrary: i s) (auto split: option.splits prod.splits bool.splits)

text \<open>A failed database call does not end the task.\<close>

lemma dispatcher_survives_claim:
  "dt_claim (T i) = Fails e \<Longrightarrow> dispatcher_run L D dc T i (Suc n) s = dispatcher_run L D dc T (Suc i) n s"
  by (simp add: process_due_once_def outbox_claim_due_def)

section \<open>The watcher\<close>

record watch_tick =
  wk_list :: dbcall
  wk_rows :: "nat \<Rightarrow> watch_env"

fun watcher_run ::
  "(string \<Rightarrow> string option) \<Rightarrow> nat \<Rightarrow> (nat \<Rightarrow> watch_tick) \<Rightarrow> nat \<Rightarrow> nat \<Rightarrow> settlements \<Rightarrow> settlements" where
  "watcher_run parse_time fd T i 0 t = t"
| "watcher_run parse_time fd T i (Suc n) t =
     watcher_run parse_time fd T (Suc i) n (snd (watcher_tick parse_time fd (wk_list (T i)) (wk_rows (T i)) t))"

lemma watcher_run_steps:
  "node_step\<^sup>*\<^sup>* b (b\<lparr>bk_store := watcher_run parse fd T i n (bk_store b)\<rparr>)"
proof (induction n arbitrary: i b)
  case (Suc n)
  let ?b = "b\<lparr>bk_store := snd (watcher_tick parse fd (wk_list (T i)) (wk_rows (T i)) (bk_store b))\<rparr>"
  have "node_step b ?b" by (rule pass)
  moreover have "node_step\<^sup>*\<^sup>* ?b (?b\<lparr>bk_store := watcher_run parse fd T (Suc i) n (bk_store ?b)\<rparr>)"
    by (rule Suc.IH)
  ultimately show ?case by (simp add: converse_rtranclp_into_rtranclp)
qed simp

section \<open>The refresher of the routing registry\<close>

fun refresher_run ::
  "(string \<Rightarrow> (string \<Rightarrow> bool) option) \<Rightarrow>
   (nat \<Rightarrow> (routing_scheme list client_result \<times> cached_token option) option) \<Rightarrow> nat \<Rightarrow> nat \<Rightarrow> registry
   \<Rightarrow> bool \<times> registry" where
  "refresher_run compile F i 0 r = (True, r)"
| "refresher_run compile F i (Suc n) r =
     (case refresh_once compile (F i) r of
        None \<Rightarrow> (False, r)
      | Some r' \<Rightarrow> refresher_run compile F (Suc i) n r')"

text \<open>The registry is never unloaded again: an outage of OBP-API does not turn the checks off.\<close>

lemma registry_load_loaded: "is_loaded (registry_load compile schemes)"
  by (simp add: is_loaded_def registry_load_def)

lemma refresher_keeps_loaded:
  "is_loaded r \<Longrightarrow> is_loaded (snd (refresher_run compile F i n r))"
proof (induction n arbitrary: i r)
  case (Suc n)
  show ?case
  proof (cases "refresh_once compile (F i) r")
    case (Some r')
    then have "is_loaded r'"
      using Suc.prems registry_load_loaded
      by (auto simp: refresh_once_def split: option.splits prod.splits sum.splits)
    with Some Suc.IH show ?thesis by simp
  qed (use Suc.prems in simp)
qed simp

end
