(* ===== verification/Dispatch_Progress.thy ===== *)
theory Dispatch_Progress
  imports Task_Loops
begin

text \<open>
  Progress of the dispatcher: a row whose calls succeed in a pass that gets to it is reported, and
  stays so however long the task runs on.
\<close>

section \<open>Good answers\<close>

fun db_runs :: "dbcall \<Rightarrow> bool" where
  "db_runs (Runs now) = True"
| "db_runs (Fails e) = False"

lemma db_runsE: "db_runs c \<Longrightarrow> (\<And>now. c = Runs now \<Longrightarrow> P) \<Longrightarrow> P"
  by (cases c) auto

text \<open>No statement about the row fails.\<close>

definition dbs_run :: "row_env \<Rightarrow> bool" where
  "dbs_run E \<longleftrightarrow> db_runs (de_attempt E) \<and> db_runs (de_mark_submitted E) \<and> db_runs (de_mark_promise E)
     \<and> db_runs (de_mark_reported E) \<and> db_runs (de_mark_exception E)"

text \<open>The calls to OBP-API about the row come back, with whatever answer.\<close>

definition comes_back :: "dispatch_libs \<Rightarrow> dispatcher \<Rightarrow> row_env \<Rightarrow> outbox_record \<Rightarrow> bool" where
  "comes_back L D E row \<longleftrightarrow>
     (\<forall>cache. fst (submit_open_corridor (dl_obp L) (di_obp D) (de_submit E) (ob_bank_id row)
        (ob_account_id row) (ob_request_payload row) cache) \<noteq> None) \<and>
     (\<forall>obp tx cache. fst (report_promise (dl_obp L) (di_obp D) (de_report E) (ob_bank_id row)
        (ob_account_id row) obp (row_evidence L D row tx) cache) \<noteq> None)"

text \<open>
  OBP-API takes the payment under the identifier \<open>oid\<close> (unless it already has), the promise is
  written as \<open>tx\<close> (unless it already is), and OBP-API takes the evidence.
\<close>

definition delivers ::
  "dispatch_libs \<Rightarrow> dispatcher \<Rightarrow> row_env \<Rightarrow> outbox_record \<Rightarrow> string \<Rightarrow> string \<Rightarrow> bool" where
  "delivers L D E row oid tx \<longleftrightarrow>
     (if ob_status row = INITIATED
      then \<forall>cache. fst (submit_open_corridor (dl_obp L) (di_obp D) (de_submit E) (ob_bank_id row)
             (ob_account_id row) (ob_request_payload row) cache) = Some (Inr (Some oid))
      else ob_obp_transaction_request_id row = Some oid) \<and>
     (if ob_status row = PROMISE_WRITTEN then ob_promise_tx_id row = Some tx
      else (case de_promise E of Inr ref \<Rightarrow> tx_id ref = tx | Inl e \<Rightarrow> False)) \<and>
     (\<forall>cache. fst (report_promise (dl_obp L) (di_obp D) (de_report E) (ob_bank_id row)
        (ob_account_id row) oid (row_evidence L D row tx) cache) = Some (Inr ()))"

section \<open>One row\<close>

lemma outbox_op_runs:
  "db_runs c \<Longrightarrow> fst (outbox_record_attempt c k t) = Inr ()"
  "db_runs c \<Longrightarrow> fst (outbox_mark_submitted c k oid t) = Inr ()"
  "db_runs c \<Longrightarrow> fst (outbox_mark_promise_written c k tx ch t) = Inr ()"
  "db_runs c \<Longrightarrow> fst (outbox_mark_reported c k t) = Inr ()"
  "db_runs c \<Longrightarrow> fst (outbox_mark_exception c k reason t) = Inr ()"
  by (erule db_runsE, simp add: outbox_op_defs exec_update_simps)+

lemma except_row_runs: "dbs_run E \<Longrightarrow> fst (except_row E k reason s) = Inr True"
  using outbox_op_runs(5) [of "de_mark_exception E" k reason "ds_outbox s"]
  by (auto simp: except_row_def dbs_run_def split: prod.splits sum.splits)

lemma comes_backD:
  assumes "comes_back L D E row"
  shows "submit_open_corridor (dl_obp L) (di_obp D) (de_submit E) (ob_bank_id row) (ob_account_id row)
      (ob_request_payload row) cache = (a, token, q) \<Longrightarrow> \<exists>x. a = Some x"
    and "report_promise (dl_obp L) (di_obp D) (de_report E) (ob_bank_id row) (ob_account_id row)
      obp (row_evidence L D row tx) cache = (a', token', q') \<Longrightarrow> \<exists>x. a' = Some x"
  using assms unfolding comes_back_def by (metis fst_conv not_None_eq)+

lemma submit_step_runs:
  assumes "dbs_run E" "comes_back L D E row"
  shows "case fst (submit_step L D E row s) of Done r \<Rightarrow> \<exists>x. r = Some (Inr x) | Go g \<Rightarrow> True"
proof (cases "ob_status row = INITIATED")
  case True
  obtain a token q where call: "submit_open_corridor (dl_obp L) (di_obp D) (de_submit E)
      (ob_bank_id row) (ob_account_id row) (ob_request_payload row) (ds_token s) = (a, token, q)"
    by (metis prod_cases3)
  from comes_backD(1) [OF assms(2) call] obtain x where a: "a = Some x" by blast
  have db: "db_runs (de_mark_submitted E)" using assms(1) by (simp add: dbs_run_def)
  show ?thesis
  proof (cases x)
    case (Inl e)
    with True call a except_row_runs [OF assms(1)] show ?thesis
      by (auto simp: submit_step_def Let_def case_prod_unfold)
  next
    case (Inr oid)
    with True call a outbox_op_runs(2) [OF db] show ?thesis
      by (simp add: submit_step_def Let_def case_prod_unfold)
  qed
qed (simp add: submit_step_def)

lemma promise_step_runs:
  assumes "dbs_run E"
  shows "case fst (promise_step L D E row current adv s) of Done r \<Rightarrow> \<exists>x. r = Some (Inr x) | Go g \<Rightarrow> True"
proof -
  have "db_runs (de_mark_promise E)" using assms by (simp add: dbs_run_def)
  from outbox_op_runs(3) [OF this] show ?thesis
    by (simp add: promise_step_def Let_def case_prod_unfold split: sum.split)
qed

lemma report_step_runs:
  assumes "dbs_run E" "comes_back L D E row"
  shows "\<exists>x. fst (report_step L D E row current oid ptx adv s) = Some (Inr x)"
proof (cases "current = PROMISE_WRITTEN \<and> oid \<noteq> None \<and> ptx \<noteq> None")
  case True
  then obtain obp tx where ids: "current = PROMISE_WRITTEN" "oid = Some obp" "ptx = Some tx" by auto
  obtain a token q where call: "report_promise (dl_obp L) (di_obp D) (de_report E)
      (ob_bank_id row) (ob_account_id row) obp (row_evidence L D row tx) (ds_token s) = (a, token, q)"
    by (metis prod_cases3)
  from comes_backD(2) [OF assms(2) call] obtain x where a: "a = Some x" by blast
  have db: "db_runs (de_mark_reported E)" using assms(1) by (simp add: dbs_run_def)
  show ?thesis
    using ids call a outbox_op_runs(4) [OF db] except_row_runs [OF assms(1)]
    by (cases x) (auto simp: report_step_def Let_def case_prod_unfold)
next
  case False
  with except_row_runs [OF assms(1)] show ?thesis
    by (cases oid; cases ptx) (auto simp: report_step_def Let_def case_prod_unfold)
qed

lemma process_row_runs:
  assumes "dbs_run E" "comes_back L D E row"
  shows "\<exists>x. fst (process_row L D E row s) = Some (Inr x)"
proof -
  note steps = submit_step_runs [OF assms, of s] promise_step_runs [OF assms(1)] report_step_runs [OF assms]
  obtain f s1 where 1: "submit_step L D E row s = (f, s1)" by fastforce
  show ?thesis
  proof (cases f)
    case (Go g)
    obtain current oid adv where g: "g = (current, oid, adv)" by (cases g)
    obtain h s2 where 2: "promise_step L D E row current adv s1 = (h, s2)" by fastforce
    with steps(2) [of L D row current adv s1] steps(3) 1 Go g show ?thesis
      by (cases h) (auto simp: process_row_def split: prod.splits)
  qed (use 1 steps(1) in \<open>simp add: process_row_def\<close>)
qed

section \<open>A row that gets through\<close>

lemma op_result: "fst (f :: unit db_result \<times> outbox) = Inr () \<Longrightarrow> \<exists>t. f = (Inr (), t)"
  by (cases f) simp

lemma submit_step_delivers:
  assumes "dbs_run E" "delivers L D E row oid tx"
    and "row_at (ob_transaction_request_id row) (ob_status row) (ob_obp_transaction_request_id row)
      (ob_promise_tx_id row) (ds_outbox s)"
  shows "\<exists>adv s1. submit_step L D E row s =
      (Go (if ob_status row = INITIATED then SUBMITTED else ob_status row, Some oid, adv), s1)
    \<and> row_at (ob_transaction_request_id row) (if ob_status row = INITIATED then SUBMITTED else ob_status row)
        (Some oid) (ob_promise_tx_id row) (ds_outbox s1)"
proof (cases "ob_status row = INITIATED")
  case True
  obtain a token q where call: "submit_open_corridor (dl_obp L) (di_obp D) (de_submit E)
      (ob_bank_id row) (ob_account_id row) (ob_request_payload row) (ds_token s) = (a, token, q)"
    by (metis prod_cases3)
  have "fst (submit_open_corridor (dl_obp L) (di_obp D) (de_submit E) (ob_bank_id row) (ob_account_id row)
      (ob_request_payload row) (ds_token s)) = Some (Inr (Some oid))"
    using assms(2) True by (simp add: delivers_def)
  with call have a: "a = Some (Inr (Some oid))" by simp
  have "db_runs (de_mark_submitted E)" using assms(1) by (simp add: dbs_run_def)
  from op_result [OF outbox_op_runs(2) [OF this]] obtain t where
    op: "outbox_mark_submitted (de_mark_submitted E) (ob_transaction_request_id row) (Some oid) (ds_outbox s) =
      (Inr (), t)" by blast
  with True call a row_at_results(2) [OF assms(3) op] show ?thesis
    by (auto simp: submit_step_def Let_def)
next
  case False
  with assms(2,3) show ?thesis by (auto simp: submit_step_def delivers_def)
qed

lemma promise_step_delivers:
  assumes "dbs_run E" "delivers L D E row oid tx"
    and "current = SUBMITTED \<and> ob_status row \<noteq> PROMISE_WRITTEN
      \<or> current = PROMISE_WRITTEN \<and> ob_status row = PROMISE_WRITTEN"
    and "row_at (ob_transaction_request_id row) current (Some oid) (ob_promise_tx_id row) (ds_outbox s)"
  shows "\<exists>adv' s1. promise_step L D E row current adv s = (Go (PROMISE_WRITTEN, Some tx, adv'), s1)
    \<and> row_at (ob_transaction_request_id row) PROMISE_WRITTEN (Some oid) (Some tx) (ds_outbox s1)"
proof (cases "current = SUBMITTED")
  case True
  with assms(2,3) obtain ref where ref: "de_promise E = Inr ref" "tx_id ref = tx"
    by (auto simp: delivers_def split: sum.splits)
  have "db_runs (de_mark_promise E)" using assms(1) by (simp add: dbs_run_def)
  from op_result [OF outbox_op_runs(3) [OF this]] obtain t where
    op: "outbox_mark_promise_written (de_mark_promise E) (ob_transaction_request_id row) tx
      (di_blockchain_label D) (ds_outbox s) = (Inr (), t)" by blast
  with True ref row_at_results(3) [OF assms(4) op] show ?thesis
    by (auto simp: promise_step_def Let_def)
next
  case False
  with assms(2-4) show ?thesis by (simp add: promise_step_def delivers_def)
qed

lemma report_step_delivers:
  assumes "dbs_run E" "delivers L D E row oid tx"
    and "row_at (ob_transaction_request_id row) PROMISE_WRITTEN (Some oid) (Some tx) (ds_outbox s)"
  shows "\<exists>s1. report_step L D E row PROMISE_WRITTEN (Some oid) (Some tx) adv s = (Some (Inr True), s1)
    \<and> row_at (ob_transaction_request_id row) REPORTED (Some oid) (Some tx) (ds_outbox s1)"
proof -
  obtain a token q where call: "report_promise (dl_obp L) (di_obp D) (de_report E)
      (ob_bank_id row) (ob_account_id row) oid (row_evidence L D row tx) (ds_token s) = (a, token, q)"
    by (metis prod_cases3)
  have "fst (report_promise (dl_obp L) (di_obp D) (de_report E) (ob_bank_id row) (ob_account_id row)
      oid (row_evidence L D row tx) (ds_token s)) = Some (Inr ())"
    using assms(2) by (simp add: delivers_def)
  with call have a: "a = Some (Inr ())" by simp
  have "db_runs (de_mark_reported E)" using assms(1) by (simp add: dbs_run_def)
  from op_result [OF outbox_op_runs(4) [OF this]] obtain t where
    op: "outbox_mark_reported (de_mark_reported E) (ob_transaction_request_id row) (ds_outbox s) = (Inr (), t)"
    by blast
  with call a row_at_results(4) [OF assms(3) op] show ?thesis
    by (simp add: report_step_def Let_def)
qed

lemma process_row_delivers:
  assumes "dbs_run E" "delivers L D E row oid tx" "ob_status row \<in> {INITIATED, SUBMITTED, PROMISE_WRITTEN}"
    and "row_at (ob_transaction_request_id row) (ob_status row) (ob_obp_transaction_request_id row)
      (ob_promise_tx_id row) (ds_outbox s)"
  shows "\<exists>s'. process_row L D E row s = (Some (Inr True), s')
    \<and> row_at (ob_transaction_request_id row) REPORTED (Some oid) (Some tx) (ds_outbox s')"
proof -
  define current where "current = (if ob_status row = INITIATED then SUBMITTED else ob_status row)"
  from submit_step_delivers [OF assms(1,2,4)] obtain adv s1 where
    1: "submit_step L D E row s = (Go (current, Some oid, adv), s1)"
      "row_at (ob_transaction_request_id row) current (Some oid) (ob_promise_tx_id row) (ds_outbox s1)"
    unfolding current_def by blast
  have "current = SUBMITTED \<and> ob_status row \<noteq> PROMISE_WRITTEN
      \<or> current = PROMISE_WRITTEN \<and> ob_status row = PROMISE_WRITTEN"
    using assms(3) by (auto simp: current_def)
  from promise_step_delivers [OF assms(1,2) this 1(2), of adv] obtain adv2 s2 where
    2: "promise_step L D E row current adv s1 = (Go (PROMISE_WRITTEN, Some tx, adv2), s2)"
      "row_at (ob_transaction_request_id row) PROMISE_WRITTEN (Some oid) (Some tx) (ds_outbox s2)" by blast
  from report_step_delivers [OF assms(1,2) 2(2), of adv2] 1(1) 2(1) show ?thesis
    by (auto simp: process_row_def)
qed

section \<open>A pass that gets to the row\<close>

lemma process_rows_delivers:
  assumes "unchanged_rows rows (ds_outbox s)" "distinct (map ob_transaction_request_id rows)"
    and "j < length rows" and "\<forall>l < j. dbs_run (E (i + l)) \<and> comes_back L D (E (i + l)) (rows ! l)"
    and "dbs_run (E (i + j))" "delivers L D (E (i + j)) (rows ! j) oid tx"
    and "ob_status (rows ! j) \<in> {INITIATED, SUBMITTED, PROMISE_WRITTEN}"
  shows "row_at (ob_transaction_request_id (rows ! j)) REPORTED (Some oid) (Some tx)
    (ds_outbox (snd (process_rows L D E i rows adv s)))"
  using assms
proof (induction rows arbitrary: i j adv s)
  case (Cons row rows)
  have attempt: "dbs_run (E i)" using Cons.prems(4,5) by (cases j) auto
  then have "db_runs (de_attempt (E i))" by (simp add: dbs_run_def)
  from op_result [OF outbox_op_runs(1) [OF this]] obtain t where
    1: "outbox_record_attempt (de_attempt (E i)) (ob_transaction_request_id row) (ds_outbox s) = (Inr (), t)"
    by blast
  obtain y s2 where 2: "process_row L D (E i) row (s\<lparr>ds_outbox := t\<rparr>) = (y, s2)" by fastforce
  show ?case
  proof (cases j)
    case 0
    from Cons.prems(1) have "row_at (ob_transaction_request_id row) (ob_status row)
        (ob_obp_transaction_request_id row) (ob_promise_tx_id row) (ds_outbox s)"
      by (simp add: unchanged_rows_def)
    from row_at_results(1) [OF this 1] have "row_at (ob_transaction_request_id row) (ob_status row)
        (ob_obp_transaction_request_id row) (ob_promise_tx_id row) (ds_outbox (s\<lparr>ds_outbox := t\<rparr>))" by simp
    from process_row_delivers [OF attempt _ _ this, of L D oid tx] Cons.prems(6,7) 0 2
    have y: "y = Some (Inr True)" "row_at (ob_transaction_request_id row) REPORTED (Some oid) (Some tx) (ds_outbox s2)"
      by auto
    have "ob_transaction_request_id row \<notin> ob_transaction_request_id ` set rows" using Cons.prems(2) by simp
    from row_at_other [OF process_rows_other [OF this]] 0 1 2 y show ?thesis by simp
  next
    case (Suc j')
    with Cons.prems(4) have "dbs_run (E i) \<and> comes_back L D (E i) row" by force
    from process_row_runs [of "E i" L D row "s\<lparr>ds_outbox := t\<rparr>"] this 2
    obtain x where y: "y = Some (Inr x)" by auto
    from attempt_process_moved(2) [OF Cons.prems(1,2) 1 2] have "unchanged_rows rows (ds_outbox s2)" .
    note IH = Cons.IH [OF this, of j' "Suc i"]
    have "\<forall>l < j'. dbs_run (E (Suc i + l)) \<and> comes_back L D (E (Suc i + l)) (rows ! l)"
    proof (intro allI impI)
      fix l assume "l < j'"
      with Cons.prems(4) Suc have "dbs_run (E (i + Suc l)) \<and> comes_back L D (E (i + Suc l)) ((row # rows) ! Suc l)"
        by blast
      then show "dbs_run (E (Suc i + l)) \<and> comes_back L D (E (Suc i + l)) (rows ! l)" by simp
    qed
    from IH [OF _ _ this] Cons.prems(2,3,5-7) Suc y 1 2 show ?thesis by simp
  qed
qed simp

lemma pass_delivers:
  assumes "distinct (map ob_transaction_request_id (ds_outbox s))"
    and "outbox_claim_due c cutoff n (ds_outbox s) = Inr due" and "j < length due"
    and "\<forall>l < j. dbs_run (E l) \<and> comes_back L D (E l) (due ! l)"
    and "dbs_run (E j)" "delivers L D (E j) (due ! j) oid tx"
  shows "row_at (ob_transaction_request_id (due ! j)) REPORTED (Some oid) (Some tx)
    (ds_outbox (snd (process_due_once L D c cutoff n E s)))"
proof -
  from claim_due_spec(1) [OF assms(2)] assms(3) have "is_due cutoff (due ! j)" by (auto dest: nth_mem)
  then have "ob_status (due ! j) \<in> {INITIATED, SUBMITTED, PROMISE_WRITTEN}" by (simp add: is_due_def)
  from process_rows_delivers [OF claim_due_unchanged [OF assms(2,1)] claim_due_distinct [OF assms(2,1)] assms(3),
      of E 0 L D oid tx] assms(2,4-6) this show ?thesis by (simp add: process_due_once_def)
qed

text \<open>A reported row is left alone by every further pass.\<close>

lemma dispatcher_run_terminal:
  assumes "distinct (map ob_transaction_request_id (ds_outbox s))"
    and "sql_find ob_transaction_request_id k (ds_outbox s) = Some r" "ob_status r \<in> {REPORTED, EXCEPTION}"
  shows "sql_find ob_transaction_request_id k (ds_outbox (snd (dispatcher_run L D dc T i n s))) = Some r"
  using assms(1,2)
proof (induction n arbitrary: i s)
  case (Suc n)
  obtain y s' where p: "process_due_once L D (dt_claim (T i)) (dt_cutoff (T i)) (int (dc_batch_size dc))
      (dt_rows (T i)) s = (y, s')" by fastforce
  with process_due_once_terminal [OF Suc.prems assms(3)]
  have r: "sql_find ob_transaction_request_id k (ds_outbox s') = Some r" by (metis snd_conv)
  have "outbox_life_step (ds_outbox s) (ds_outbox s')"
    using dispatched [of s L D "dt_claim (T i)" "dt_cutoff (T i)" "int (dc_batch_size dc)" "dt_rows (T i)"] p
    by simp
  with Suc.prems(1) have "distinct (map ob_transaction_request_id (ds_outbox s'))" by (rule obl.step_distinct [rotated])
  with Suc.IH [of s' "Suc i"] r p show ?case by (cases y) simp_all
qed simp

end
