(* ===== verification/Interface_Properties.thy ===== *)
theory Interface_Properties
  imports Examples_More Dispatch_Progress
begin

text \<open>
  Properties of the node's interfaces: the outbox and its dispatcher, the south-side API, the
  OBP-API client, the routing registry and the message consumer. Each is a consequence of the
  facts of the component it names.
\<close>

section \<open>The outbox and its dispatcher\<close>

text \<open>
  C17. An outbox row that is reported or in exception is settled for good: no insert, settlement stamp
  or dispatcher pass, with any failures, changes its status or the payment it stands for.
\<close>

theorem outbox_row_final:
  assumes "outbox_life_step\<^sup>*\<^sup>* t t'" and "distinct (map ob_transaction_request_id t)"
    and "sql_find ob_transaction_request_id k t = Some r" and "ob_status r \<in> {REPORTED, EXCEPTION}"
  shows "\<exists>r'. sql_find ob_transaction_request_id k t' = Some r' \<and> ob_status r' = ob_status r \<and>
    payment_of r' = payment_of r"
  using outbox_terminal_stays [OF assms] obl.steps_durable [OF assms(1,3)] by auto

lemma outbox_row_final_witness:
  "\<exists>r r'. sql_find ob_transaction_request_id ''tr-7'' demo_reported = Some r \<and>
     sql_find ob_transaction_request_id ''tr-7''
       (snd (outbox_mark_settled (Runs ''t8'') [''tr-7''] ''s-1'' demo_reported)) = Some r' \<and>
     ob_status r' = ob_status r"
proof -
  have step: "outbox_life_step demo_reported (snd (outbox_mark_settled (Runs ''t8'') [''tr-7''] ''s-1'' demo_reported))"
    by (rule settled)
  have d: "distinct (map ob_transaction_request_id demo_reported)" by code_simp
  have "map_option ob_status (sql_find ob_transaction_request_id ''tr-7'' demo_reported) = Some REPORTED" by code_simp
  then obtain r where r: "sql_find ob_transaction_request_id ''tr-7'' demo_reported = Some r" "ob_status r = REPORTED"
    by (cases "sql_find ob_transaction_request_id ''tr-7'' demo_reported") auto
  from outbox_row_final [OF r_into_rtranclp [of outbox_life_step, OF step] d r(1)] r show ?thesis by auto
qed

text \<open>
  C18. The calls made for a row in a pass are, in this order and each at most once: the submission to
  OBP, the promise on the chain, the report. The first is made only for an initiated row; each
  later one only when the one before it succeeded, now or in an earlier pass; all are about this row.
\<close>

theorem row_calls_in_order:
  "\<exists>es. ds_log (snd (process_row L D E row s)) = ds_log s @ es \<and> calls_of_row L D E row es"
  by (rule process_row_log)

section \<open>Progress of the dispatcher\<close>

text \<open>A tick of the dispatcher whose calls all succeed, over the row of the example payment.\<close>

definition demo_tick :: dispatch_tick where
  "demo_tick = \<lparr>dt_claim = Runs ''q'', dt_cutoff = ''t0'', dt_rows = demo_row_env\<rparr>"

lemma demo_dbs_run: "dbs_run (demo_row_env i)"
  by (simp add: dbs_run_def demo_row_env_def)

lemma demo_delivers:
  "delivers demo_dispatch_libs demo_dispatcher (demo_row_env i) (outbox_row ''t0'' demo_entry) ''obp-1'' ''p-1''"
  by (simp add: delivers_def submit_open_corridor_def report_promise_def exchange_def outbox_row_def
      demo_dispatch_libs_def demo_dispatcher_def demo_row_env_def demo_call_def demo_obp_libs_def new_client_def
      demo_entry_def is_success_def extract_tr_id_def authorize_def Let_def)

text \<open>
  C26. A payment that a pass of the dispatcher gets to, whatever its state, is reported at the end of the
  pass when OBP-API, the chain and the database answer for it, and it stays reported, with the identifier
  OBP-API gave it and the promise written for it, however long the dispatcher runs on.
\<close>

theorem due_payment_reported:
  assumes "distinct (map ob_transaction_request_id (ds_outbox s))"
    and "dispatcher_run L D dc T 0 m s = (True, s1)"
    and "outbox_claim_due (dt_claim (T m)) (dt_cutoff (T m)) (int (dc_batch_size dc)) (ds_outbox s1) = Inr due"
    and "j < length due"
    and "\<forall>l < j. dbs_run (dt_rows (T m) l) \<and> comes_back L D (dt_rows (T m) l) (due ! l)"
    and "dbs_run (dt_rows (T m) j)" and "delivers L D (dt_rows (T m) j) (due ! j) oid tx"
  shows "\<exists>r. sql_find ob_transaction_request_id (ob_transaction_request_id (due ! j))
      (ds_outbox (snd (dispatcher_run L D dc T 0 (m + Suc n) s))) = Some r
    \<and> ob_status r = REPORTED \<and> ob_obp_transaction_request_id r = Some oid \<and> ob_promise_tx_id r = Some tx
    \<and> payment_of r = payment_of (due ! j)"
proof -
  let ?k = "ob_transaction_request_id (due ! j)"
  have d: "distinct (map ob_transaction_request_id (ds_outbox s1))"
    using obl.steps_distinct [OF dispatcher_run_life [of s L D dc T 0 m] assms(1)] assms(2) by simp
  obtain y s2 where pass: "process_due_once L D (dt_claim (T m)) (dt_cutoff (T m)) (int (dc_batch_size dc))
      (dt_rows (T m)) s1 = (y, s2)" by fastforce
  from pass_delivers [OF d assms(3-7)] pass obtain r where
    r: "sql_find ob_transaction_request_id ?k (ds_outbox s2) = Some r" "ob_status r = REPORTED"
      "ob_obp_transaction_request_id r = Some oid" "ob_promise_tx_id r = Some tx"
    by (auto simp: row_at_def split: option.splits)
  have step: "outbox_life_step (ds_outbox s1) (ds_outbox s2)"
    using dispatched [of s1 L D "dt_claim (T m)" "dt_cutoff (T m)" "int (dc_batch_size dc)" "dt_rows (T m)"]
      pass by simp
  have "due ! j \<in> set (ds_outbox s1)" using claim_due_spec(1) [OF assms(3)] assms(4) by (auto dest: nth_mem)
  from obl.steps_durable [OF r_into_rtranclp [of outbox_life_step, OF step] sql_find_unique [OF d this]] r(1)
  have payment: "payment_of r = payment_of (due ! j)" by simp
  have "sql_find ob_transaction_request_id ?k
      (ds_outbox (snd (dispatcher_run L D dc T (Suc m) n s2))) = Some r"
    using dispatcher_run_terminal [OF obl.step_distinct [OF step d] r(1)] r(2) by simp
  with r payment show ?thesis
    using dispatcher_run_add [of L D dc T 0 m "Suc n" s] assms(2) pass by (cases y) simp_all
qed

lemma due_payment_reported_witness:
  "\<exists>r. sql_find ob_transaction_request_id ''tr-7''
      (ds_outbox (snd (dispatcher_run demo_dispatch_libs demo_dispatcher default_dispatcher (\<lambda>_. demo_tick) 0 4
        \<lparr>ds_outbox = demo_inserted, ds_token = None, ds_log = []\<rparr>))) = Some r
    \<and> ob_status r = REPORTED \<and> ob_promise_tx_id r = Some ''p-1''"
proof -
  let ?s = "\<lparr>ds_outbox = demo_inserted, ds_token = None, ds_log = []\<rparr> :: dispatch_state"
  have t: "demo_inserted = [outbox_row ''t0'' demo_entry]"
    by (simp add: demo_inserted_def sql_has_key_def)
  have due: "outbox_claim_due (dt_claim demo_tick) (dt_cutoff demo_tick) (int (dc_batch_size default_dispatcher))
      (ds_outbox ?s) = Inr [outbox_row ''t0'' demo_entry]"
    by (simp add: t demo_tick_def outbox_claim_due_def default_dispatcher_def is_due_def outbox_row_def
        order_asc_def sql_limit_def)
  from due_payment_reported [of ?s demo_dispatch_libs demo_dispatcher default_dispatcher "\<lambda>_. demo_tick" 0 ?s,
      OF _ _ due, of 0 "''obp-1''" "''p-1''" 3] demo_delivers demo_dbs_run
  show ?thesis by (auto simp: t demo_entry_def demo_tick_def numeral_eq_Suc)
qed

section \<open>The south-side API\<close>

text \<open>
  C19. A payment that the API accepted (202) passed every check, and its row with the payload and the
  salt is in the outbox for ever after: whatever the dispatcher and the settlement stamps do.
\<close>

theorem accepted_payment_stays:
  assumes "initiate_payment L C reg E body ob = (resp, ob')" and "rp_status resp = 202"
    and "outbox_life_step\<^sup>*\<^sup>* ob' later"
  shows "\<exists>req payload r. body = Inr req \<and> validate req = Inr () \<and> check_routing reg (ir_to req) = Inr () \<and>
    rl_ser_request L req = Inr payload \<and> rp_body resp = InitiatedBody (initiated C E req) \<and>
    sql_find ob_transaction_request_id (in_id E) later = Some r \<and>
    ob_bank_id r = rn_bank_id C \<and> ob_account_id r = rn_account_id C \<and> ob_request_payload r = payload \<and>
    ob_commitment_salt r = in_salt E"
proof -
  from initiate_payment_accepted [OF assms(1,2)] obtain req payload now where
    1: "body = Inr req" "validate req = Inr ()" "check_routing reg (ir_to req) = Inr ()"
      "rl_ser_request L req = Inr payload" "resp = \<lparr>rp_status = 202, rp_body = InitiatedBody (initiated C E req)\<rparr>"
    and 2: "sql_find ob_transaction_request_id (in_id E) ob' = Some (outbox_row now
       \<lparr>en_transaction_request_id = in_id E, en_bank_id = rn_bank_id C, en_account_id = rn_account_id C,
        en_request_payload = payload, en_commitment_salt = in_salt E\<rparr>)" by blast
  from obl.steps_durable [OF assms(3) 2] obtain r where
    "sql_find ob_transaction_request_id (in_id E) later = Some r" "payment_of r = payment_of (outbox_row now
       \<lparr>en_transaction_request_id = in_id E, en_bank_id = rn_bank_id C, en_account_id = rn_account_id C,
        en_request_payload = payload, en_commitment_salt = in_salt E\<rparr>)" by blast
  with 1 show ?thesis by (simp add: payment_of_def outbox_row_def)
qed

lemma accepted_payment_stays_witness:
  "\<exists>r. sql_find ob_transaction_request_id ''tr-7''
       (snd (outbox_mark_settled (Runs ''t8'') [''tr-7''] ''s-1'' demo_inserted)) = Some r \<and>
     ob_request_payload r = ''payload'' \<and> ob_commitment_salt r = ''salt''"
proof -
  have "initiate_payment demo_rest_libs demo_rest_config None demo_initiate_env (Inr demo_request) [] =
      (fst demo_initiated, demo_inserted)"
    using demo_initiated_facts(2) by (metis demo_initiated_def prod.collapse)
  from accepted_payment_stays [OF this demo_initiated_facts(1)
      r_into_rtranclp [of outbox_life_step, OF demo_stamped]]
  show ?thesis by (auto simp: demo_rest_libs_def demo_rest_config_def demo_initiate_env_def)
qed

text \<open>A request that is not accepted leaves nothing behind, and the answer is 400 or 500.\<close>

theorem refused_request_leaves_outbox:
  assumes "initiate_payment L C reg E body ob = (resp, ob')" and "rp_status resp \<noteq> 202"
  shows "ob' = ob \<and> rp_status resp \<in> {400, 500}"
  using assms by (rule initiate_payment_refused)

lemma refused_request_leaves_outbox_witness:
  "snd (initiate_payment demo_rest_libs demo_rest_config None (demo_initiate_env\<lparr>in_insert := Fails ''disk''\<rparr>)
     (Inr demo_request) demo_inserted) = demo_inserted"
proof -
  let ?p = "initiate_payment demo_rest_libs demo_rest_config None (demo_initiate_env\<lparr>in_insert := Fails ''disk''\<rparr>)
     (Inr demo_request) demo_inserted"
  have "rp_status (fst ?p) = 500"
    by (simp add: initiate_payment_def demo_request_valid check_routing_def demo_rest_libs_def demo_initiate_env_def)
  then have "rp_status (fst ?p) \<noteq> 202" by simp
  from refused_request_leaves_outbox [OF prod.collapse [symmetric] this] show ?thesis by blast
qed

text \<open>
  C21. An amount in decimal notation (digits, with or without a point, of any length) passes the check
  exactly when it is greater than \<open>2 ^ -1075\<close>, which the source's doubles round to zero; so validation
  accepts such a request exactly when currency, beneficiary and originator are given and the amount
  is greater than that. For amounts of at most 323 decimals this means positive. (From 324 decimals on
  there are positive amounts that are refused: \<open>10 ^ -324\<close>.)
\<close>

theorem decimal_amount_accepted_iff_positive:
  assumes "decimal_text (trim (mv_amount (ir_value req))) w f" and "digits_val 0 (w @ f) = Some n"
  shows "(validate req = Inr () \<longleftrightarrow> fields_given req \<and> 10 ^ length f < n * 2 ^ 1075) \<and>
    (length f \<le> 323 \<longrightarrow> (validate req = Inr () \<longleftrightarrow> fields_given req \<and> 0 < n))"
  using validate_decimal_iff [OF assms] by blast

lemma decimal_amount_accepted_iff_positive_witness:
  "validate demo_request = Inr () \<and> validate demo_whole_request = Inr ()"
  using decimal_amount_accepted_iff_positive [OF demo_request_amount(1,2), THEN conjunct2]
    decimal_amount_accepted_iff_positive [OF demo_whole_amount(1,2), THEN conjunct2]
    demo_request_amount(3) demo_whole_amount(3) by simp

section \<open>The routing registry\<close>

text \<open>
  Until the registry is loaded every beneficiary passes; after a load exactly those pass whose two
  schemes are listed and whose addresses match what the last listing of the scheme asks for (an
  empty pattern, or one that does not compile, asks for nothing).
\<close>

theorem routing_checked_iff_listed:
  "check_routing None r = Inr () \<and>
   (check_routing (registry_load compile schemes) r = Inr () \<longleftrightarrow>
     (\<exists>bank account.
        find (\<lambda>s. rg_scheme s = br_other_bank_routing_scheme r) (rev schemes) = Some bank \<and>
        find (\<lambda>s. rg_scheme s = br_other_account_routing_scheme r) (rev schemes) = Some account \<and>
        (case ru_pattern (scheme_rule_of compile bank) of
           None \<Rightarrow> True | Some matches \<Rightarrow> matches (br_other_bank_routing_address r)) \<and>
        (case ru_pattern (scheme_rule_of compile account) of
           None \<Rightarrow> True | Some matches \<Rightarrow> matches (br_other_account_routing_address r))))"
proof
  show "check_routing None r = Inr ()" by (simp add: check_routing_def)
  have "check_routing (registry_load compile schemes) r = Inr () \<longleftrightarrow>
      registry_check (registry_load compile schemes) ''to.other_bank_routing''
        (br_other_bank_routing_scheme r) (br_other_bank_routing_address r) = Inr () \<and>
      registry_check (registry_load compile schemes) ''to.other_account_routing''
        (br_other_account_routing_scheme r) (br_other_account_routing_address r) = Inr ()"
    by (auto simp: check_routing_def split: sum.splits)
  then show "check_routing (registry_load compile schemes) r = Inr () \<longleftrightarrow>
     (\<exists>bank account.
        find (\<lambda>s. rg_scheme s = br_other_bank_routing_scheme r) (rev schemes) = Some bank \<and>
        find (\<lambda>s. rg_scheme s = br_other_account_routing_scheme r) (rev schemes) = Some account \<and>
        (case ru_pattern (scheme_rule_of compile bank) of
           None \<Rightarrow> True | Some matches \<Rightarrow> matches (br_other_bank_routing_address r)) \<and>
        (case ru_pattern (scheme_rule_of compile account) of
           None \<Rightarrow> True | Some matches \<Rightarrow> matches (br_other_account_routing_address r)))"
    unfolding check_loaded_ok_iff by blast
qed

section \<open>The OBP-API client\<close>

text \<open>
  C22. A call under client credentials carries a bearer token that is either the cached one, before its
  refresh time, or one just fetched, and what a fetch leaves in the cache is refreshed no later than
  the lifetime the token endpoint announced (300 seconds where it announced none).
\<close>

theorem token_is_fresh:
  assumes "bearer_token L (ClientCredentials url cid secret scope) E cache = (Some (Inr bearer), cache')"
  shows "(\<exists>c. cache = Some c \<and> cache' = cache \<and> ct_bearer c = bearer \<and> te_now E < ct_refresh_at c) \<or>
    (\<exists>status answer expires_in c. te_answer E = Response status answer \<and> is_success status \<and>
       ol_token L answer = Inr (bearer, expires_in) \<and> cache' = Some c \<and> ct_bearer c = bearer \<and>
       ct_refresh_at c \<le> te_later E + unwrap_or expires_in 300 * 10 ^ 9)"
proof (cases "\<exists>c. cache = Some c \<and> te_now E < ct_refresh_at c")
  case True
  with assms show ?thesis by (auto simp: bearer_token_cached)
next
  case False
  then have "fetch_token L E cache = (Some (Inr bearer), cache')"
    using assms by (auto simp: bearer_token_def simp del: fetch_token.simps split: option.splits)
  from fetch_token_refresh [OF this] show ?thesis by blast
qed

lemma token_is_fresh_witness:
  "\<exists>c. snd (bearer_token (demo_obp_libs\<lparr>ol_token := (\<lambda>_. Inr (''tok'', Some 600))\<rparr>)
       (ClientCredentials ''u'' ''i'' ''s'' None) \<lparr>te_now = 7, te_answer = Response 200 ''{}'', te_later = 8\<rparr>
       (Some \<lparr>ct_bearer = ''old'', ct_refresh_at = 7\<rparr>)) = Some c \<and> ct_bearer c = ''tok''"
proof -
  let ?b = "bearer_token (demo_obp_libs\<lparr>ol_token := (\<lambda>_. Inr (''tok'', Some 600))\<rparr>)
       (ClientCredentials ''u'' ''i'' ''s'' None) \<lparr>te_now = 7, te_answer = Response 200 ''{}'', te_later = 8\<rparr>
       (Some \<lparr>ct_bearer = ''old'', ct_refresh_at = 7\<rparr>)"
  have "fst ?b = Some (Inr ''tok'')" by code_simp
  then have "?b = (Some (Inr ''tok''), snd ?b)" by (metis prod.collapse)
  from token_is_fresh [OF this] show ?thesis by auto
qed

text \<open>
  C23. Reading the routing schemes ends whenever the totals the server claims are bounded. A list that it
  returns is the concatenation of the pages that the requests brought, each asked for at the number of
  rows before it, of which all but the last are full and leave more to come, and the last does not; if
  the server answered with the pages of one list, it is this list. A failure that it returns is that of
  the request after such pages.
\<close>

theorem routing_schemes_complete:
  assumes "\<And>i offset c page c' q.
    routing_page_call L C (E i) offset c = (Some (Inr page), c', q) \<Longrightarrow> rp_total page \<le> int T"
  shows "\<exists>r c before c1. get_routing_schemes L C E cache = Some (r, c) \<and> more_follow 0 before \<and>
    (case r of
       Some (Inr rows) \<Rightarrow>
         \<exists>page. pages_read L C E 0 0 cache (before @ [page]) c \<and> ends_after (length (rows_of before)) page
           \<and> rows = rows_of (before @ [page]) \<and> (\<forall>listed. pages_of listed 0 (before @ [page]) \<longrightarrow> rows = listed)
     | Some (Inl e) \<Rightarrow> pages_read L C E 0 0 cache before c1 \<and>
         (\<exists>q. routing_page_call L C (E (length before)) (length (rows_of before)) c1 = (Some (Inl e), c, q))
     | None \<Rightarrow> pages_read L C E 0 0 cache before c1 \<and>
         (\<exists>q. routing_page_call L C (E (length before)) (length (rows_of before)) c1 = (None, c, q)))"
proof -
  from routing_loop_returns [of L C E T 0 "[]" cache] assms obtain x where
    x: "routing_loop L C E 0 [] cache = Some x" by blast
  from routing_loop_ends [OF x] obtain pages where "loop_ends L C E 0 [] cache pages x" ..
  then show ?thesis
    unfolding loop_ends_def get_routing_schemes_def x
    by (elim exE conjE disjE) (fastforce dest: rows_of_all)+
qed

lemma demo_page_call:
  "routing_page_call demo_pages_libs (new_client ''http://obp/'' AuthNone) (demo_pages i) offset c = r
   \<Longrightarrow> \<exists>q. r = (Some (Inr \<lparr>rp_routing_schemes = replicate (if i = 0 then ROUTING_PAGE else 1) demo_scheme,
        rp_total = 501\<rparr>), c, q)"
  by (auto simp: routing_page_call_def exchange_def authorize_def new_client_def demo_pages_libs_def
      demo_pages_def demo_call_def is_success_def)

text \<open>The two pages of the demo are put together.\<close>

lemma routing_schemes_complete_witness:
  "\<exists>c. get_routing_schemes demo_pages_libs (new_client ''http://obp/'' AuthNone) demo_pages None
     = Some (Some (Inr (replicate 501 demo_scheme)), c)"
proof -
  let ?C = "new_client ''http://obp/'' AuthNone"
  let ?p = "\<lambda>i. \<lparr>rp_routing_schemes = replicate (if i = (0::nat) then ROUTING_PAGE else 1) demo_scheme, rp_total = 501\<rparr>
    :: routing_page"
  have bounded: "rp_total page \<le> int 501"
    if "routing_page_call demo_pages_libs ?C (demo_pages i) offset c = (Some (Inr page), c', q)"
    for i offset c page c' q
    using demo_page_call [OF that] by auto
  have "\<exists>r c before c1. get_routing_schemes demo_pages_libs ?C demo_pages None = Some (r, c) \<and> more_follow 0 before \<and>
    (case r of
       Some (Inr rows) \<Rightarrow>
         \<exists>page. pages_read demo_pages_libs ?C demo_pages 0 0 None (before @ [page]) c
           \<and> ends_after (length (rows_of before)) page
           \<and> rows = rows_of (before @ [page]) \<and> (\<forall>listed. pages_of listed 0 (before @ [page]) \<longrightarrow> rows = listed)
     | Some (Inl e) \<Rightarrow> pages_read demo_pages_libs ?C demo_pages 0 0 None before c1 \<and>
         (\<exists>q. routing_page_call demo_pages_libs ?C (demo_pages (length before)) (length (rows_of before)) c1 = (Some (Inl e), c, q))
     | None \<Rightarrow> pages_read demo_pages_libs ?C demo_pages 0 0 None before c1 \<and>
         (\<exists>q. routing_page_call demo_pages_libs ?C (demo_pages (length before)) (length (rows_of before)) c1 = (None, c, q)))"
    by (rule routing_schemes_complete) (erule bounded)
  then show ?thesis
  proof (elim exE conjE, goal_cases)
    case (1 r c before c1)
    have "\<exists>rows. r = Some (Inr rows)"
    proof (cases r)
      case (Some y)
      with 1(3) show ?thesis by (cases y) (auto dest: demo_page_call)
    qed (use 1(3) in \<open>auto dest: demo_page_call\<close>)
    with 1(3) obtain page where rows: "r = Some (Inr (rows_of (before @ [page])))"
      "pages_read demo_pages_libs ?C demo_pages 0 0 None (before @ [page]) c" "ends_after (length (rows_of before)) page"
      by auto
    consider "before = []" | p where "before = [p]" | p p' ps where "before = p # p' # ps"
      by (metis neq_Nil_conv)
    then show ?thesis
    proof cases
      case 1
      with rows(2,3) show ?thesis by (auto dest!: demo_page_call simp: ends_after_def ROUTING_PAGE_def)
    next
      case 2
      with rows(2) have "p = ?p 0" "page = ?p 1" by (auto dest!: demo_page_call)
      moreover have "replicate 500 demo_scheme @ [demo_scheme] = replicate 501 demo_scheme"
        using replicate_add [of 500 1 demo_scheme] by simp
      ultimately show ?thesis using 1(1) rows(1) 2 by (simp add: ROUTING_PAGE_def)
    next
      case 3
      with rows(2) have "p' = ?p 1" by (auto dest!: demo_page_call)
      with 1(2) 3 show ?thesis by (simp add: ROUTING_PAGE_def)
    qed
  qed
qed

section \<open>The message consumer\<close>

text \<open>Between two attempts to reach the broker the consumer waits one to thirty seconds, however many fail.\<close>

theorem reconnect_delay_bounded:
  assumes "cm_backoff c = BACKOFF_BASE" and "cm_sleeps c = []"
  shows "list_all (\<lambda>d. 1 \<le> d \<and> d \<le> BACKOFF_MAX) (cm_sleeps (snd (run_supervised L R ser sessions c)))"
  using assms by (intro run_supervised_sleeps) (simp_all add: BACKOFF_BASE_def BACKOFF_MAX_def)

lemma reconnect_delay_bounded_witness:
  "list_all (\<lambda>d. 1 \<le> d \<and> d \<le> BACKOFF_MAX)
     (cm_sleeps (snd (run_supervised demo_libs demo_router (\<lambda>_. Inr ''bytes'') demo_sessions demo_consumer)))"
  by (rule reconnect_delay_bounded) (simp_all add: demo_consumer_def)

text \<open>
  C24. When a handler panics the consumer's task is gone, and the status that the health endpoint shows
  stays \<open>connected\<close> for ever.
\<close>

theorem dead_consumer_shows_connected:
  assumes "run_supervised L R ser sessions c = (False, c')"
  shows "cs_state (cm_status c') = CONNECTED"
  using assms by (rule run_supervised_dead)

lemma dead_consumer_shows_connected_witness:
  "cs_state (cm_status (snd (run_supervised demo_panic_libs demo_router (\<lambda>_. Inr ''bytes'') demo_sessions demo_consumer)))
     = CONNECTED"
  by (rule dead_consumer_shows_connected, rule prod_eqI) (simp_all only: fst_conv snd_conv demo_panic)

text \<open>
  A delivery that is handled is acknowledged once and answered at most once, on the queue it names
  and under its own correlation id, in the message as in the envelope.
\<close>

theorem reply_correlates:
  assumes "consume_one L R ser E d s = (True, s')"
  shows "\<exists>reply. re_correlation_id reply = str_prop (dv_correlation_id d) \<and> sh_acked s' = sh_acked s + 1 \<and>
    sh_published s' = sh_published s @
      (case (dv_reply_to d, ser reply) of
         (Some q, Inr bytes) \<Rightarrow> [(q, str_prop (dv_correlation_id d), bytes)] | _ \<Rightarrow> [])"
proof -
  from assms obtain reply b where
    h: "handle L R E (str_prop (dv_message_id d)) (str_prop (dv_correlation_id d)) (dv_data d) (sh_bank s) = (Replied reply, b)"
    by (auto simp: consume_one_def split: prod.splits outcome.splits)
  from handle_correlation [OF h] h assms show ?thesis by (auto simp: consume_one_def)
qed

lemma reply_correlates_witness:
  "sh_acked (snd (consume_one demo_libs demo_router (\<lambda>_. Inr ''bytes'')
     (demo_env (NoResponse ''x'') ''r-1'' (Inr demo_outcome)) demo_delivery (cm_shell demo_consumer))) = 1"
proof -
  let ?c = "consume_one demo_libs demo_router (\<lambda>_. Inr ''bytes'')
     (demo_env (NoResponse ''x'') ''r-1'' (Inr demo_outcome)) demo_delivery (cm_shell demo_consumer)"
  have "fst ?c" by code_simp
  then have "?c = (True, snd ?c)" by (intro prod_eqI) (simp_all only: fst_conv snd_conv)
  from reply_correlates [OF this] show ?thesis by (simp add: demo_consumer_def)
qed

text \<open>
  The broker address that is logged never shows the user or the password: with no at sign in host
  and vhost the whole part between the scheme and the host is replaced, whatever it contains.
\<close>

theorem logs_hide_password:
  assumes "CHR ''@'' \<notin> set (rq_host cfg)" and "CHR ''@'' \<notin> set (rq_virtual_host cfg)"
  shows "redact (build_amqp_uri cfg) =
    ''amqp://***@'' @ rq_host cfg @ '':'' @ show_nat (rq_port cfg) @ ''/''
      @ replace_char CHR ''/'' ''%2f'' (rq_virtual_host cfg)"
  using assms by (rule redact_amqp_uri)

lemma logs_hide_password_witness:
  "redact (build_amqp_uri (default_rabbitmq\<lparr>rq_password := ''p@ss'', rq_virtual_host := ''/bank.ke.01''\<rparr>)) =
     ''amqp://***@localhost:5672/%2fbank.ke.01''"
  by (subst logs_hide_password) code_simp+

end
