(* ===== verification/Chain_Properties.thy ===== *)
theory Chain_Properties
  imports Examples_More
begin

text \<open>
  Properties of the Cardano side: payments and their fees, metadata, the chain follower, the key
  file, and of the amounts that come in over Interface C.
\<close>

section \<open>Payments\<close>

text \<open>
  C27. A payment that is built balances to the lovelace: inputs of the wallet equal the amount, the fee
  and the change; the fee covers the signed size plus the margin, the size is within the limit, the
  change goes back to the wallet and is never dust. (Wallets below the 64-bit limit in total.)
\<close>

theorem payment_balances:
  assumes "build_signed_payment L wallet_address secret network utxos pp to_address lovelace slot metadata = Inr sx"
    and "total utxos < 2 ^ 64 - 1"
  shows "\<exists>P. payment_built L pp utxos P sx \<and> py_lovelace P = lovelace \<and>
    tl_address L to_address = Inr (py_to P) \<and> tl_address L wallet_address = Inr (py_change_addr P) \<and>
    py_ttl P = saturating_add_word slot TTL_SLOTS_AHEAD"
proof -
  from assms(1) obtain to change aux where
    1: "tl_address L to_address = Inr to" "tl_address L wallet_address = Inr change" and
    2: "fee_loop L pp utxos \<lparr>py_to = to, py_change_addr = change, py_network_id = network_id_byte network,
         py_ttl = saturating_add_word slot TTL_SLOTS_AHEAD, py_secret = secret, py_aux = aux,
         py_lovelace = lovelace\<rparr> MAX_FEE_ITERS (min_fee pp 250) = Inr sx"
    by (auto simp: build_signed_payment_def parse_address_def split: sum.splits)
  from fee_loop_built [OF 2 assms(2)] 1 show ?thesis by (intro exI) (auto intro: conjI)
qed

definition demo_pp :: protocol_params where
  "demo_pp = \<lparr>pp_fee_coefficient_per_byte = 44, pp_fee_constant = 155381, pp_max_tx_size = 16384\<rparr>"

definition demo_utxos :: "utxo list" where
  "demo_utxos = [\<lparr>ut_tx_hash = ''aa'', ut_index = 0, ut_lovelace = 100000000\<rparr>]"

abbreviation demo_payment :: "blockchain_error + signed_tx" where
  "demo_payment \<equiv> build_signed_payment demo_tx_libs ''addr0'' ''seed'' ''preprod'' demo_utxos demo_pp ''addr1''
     1000000 5 None"

lemma payment_balances_witness:
  "\<exists>sx P. demo_payment = Inr sx \<and> payment_built demo_tx_libs demo_pp demo_utxos P sx \<and> py_lovelace P = 1000000"
proof -
  have "is_ok demo_payment" by code_simp
  then obtain sx where sx: "demo_payment = Inr sx" by (cases demo_payment) simp_all
  have "total demo_utxos < 2 ^ 64 - 1" by (simp add: demo_utxos_def)
  from payment_balances [OF sx this] sx show ?thesis by blast
qed

text \<open>
  C28. The eight rounds of the fee loop are enough: when the transactions of one payment, at fees of at
  most \<open>F\<close>, differ in size by at most six bytes and no fee for such a size exceeds \<open>F\<close>, the payment
  is never given up for a fee that does not settle.
\<close>

theorem fee_rounds_suffice:
  assumes "\<And>to change aux. tl_address L to_address = Inr to \<Longrightarrow> tl_address L wallet_address = Inr change \<Longrightarrow>
      (case metadata of None \<Rightarrow> aux = None
       | Some (label, datum) \<Rightarrow> \<exists>b. tl_aux L label datum = Inr b \<and> aux = Some b) \<Longrightarrow>
      sizes_within L utxos
        \<lparr>py_to = to, py_change_addr = change, py_network_id = network_id_byte network,
         py_ttl = saturating_add_word slot TTL_SLOTS_AHEAD, py_secret = secret, py_aux = aux,
         py_lovelace = lovelace\<rparr> F s d"
    and "total utxos < 2 ^ 64 - 1" and "d \<le> 6"
    and "unat (pp_fee_constant pp) + unat (pp_fee_coefficient_per_byte pp) * (s + d + 4) \<le> F" and "F < 2 ^ 64"
    and "s + d + 4 < 2 ^ 64" and "unat (min_fee pp 250) \<le> F"
  shows "build_signed_payment L wallet_address secret network utxos pp to_address lovelace slot metadata \<noteq>
    Inl (Internal ''fee did not converge after several iterations'')"
proof
  let ?P = "\<lambda>to change aux. \<lparr>py_to = to, py_change_addr = change, py_network_id = network_id_byte network,
       py_ttl = saturating_add_word slot TTL_SLOTS_AHEAD, py_secret = secret, py_aux = aux,
       py_lovelace = lovelace\<rparr>"
  assume "build_signed_payment L wallet_address secret network utxos pp to_address lovelace slot metadata =
    Inl (Internal ''fee did not converge after several iterations'')"
  then obtain to change aux where "tl_address L to_address = Inr to" "tl_address L wallet_address = Inr change"
    "case metadata of None \<Rightarrow> aux = None | Some (label, datum) \<Rightarrow> \<exists>b. tl_aux L label datum = Inr b \<and> aux = Some b"
    and loop: "fee_loop L pp utxos (?P to change aux) MAX_FEE_ITERS (min_fee pp 250) = no_convergence"
    by (auto simp: build_signed_payment_def parse_address_def encode_auxiliary_data_def split: sum.splits
        option.splits prod.splits)
  then have "sizes_within L utxos (?P to change aux) F s d" by (intro assms(1))
  then have "fee_loop L pp utxos (?P to change aux) MAX_FEE_ITERS (min_fee pp 250) \<noteq> no_convergence"
    by (rule fee_loop_converges [OF _ assms(2,4,5,6,7)]) (use assms(3) in \<open>simp add: MAX_FEE_ITERS_def\<close>)
  with loop show False by simp
qed

lemma fee_rounds_suffice_witness:
  "demo_payment \<noteq> Inl (Internal ''fee did not converge after several iterations'')"
proof (rule fee_rounds_suffice [where F = 1000000 and s = 200 and d = 0])
  fix to change aux
  show "sizes_within demo_tx_libs demo_utxos
      \<lparr>py_to = to, py_change_addr = change, py_network_id = network_id_byte ''preprod'',
       py_ttl = saturating_add_word 5 TTL_SLOTS_AHEAD, py_secret = ''seed'', py_aux = aux,
       py_lovelace = 1000000\<rparr> 1000000 200 0"
    by (auto simp: sizes_within_def assemble_and_sign_def demo_tx_libs_def split: sum.splits)
qed (simp_all add: demo_utxos_def demo_pp_def min_fee_def)

text \<open>
  The metadata of a record carries its text unchanged, in pieces of at most 64 bytes as the ledger
  demands, when the text is ASCII.
\<close>

theorem metadata_carries_text:
  assumes "is_ascii v"
  shows "text_record_metadatum [(k, v)] = MMap [(MText k, text_value v)] \<and>
    concat (metadatum_texts (text_value v)) = v \<and>
    list_all (\<lambda>c. length c \<le> 64) (metadatum_texts (text_value v))"
  using text_value_ascii [OF assms]
  by (auto simp: text_record_metadatum_def METADATUM_VALUE_MAX_def list_all_iff)

lemma metadata_carries_text_witness:
  "concat (metadatum_texts (text_value (replicate 100 CHR ''a''))) = replicate 100 CHR ''a''"
proof -
  have "is_ascii (replicate 100 CHR ''a'')" by code_simp
  from metadata_carries_text [OF this, of "''k''"] show ?thesis by blast
qed

section \<open>Amounts\<close>

text \<open>
  C29. An amount in decimal notation (digits, with or without a point, and any white space around it)
  is read as the number of minor units in it, rounded down: the number that its digits write without
  the point, times ten to the number of decimals, over ten to the length of the fraction. An amount
  that is too large for 128 bits is an error; nothing wraps.
\<close>

theorem minor_units_of_decimal:
  assumes "decimal_text (trim s) w f" and "digits_val 0 (w @ f) = Some n" and "d \<le> 38"
  shows "\<exists>e. parse_minor_units s d =
    Some (if n * 10 ^ d div 10 ^ length f < 2 ^ 128 then Inr (n * 10 ^ d div 10 ^ length f) else Inl e)"
  using assms by (rule parse_minor_units_decimal)

lemma minor_units_of_decimal_witness:
  "parse_minor_units ''10.5'' 2 = Some (Inr 1050) \<and> parse_minor_units ''12.599'' 2 = Some (Inr 1259) \<and>
   parse_minor_units ''25000'' 2 = Some (Inr 2500000)"
proof -
  have "decimal_text (trim ''10.5'') ''10'' ''5''" "digits_val 0 (''10'' @ ''5'') = Some 105"
    "decimal_text (trim ''12.599'') ''12'' ''599''" "digits_val 0 (''12'' @ ''599'') = Some 12599"
    "decimal_text (trim ''25000'') ''25000'' []" "digits_val 0 (''25000'' @ []) = Some 25000"
    by code_simp+
  from minor_units_of_decimal [OF this(1,2), of 2] minor_units_of_decimal [OF this(3,4), of 2]
    minor_units_of_decimal [OF this(5,6), of 2]
  show ?thesis by simp
qed

text \<open>
  C30. Reading an amount panics exactly when its fraction is longer than the decimals and the cut falls
  inside a character; a consumer that reads it is gone then. (The handler's documentation says it
  never panics.)
\<close>

theorem amount_panics_iff:
  "parse_minor_units s d = None \<longleftrightarrow>
   (\<exists>i f. split_once (CHR ''.'') (trim s) = Some (i, f) \<and> (i = [] \<or> parse_unsigned 128 i \<noteq> None) \<and>
      d < length f \<and> \<not> is_char_boundary f d)"
  by (rule parse_minor_units_panics_iff)

lemma amount_panics_iff_witness: "parse_minor_units euro_amount 2 = None"
proof -
  let ?f = "[byte 0xE2, byte 0x82, byte 0xAC]"
  have "split_once (CHR ''.'') (trim euro_amount) = Some (''1'', ?f)" "parse_unsigned 128 ''1'' \<noteq> None"
    "2 < length ?f" "\<not> is_char_boundary ?f 2" by code_simp+
  then show ?thesis using amount_panics_iff [of euro_amount 2] by blast
qed

section \<open>The chain follower\<close>

text \<open>
  C31. The follower refines the chain it observes: after any interleaving of blocks, rollbacks and
  registrations, the status of a watched transaction is pending when it is in no block of the chain
  (as rolled back), and else confirmed at the depth of its block under the last tip.
\<close>

theorem follower_status_refines_chain:
  assumes "(sync lc)\<^sup>*\<^sup>* ([], follower_start) (chain, s)" and "fo_watched s (lc txid) \<noteq> None"
  shows "follower_status lc s txid = Some (case block_of lc chain (lc txid) of
    None \<Rightarrow> ConfPending | Some b \<Rightarrow> Confirmed (depth_of (fo_tip s) (bl_height b)))"
  using status_of_chain [OF syncs_follow [OF assms(1)], of txid] assms(2) by simp

lemma follower_status_refines_chain_witness:
  "follower_status to_ascii_lowercase demo_synced ''tx-1'' =
     Some (case block_of to_ascii_lowercase demo_blocks (to_ascii_lowercase ''tx-1'') of
       None \<Rightarrow> ConfPending | Some b \<Rightarrow> Confirmed (depth_of (fo_tip demo_synced) (bl_height b))) \<and>
   follower_status to_ascii_lowercase demo_synced ''tx-1'' = Some (Confirmed 3)"
proof
  have "fo_watched demo_synced (to_ascii_lowercase ''tx-1'') \<noteq> None" by code_simp
  then show "follower_status to_ascii_lowercase demo_synced ''tx-1'' =
     Some (case block_of to_ascii_lowercase demo_blocks (to_ascii_lowercase ''tx-1'') of
       None \<Rightarrow> ConfPending | Some b \<Rightarrow> Confirmed (depth_of (fo_tip demo_synced) (bl_height b)))"
    by (rule follower_status_refines_chain [OF demo_synced_reached])
  show "follower_status to_ascii_lowercase demo_synced ''tx-1'' = Some (Confirmed 3)" by code_simp
qed

text \<open>
  C32. A follower whose remembered points the server does not know never recovers: every further
  session offers the same points, is refused and leaves the state, so its depths stay where they
  are. (The comment on \<open>RECENT_POINTS_CAP\<close> says that it re-intersects at the tip.)
\<close>

theorem follower_stuck:
  assumes "fo_recent s \<noteq> []" and "list_all (refuses_points L s) sessions"
  shows "follow_sessions L lc sessions s = s"
  using assms by (rule follow_sessions_stuck)

lemma follower_stuck_witness:
  "follow_sessions (cl_ogmios demo_cardano_libs) to_ascii_lowercase
     (replicate 3 \<lparr>se_connect = None, se_tip = demo_socket ''tip'', se_intersect = demo_socket ''refused'',
        se_blocks = []\<rparr>) demo_synced = demo_synced"
proof (rule follower_stuck)
  show "fo_recent demo_synced \<noteq> []" by code_simp
  have "fst (session_request (cl_ogmios demo_cardano_libs) (demo_socket ''refused'') ''findIntersection'' req w) =
      Inl (OgRpc 3125 ''refused'')" for req w
    by (simp add: session_request_def demo_cardano_libs_def demo_socket_def parse_response_def demo_envelope_def)
  then have "refuses_points (cl_ogmios demo_cardano_libs) demo_synced \<lparr>se_connect = None, se_tip = demo_socket ''tip'',
      se_intersect = demo_socket ''refused'', se_blocks = []\<rparr>"
    by (simp add: refuses_points_def)
  then show "list_all (refuses_points (cl_ogmios demo_cardano_libs) demo_synced)
      (replicate 3 \<lparr>se_connect = None, se_tip = demo_socket ''tip'', se_intersect = demo_socket ''refused'',
        se_blocks = []\<rparr>)"
    by (simp add: list_all_iff)
qed

section \<open>The key file\<close>

text \<open>
  C33. A key file holds what was put into it: for an envelope that names a signing key and carries the
  CBOR byte string of a 32-byte seed, the wallet loads with that seed, its verification key and the
  enterprise address of the network.
\<close>

theorem key_file_roundtrip:
  assumes "wl_envelope L contents = Inr env" and "find_at ''Signing'' (ke_key_type env) \<noteq> None"
    and "wl_hex L (ke_cbor_hex env) = Inr (cbor_byte_string seed)" and "length seed = 32"
    and "network \<in> {''mainnet'', ''preprod'', ''preview''}"
    and "wl_bech32 L (if network = ''mainnet'' then Mainnet else Testnet) (wl_verifying_key L seed) = Inr address"
  shows "wallet_load L path (Inr contents) network = Inr
    \<lparr>wa_address = address, wa_signing_key = seed, wa_verifying_key = wl_verifying_key L seed\<rparr>"
proof -
  have "decode_cbor_byte_string L (ke_cbor_hex env) = Inr seed"
    by (rule decode_cbor_roundtrip [where rest = "[]"]) (use assms(3,4) in simp_all)
  then have "load_key_envelope_payload L path (Inr contents) (Some ''Signing'') = Inr seed"
    using assms(1,2) by (simp add: load_key_envelope_payload_def filter_opt_def)
  moreover have "enterprise_address L (wl_verifying_key L seed) network = Inr address"
    using assms(5,6) by (auto simp: enterprise_address_def Let_def)
  ultimately show ?thesis using assms(4) by (simp add: wallet_load_def)
qed

definition demo_wallet_libs :: wallet_libs where
  "demo_wallet_libs =
     \<lparr>wl_envelope = (\<lambda>s. Inr \<lparr>ke_key_type = ''PaymentSigningKeyShelley_ed25519'', ke_cbor_hex = s\<rparr>),
      wl_hex = (\<lambda>s. Inr (cbor_byte_string (replicate 32 CHR ''k''))), wl_verifying_key = rev,
      wl_bech32 = (\<lambda>net vk. Inr ''addr_test1'')\<rparr>"

lemma key_file_roundtrip_witness:
  "wallet_load demo_wallet_libs ''key.skey'' (Inr ''5820'') ''preprod'' = Inr
     \<lparr>wa_address = ''addr_test1'', wa_signing_key = replicate 32 CHR ''k'',
      wa_verifying_key = wl_verifying_key demo_wallet_libs (replicate 32 CHR ''k'')\<rparr>"
proof (rule key_file_roundtrip)
  show "wl_envelope demo_wallet_libs ''5820'' = Inr \<lparr>ke_key_type = ''PaymentSigningKeyShelley_ed25519'', ke_cbor_hex = ''5820''\<rparr>"
    by (simp add: demo_wallet_libs_def)
  show "find_at ''Signing'' (ke_key_type \<lparr>ke_key_type = ''PaymentSigningKeyShelley_ed25519'', ke_cbor_hex = ''5820''\<rparr>) \<noteq> None"
    by code_simp
qed (simp_all add: demo_wallet_libs_def)

end
