(* ===== verification/Fx_Properties.thy ===== *)
theory Fx_Properties
  imports Examples_More
begin

text \<open>
  Properties of the settle-time price: what a failed quote means for the settlement, which sources a
  quote comes from, and how close the integer rate is to their readings.
\<close>

text \<open>
  C34. A quote that fails, whatever the sources answer, leaves the chain alone: the failure is a
  rejection, the rail submits nothing and its answer is a rejection too, so the row may be retried.
\<close>

theorem failed_quote_submits_nothing:
  assumes "fx_source_quote FL source Q asset currency = Some (Inl e)" and "sn_quote run = Inl e"
  shows "is_rejected e \<and> (\<exists>reason. ada_settle L C run i s = (Inl (Rejected reason), s))"
proof -
  have e: "is_rejected e"
    using assms(1) by (auto simp: fx_source_quote_def stub_quote_def dest: coingecko_quote_rejects cross_quote_rejects
        split: fx_source.splits)
  then obtain reason where "e = Rejected reason" by (cases e) simp_all
  with e assms(2) show ?thesis by (simp add: ada_settle_def)
qed

definition demo_fx_libs :: fx_libs where
  "demo_fx_libs =
     \<lparr>fl_json = (\<lambda>s. if s = ''gecko'' then Inr (JObj [(''cardano'', JObj [(''usd'', JFloat ''0.62'')])])
                   else if s = ''er'' then Inr (JObj [(''rates'', JObj [(''KES'', JInt 129)])])
                   else Inl ''bad''),
      fl_float = (\<lambda>s. f64_of_text (Finite False 62 (- 2))), fl_status_error = (\<lambda>u n. ''status''),
      fl_show_status = show_nat, fl_show_json = (\<lambda>v. []), fl_show_f64 = (\<lambda>x. []),
      fl_powi10 = (\<lambda>n. f64_of_text (Finite False 1 n))\<rparr>"

definition demo_leg :: "http_answer \<Rightarrow> leg_env" where
  "demo_leg answer = \<lparr>le_http = (\<lambda>req. answer), le_timestamp = 1754900000\<rparr>"

text \<open>Pyth is down; CoinGecko and er-api answer.\<close>

definition demo_quote_env :: quote_env where
  "demo_quote_env =
     \<lparr>qe_crypto = (\<lambda>i. demo_leg (if i = 0 then NoResponse ''down'' else Response 200 ''gecko'')),
      qe_fiat = (\<lambda>i. demo_leg (if i = 0 then NoResponse ''down'' else Response 200 ''er'')), qe_now = ''t''\<rparr>"

definition demo_down_env :: quote_env where
  "demo_down_env = \<lparr>qe_crypto = (\<lambda>i. demo_leg (NoResponse ''down'')), qe_fiat = (\<lambda>i. demo_leg (NoResponse ''down'')),
     qe_now = ''t''\<rparr>"

definition demo_cross :: cross_rate where
  "demo_cross = \<lparr>cr_crypto = [LegPyth ''https://hermes'', LegCoinGecko ''https://gecko''],
     cr_fiat = [LegFiatPyth ''https://hermes'', LegErApi ''https://er''], cr_max_stale_secs = 259200\<rparr>"

lemma failed_quote_submits_nothing_witness:
  "\<exists>e reason. fx_source_quote demo_fx_libs (SourceCross demo_cross) demo_down_env ''ADA'' ''KES'' = Some (Inl e) \<and>
     ada_settle demo_cardano_libs demo_cardano (demo_settle_run\<lparr>sn_quote := Inl e\<rparr>) demo_rail_instruction
       demo_chain_start = (Inl (Rejected reason), demo_chain_start)"
proof -
  have "case fx_source_quote demo_fx_libs (SourceCross demo_cross) demo_down_env ''ADA'' ''KES'' of
      Some (Inl e) \<Rightarrow> True | _ \<Rightarrow> False" by code_simp
  then obtain e where e: "fx_source_quote demo_fx_libs (SourceCross demo_cross) demo_down_env ''ADA'' ''KES'' = Some (Inl e)"
    by (auto split: option.splits sum.splits)
  from failed_quote_submits_nothing [OF e, of "demo_settle_run\<lparr>sn_quote := Inl e\<rparr>" demo_cardano_libs demo_cardano
      demo_rail_instruction demo_chain_start] e show ?thesis by auto
qed

text \<open>
  C35. A cross rate comes, on each leg, from the first source of the configured order that answers (all
  before it failed), and its recorded origin names exactly these two.
\<close>

theorem quote_names_first_answering_sources:
  assumes "cross_quote L X E asset currency = Some (Inr q)"
  shows "\<exists>i j usd fiat.
    answers_at (\<lambda>i leg. crypto_leg_usd L (cr_max_stale_secs X) (qe_crypto E i) leg asset) (cr_crypto X) i usd \<and>
    answers_at (\<lambda>j leg. fiat_leg_rate L (cr_max_stale_secs X) (qe_fiat E j) leg currency) (cr_fiat X) j fiat \<and>
    fx_quote_source q = crypto_label (cr_crypto X ! i) @ times_sign @ fiat_label (cr_fiat X ! j) \<and>
    price_to_minor L (f64_mul usd fiat) 2 = Inr (fx_minor_per_whole q)"
  using assms by (rule cross_quote_from) blast

lemma demo_quote:
  "\<exists>q. cross_quote demo_fx_libs demo_cross demo_quote_env ''ADA'' ''KES'' = Some (Inr q) \<and>
     fx_minor_per_whole q = 7998 \<and> fx_quote_source q = ''coingecko'' @ times_sign @ ''er-api''"
proof -
  have usd: "usd_per_asset demo_fx_libs demo_cross (qe_crypto demo_quote_env) ''ADA'' =
      Some (Inr (f64_of_text (Finite False 62 (- 2)), ''coingecko''))"
    by (simp add: usd_per_asset_def demo_cross_def crypto_leg_usd_def demo_quote_env_def demo_leg_def demo_fx_libs_def
        pyth_price_def fetch_json_def Let_def coin_id_def to_ascii_uppercase_def to_ascii_upper_def byte_val_def
        eq_ignore_ascii_case_def to_ascii_lowercase_def to_ascii_lower_def jget_opt_def)
  have fiat: "usd_to_fiat demo_fx_libs demo_cross (qe_fiat demo_quote_env) ''KES'' =
      Some (Inr (f64_of_int 129, ''er-api''))"
  proof -
    have "to_ascii_uppercase ''KES'' = ''KES''" "f64_is_finite (f64_of_int 129)" "f64_gt_zero (f64_of_int 129)"
      by code_simp+
    then show ?thesis
      by (simp add: usd_to_fiat_def demo_cross_def fiat_leg_rate_def demo_quote_env_def demo_leg_def demo_fx_libs_def
          pyth_price_def fetch_json_def Let_def jget_opt_def filter_opt_def split: option.split)
  qed
  have "f64_mul (f64_of_text (Finite False 62 (- 2))) (f64_of_int 129) = FFin False 5628092159329567 (- 46)"
    by (simp add: f64_eval)
  moreover have "price_to_minor demo_fx_libs (FFin False 5628092159329567 (- 46)) 2 = Inr 7998"
  proof -
    have hundred: "fl_powi10 demo_fx_libs 2 = FFin False (100 * 2 ^ 46) (- 46)"
    proof -
      have "fl_powi10 demo_fx_libs 2 = f64_of_nat 100" by (simp add: demo_fx_libs_def f64_of_nat_def)
      then show ?thesis by (simp add: f64_eval)
    qed
    have lim: "f64_of_nat (10 ^ 30) = FFin False 7105427357601002 47" by (simp add: f64_eval)
    have mul: "f64_mul (FFin False 5628092159329567 (- 46)) (FFin False (100 * 2 ^ 46) (- 46)) =
        FFin False 8793893998952448 (- 40)" by (simp add: f64_eval)
    show ?thesis unfolding price_to_minor_def hundred lim mul Let_def by simp
  qed
  ultimately have "price_to_minor demo_fx_libs (f64_mul (f64_of_text (Finite False 62 (- 2))) (f64_of_int 129)) 2 = Inr 7998"
    by simp
  with usd fiat show ?thesis by (simp add: cross_quote_def)
qed

lemma quote_names_first_answering_sources_witness:
  "\<exists>q i j usd fiat. cross_quote demo_fx_libs demo_cross demo_quote_env ''ADA'' ''KES'' = Some (Inr q) \<and>
     fx_quote_source q = ''coingecko'' @ times_sign @ ''er-api'' \<and>
     fx_quote_source q = crypto_label (cr_crypto demo_cross ! i) @ times_sign @ fiat_label (cr_fiat demo_cross ! j) \<and>
     price_to_minor demo_fx_libs (f64_mul usd fiat) 2 = Inr (fx_minor_per_whole q)"
proof -
  from demo_quote obtain q where q: "cross_quote demo_fx_libs demo_cross demo_quote_env ''ADA'' ''KES'' = Some (Inr q)"
    "fx_quote_source q = ''coingecko'' @ times_sign @ ''er-api''" by blast
  from quote_names_first_answering_sources [OF q(1)] q show ?thesis by blast
qed

text \<open>
  C36. The integer rate is exact up to rounding: it is the product of the two readings in minor units,
  off by at most half a unit and the error of two double-precision products, and never zero.
  (\<open>powi\<close>, whose precision the standard library leaves open, is taken to square ten exactly.)
\<close>

theorem quote_is_the_product:
  assumes "cross_quote L X E asset currency = Some (Inr q)" and "fl_powi10 L 2 = f64_of_nat 100"
  shows "\<exists>i j usd fiat.
    answers_at (\<lambda>i leg. crypto_leg_usd L (cr_max_stale_secs X) (qe_crypto E i) leg asset) (cr_crypto X) i usd \<and>
    answers_at (\<lambda>j leg. fiat_leg_rate L (cr_max_stale_secs X) (qe_fiat E j) leg currency) (cr_fiat X) j fiat \<and>
    0 < fx_minor_per_whole q \<and>
    \<bar>real (fx_minor_per_whole q) - 100 * (f64_val usd * f64_val fiat)\<bar>
      \<le> 1 / 2 + 100 * (f64_val usd * f64_val fiat) / 2 ^ 51"
proof -
  from assms(1) obtain usd fiat i j where
    1: "answers_at (\<lambda>i leg. crypto_leg_usd L (cr_max_stale_secs X) (qe_crypto E i) leg asset) (cr_crypto X) i usd"
      "answers_at (\<lambda>j leg. fiat_leg_rate L (cr_max_stale_secs X) (qe_fiat E j) leg currency) (cr_fiat X) j fiat"
    and 2: "price_to_minor L (f64_mul usd fiat) 2 = Inr (fx_minor_per_whole q)"
    by (rule cross_quote_from)
  from 1(2) have "fiat_leg_rate L (cr_max_stale_secs X) (qe_fiat E j) (cr_fiat X ! j) currency = Some (Inr fiat)"
    by (simp add: answers_at_def)
  then have "f64_is_finite fiat" "f64_gt_zero fiat" using fiat_leg_rate_positive by blast+
  from product_to_minor_close [OF 2 assms(2) this] 1 show ?thesis by blast
qed

lemma quote_is_the_product_witness:
  "\<exists>usd fiat. \<bar>7998 - 100 * (f64_val usd * f64_val fiat)\<bar> \<le> 1 / 2 + 100 * (f64_val usd * f64_val fiat) / 2 ^ 51"
proof -
  from demo_quote obtain q where q: "cross_quote demo_fx_libs demo_cross demo_quote_env ''ADA'' ''KES'' = Some (Inr q)"
    "fx_minor_per_whole q = 7998" by blast
  have "fl_powi10 demo_fx_libs 2 = f64_of_nat 100" by (simp add: demo_fx_libs_def f64_of_nat_def)
  from quote_is_the_product [OF q(1) this] q(2) show ?thesis by auto
qed

end
