(* ===== verification/App_Base.thy ===== *)
theory App_Base
  imports Obp_Client Amount
begin

text \<open>
  What the parts of the operator's web app share (\<open>crates/obp-bank-node-app\<close>): its configuration
  (\<open>main.rs\<close>), its HTTP answers and Rust's \<open>str::split\<close>. The configuration loader is third-party.
\<close>

section \<open>Configuration\<close>

record app_obp_config =
  ao_base_url :: string
  ao_oauth_provider :: string
  ao_oauth_client_id :: string
  ao_oauth_client_secret :: string
  ao_callback_url :: string
  ao_discovery_url :: "string option"

definition default_oauth_provider :: string where
  "default_oauth_provider = ''obp-oidc''"

record setup_routing =
  ur_scheme :: string
  ur_address :: string

record setup_account =
  ua_id :: string
  ua_label :: string
  ua_currency :: string
  ua_owner_username :: "string option"
  ua_routings :: "setup_routing list"

text \<open>The two rates are doubles in the source and JSON numbers wherever they are used.\<close>

record setup_fx_rate =
  uf_from_currency :: string
  uf_to_currency :: string
  uf_rate :: json
  uf_inverse_rate :: json

record setup_role_grant =
  ug_username :: string
  ug_role :: string

record setup_bank =
  ub_id :: string
  ub_full_name :: "string option"
  ub_accounts :: "setup_account list"
  ub_fx :: "setup_fx_rate list"
  ub_broker :: "json option"
  ub_role_grants :: "setup_role_grant list"

record setup_config =
  us_routing_schemes :: "json list"
  us_bank :: "setup_bank option"

definition default_setup :: setup_config where
  "default_setup = \<lparr>us_routing_schemes = [], us_bank = None\<rparr>"

record app_node =
  nd_name :: string
  nd_base_url :: string
  nd_bearer_token :: "string option"

record app_config =
  ac_bind :: string
  ac_nodes :: "app_node list"
  ac_ui_defaults :: "(string \<times> string) list"
  ac_obp_api :: "app_obp_config option"
  ac_setup :: setup_config

text \<open>The form prefill is a map: a list of entries in no particular order.\<close>

definition default_app_config :: app_config where
  "default_app_config =
     \<lparr>ac_bind = ''0.0.0.0:8090'',
      ac_nodes = [\<lparr>nd_name = ''node-a'', nd_base_url = ''http://localhost:8088'', nd_bearer_token = None\<rparr>,
                  \<lparr>nd_name = ''node-b'', nd_base_url = ''http://localhost:8089'', nd_bearer_token = None\<rparr>],
      ac_ui_defaults = [], ac_obp_api = None, ac_setup = default_setup\<rparr>"

section \<open>Answers\<close>

text \<open>A page or asset is the name of the file that the source includes.\<close>

datatype app_content =
    AppPage string
  | AppAsset string string
  | AppJson json
  | AppMap "(string \<times> string) list"
  | AppBytes string
  | AppEmpty

record app_response =
  an_status :: nat
  an_content :: app_content
  an_location :: "string option"
  an_cookie :: "string option"

definition app_answer :: "nat \<Rightarrow> app_content \<Rightarrow> app_response" where
  "app_answer status content =
     \<lparr>an_status = status, an_content = content, an_location = None, an_cookie = None\<rparr>"

text \<open>The function \<open>error\<close> that \<open>proxy.rs\<close> and \<open>setup.rs\<close> both have.\<close>

definition app_error :: "nat \<Rightarrow> string \<Rightarrow> string \<Rightarrow> app_response" where
  "app_error status code message =
     app_answer status (AppJson (JObj [(''error_code'', JStr code), (''message'', JStr message)]))"

section \<open>Splitting\<close>

primrec split_char :: "char \<Rightarrow> string \<Rightarrow> string list" where
  "split_char c [] = [[]]"
| "split_char c (x # xs) =
     (if x = c then [] # split_char c xs
      else (x # hd (split_char c xs)) # tl (split_char c xs))"

lemma split_char_nonempty [simp]: "split_char c s \<noteq> []"
  by (induction s) simp_all

lemma split_char_free: "p \<in> set (split_char c s) \<Longrightarrow> c \<notin> set p"
proof (induction s arbitrary: p)
  case Nil
  then show ?case by simp
next
  case (Cons x xs)
  have "hd (split_char c xs) \<in> set (split_char c xs)" by simp
  moreover have "q \<in> set (tl (split_char c xs)) \<Longrightarrow> q \<in> set (split_char c xs)" for q
    by (meson list.set_sel(2) split_char_nonempty)
  ultimately show ?case using Cons by (auto split: if_splits)
qed

lemma split_char_unsplit: "c \<notin> set s \<Longrightarrow> split_char c s = [s]"
  by (induction s) auto

lemma split_char_append: "c \<notin> set a \<Longrightarrow> split_char c (a @ c # b) = a # split_char c b"
  by (induction a) auto

lemma split_once_append: "c \<notin> set a \<Longrightarrow> split_once c (a @ c # b) = Some (a, b)"
  by (induction a) (auto simp: split_once_def)

lemma split_once_Some: "split_once c s = Some (a, b) \<longleftrightarrow> s = a @ c # b \<and> c \<notin> set a"
proof
  assume *: "split_once c s = Some (a, b)"
  then have a: "a = takeWhile (\<lambda>x. x \<noteq> c) s" and b: "b = tl (dropWhile (\<lambda>x. x \<noteq> c) s)" and c: "c \<in> set s"
    by (auto simp: split_once_def split: if_splits)
  from c have "dropWhile (\<lambda>x. x \<noteq> c) s \<noteq> [] \<and> hd (dropWhile (\<lambda>x. x \<noteq> c) s) = c"
    by (metis (mono_tags, lifting) dropWhile_eq_Nil_conv hd_dropWhile)
  then have "dropWhile (\<lambda>x. x \<noteq> c) s = c # b" using b by (metis list.collapse)
  then show "s = a @ c # b \<and> c \<notin> set a" using a
    by (metis (mono_tags, lifting) set_takeWhileD takeWhile_dropWhile_id)
qed (auto simp: split_once_append)

end
