(* ===== verification/App_Proxy.thy ===== *)
theory App_Proxy
  imports App_Base
begin

text \<open>
  The app's own HTTP surface (\<open>proxy.rs\<close>): static pages, the list of nodes and the proxy to the
  Bank Nodes behind its whitelist. The node's answer is the environment: a function from the
  request that goes out.
\<close>

definition NODE_API_PREFIX :: string where "NODE_API_PREFIX = ''/obp-bank-node/v5.1.0''"

record app_state =
  ax_nodes :: "string \<rightharpoonup> app_node"
  ax_node_order :: "string list"
  ax_ui_defaults :: "(string \<times> string) list"

text \<open>The map keeps one node per name, so it is smaller than the list when a name comes twice.\<close>

definition new_app_state :: "app_node list \<Rightarrow> (string \<times> string) list \<Rightarrow> string + app_state" where
  "new_app_state nodes ui_defaults =
     (let node_order = map nd_name nodes
      in if length (remdups node_order) \<noteq> length node_order then Inl ''node names must be unique''
         else Inr \<lparr>ax_nodes = map_of (rev (map (\<lambda>n. (nd_name n, n)) nodes)),
                   ax_node_order = node_order, ax_ui_defaults = ui_defaults\<rparr>)"

datatype app_handler =
    ServePage string
  | ServeAsset string string
  | ListNodes
  | UiDefaults
  | ProxyGet
  | ProxyPost

definition app_routes :: "(string \<times> string \<times> app_handler) list" where
  "app_routes =
     [(''GET'', ''/'', ServePage ''static/index.html''),
      (''GET'', ''/promises'', ServePage ''static/promises.html''),
      (''GET'', ''/credits'', ServePage ''static/credits.html''),
      (''GET'', ''/settlements'', ServePage ''static/settlements.html''),
      (''GET'', ''/app.js'', ServeAsset ''application/javascript'' ''static/app.js''),
      (''GET'', ''/style.css'', ServeAsset ''text/css'' ''static/style.css''),
      (''GET'', ''/api/nodes'', ListNodes),
      (''GET'', ''/api/ui-defaults'', UiDefaults),
      (''GET'', ''/api/nodes/:node/*path'', ProxyGet),
      (''POST'', ''/api/nodes/:node/*path'', ProxyPost)]"

definition list_nodes :: "app_state \<Rightarrow> app_response" where
  "list_nodes S =
     app_answer 200 (AppJson (JArr (map (\<lambda>name. JObj [(''name'', JStr name)]) (ax_node_order S))))"

definition serve_ui_defaults :: "app_state \<Rightarrow> app_response" where
  "serve_ui_defaults S = app_answer 200 (AppMap (ax_ui_defaults S))"

section \<open>The whitelist\<close>

definition path_segments :: "string \<Rightarrow> string list" where
  "path_segments path = filter (\<lambda>s. s \<noteq> []) (split_char CHR ''/'' path)"

definition allowed :: "string \<Rightarrow> string \<Rightarrow> bool" where
  "allowed meth path =
     (if meth = ''GET''
      then (case path_segments path of
          [a] \<Rightarrow> a = ''health'' \<or> a = ''transaction-requests'' \<or> a = ''settlements'' \<or> a = ''evidence''
        | [a, _] \<Rightarrow> a = ''transaction-requests'' \<or> a = ''settlements'' \<or> a = ''evidence''
        | [a, _, c] \<Rightarrow> a = ''settlements'' \<and> c = ''corridor''
        | _ \<Rightarrow> False)
      else if meth = ''POST''
      then (case path_segments path of
          [a] \<Rightarrow> a = ''transaction-requests'' \<or> a = ''settlements''
        | _ \<Rightarrow> False)
      else False)"

section \<open>The proxy\<close>

record proxied =
  px_method :: string
  px_url :: string
  px_bearer :: "string option"
  px_body :: "string option"

definition upstream_error :: "string \<Rightarrow> string \<Rightarrow> app_response" where
  "upstream_error node e =
     app_error 502 ''OBP-BANK-NODE-APP-UPSTREAM-001'' (''node '' @ node @ '' unreachable: '' @ e)"

definition proxy ::
  "app_state \<Rightarrow> (proxied \<Rightarrow> http_answer) \<Rightarrow> string \<Rightarrow> string \<Rightarrow> string \<Rightarrow> string option
   \<Rightarrow> app_response \<times> proxied option" where
  "proxy S answer node path meth body =
     (case ax_nodes S node of
        None \<Rightarrow> (app_error 404 ''OBP-BANK-NODE-APP-UNKNOWN-NODE'' (''no configured node named '' @ node), None)
      | Some target \<Rightarrow>
          if \<not> allowed meth path
          then (app_error 404 ''OBP-BANK-NODE-APP-PATH-NOT-ALLOWED''
                  (meth @ '' '' @ path @ '' is not a proxied Bank Node endpoint''), None)
          else
            let req = \<lparr>px_method = meth,
                       px_url = trim_end_slashes (nd_base_url target) @ NODE_API_PREFIX @ ''/'' @ path,
                       px_bearer = nd_bearer_token target, px_body = body\<rparr>
            in ((case answer req of
                   NoResponse e \<Rightarrow> upstream_error node e
                 | BrokenBody _ e \<Rightarrow> upstream_error node e
                 | Response status bytes \<Rightarrow> app_answer status (AppBytes bytes)),
                Some req))"

definition proxy_get :: "app_state \<Rightarrow> (proxied \<Rightarrow> http_answer) \<Rightarrow> string \<Rightarrow> string \<Rightarrow> app_response \<times> proxied option" where
  "proxy_get S answer node path = proxy S answer node path ''GET'' None"

definition proxy_post ::
  "app_state \<Rightarrow> (proxied \<Rightarrow> http_answer) \<Rightarrow> string \<Rightarrow> string \<Rightarrow> string \<Rightarrow> app_response \<times> proxied option" where
  "proxy_post S answer node path body = proxy S answer node path ''POST'' (Some body)"

section \<open>The whitelist as a table\<close>

datatype seg_pattern = Fixed string | Any

fun seg_matches :: "seg_pattern \<Rightarrow> string \<Rightarrow> bool" where
  "seg_matches (Fixed s) x \<longleftrightarrow> x = s"
| "seg_matches Any x \<longleftrightarrow> True"

text \<open>The endpoints of the Bank Node that the pages use.\<close>

definition whitelist :: "(string \<times> seg_pattern list) list" where
  "whitelist =
     [(''GET'', [Fixed ''health'']),
      (''GET'', [Fixed ''transaction-requests'']), (''GET'', [Fixed ''transaction-requests'', Any]),
      (''GET'', [Fixed ''settlements'']), (''GET'', [Fixed ''settlements'', Any]),
      (''GET'', [Fixed ''settlements'', Any, Fixed ''corridor'']),
      (''GET'', [Fixed ''evidence'']), (''GET'', [Fixed ''evidence'', Any]),
      (''POST'', [Fixed ''transaction-requests'']), (''POST'', [Fixed ''settlements''])]"

lemma allowed_iff_listed:
  "allowed meth path \<longleftrightarrow> (\<exists>(m, ps) \<in> set whitelist. m = meth \<and> list_all2 seg_matches ps (path_segments path))"
proof -
  consider "path_segments path = []" | a where "path_segments path = [a]"
    | a b where "path_segments path = [a, b]" | a b c where "path_segments path = [a, b, c]"
    | a b c d x where "path_segments path = a # b # c # d # x"
    by (metis neq_Nil_conv)
  then show ?thesis
    by cases (auto simp: allowed_def whitelist_def)
qed

lemma new_app_state_nodes:
  assumes "new_app_state nodes ui = Inr S"
  shows "ax_nodes S name = Some n \<longleftrightarrow> n \<in> set nodes \<and> nd_name n = name"
proof -
  have d: "distinct (map nd_name nodes)" and S: "ax_nodes S = map_of (rev (map (\<lambda>n. (nd_name n, n)) nodes))"
    using assms by (auto simp: new_app_state_def Let_def length_remdups_eq split: if_splits)
  have "distinct (map fst (rev (map (\<lambda>n. (nd_name n, n)) nodes)))"
    using d by (simp add: rev_map [symmetric] comp_def)
  then show ?thesis by (auto simp: S)
qed

end
