(* ===== verification/Node_Routes.thy ===== *)
theory Node_Routes
  imports Rest App_Proxy
begin

text \<open>
  The routes of the Bank Node (\<open>build_router\<close> in \<open>rest/mod.rs\<close>) and the whitelist of the app beside
  them: what the app forwards is what the node serves, and the other way round.
\<close>

datatype rest_handler =
    InitiatePayment
  | ListTransactionRequests
  | GetTransactionRequest
  | RequestSettlement
  | ListSettlements
  | GetSettlement
  | GetCorridorSettlement
  | ListEvidence
  | GetEvidence
  | RootHealth

definition node_routes :: "(string \<times> string \<times> rest_handler) list" where
  "node_routes =
     [(''POST'', ''/obp-bank-node/v5.1.0/transaction-requests'', InitiatePayment),
      (''GET'', ''/obp-bank-node/v5.1.0/transaction-requests'', ListTransactionRequests),
      (''GET'', ''/obp-bank-node/v5.1.0/transaction-requests/:transaction_request_id'', GetTransactionRequest),
      (''POST'', ''/obp-bank-node/v5.1.0/settlements'', RequestSettlement),
      (''GET'', ''/obp-bank-node/v5.1.0/settlements'', ListSettlements),
      (''GET'', ''/obp-bank-node/v5.1.0/settlements/:key'', GetSettlement),
      (''GET'', ''/obp-bank-node/v5.1.0/settlements/:key/corridor'', GetCorridorSettlement),
      (''GET'', ''/obp-bank-node/v5.1.0/evidence'', ListEvidence),
      (''GET'', ''/obp-bank-node/v5.1.0/evidence/:transaction_request_id'', GetEvidence),
      (''GET'', ''/obp-bank-node/v5.1.0/health'', RootHealth),
      (''GET'', ''/health'', RootHealth)]"

text \<open>A segment \<open>:name\<close> of a route takes any segment that is not empty; there is no slack for empty ones.\<close>

definition route_pattern :: "string \<Rightarrow> seg_pattern list" where
  "route_pattern route =
     map (\<lambda>s. if starts_with '':'' s then Any else Fixed s) (split_char CHR ''/'' route)"

fun route_seg :: "seg_pattern \<Rightarrow> string \<Rightarrow> bool" where
  "route_seg (Fixed s) x \<longleftrightarrow> x = s"
| "route_seg Any x \<longleftrightarrow> x \<noteq> []"

definition routed :: "string \<Rightarrow> string \<Rightarrow> rest_handler \<Rightarrow> bool" where
  "routed meth path h \<longleftrightarrow>
     list_ex (\<lambda>(m, route, h'). m = meth \<and> h' = h
       \<and> list_all2 route_seg (route_pattern route) (split_char CHR ''/'' path)) node_routes"

section \<open>Two crates, one interface\<close>

definition prefix_pattern :: "seg_pattern list" where
  "prefix_pattern = [Fixed [], Fixed ''obp-bank-node'', Fixed ''v5.1.0'']"

text \<open>The recursion of \<open>split_char\<close> with one call, to evaluate it.\<close>

lemma split_char_code [code]:
  "split_char c [] = [[]]"
  "split_char c (x # xs) =
     (let ps = split_char c xs in if x = c then [] # ps else (x # hd ps) # tl ps)"
  by (simp_all add: Let_def)

lemma whitelist_is_node_routes:
  "set (map (\<lambda>(m, ps). (m, prefix_pattern @ ps)) whitelist @ [(''GET'', [Fixed [], Fixed ''health''])]) =
     set (map (\<lambda>(m, route, h). (m, route_pattern route)) node_routes)"
  by code_simp

lemma split_char_three:
  "c \<notin> set a \<Longrightarrow> c \<notin> set b \<Longrightarrow> c \<notin> set d \<Longrightarrow>
   split_char c (a @ c # b @ c # d @ c # e) = a # b # d # split_char c e"
  by (simp add: split_char_append)

lemma prefix_split:
  "split_char CHR ''/'' (NODE_API_PREFIX @ ''/'' @ path) =
     [[], ''obp-bank-node'', ''v5.1.0''] @ split_char CHR ''/'' path"
  using split_char_three [of "CHR ''/''" "[]" "''obp-bank-node''" "''v5.1.0''" path]
  by (simp add: NODE_API_PREFIX_def del: split_char.simps)

lemma in_route_image:
  "(m, ps) \<in> (\<lambda>(m, route, h). (m, f route)) ` A \<longleftrightarrow> (\<exists>route h. (m, route, h) \<in> A \<and> ps = f route)"
  "(m, ps) \<in> (\<lambda>(m, qs). (m, g qs)) ` B \<longleftrightarrow> (\<exists>qs. (m, qs) \<in> B \<and> ps = g qs)"
  by force+

lemma routed_iff:
  "(\<exists>h. routed meth path h) \<longleftrightarrow>
     (\<exists>ps. (meth, ps) \<in> set (map (\<lambda>(m, route, h). (m, route_pattern route)) node_routes)
       \<and> list_all2 route_seg ps (split_char CHR ''/'' path))"
proof -
  have "routed meth path h \<longleftrightarrow> (\<exists>route. (meth, route, h) \<in> set node_routes
      \<and> list_all2 route_seg (route_pattern route) (split_char CHR ''/'' path))" for h
    by (auto simp: routed_def list_ex_iff)
  then show ?thesis unfolding set_map in_route_image by blast
qed

lemma route_seg_prefix:
  "list_all2 route_seg (prefix_pattern @ ps) ([[], ''obp-bank-node'', ''v5.1.0''] @ xs) \<longleftrightarrow>
     list_all2 route_seg ps xs"
  by (simp add: prefix_pattern_def)

lemma route_seg_nonempty:
  "[] \<notin> set xs \<Longrightarrow> list_all2 route_seg ps xs = list_all2 seg_matches ps xs"
proof (induction ps arbitrary: xs)
  case (Cons p ps)
  then show ?case by (cases xs; cases p) auto
qed simp

text \<open>
  On paths without empty segments the whitelist of the app is the interface of the node: a request is
  allowed exactly when the node has a handler for what is sent. (With an empty segment, such as a
  slash at the end, the app forwards what the node does not know.)
\<close>

lemma allowed_iff_routed:
  assumes "[] \<notin> set (split_char CHR ''/'' path)"
  shows "allowed meth path \<longleftrightarrow> (\<exists>h. routed meth (NODE_API_PREFIX @ ''/'' @ path) h)"
proof -
  let ?xs = "split_char CHR ''/'' path"
  have p: "path_segments path = ?xs"
    unfolding path_segments_def by (rule filter_True) (use assms in auto)
  have "allowed meth path \<longleftrightarrow> (\<exists>(m, ps) \<in> set whitelist. m = meth \<and> list_all2 route_seg ps ?xs)"
    by (simp only: allowed_iff_listed p route_seg_nonempty [OF assms])
  also have "\<dots> \<longleftrightarrow> (\<exists>ps. (meth, ps) \<in> set whitelist \<and> list_all2 route_seg ps ?xs)" by fast
  also have "\<dots> \<longleftrightarrow> (\<exists>ps. (meth, ps) \<in> set (map (\<lambda>(m, ps). (m, prefix_pattern @ ps)) whitelist
      @ [(''GET'', [Fixed [], Fixed ''health''])])
      \<and> list_all2 route_seg ps ([[], ''obp-bank-node'', ''v5.1.0''] @ ?xs))"
  proof -
    have "\<not> list_all2 route_seg [Fixed [], Fixed ''health''] ([[], ''obp-bank-node'', ''v5.1.0''] @ ?xs)" by simp
    then show ?thesis unfolding set_append set_map Un_iff in_route_image list.set singleton_iff
      using route_seg_prefix [of _ ?xs] by blast
  qed
  finally show ?thesis unfolding whitelist_is_node_routes routed_iff prefix_split .
qed

lemma slash_forwarded_not_routed:
  "allowed ''GET'' ''settlements/''" "\<not> routed ''GET'' (NODE_API_PREFIX @ ''/settlements/'') h"
proof -
  show "allowed ''GET'' ''settlements/''" by code_simp
  have "list_all (\<lambda>(m, route, h'). \<not> list_all2 route_seg (route_pattern route)
      (split_char CHR ''/'' (NODE_API_PREFIX @ ''/settlements/''))) node_routes"
    by code_simp
  then show "\<not> routed ''GET'' (NODE_API_PREFIX @ ''/settlements/'') h"
    by (auto simp: routed_def list_ex_iff list_all_iff)
qed

end
