(* ===== verification/App_Calls.thy ===== *)
theory App_Calls
  imports App_Base "HOL-Library.State_Monad"
begin

text \<open>
  Calls of the setup page to OBP-API (\<open>SetupState::obp\<close> in \<open>setup.rs\<close>): a state monad over the
  calls sent so far. The environment answers the calls by their number. \<open>only_calls\<close> says what a
  computation may send; it has one rule for each construct that the handlers use.
\<close>

record obp_call =
  bc_method :: string
  bc_url :: string
  bc_token :: "string option"
  bc_body :: "json option"

type_synonym 'a calls = "(obp_call list, 'a) state"

text \<open>
  The configuration of the page; the parser and printer of JSON, the comparison of two literals
  read as doubles and the text of a status (third-party); what the network and the clock give.
\<close>

record setup_ctx =
  sq_obp :: app_obp_config
  sq_setup :: setup_config
  sq_json :: "string \<Rightarrow> json option"
  sq_show_json :: "json \<Rightarrow> string"
  sq_float_eq :: "string \<Rightarrow> string \<Rightarrow> bool"
  sq_show_status :: "nat \<Rightarrow> string"
  sq_answer :: "nat \<Rightarrow> http_answer"
  sq_now :: string
  sq_today :: string

definition obp_url :: "setup_ctx \<Rightarrow> string \<Rightarrow> string" where
  "obp_url K path = trim_end_slashes (ao_base_url (sq_obp K)) @ path"

text \<open>A body that is not JSON, or cannot be read, counts as the empty object.\<close>

definition read_answer :: "setup_ctx \<Rightarrow> string \<Rightarrow> http_answer \<Rightarrow> string + nat \<times> json" where
  "read_answer K url answer =
     (case answer of
        NoResponse e \<Rightarrow> Inl (url @ '': '' @ e)
      | BrokenBody status _ \<Rightarrow> Inr (status, JObj [])
      | Response status text \<Rightarrow> Inr (status, unwrap_or (sq_json K text) (JObj [])))"

definition obp ::
  "setup_ctx \<Rightarrow> string \<Rightarrow> string \<Rightarrow> string option \<Rightarrow> json option \<Rightarrow> (string + nat \<times> json) calls" where
  "obp K meth path token body = do {
     sent \<leftarrow> State_Monad.get;
     State_Monad.set (sent @ [\<lparr>bc_method = meth, bc_url = obp_url K path, bc_token = token, bc_body = body\<rparr>]);
     State_Monad.return (read_answer K (obp_url K path) (sq_answer K (length sent)))
   }"

definition only_calls :: "(obp_call \<Rightarrow> bool) \<Rightarrow> 'a calls \<Rightarrow> bool" where
  "only_calls P m \<longleftrightarrow> (\<forall>sent. \<exists>new. snd (run_state m sent) = sent @ new \<and> list_all P new)"

named_theorems calls "what a computation may send"

lemma only_calls_return [calls]: "only_calls P (State_Monad.return x)"
  by (simp add: only_calls_def)

lemma only_calls_bind [calls]:
  assumes "only_calls P m" and "\<And>x. only_calls P (f x)"
  shows "only_calls P (State_Monad.bind m f)"
  unfolding only_calls_def
proof
  fix sent
  obtain x mid where m: "run_state m sent = (x, mid)" by fastforce
  then obtain new where new: "mid = sent @ new" "list_all P new"
    using assms(1) unfolding only_calls_def by (metis snd_conv)
  obtain more where "snd (run_state (f x) mid) = mid @ more" "list_all P more"
    using assms(2) unfolding only_calls_def by blast
  with m new show "\<exists>new. snd (run_state (State_Monad.bind m f) sent) = sent @ new \<and> list_all P new"
    by (intro exI [of _ "new @ more"]) simp
qed

lemma only_calls_obp [calls]:
  assumes "P \<lparr>bc_method = meth, bc_url = obp_url K path, bc_token = token, bc_body = body\<rparr>"
  shows "only_calls P (obp K meth path token body)"
  using assms by (simp add: only_calls_def obp_def)

lemma only_calls_traverse [calls]:
  assumes "\<And>x. x \<in> set xs \<Longrightarrow> only_calls P (f x)"
  shows "only_calls P (State_Monad.traverse_list f xs)"
  using assms by (induction xs) (auto intro!: calls)

lemma only_calls_option [calls]:
  "(x = None \<Longrightarrow> only_calls P a) \<Longrightarrow> (\<And>y. x = Some y \<Longrightarrow> only_calls P (b y))
   \<Longrightarrow> only_calls P (case x of None \<Rightarrow> a | Some y \<Rightarrow> b y)"
  by (cases x) simp_all

lemma only_calls_sum [calls]:
  "(\<And>y. x = Inl y \<Longrightarrow> only_calls P (a y)) \<Longrightarrow> (\<And>y. x = Inr y \<Longrightarrow> only_calls P (b y))
   \<Longrightarrow> only_calls P (case x of Inl y \<Rightarrow> a y | Inr y \<Rightarrow> b y)"
  by (cases x) simp_all

lemma only_calls_prod [calls]:
  "(\<And>a b. x = (a, b) \<Longrightarrow> only_calls P (f a b)) \<Longrightarrow> only_calls P (case x of (a, b) \<Rightarrow> f a b)"
  by (cases x) simp

lemma only_calls_if [calls]:
  "(b \<Longrightarrow> only_calls P x) \<Longrightarrow> (\<not> b \<Longrightarrow> only_calls P y) \<Longrightarrow> only_calls P (if b then x else y)"
  by simp

lemma only_calls_weaken: "only_calls P m \<Longrightarrow> (\<And>c. P c \<Longrightarrow> Q c) \<Longrightarrow> only_calls Q m"
  unfolding only_calls_def by (metis list.pred_mono_strong)

lemma only_callsD: "only_calls P m \<Longrightarrow> run_state m [] = (r, sent) \<Longrightarrow> c \<in> set sent \<Longrightarrow> P c"
  unfolding only_calls_def by (metis append_Nil list_all_iff snd_conv)

text \<open>
  The same with a condition on the calls sent before: from a log with \<open>A\<close>, every call satisfies \<open>P\<close>
  over the calls before it, and the result satisfies \<open>Q\<close> over all of them.
\<close>

fun each_after :: "(obp_call list \<Rightarrow> obp_call \<Rightarrow> bool) \<Rightarrow> obp_call list \<Rightarrow> obp_call list \<Rightarrow> bool" where
  "each_after P before [] \<longleftrightarrow> True"
| "each_after P before (c # cs) \<longleftrightarrow> P before c \<and> each_after P (before @ [c]) cs"

lemma each_after_append:
  "each_after P before (cs @ ds) \<longleftrightarrow> each_after P before cs \<and> each_after P (before @ cs) ds"
  by (induction cs arbitrary: before) auto

definition guarded ::
  "(obp_call list \<Rightarrow> bool) \<Rightarrow> (obp_call list \<Rightarrow> obp_call \<Rightarrow> bool) \<Rightarrow> 'a calls
   \<Rightarrow> ('a \<Rightarrow> obp_call list \<Rightarrow> bool) \<Rightarrow> bool" where
  "guarded A P m Q \<longleftrightarrow> (\<forall>sent. A sent \<longrightarrow>
     (\<exists>new. snd (run_state m sent) = sent @ new \<and> each_after P sent new
        \<and> Q (fst (run_state m sent)) (sent @ new)))"

lemma guarded_return: "(\<And>sent. A sent \<Longrightarrow> Q x sent) \<Longrightarrow> guarded A P (State_Monad.return x) Q"
  by (simp add: guarded_def)

lemma guarded_bind:
  assumes "guarded A P m R" and "\<And>x. guarded (R x) P (f x) Q"
  shows "guarded A P (State_Monad.bind m f) Q"
  unfolding guarded_def
proof (intro allI impI)
  fix sent assume "A sent"
  with assms(1) obtain new where new: "snd (run_state m sent) = sent @ new" "each_after P sent new"
    "R (fst (run_state m sent)) (sent @ new)" unfolding guarded_def by blast
  with assms(2) [of "fst (run_state m sent)"] obtain more where
    "snd (run_state (f (fst (run_state m sent))) (sent @ new)) = (sent @ new) @ more"
    "each_after P (sent @ new) more"
    "Q (fst (run_state (f (fst (run_state m sent))) (sent @ new))) ((sent @ new) @ more)"
    unfolding guarded_def by blast
  with new show "\<exists>new. snd (run_state (State_Monad.bind m f) sent) = sent @ new \<and> each_after P sent new
      \<and> Q (fst (run_state (State_Monad.bind m f) sent)) (sent @ new)"
    by (intro exI [of _ "new @ more"]) (simp add: split_beta each_after_append)
qed

lemma guarded_obp:
  assumes "\<And>sent. A sent \<Longrightarrow>
      P sent \<lparr>bc_method = meth, bc_url = obp_url K path, bc_token = token, bc_body = body\<rparr> \<and>
      Q (read_answer K (obp_url K path) (sq_answer K (length sent)))
        (sent @ [\<lparr>bc_method = meth, bc_url = obp_url K path, bc_token = token, bc_body = body\<rparr>])"
  shows "guarded A P (obp K meth path token body) Q"
  using assms by (simp add: guarded_def obp_def)

lemma guardedD:
  assumes "guarded A P m Q" and "A []" and "run_state m [] = (r, sent)"
  shows "each_after P [] sent"
  using assms unfolding guarded_def by fastforce

section \<open>Reading JSON\<close>

text \<open>
  Equality of JSON values: objects with the same entries in any order, numbers by kind and value.
\<close>

fun json_eq :: "(string \<Rightarrow> string \<Rightarrow> bool) \<Rightarrow> json \<Rightarrow> json \<Rightarrow> bool" where
  "json_eq F JNull JNull = True"
| "json_eq F (JBool a) (JBool b) = (a = b)"
| "json_eq F (JInt a) (JInt b) = (a = b)"
| "json_eq F (JFloat a) (JFloat b) = F a b"
| "json_eq F (JStr a) (JStr b) = (a = b)"
| "json_eq F (JArr []) (JArr []) = True"
| "json_eq F (JArr (x # xs)) (JArr (y # ys)) = (json_eq F x y \<and> json_eq F (JArr xs) (JArr ys))"
| "json_eq F (JObj xs) (JObj ys) =
     (length xs = length ys \<and>
      (\<forall>(k, x) \<in> set xs. case map_of ys k of None \<Rightarrow> False | Some y \<Rightarrow> json_eq F x y))"
| "json_eq F _ _ = False"

definition str_at :: "string \<Rightarrow> json \<Rightarrow> string option" where
  "str_at k v = as_str (jindex k v)"

text \<open>\<open>v[k].as_str().unwrap_or("")\<close>\<close>

definition text_at :: "string \<Rightarrow> json \<Rightarrow> string" where
  "text_at k v = unwrap_or (str_at k v) []"

definition str_contains :: "string \<Rightarrow> string \<Rightarrow> bool" where
  "str_contains s p \<longleftrightarrow> find_at p s \<noteq> None"

end
