(* ===== verification/Oidc.thy ===== *)
theory Oidc
  imports App_Base
begin

text \<open>
  The login of the operator page (\<open>oidc.rs\<close>): discovery, pending logins, the exchange of a code
  for tokens, sessions. Every operation that awaits the network is cut at its awaits into parts
  that read or write the shared maps under one lock; the operation is their composition. The
  state keeps the forms sent to the token endpoint as a ghost. A panic is the outer \<open>None\<close>;
  instants are nanoseconds.
\<close>

definition SESSION_COOKIE :: string where "SESSION_COOKIE = ''obp_setup_session''"
definition PENDING_TTL :: nat where "PENDING_TTL = 600 * 10 ^ 9"
definition DEFAULT_TOKEN_TTL :: nat where "DEFAULT_TOKEN_TTL = 3600"

record well_known_uri =
  wk_provider :: string
  wk_url :: string

record endpoints =
  ep_authorization :: string
  ep_token :: string

record token_response =
  tr_access_token :: string
  tr_refresh_token :: "string option"
  tr_expires_in :: "nat option"

record pending_login =
  pl_code_verifier :: string
  pl_next :: string
  pl_created :: nat

record oidc_session =
  sn_access_token :: string
  sn_refresh_token :: "string option"
  sn_expires_at :: nat

type_synonym form = "(string \<times> string) list"

text \<open>\<open>oi_poisoned\<close>: a thread panicked while it held the lock of the sessions.\<close>

record oidc =
  oi_endpoints :: "endpoints option"
  oi_pending :: "string \<rightharpoonup> pending_login"
  oi_sessions :: "string \<rightharpoonup> oidc_session"
  oi_poisoned :: bool
  oi_posts :: "(string \<times> form) list"

definition new_oidc :: oidc where
  "new_oidc = \<lparr>oi_endpoints = None, oi_pending = Map.empty, oi_sessions = Map.empty,
     oi_poisoned = False, oi_posts = []\<rparr>"

text \<open>
  Third-party code: the parsers of the three documents, the texts of \<open>reqwest\<close>, \<open>Url\<close> with
  appended query pairs, SHA-256, base64 without padding, which texts an HTTP header can hold.
\<close>

record oidc_libs =
  dl_well_known :: "string \<Rightarrow> string + well_known_uri list"
  dl_endpoints :: "string \<Rightarrow> string + endpoints"
  dl_token_response :: "string \<Rightarrow> string + token_response"
  dl_status_error :: "string \<Rightarrow> nat \<Rightarrow> string"
  dl_show_status :: "nat \<Rightarrow> string"
  dl_url_with_pairs :: "string \<Rightarrow> form \<Rightarrow> string + string"
  dl_sha256 :: "string \<Rightarrow> string"
  dl_base64_url :: "string \<Rightarrow> string"
  dl_header_value :: "string \<Rightarrow> bool"

definition random_token :: "nat list \<Rightarrow> string" where
  "random_token bytes = concat (map (\<lambda>b. [hex_digit (b div 16), hex_digit (b mod 16)]) bytes)"

definition pkce_challenge :: "oidc_libs \<Rightarrow> string \<Rightarrow> string" where
  "pkce_challenge L verifier = dl_base64_url L (dl_sha256 L verifier)"

section \<open>Discovery\<close>

record discovery_env =
  dv_well_known :: http_answer
  dv_document :: http_answer

text \<open>\<open>send()?.error_for_status()?.json()?\<close> with the contexts in front, as \<open>{:#}\<close> shows them.\<close>

definition fetch_document ::
  "oidc_libs \<Rightarrow> (string \<Rightarrow> string + 'a) \<Rightarrow> string \<Rightarrow> string \<Rightarrow> string \<Rightarrow> http_answer \<Rightarrow> string + 'a" where
  "fetch_document L parse url fetching parsing answer =
     (let refused = (\<lambda>code. Inl (fetching @ '': '' @ dl_status_error L url code)) in
      case answer of
        NoResponse e \<Rightarrow> Inl (fetching @ '': '' @ e)
      | BrokenBody code e \<Rightarrow>
          if 400 \<le> code \<and> code < 600 then refused code else Inl (parsing @ '': '' @ e)
      | Response code body \<Rightarrow>
          if 400 \<le> code \<and> code < 600 then refused code
          else (case parse body of
                  Inl e \<Rightarrow> Inl (parsing @ '': '' @ e)
                | Inr x \<Rightarrow> Inr x))"

definition discovery_url :: "oidc_libs \<Rightarrow> app_obp_config \<Rightarrow> http_answer \<Rightarrow> string + string" where
  "discovery_url L C answer =
     (case ao_discovery_url C of
        Some url \<Rightarrow> Inr url
      | None \<Rightarrow>
          let url = trim_end_slashes (ao_base_url C) @ ''/obp/v5.1.0/well-known'' in
          case fetch_document L (dl_well_known L) url (''fetching '' @ url) ''parsing well-known list'' answer of
            Inl e \<Rightarrow> Inl e
          | Inr uris \<Rightarrow>
              (case find (\<lambda>u. wk_provider u = ao_oauth_provider C) uris of
                 Some u \<Rightarrow> Inr (wk_url u)
               | None \<Rightarrow>
                   Inl (''OBP-API advertises no OIDC provider named '' @ debug_str (ao_oauth_provider C)
                     @ '' (available: ['' @ join_with '', '' (map (debug_str \<circ> wk_provider) uris) @ ''])'')))"

definition get_endpoints ::
  "oidc_libs \<Rightarrow> app_obp_config \<Rightarrow> discovery_env \<Rightarrow> oidc \<Rightarrow> (string + endpoints) \<times> oidc" where
  "get_endpoints L C E s =
     (case oi_endpoints s of
        Some ep \<Rightarrow> (Inr ep, s)
      | None \<Rightarrow>
          (case discovery_url L C (dv_well_known E) of
             Inl e \<Rightarrow> (Inl e, s)
           | Inr url \<Rightarrow>
               (case fetch_document L (dl_endpoints L) url (''fetching OIDC discovery document '' @ url)
                       ''parsing OIDC discovery document'' (dv_document E) of
                  Inl e \<Rightarrow> (Inl e, s)
                | Inr ep \<Rightarrow> (Inr ep, s\<lparr>oi_endpoints := Some ep\<rparr>))))"

section \<open>Starting a login\<close>

record login_env =
  lg_discovery :: discovery_env
  lg_state_bytes :: "nat list"
  lg_verifier_bytes :: "nat list"
  lg_now :: nat
  lg_created :: nat

text \<open>\<open>retain\<close> drops the pending logins that are too old, then the new one is inserted.\<close>

definition register_login :: "string \<Rightarrow> pending_login \<Rightarrow> nat \<Rightarrow> oidc \<Rightarrow> oidc" where
  "register_login state login now s =
     s\<lparr>oi_pending :=
         (\<lambda>k. filter_opt (\<lambda>p. now - pl_created p < PENDING_TTL) (oi_pending s k))(state \<mapsto> login)\<rparr>"

definition authorize_pairs :: "oidc_libs \<Rightarrow> app_obp_config \<Rightarrow> string \<Rightarrow> string \<Rightarrow> form" where
  "authorize_pairs L C state verifier =
     [(''response_type'', ''code''), (''client_id'', ao_oauth_client_id C),
      (''redirect_uri'', ao_callback_url C), (''scope'', ''openid''), (''state'', state),
      (''code_challenge'', pkce_challenge L verifier), (''code_challenge_method'', ''S256'')]"

definition begin_login ::
  "oidc_libs \<Rightarrow> app_obp_config \<Rightarrow> login_env \<Rightarrow> string \<Rightarrow> oidc \<Rightarrow> (string + string) \<times> oidc" where
  "begin_login L C E next_path s =
     (case get_endpoints L C (lg_discovery E) s of
        (Inl e, s') \<Rightarrow> (Inl e, s')
      | (Inr ep, s') \<Rightarrow>
          let state = random_token (lg_state_bytes E);
              verifier = random_token (lg_verifier_bytes E);
              s'' = register_login state
                      \<lparr>pl_code_verifier = verifier, pl_next = next_path, pl_created = lg_created E\<rparr>
                      (lg_now E) s'
          in (case dl_url_with_pairs L (ep_authorization ep) (authorize_pairs L C state verifier) of
                Inl e \<Rightarrow> (Inl (''authorization_endpoint is not a valid URL: '' @ e), s'')
              | Inr url \<Rightarrow> (Inr url, s'')))"

section \<open>The token endpoint\<close>

definition expiry :: "nat \<Rightarrow> token_response \<Rightarrow> nat option" where
  "expiry now tokens = add_seconds now (unwrap_or (tr_expires_in tokens) DEFAULT_TOKEN_TTL)"

text \<open>An error while the text of a refusal is read counts as an empty text.\<close>

definition token_request ::
  "oidc_libs \<Rightarrow> endpoints \<Rightarrow> form \<Rightarrow> http_answer \<Rightarrow> oidc \<Rightarrow> (string + token_response) \<times> oidc" where
  "token_request L ep form answer s =
     ((case answer of
         NoResponse e \<Rightarrow> Inl (''POST '' @ ep_token ep @ '': '' @ e)
       | BrokenBody status e \<Rightarrow>
           if is_success status then Inl (''parsing token response: '' @ e)
           else Inl (''token endpoint returned '' @ dl_show_status L status @ '': '')
       | Response status body \<Rightarrow>
           if is_success status
           then (case dl_token_response L body of
                   Inl e \<Rightarrow> Inl (''parsing token response: '' @ e)
                 | Inr tokens \<Rightarrow> Inr tokens)
           else Inl (''token endpoint returned '' @ dl_show_status L status @ '': '' @ body)),
      s\<lparr>oi_posts := oi_posts s @ [(ep_token ep, form)]\<rparr>)"

text \<open>
  \<open>sessions.lock().unwrap().insert(..)\<close>: the lock is held while the arguments are computed, so
  an expiry that panics poisons it, and a poisoned lock panics.
\<close>

definition insert_session :: "string \<Rightarrow> token_response \<Rightarrow> string option \<Rightarrow> nat \<Rightarrow> oidc \<Rightarrow> unit option \<times> oidc" where
  "insert_session sid tokens refresh now s =
     (if oi_poisoned s then (None, s)
      else (case expiry now tokens of
              None \<Rightarrow> (None, s\<lparr>oi_poisoned := True\<rparr>)
            | Some t \<Rightarrow>
                (Some (), s\<lparr>oi_sessions := (oi_sessions s)(sid \<mapsto>
                   \<lparr>sn_access_token = tr_access_token tokens, sn_refresh_token = refresh,
                    sn_expires_at = t\<rparr>)\<rparr>)))"

section \<open>Completing a login\<close>

definition unknown_state :: string where
  "unknown_state = ''unknown or expired login state''"

definition take_pending :: "string \<Rightarrow> nat \<Rightarrow> oidc \<Rightarrow> (string + pending_login) \<times> oidc" where
  "take_pending state now s =
     (case oi_pending s state of
        None \<Rightarrow> (Inl unknown_state, s)
      | Some p \<Rightarrow>
          (if PENDING_TTL \<le> now - pl_created p then Inl unknown_state else Inr p,
           s\<lparr>oi_pending := (oi_pending s)(state := None)\<rparr>))"

record exchange_env =
  xe_discovery :: discovery_env
  xe_answer :: http_answer
  xe_session_bytes :: "nat list"
  xe_now :: nat

definition code_form :: "app_obp_config \<Rightarrow> string \<Rightarrow> string \<Rightarrow> form" where
  "code_form C code verifier =
     [(''grant_type'', ''authorization_code''), (''code'', code), (''redirect_uri'', ao_callback_url C),
      (''client_id'', ao_oauth_client_id C), (''client_secret'', ao_oauth_client_secret C),
      (''code_verifier'', verifier)]"

definition finish_login ::
  "oidc_libs \<Rightarrow> app_obp_config \<Rightarrow> exchange_env \<Rightarrow> pending_login \<Rightarrow> string \<Rightarrow> oidc
   \<Rightarrow> (string + string \<times> string) option \<times> oidc" where
  "finish_login L C E p code s =
     (case get_endpoints L C (xe_discovery E) s of
        (Inl e, s') \<Rightarrow> (Some (Inl e), s')
      | (Inr ep, s') \<Rightarrow>
          (case token_request L ep (code_form C code (pl_code_verifier p)) (xe_answer E) s' of
             (Inl e, s'') \<Rightarrow> (Some (Inl e), s'')
           | (Inr tokens, s'') \<Rightarrow>
               let sid = random_token (xe_session_bytes E) in
               (case insert_session sid tokens (tr_refresh_token tokens) (xe_now E) s'' of
                  (None, t) \<Rightarrow> (None, t)
                | (Some _, t) \<Rightarrow> (Some (Inr (sid, pl_next p)), t))))"

definition complete_login ::
  "oidc_libs \<Rightarrow> app_obp_config \<Rightarrow> nat \<Rightarrow> exchange_env \<Rightarrow> string \<Rightarrow> string \<Rightarrow> oidc
   \<Rightarrow> (string + string \<times> string) option \<times> oidc" where
  "complete_login L C now E state code s =
     (case take_pending state now s of
        (Inl e, s') \<Rightarrow> (Some (Inl e), s')
      | (Inr p, s') \<Rightarrow> finish_login L C E p code s')"

section \<open>Using a session\<close>

datatype session_token = LoginAgain | Valid string | Refresh string

text \<open>The outer \<open>None\<close> is the panic of a poisoned lock.\<close>

definition look_session :: "string \<Rightarrow> nat \<Rightarrow> oidc \<Rightarrow> session_token option" where
  "look_session sid now s =
     (if oi_poisoned s then None
      else Some (case oi_sessions s sid of
          None \<Rightarrow> LoginAgain
        | Some x \<Rightarrow>
            if now < sn_expires_at x then Valid (sn_access_token x)
            else (case sn_refresh_token x of None \<Rightarrow> LoginAgain | Some r \<Rightarrow> Refresh r)))"

definition refresh_form :: "app_obp_config \<Rightarrow> string \<Rightarrow> form" where
  "refresh_form C refresh =
     [(''grant_type'', ''refresh_token''), (''refresh_token'', refresh),
      (''client_id'', ao_oauth_client_id C), (''client_secret'', ao_oauth_client_secret C)]"

definition drop_session :: "string \<Rightarrow> oidc \<Rightarrow> unit option \<times> oidc" where
  "drop_session sid s =
     (if oi_poisoned s then (None, s)
      else (Some (), s\<lparr>oi_sessions := (oi_sessions s)(sid := None)\<rparr>))"

definition finish_refresh ::
  "oidc_libs \<Rightarrow> app_obp_config \<Rightarrow> exchange_env \<Rightarrow> string \<Rightarrow> string \<Rightarrow> oidc
   \<Rightarrow> string option option \<times> oidc" where
  "finish_refresh L C E sid refresh s =
     (case get_endpoints L C (xe_discovery E) s of
        (Inl e, s') \<Rightarrow> (Some None, s')
      | (Inr ep, s') \<Rightarrow>
          (case token_request L ep (refresh_form C refresh) (xe_answer E) s' of
             (Inl e, s'') \<Rightarrow>
               (case drop_session sid s'' of (None, t) \<Rightarrow> (None, t) | (Some _, t) \<Rightarrow> (Some None, t))
           | (Inr tokens, s'') \<Rightarrow>
               (case insert_session sid tokens (or_else (tr_refresh_token tokens) (Some refresh)) (xe_now E) s'' of
                  (None, t) \<Rightarrow> (None, t)
                | (Some _, t) \<Rightarrow> (Some (Some (tr_access_token tokens)), t))))"

definition access_token ::
  "oidc_libs \<Rightarrow> app_obp_config \<Rightarrow> nat \<Rightarrow> exchange_env \<Rightarrow> string \<Rightarrow> oidc \<Rightarrow> string option option \<times> oidc" where
  "access_token L C now E sid s =
     (case look_session sid now s of
        None \<Rightarrow> (None, s)
      | Some LoginAgain \<Rightarrow> (Some None, s)
      | Some (Valid token) \<Rightarrow> (Some (Some token), s)
      | Some (Refresh r) \<Rightarrow> finish_refresh L C E sid r s)"

definition logout :: "string \<Rightarrow> oidc \<Rightarrow> unit option \<times> oidc" where
  "logout sid s = drop_session sid s"

section \<open>Cookies\<close>

text \<open>\<open>HeaderValue::to_str\<close>: visible ASCII, blanks and tabs only.\<close>

definition header_to_str :: "string \<Rightarrow> string option" where
  "header_to_str s =
     (if \<forall>c\<in>set s. 32 \<le> byte_val c \<and> byte_val c < 127 \<or> byte_val c = 9 then Some s else None)"

definition session_of_part :: "string \<Rightarrow> string option" where
  "session_of_part part =
     Option.bind (split_once CHR ''='' (trim part))
       (\<lambda>(name, v). if name = SESSION_COOKIE then Some v else None)"

fun find_map :: "('a \<Rightarrow> 'b option) \<Rightarrow> 'a list \<Rightarrow> 'b option" where
  "find_map f [] = None"
| "find_map f (x # xs) = (case f x of None \<Rightarrow> find_map f xs | Some y \<Rightarrow> Some y)"

text \<open>The argument is the value of the first \<open>Cookie\<close> header.\<close>

definition session_id_from_cookies :: "string option \<Rightarrow> string option" where
  "session_id_from_cookies cookie =
     Option.bind (Option.bind cookie header_to_str)
       (\<lambda>cookies. find_map session_of_part (split_char CHR '';'' cookies))"

definition session_cookie :: "string \<Rightarrow> string" where
  "session_cookie session_id = SESSION_COOKIE @ ''='' @ session_id @ ''; HttpOnly; SameSite=Lax; Path=/''"

definition clear_session_cookie :: string where
  "clear_session_cookie = SESSION_COOKIE @ ''=; HttpOnly; SameSite=Lax; Path=/; Max-Age=0''"

end
