(* ===== verification/Setup.thy ===== *)
theory Setup
  imports App_Calls Oidc
begin

text \<open>
  The operator page (\<open>setup.rs\<close>), reads: the checks of every configured item against OBP-API, the
  logged-in user, the account directory. A check gives the JSON item that the page shows.
\<close>

section \<open>The logged-in user\<close>

record me_entitlement =
  mt_bank_id :: string
  mt_role :: string
  mt_created_by_process :: string
  mt_granted_by_user_id :: "string option"

record me_user =
  mu_user_id :: string
  mu_username :: string
  mu_entitlements :: "me_entitlement list"

definition me_entitlement_of :: "json \<Rightarrow> me_entitlement" where
  "me_entitlement_of e =
     \<lparr>mt_bank_id = text_at ''bank_id'' e, mt_role = text_at ''role_name'' e,
      mt_created_by_process = text_at ''created_by_process'' e,
      mt_granted_by_user_id = str_at ''granted_by_user_id'' e\<rparr>"

definition list_at :: "json \<Rightarrow> json list option" where
  "list_at body = as_array (jindex ''list'' (jindex ''entitlements'' body))"

definition fetch_me :: "setup_ctx \<Rightarrow> string \<Rightarrow> (string + me_user) calls" where
  "fetch_me K token = do {
     answer \<leftarrow> obp K ''GET'' ''/obp/v6.0.0/users/current'' (Some token) None;
     State_Monad.return (case answer of
         Inl e \<Rightarrow> Inl e
       | Inr (status, body) \<Rightarrow>
           if \<not> is_success status
           then Inl (''GET /users/current returned '' @ sq_show_status K status @ '': '' @ sq_show_json K body)
           else Inr \<lparr>mu_user_id = text_at ''user_id'' body, mu_username = text_at ''username'' body,
                     mu_entitlements = unwrap_or (map_option (map me_entitlement_of) (list_at body)) []\<rparr>)
   }"

definition me_json :: "me_user \<Rightarrow> json" where
  "me_json u =
     JObj [(''logged_in'', JBool True), (''user_id'', JStr (mu_user_id u)), (''username'', JStr (mu_username u)),
           (''entitlements'', JArr (map (\<lambda>e. JObj
              [(''bank_id'', JStr (mt_bank_id e)), (''role_name'', JStr (mt_role e)),
               (''created_by_process'', JStr (mt_created_by_process e)),
               (''granted_by_user_id'', jopt (mt_granted_by_user_id e))]) (mu_entitlements u)))]"

section \<open>Roles\<close>

definition required_admin_roles :: "setup_config \<Rightarrow> (string \<times> string) list" where
  "required_admin_roles setup =
     (if us_routing_schemes setup \<noteq> [] then [([], ''CanCreateRoutingScheme'')] else [])
     @ (case us_bank setup of
          None \<Rightarrow> []
        | Some bank \<Rightarrow>
            [([], ''CanCreateBank'')]
            @ (if ub_accounts bank \<noteq> []
               then [(ub_id bank, ''CanCreateAccount''), (ub_id bank, ''CanGetAccountDirectoryAtOneBank'')]
                    @ (if \<exists>a \<in> set (ub_accounts bank). ua_routings a \<noteq> []
                       then [(ub_id bank, ''CanUpdateAccount'')] else [])
               else [])
            @ (if ub_fx bank \<noteq> [] then [(ub_id bank, ''CanCreateFxRate'')] else [])
            @ (if ub_broker bank \<noteq> None then [(ub_id bank, ''CanConfigureAmqpBankBroker'')] else [])
            @ (if ub_role_grants bank \<noteq> [] then [(ub_id bank, ''CanCreateEntitlementAtOneBank'')] else []))"

section \<open>Items\<close>

definition setup_item :: "string \<Rightarrow> string \<Rightarrow> string \<Rightarrow> string \<Rightarrow> string \<Rightarrow> string \<times> string \<Rightarrow> json" where
  "setup_item item_id part title status detail required =
     JObj [(''id'', JStr item_id), (''section'', JStr part), (''title'', JStr title),
           (''status'', JStr status), (''detail'', JStr detail),
           (''required_role'', JObj [(''bank_id'', JStr (fst required)), (''role'', JStr (snd required))])]"

definition classify :: "setup_ctx \<Rightarrow> nat \<Rightarrow> json \<Rightarrow> string \<Rightarrow> string \<times> string" where
  "classify K status body ok_detail =
     (if is_success status then (''ok'', ok_detail)
      else
        let message = text_at ''message'' body in
        if status = 404 \<or> str_contains message ''not found'' \<or> str_contains message ''NotFound''
           \<or> str_contains message ''OBP-40054''
        then (''missing'', message)
        else (''error'', sq_show_status K status @ '': '' @ message))"

text \<open>UTF-8 of the middle dot, the arrow and the long dash.\<close>

definition middle_dot :: string where "middle_dot = [byte 194, byte 183]"
definition right_arrow :: string where "right_arrow = [byte 226, byte 134, byte 146]"
definition long_dash :: string where "long_dash = [byte 226, byte 128, byte 148]"

definition api_status :: "setup_ctx \<Rightarrow> json calls" where
  "api_status K = do {
     answer \<leftarrow> obp K ''GET'' ''/obp/v5.1.0/root'' None None;
     State_Monad.return (case answer of
         Inr (status, body) \<Rightarrow>
           if is_success status
           then JObj [(''status'', JStr ''ok''), (''version'', jindex ''version'' body),
                      (''git_commit'', jindex ''git_commit'' body)]
           else JObj [(''status'', JStr ''error''),
                      (''detail'', JStr (sq_show_status K status @ '': '' @ sq_show_json K body))]
       | Inl e \<Rightarrow> JObj [(''status'', JStr ''error''), (''detail'', JStr e)])
   }"

definition satisfies :: "string \<times> string \<Rightarrow> me_entitlement \<Rightarrow> bool" where
  "satisfies need e \<longleftrightarrow>
     mt_bank_id e = fst need \<and> mt_role e = snd need
     \<or> snd need = ''CanCreateEntitlementAtOneBank'' \<and> mt_bank_id e = []
       \<and> mt_role e = ''CanCreateEntitlementAtAnyBank''"

definition my_role_id :: "string \<Rightarrow> string \<Rightarrow> string" where
  "my_role_id bank_id role = ''myrole:'' @ bank_id @ '':'' @ role"

definition check_my_role :: "me_user \<Rightarrow> string \<times> string \<Rightarrow> json" where
  "check_my_role u need =
     (let (bank_id, role) = need; found = find (satisfies need) (mu_entitlements u) in
      setup_item (my_role_id bank_id role) ''me''
        (role @ '' '' @ (if bank_id = [] then ''(system)'' else ''('' @ bank_id @ '')''))
        (if found \<noteq> None then ''ok'' else ''missing'')
        (case found of
           Some e \<Rightarrow>
             (case mt_granted_by_user_id e of
                Some granter \<Rightarrow> mt_created_by_process e @ '' '' @ middle_dot @ '' granted by '' @ granter
              | None \<Rightarrow> mt_created_by_process e)
         | None \<Rightarrow> ''Apply (self-grant)'')
        need)"

section \<open>Checks\<close>

definition scheme_id :: "json \<Rightarrow> string" where
  "scheme_id scheme = ''scheme:'' @ unwrap_or (str_at ''scheme'' scheme) ''?''"

definition check_scheme :: "setup_ctx \<Rightarrow> string \<Rightarrow> json \<Rightarrow> json calls" where
  "check_scheme K token scheme = do {
     let name = unwrap_or (str_at ''scheme'' scheme) ''?'';
     let category = text_at ''category'' scheme;
     let kind = (if category = ''ACCOUNT'' then ''Account routing scheme''
                 else if category = ''BANK'' then ''Bank routing scheme'' else ''Routing scheme'');
     answer \<leftarrow> obp K ''GET'' (''/obp/v7.0.0/routing-schemes/'' @ name) (Some token) None;
     let (status_str, detail) =
       (case answer of
          Inr (status, body) \<Rightarrow>
            let (s, d) = classify K status body (''status '' @ unwrap_or (str_at ''status'' body) ''?'')
            in if s = ''ok'' \<and> \<not> json_eq (sq_float_eq K) (jindex ''status'' body) (jindex ''status'' scheme)
               then (''differs'', ''registered but status is '' @ sq_show_json K (jindex ''status'' body)
                       @ '' (want '' @ sq_show_json K (jindex ''status'' scheme) @ '')'')
               else (s, d)
        | Inl e \<Rightarrow> (''error'', e));
     State_Monad.return (setup_item (scheme_id scheme) ''schemes'' (kind @ '' '' @ name) status_str detail
       ([], ''CanCreateRoutingScheme''))
   }"

definition bank_item_id :: "setup_bank \<Rightarrow> string" where
  "bank_item_id bank = ''bank:'' @ ub_id bank"

definition check_bank :: "setup_ctx \<Rightarrow> string \<Rightarrow> setup_bank \<Rightarrow> json calls" where
  "check_bank K token bank = do {
     answer \<leftarrow> obp K ''GET'' (''/obp/v5.1.0/banks/'' @ ub_id bank) (Some token) None;
     let (status_str, detail) =
       (case answer of
          Inr (status, body) \<Rightarrow> classify K status body (text_at ''full_name'' body)
        | Inl e \<Rightarrow> (''error'', e));
     State_Monad.return (setup_item (bank_item_id bank) ''banks'' (''Bank '' @ ub_id bank) status_str detail
       ([], ''CanCreateBank''))
   }"

definition routing_listed :: "json \<Rightarrow> setup_routing \<Rightarrow> bool" where
  "routing_listed entry r =
     (case as_array (jindex ''account_routings'' entry) of
        None \<Rightarrow> False
      | Some listed \<Rightarrow> \<exists>a \<in> set listed. str_at ''scheme'' a = Some (ur_scheme r)
                                       \<and> str_at ''address'' a = Some (ur_address r))"

definition account_item_id :: "setup_bank \<Rightarrow> setup_account \<Rightarrow> string" where
  "account_item_id bank account = ''account:'' @ ub_id bank @ ''/'' @ ua_id account"

text \<open>One directory listing answers every account check.\<close>

definition account_state :: "setup_bank \<Rightarrow> string + nat \<times> json \<Rightarrow> setup_account \<Rightarrow> string \<times> string" where
  "account_state bank directory account =
     (case directory of
        Inr (status, body) \<Rightarrow>
          if is_success status
          then (case Option.bind (as_array (jindex ''accounts'' body))
                       (find (\<lambda>e. str_at ''account_id'' e = Some (ua_id account))) of
                  Some entry \<Rightarrow>
                    let missing = map ur_scheme (filter (\<lambda>r. \<not> routing_listed entry r) (ua_routings account))
                    in if missing = [] then (''ok'', text_at ''label'' entry)
                       else (''differs'', ''missing routing: '' @ join_with '', '' missing)
                | None \<Rightarrow> (''missing'', []))
          else
            let message = text_at ''message'' body in
            if str_contains message ''OBP-20006''
            then (''unverified'', ''cannot list accounts; Apply is idempotent '' @ long_dash @ '' '' @ message)
            else if str_contains message ''OBP-30001''
            then (''missing'', ''bank '' @ ub_id bank @ '' not created yet'')
            else (''error'', message)
      | Inl e \<Rightarrow> (''error'', e))"

definition check_account :: "setup_bank \<Rightarrow> string + nat \<times> json \<Rightarrow> setup_account \<Rightarrow> json" where
  "check_account bank directory account =
     (let (status_str, detail) = account_state bank directory account in
      setup_item (account_item_id bank account) ''banks''
        (''Account '' @ ub_id bank @ '' / '' @ ua_id account) status_str detail
        (ub_id bank, ''CanCreateAccount''))"

definition fx_item_id :: "setup_bank \<Rightarrow> setup_fx_rate \<Rightarrow> string" where
  "fx_item_id bank fx = ''fx:'' @ ub_id bank @ '':'' @ uf_from_currency fx @ '':'' @ uf_to_currency fx"

definition check_fx :: "setup_ctx \<Rightarrow> string \<Rightarrow> setup_bank \<Rightarrow> setup_fx_rate \<Rightarrow> json calls" where
  "check_fx K token bank fx = do {
     answer \<leftarrow> obp K ''GET'' (''/obp/v2.2.0/banks/'' @ ub_id bank @ ''/fx/'' @ uf_from_currency fx @ ''/''
       @ uf_to_currency fx) (Some token) None;
     let (status_str, detail) =
       (case answer of
          Inr (status, body) \<Rightarrow>
            if is_success status then (''ok'', ''rate '' @ sq_show_json K (jindex ''conversion_value'' body))
            else
              let message = text_at ''message'' body in
              if str_contains message ''OBP-10004'' then (''missing'', message)
              else if str_contains message ''OBP-30001''
              then (''missing'', ''bank '' @ ub_id bank @ '' not created yet'')
              else (''error'', message)
        | Inl e \<Rightarrow> (''error'', e));
     State_Monad.return (setup_item (fx_item_id bank fx) ''banks''
       (''FX '' @ uf_from_currency fx @ right_arrow @ uf_to_currency fx @ '' ('' @ ub_id bank @ '')'')
       status_str detail (ub_id bank, ''CanCreateFxRate''))
   }"

definition broker_item_id :: "setup_bank \<Rightarrow> string" where
  "broker_item_id bank = ''broker:'' @ ub_id bank"

text \<open>The fields of the broker that OBP-API reads back otherwise; it never returns the password.\<close>

definition broker_mismatch :: "setup_ctx \<Rightarrow> json \<Rightarrow> json \<Rightarrow> string list" where
  "broker_mismatch K broker body =
     unwrap_or (map_option (\<lambda>o'. map fst (filter (\<lambda>(k, v). k \<noteq> ''password''
         \<and> \<not> json_eq (sq_float_eq K) (jindex k body) v) o')) (as_object broker)) []"

definition check_broker :: "setup_ctx \<Rightarrow> string \<Rightarrow> setup_bank \<Rightarrow> json \<Rightarrow> json calls" where
  "check_broker K token bank broker = do {
     answer \<leftarrow> obp K ''GET'' (''/obp/v7.0.0/banks/'' @ ub_id bank @ ''/amqp-broker'') (Some token) None;
     let (status_str, detail) =
       (case answer of
          Inr (status, body) \<Rightarrow>
            if is_success status
            then
              let mismatched = broker_mismatch K broker body in
              if mismatched = [] then (''ok'', ''vhost '' @ sq_show_json K (jindex ''virtual_host'' body))
              else (''differs'', ''differs on: '' @ join_with '', '' mismatched)
            else classify K status body []
        | Inl e \<Rightarrow> (''error'', e));
     State_Monad.return (setup_item (broker_item_id bank) ''banks'' (''AMQP broker ('' @ ub_id bank @ '')'')
       status_str detail (ub_id bank, ''CanConfigureAmqpBankBroker''))
   }"

definition grant_item_id :: "setup_bank \<Rightarrow> setup_role_grant \<Rightarrow> string" where
  "grant_item_id bank grant = ''grant:'' @ ug_username grant @ ''@'' @ ub_id bank @ '':'' @ ug_role grant"

definition user_path :: "string \<Rightarrow> string" where
  "user_path username = ''/obp/v5.1.0/users/username/'' @ username"

definition role_held :: "string \<Rightarrow> string \<Rightarrow> json \<Rightarrow> bool" where
  "role_held bank_id role body =
     (case list_at body of
        None \<Rightarrow> False
      | Some held \<Rightarrow> \<exists>e \<in> set held. text_at ''bank_id'' e = bank_id \<and> text_at ''role_name'' e = role)"

definition no_such_user :: "string \<Rightarrow> string" where
  "no_such_user username =
     ''user '' @ username @ '' does not exist '' @ long_dash @ '' service users are provisioned outside this app''"

definition check_grant :: "setup_ctx \<Rightarrow> string \<Rightarrow> setup_bank \<Rightarrow> setup_role_grant \<Rightarrow> json calls" where
  "check_grant K token bank grant = do {
     answer \<leftarrow> obp K ''GET'' (user_path (ug_username grant)) (Some token) None;
     let (status_str, detail) =
       (case answer of
          Inr (status, body) \<Rightarrow>
            if is_success status
            then if role_held (ub_id bank) (ug_role grant) body then (''ok'', []) else (''missing'', [])
            else
              let (s, d) = classify K status body [] in
              if s = ''missing'' then (''error'', no_such_user (ug_username grant)) else (s, d)
        | Inl e \<Rightarrow> (''error'', e));
     State_Monad.return (setup_item (grant_item_id bank grant) ''grants''
       (ug_role grant @ '' for '' @ ug_username grant @ '' ('' @ ub_id bank @ '')'') status_str detail
       (ub_id bank, ''CanCreateEntitlementAtOneBank''))
   }"

definition directory_path :: "setup_bank \<Rightarrow> string" where
  "directory_path bank = ''/obp/v6.0.0/banks/'' @ ub_id bank @ ''/account-directory?limit=500''"

definition check_bank_items :: "setup_ctx \<Rightarrow> string \<Rightarrow> setup_bank \<Rightarrow> json list calls" where
  "check_bank_items K token bank = do {
     bank_item \<leftarrow> check_bank K token bank;
     directory \<leftarrow> obp K ''GET'' (directory_path bank) (Some token) None;
     fx_items \<leftarrow> State_Monad.traverse_list (check_fx K token bank) (ub_fx bank);
     broker_items \<leftarrow> (case ub_broker bank of
         None \<Rightarrow> State_Monad.return []
       | Some broker \<Rightarrow> do { i \<leftarrow> check_broker K token bank broker; State_Monad.return [i] });
     grant_items \<leftarrow> State_Monad.traverse_list (check_grant K token bank) (ub_role_grants bank);
     State_Monad.return ([bank_item] @ map (check_account bank directory) (ub_accounts bank)
       @ fx_items @ broker_items @ grant_items)
   }"

text \<open>The body of the status handler, once the session has a token.\<close>

definition status_page :: "setup_ctx \<Rightarrow> string \<Rightarrow> app_response calls" where
  "status_page K token = do {
     api \<leftarrow> api_status K;
     fetched \<leftarrow> fetch_me K token;
     (case fetched of
        Inl e \<Rightarrow> State_Monad.return (app_error 502 ''OBP-BANK-NODE-APP-SETUP-OBP-001'' e)
      | Inr u \<Rightarrow> do {
          scheme_items \<leftarrow> State_Monad.traverse_list (check_scheme K token) (us_routing_schemes (sq_setup K));
          bank_items \<leftarrow> (case us_bank (sq_setup K) of
              None \<Rightarrow> State_Monad.return []
            | Some bank \<Rightarrow> check_bank_items K token bank);
          State_Monad.return (app_answer 200 (AppJson (JObj
            [(''bank'', jopt (map_option ub_id (us_bank (sq_setup K)))),
             (''generated_at'', JStr (sq_now K)),
             (''obp_api'', JObj [(''base_url'', JStr (ao_base_url (sq_obp K))),
                               (''oauth_provider'', JStr (ao_oauth_provider (sq_obp K)))]),
             (''api'', api),
             (''me'', JObj [(''user_id'', JStr (mu_user_id u)), (''username'', JStr (mu_username u))]),
             (''items'', JArr (map (check_my_role u) (required_admin_roles (sq_setup K))
                            @ scheme_items @ bank_items))])))
        })
   }"

definition me_page :: "setup_ctx \<Rightarrow> string \<Rightarrow> app_response calls" where
  "me_page K token = do {
     fetched \<leftarrow> fetch_me K token;
     State_Monad.return (case fetched of
         Inr u \<Rightarrow> app_answer 200 (AppJson (me_json u))
       | Inl e \<Rightarrow> app_error 502 ''OBP-BANK-NODE-APP-SETUP-OBP-001'' e)
   }"

text \<open>OBP-API's status and body are relayed; only a failed call becomes an error of the app.\<close>

definition relay :: "string \<Rightarrow> string + nat \<times> json \<Rightarrow> app_response" where
  "relay code answer =
     (case answer of
        Inr (status, body) \<Rightarrow> app_answer status (AppJson body)
      | Inl e \<Rightarrow> app_error 502 code e)"

definition account_directory_page :: "setup_ctx \<Rightarrow> string \<Rightarrow> app_response calls" where
  "account_directory_page K token =
     (case us_bank (sq_setup K) of
        None \<Rightarrow> State_Monad.return (app_error 404 ''OBP-BANK-NODE-APP-SETUP-NO-BANK''
                  ''add setup.bank to the app config to list its account directory'')
      | Some bank \<Rightarrow> do {
          answer \<leftarrow> obp K ''GET'' (directory_path bank) (Some token) None;
          State_Monad.return (relay ''OBP-BANK-NODE-APP-SETUP-OBP-001'' answer)
        })"

end
