(* ===== verification/Setup_Apply.thy ===== *)
theory Setup_Apply
  imports Setup
begin

text \<open>
  The operator page (\<open>setup.rs\<close>), writes: creating accounts, granting and requesting roles, applying
  an item. \<open>apply\<close> first finds the configured action that an item's identifier names
  (\<open>resolve_action\<close>), then runs it. Then the handlers with their sessions and the routes.
\<close>

section \<open>Actions on OBP-API\<close>

definition resolve_user_id :: "setup_ctx \<Rightarrow> string \<Rightarrow> string \<Rightarrow> (string + string) calls" where
  "resolve_user_id K token username = do {
     answer \<leftarrow> obp K ''GET'' (user_path username) (Some token) None;
     State_Monad.return (case answer of
         Inl e \<Rightarrow> Inl e
       | Inr (status, body) \<Rightarrow>
           if \<not> is_success status
           then Inl (no_such_user username @ '' ('' @ sq_show_status K status @ '')'')
           else (case str_at ''user_id'' body of
                   None \<Rightarrow> Inl (''no user_id in the response for '' @ username)
                 | Some u \<Rightarrow> Inr u))
   }"

definition routings_json :: "setup_routing list \<Rightarrow> json" where
  "routings_json rs = JArr (map (\<lambda>r. JObj [(''scheme'', JStr (ur_scheme r)), (''address'', JStr (ur_address r))]) rs)"

definition account_body :: "string \<Rightarrow> string \<Rightarrow> string \<Rightarrow> setup_routing list \<Rightarrow> json" where
  "account_body owner label currency routings =
     JObj [(''user_id'', JStr owner), (''label'', JStr label), (''product_code'', JStr ''OPEN_CORRIDOR''),
           (''balance'', JObj [(''currency'', JStr currency), (''amount'', JStr ''0'')]),
           (''branch_id'', JStr []), (''account_routings'', routings_json routings)]"

definition account_update_body :: "string \<Rightarrow> setup_routing list \<Rightarrow> json" where
  "account_update_body label routings =
     JObj [(''label'', JStr label), (''type'', JStr ''OPEN_CORRIDOR''), (''branch_id'', JStr []),
           (''account_routings'', routings_json routings)]"

definition accounts_path :: "string \<Rightarrow> string" where
  "accounts_path bank_id = ''/obp/v7.0.0/banks/'' @ bank_id @ ''/accounts''"

definition account_update_path :: "string \<Rightarrow> string \<Rightarrow> string" where
  "account_update_path bank_id a = ''/obp/v3.1.0/management/banks/'' @ bank_id @ ''/accounts/'' @ a"

definition create_account ::
  "setup_ctx \<Rightarrow> string \<Rightarrow> me_user \<Rightarrow> string \<Rightarrow> string option \<Rightarrow> string \<Rightarrow> string \<Rightarrow> string option
   \<Rightarrow> setup_routing list \<Rightarrow> (string + nat \<times> json) calls" where
  "create_account K token u bank_id account_id label currency owner_username routings = do {
     owner \<leftarrow> (case owner_username of
         Some username \<Rightarrow> resolve_user_id K token username
       | None \<Rightarrow> State_Monad.return (Inr (mu_user_id u)));
     (case owner of
        Inl e \<Rightarrow> State_Monad.return (Inl e)
      | Inr owner_id \<Rightarrow> do {
          let (meth, path) = (case account_id of
              Some a \<Rightarrow> (''PUT'', accounts_path bank_id @ ''/'' @ a)
            | None \<Rightarrow> (''POST'', accounts_path bank_id));
          answer \<leftarrow> obp K meth path (Some token) (Some (account_body owner_id label currency routings));
          (case answer of
             Inl e \<Rightarrow> State_Monad.return (Inl e)
           | Inr (status, body) \<Rightarrow>
               (case account_id of
                  Some a \<Rightarrow>
                    if routings \<noteq> [] \<and> str_contains (text_at ''message'' body) ''OBP-30208''
                    then obp K ''PUT'' (account_update_path bank_id a) (Some token)
                           (Some (account_update_body label routings))
                    else State_Monad.return (Inr (status, body))
                | None \<Rightarrow> State_Monad.return (Inr (status, body))))
        })
   }"

definition entitlements_path :: "string \<Rightarrow> string" where
  "entitlements_path user_id = ''/obp/v5.1.0/users/'' @ user_id @ ''/entitlements''"

definition role_body :: "string \<Rightarrow> string \<Rightarrow> json" where
  "role_body bank_id role = JObj [(''bank_id'', JStr bank_id), (''role_name'', JStr role)]"

definition grant_role :: "setup_ctx \<Rightarrow> string \<Rightarrow> string \<Rightarrow> string \<Rightarrow> string \<Rightarrow> (string + nat \<times> json) calls" where
  "grant_role K token user_id bank_id role =
     obp K ''POST'' (entitlements_path user_id) (Some token) (Some (role_body bank_id role))"

text \<open>Whether a refusal counts as done; it only decides about a warning in the log.\<close>

definition already_ok :: "json \<Rightarrow> bool" where
  "already_ok body \<longleftrightarrow>
     (\<exists>code \<in> {''OBP-30515'', ''OBP-30216'', ''OBP-30208'', ''already exists'',
        ''EntitlementRequestAlreadyExists'', ''Entitlement Request already exists''}.
        str_contains (text_at ''message'' body) code)"

section \<open>Applying an item\<close>

datatype setup_action =
    ApplyScheme json
  | ApplyBank setup_bank
  | ApplyAccount setup_bank setup_account
  | ApplyFx setup_bank setup_fx_rate
  | ApplyBroker setup_bank json
  | ApplyGrant setup_bank setup_role_grant
  | ApplyMyRole string string

definition own_bank :: "setup_config \<Rightarrow> string \<Rightarrow> setup_bank option" where
  "own_bank setup bank_id = filter_opt (\<lambda>b. ub_id b = bank_id) (us_bank setup)"

definition resolve_scheme :: "setup_config \<Rightarrow> string \<Rightarrow> string + setup_action" where
  "resolve_scheme setup name =
     (case find (\<lambda>s. str_at ''scheme'' s = Some name) (us_routing_schemes setup) of
        Some scheme \<Rightarrow> Inr (ApplyScheme scheme)
      | None \<Rightarrow> Inl (''no routing scheme '' @ name @ '' in the setup config''))"

definition resolve_bank :: "setup_config \<Rightarrow> string \<Rightarrow> string + setup_action" where
  "resolve_bank setup bank_id =
     (case own_bank setup bank_id of
        Some bank \<Rightarrow> Inr (ApplyBank bank)
      | None \<Rightarrow> Inl (bank_id @ '' is not this instance'' @ [CHR 0x27] @ ''s bank''))"

definition resolve_account :: "setup_config \<Rightarrow> string \<Rightarrow> string + setup_action" where
  "resolve_account setup rest =
     (case split_once CHR ''/'' rest of
        Some (bank_id, account_id) \<Rightarrow>
          (case Option.bind (own_bank setup bank_id)
                  (\<lambda>b. map_option (Pair b) (find (\<lambda>a. ua_id a = account_id) (ub_accounts b))) of
             Some (bank, account) \<Rightarrow> Inr (ApplyAccount bank account)
           | None \<Rightarrow> Inl (''no account '' @ rest @ '' in the setup config''))
      | None \<Rightarrow> Inl (''malformed account id '' @ rest))"

definition resolve_fx :: "setup_config \<Rightarrow> string \<Rightarrow> string + setup_action" where
  "resolve_fx setup rest =
     (case split_char CHR '':'' rest of
        [bank_id, source, target] \<Rightarrow>
          (case Option.bind (own_bank setup bank_id)
                  (\<lambda>b. map_option (Pair b)
                     (find (\<lambda>f. uf_from_currency f = source \<and> uf_to_currency f = target) (ub_fx b))) of
             Some (bank, fx) \<Rightarrow> Inr (ApplyFx bank fx)
           | None \<Rightarrow> Inl (''no FX rate '' @ rest @ '' in the setup config''))
      | _ \<Rightarrow> Inl (''malformed fx id '' @ rest))"

definition resolve_broker :: "setup_config \<Rightarrow> string \<Rightarrow> string + setup_action" where
  "resolve_broker setup bank_id =
     (case Option.bind (own_bank setup bank_id) (\<lambda>b. map_option (Pair b) (ub_broker b)) of
        Some (bank, broker) \<Rightarrow> Inr (ApplyBroker bank broker)
      | None \<Rightarrow> Inl (''no broker for bank '' @ bank_id @ '' in the setup config''))"

definition resolve_grant :: "setup_config \<Rightarrow> string \<Rightarrow> string + setup_action" where
  "resolve_grant setup rest =
     (case Option.bind (split_once CHR ''@'' rest)
             (\<lambda>(user, rest'). map_option (\<lambda>(b, r). (user, b, r)) (split_once CHR '':'' rest')) of
        Some (username, bank_id, role) \<Rightarrow>
          (case Option.bind (own_bank setup bank_id)
                  (\<lambda>b. map_option (Pair b)
                     (find (\<lambda>g. ug_username g = username \<and> ug_role g = role) (ub_role_grants b))) of
             Some (bank, grant) \<Rightarrow> Inr (ApplyGrant bank grant)
           | None \<Rightarrow> Inl (''no role grant '' @ rest @ '' in the setup config''))
      | None \<Rightarrow> Inl (''malformed grant id '' @ rest))"

definition resolve_my_role :: "setup_config \<Rightarrow> string \<Rightarrow> string + setup_action" where
  "resolve_my_role setup rest =
     (let refused = Inl (rest @ '' is not a role this setup config needs'') in
      case split_once CHR '':'' rest of
        Some (bank_id, role) \<Rightarrow>
          if (bank_id, role) \<in> set (required_admin_roles setup) then Inr (ApplyMyRole bank_id role) else refused
      | None \<Rightarrow> refused)"

definition resolve_action :: "setup_config \<Rightarrow> string \<Rightarrow> string + setup_action" where
  "resolve_action setup item_id =
     (case split_once CHR '':'' item_id of
        None \<Rightarrow> Inl (''unknown item id '' @ item_id)
      | Some (kind, rest) \<Rightarrow>
          if kind = ''scheme'' then resolve_scheme setup rest
          else if kind = ''bank'' then resolve_bank setup rest
          else if kind = ''account'' then resolve_account setup rest
          else if kind = ''fx'' then resolve_fx setup rest
          else if kind = ''broker'' then resolve_broker setup rest
          else if kind = ''grant'' then resolve_grant setup rest
          else if kind = ''myrole'' then resolve_my_role setup rest
          else Inl (''unknown item id '' @ item_id))"

definition bank_body :: "setup_bank \<Rightarrow> json" where
  "bank_body bank =
     JObj [(''id'', JStr (ub_id bank)), (''bank_code'', JStr (ub_id bank)),
           (''full_name'', JStr (unwrap_or (ub_full_name bank) (ub_id bank))), (''logo'', JStr []),
           (''website'', JStr []), (''bank_routings'', JArr [])]"

definition fx_path :: "setup_bank \<Rightarrow> string" where
  "fx_path bank = ''/obp/v2.2.0/banks/'' @ ub_id bank @ ''/fx''"

definition fx_body :: "setup_ctx \<Rightarrow> setup_bank \<Rightarrow> setup_fx_rate \<Rightarrow> json" where
  "fx_body K bank fx =
     JObj [(''bank_id'', JStr (ub_id bank)), (''from_currency_code'', JStr (uf_from_currency fx)),
           (''to_currency_code'', JStr (uf_to_currency fx)), (''conversion_value'', uf_rate fx),
           (''inverse_conversion_value'', uf_inverse_rate fx),
           (''effective_date'', JStr (sq_today K @ ''T00:00:00Z''))]"

definition broker_path :: "setup_bank \<Rightarrow> string" where
  "broker_path bank = ''/obp/v7.0.0/banks/'' @ ub_id bank @ ''/amqp-broker''"

definition run_action :: "setup_ctx \<Rightarrow> string \<Rightarrow> me_user \<Rightarrow> setup_action \<Rightarrow> (string + nat \<times> json) calls" where
  "run_action K token u act =
     (case act of
        ApplyScheme scheme \<Rightarrow> obp K ''POST'' ''/obp/v7.0.0/routing-schemes'' (Some token) (Some scheme)
      | ApplyBank bank \<Rightarrow> obp K ''POST'' ''/obp/v5.0.0/banks'' (Some token) (Some (bank_body bank))
      | ApplyAccount bank account \<Rightarrow>
          create_account K token u (ub_id bank) (Some (ua_id account)) (ua_label account)
            (ua_currency account) (ua_owner_username account) (ua_routings account)
      | ApplyFx bank fx \<Rightarrow> obp K ''PUT'' (fx_path bank) (Some token) (Some (fx_body K bank fx))
      | ApplyBroker bank broker \<Rightarrow> obp K ''PUT'' (broker_path bank) (Some token) (Some broker)
      | ApplyGrant bank grant \<Rightarrow> do {
          user \<leftarrow> resolve_user_id K token (ug_username grant);
          (case user of
             Inr user_id \<Rightarrow> grant_role K token user_id (ub_id bank) (ug_role grant)
           | Inl e \<Rightarrow> State_Monad.return (Inl e))
        }
      | ApplyMyRole bank_id role \<Rightarrow> grant_role K token (mu_user_id u) bank_id role)"

definition apply_page :: "setup_ctx \<Rightarrow> string \<Rightarrow> string \<Rightarrow> app_response calls" where
  "apply_page K item_id token = do {
     fetched \<leftarrow> fetch_me K token;
     (case fetched of
        Inl e \<Rightarrow> State_Monad.return (app_error 502 ''OBP-BANK-NODE-APP-SETUP-OBP-001'' e)
      | Inr u \<Rightarrow> do {
          result \<leftarrow> (case resolve_action (sq_setup K) item_id of
              Inl e \<Rightarrow> State_Monad.return (Inl e)
            | Inr act \<Rightarrow> run_action K token u act);
          State_Monad.return (relay ''OBP-BANK-NODE-APP-SETUP-APPLY-001'' result)
        })
   }"

definition request_entitlement_page :: "setup_ctx \<Rightarrow> string \<Rightarrow> string \<Rightarrow> string \<Rightarrow> app_response calls" where
  "request_entitlement_page K bank_id role token = do {
     answer \<leftarrow> obp K ''POST'' ''/obp/v3.0.0/entitlement-requests'' (Some token) (Some (role_body bank_id role));
     State_Monad.return (relay ''OBP-BANK-NODE-APP-SETUP-APPLY-001'' answer)
   }"

record test_account_request =
  ta_bank_id :: string
  ta_label :: string
  ta_currency :: string
  ta_owner_username :: "string option"
  ta_routing_scheme :: "string option"
  ta_routing_address :: "string option"

definition test_account_routings :: "test_account_request \<Rightarrow> setup_routing list" where
  "test_account_routings req =
     (case (ta_routing_scheme req, ta_routing_address req) of
        (Some scheme, Some address) \<Rightarrow>
          if trim scheme \<noteq> [] \<and> trim address \<noteq> []
          then [\<lparr>ur_scheme = trim scheme, ur_address = trim address\<rparr>] else []
      | _ \<Rightarrow> [])"

definition test_account_page :: "setup_ctx \<Rightarrow> test_account_request \<Rightarrow> string \<Rightarrow> app_response calls" where
  "test_account_page K req token = do {
     fetched \<leftarrow> fetch_me K token;
     (case fetched of
        Inl e \<Rightarrow> State_Monad.return (app_error 502 ''OBP-BANK-NODE-APP-SETUP-OBP-001'' e)
      | Inr u \<Rightarrow> do {
          answer \<leftarrow> create_account K token u (ta_bank_id req) None (ta_label req) (ta_currency req)
            (ta_owner_username req) (test_account_routings req);
          State_Monad.return (relay ''OBP-BANK-NODE-APP-SETUP-APPLY-001'' answer)
        })
   }"

end
