(* ===== verification/Setup_Session.thy ===== *)
theory Setup_Session
  imports Setup_Apply App_Proxy
begin

text \<open>
  The handlers of the operator page with their sessions (\<open>setup.rs\<close>), its routes, and how
  \<open>main.rs\<close> puts the app together. A handler gives its answer (\<open>None\<close>: it panicked), the new state
  of the sessions and the calls to OBP-API.
\<close>

section \<open>Login\<close>

text \<open>\<open>Redirect\<close> panics on a target that a header cannot hold.\<close>

definition redirect :: "oidc_libs \<Rightarrow> nat \<Rightarrow> string \<Rightarrow> string option \<Rightarrow> app_response option" where
  "redirect L status url cookie =
     (if dl_header_value L url
      then Some \<lparr>an_status = status, an_content = AppEmpty, an_location = Some url, an_cookie = cookie\<rparr>
      else None)"

definition next_path :: "string option \<Rightarrow> string" where
  "next_path requested =
     (case requested of
        Some p \<Rightarrow> if starts_with ''/'' p \<and> \<not> starts_with ''//'' p then p else ''/setup''
      | None \<Rightarrow> ''/setup'')"

definition login :: "oidc_libs \<Rightarrow> setup_ctx \<Rightarrow> login_env \<Rightarrow> string option \<Rightarrow> oidc \<Rightarrow> app_response option \<times> oidc" where
  "login L K E requested s =
     (case begin_login L (sq_obp K) E (next_path requested) s of
        (Inr url, s') \<Rightarrow> (redirect L 307 url None, s')
      | (Inl e, s') \<Rightarrow>
          (Some (app_error 502 ''OBP-BANK-NODE-APP-SETUP-OIDC-001'' (''cannot start login: '' @ e)), s'))"

record callback_params =
  cp_code :: "string option"
  cp_state :: "string option"
  cp_error :: "string option"
  cp_error_description :: "string option"

definition callback ::
  "oidc_libs \<Rightarrow> setup_ctx \<Rightarrow> nat \<Rightarrow> exchange_env \<Rightarrow> callback_params \<Rightarrow> oidc
   \<Rightarrow> app_response option \<times> oidc" where
  "callback L K now E params s =
     (case cp_error params of
        Some err \<Rightarrow>
          (Some (app_error 502 ''OBP-BANK-NODE-APP-SETUP-OIDC-002''
             (''provider refused the login: '' @ err @ '' '' @ unwrap_or (cp_error_description params) [])), s)
      | None \<Rightarrow>
          (case (cp_code params, cp_state params) of
             (Some code, Some oauth_state) \<Rightarrow>
               (case complete_login L (sq_obp K) now E oauth_state code s of
                  (None, s') \<Rightarrow> (None, s')
                | (Some (Inr (session_id, target)), s') \<Rightarrow>
                    (redirect L 303 target (Some (session_cookie session_id)), s')
                | (Some (Inl e), s') \<Rightarrow>
                    (Some (app_error 502 ''OBP-BANK-NODE-APP-SETUP-OIDC-004'' (''code exchange failed: '' @ e)), s'))
           | _ \<Rightarrow> (Some (app_error 400 ''OBP-BANK-NODE-APP-SETUP-OIDC-003''
                       ''callback is missing code or state''), s)))"

definition logout_page :: "string option \<Rightarrow> oidc \<Rightarrow> app_response option \<times> oidc" where
  "logout_page cookie s =
     (let answer = (app_answer 200 (AppJson (JObj [(''logged_out'', JBool True)])))
                     \<lparr>an_cookie := Some clear_session_cookie\<rparr>
      in case session_id_from_cookies cookie of
           None \<Rightarrow> (Some answer, s)
         | Some sid \<Rightarrow> (case logout sid s of (None, s') \<Rightarrow> (None, s') | (Some _, s') \<Rightarrow> (Some answer, s')))"

section \<open>Handlers behind a session\<close>

definition login_required :: app_response where
  "login_required =
     app_answer 401 (AppJson (JObj
       [(''error_code'', JStr ''OBP-BANK-NODE-APP-SETUP-LOGIN-REQUIRED''),
        (''message'', JStr ''log in to OBP-API to use this page''),
        (''login_url'', JStr ''/setup/login'')]))"

definition require_token ::
  "oidc_libs \<Rightarrow> setup_ctx \<Rightarrow> nat \<Rightarrow> exchange_env \<Rightarrow> string option \<Rightarrow> oidc
   \<Rightarrow> (app_response + string) option \<times> oidc" where
  "require_token L K now E cookie s =
     (case session_id_from_cookies cookie of
        None \<Rightarrow> (Some (Inl login_required), s)
      | Some sid \<Rightarrow>
          (case access_token L (sq_obp K) now E sid s of
             (None, s') \<Rightarrow> (None, s')
           | (Some None, s') \<Rightarrow> (Some (Inl login_required), s')
           | (Some (Some token), s') \<Rightarrow> (Some (Inr token), s')))"

type_synonym handler_result = "app_response option \<times> oidc \<times> obp_call list"

definition with_session ::
  "oidc_libs \<Rightarrow> setup_ctx \<Rightarrow> nat \<Rightarrow> exchange_env \<Rightarrow> string option \<Rightarrow> (string \<Rightarrow> app_response calls) \<Rightarrow> oidc
   \<Rightarrow> handler_result" where
  "with_session L K now E cookie page s =
     (case require_token L K now E cookie s of
        (None, s') \<Rightarrow> (None, s', [])
      | (Some (Inl answer), s') \<Rightarrow> (Some answer, s', [])
      | (Some (Inr token), s') \<Rightarrow>
          let (answer, sent) = run_state (page token) [] in (Some answer, s', sent))"

definition setup_me :: "oidc_libs \<Rightarrow> setup_ctx \<Rightarrow> nat \<Rightarrow> exchange_env \<Rightarrow> string option \<Rightarrow> oidc \<Rightarrow> handler_result" where
  "setup_me L K now E cookie = with_session L K now E cookie (me_page K)"

definition setup_status :: "oidc_libs \<Rightarrow> setup_ctx \<Rightarrow> nat \<Rightarrow> exchange_env \<Rightarrow> string option \<Rightarrow> oidc \<Rightarrow> handler_result" where
  "setup_status L K now E cookie = with_session L K now E cookie (status_page K)"

definition account_directory ::
  "oidc_libs \<Rightarrow> setup_ctx \<Rightarrow> nat \<Rightarrow> exchange_env \<Rightarrow> string option \<Rightarrow> oidc \<Rightarrow> handler_result" where
  "account_directory L K now E cookie = with_session L K now E cookie (account_directory_page K)"

definition request_entitlement ::
  "oidc_libs \<Rightarrow> setup_ctx \<Rightarrow> nat \<Rightarrow> exchange_env \<Rightarrow> string option \<Rightarrow> string \<Rightarrow> string \<Rightarrow> oidc \<Rightarrow> handler_result" where
  "request_entitlement L K now E cookie bank_id role =
     with_session L K now E cookie (request_entitlement_page K bank_id role)"

definition setup_apply ::
  "oidc_libs \<Rightarrow> setup_ctx \<Rightarrow> nat \<Rightarrow> exchange_env \<Rightarrow> string option \<Rightarrow> string \<Rightarrow> oidc \<Rightarrow> handler_result" where
  "setup_apply L K now E cookie item_id = with_session L K now E cookie (apply_page K item_id)"

definition test_account ::
  "oidc_libs \<Rightarrow> setup_ctx \<Rightarrow> nat \<Rightarrow> exchange_env \<Rightarrow> string option \<Rightarrow> test_account_request \<Rightarrow> oidc \<Rightarrow> handler_result" where
  "test_account L K now E cookie req = with_session L K now E cookie (test_account_page K req)"

section \<open>Routes\<close>

datatype setup_handler =
    SetupPage string
  | SetupAsset string string
  | SetupLogin
  | SetupCallback
  | SetupLogout
  | SetupMe
  | SetupStatus
  | SetupDirectory
  | SetupApply
  | SetupRequestEntitlement
  | SetupTestAccount
  | NotConfiguredPage string
  | NotConfigured

definition not_configured :: app_response where
  "not_configured = app_error 404 ''OBP-BANK-NODE-APP-SETUP-NOT-CONFIGURED''
     ''add an obp_api block to the app config to enable the setup page''"

definition setup_routes :: "bool \<Rightarrow> (string \<times> string \<times> setup_handler) list" where
  "setup_routes configured =
     (if configured
      then [(''GET'', ''/setup'', SetupPage ''static/setup.html''),
            (''GET'', ''/setup.js'', SetupAsset ''application/javascript'' ''static/setup.js''),
            (''GET'', ''/accounts'', SetupPage ''static/accounts.html''),
            (''GET'', ''/accounts.js'', SetupAsset ''application/javascript'' ''static/accounts.js''),
            (''GET'', ''/setup/login'', SetupLogin),
            (''GET'', ''/setup/callback'', SetupCallback),
            (''POST'', ''/setup/logout'', SetupLogout),
            (''GET'', ''/api/setup/me'', SetupMe),
            (''GET'', ''/api/setup/status'', SetupStatus),
            (''GET'', ''/api/setup/account-directory'', SetupDirectory),
            (''POST'', ''/api/setup/apply'', SetupApply),
            (''POST'', ''/api/setup/request-entitlement'', SetupRequestEntitlement),
            (''POST'', ''/api/setup/test-account'', SetupTestAccount)]
      else [(''GET'', ''/setup'', NotConfiguredPage
               ''<h1>Setup not configured</h1><p>Add an <code>obp_api</code> block to the app config to enable this page.</p>''),
            (''GET'', ''/accounts'', NotConfiguredPage
               ''<h1>Accounts not configured</h1><p>Add an <code>obp_api</code> block to the app config to enable this page.</p>''),
            (''GET'', ''/api/setup/me'', NotConfigured),
            (''GET'', ''/api/setup/status'', NotConfigured),
            (''GET'', ''/api/setup/account-directory'', NotConfigured),
            (''POST'', ''/api/setup/apply'', NotConfigured),
            (''POST'', ''/api/setup/test-account'', NotConfigured)])"

section \<open>The app\<close>

record running_app =
  rk_state :: app_state
  rk_setup :: "(app_obp_config \<times> setup_config) option"
  rk_oidc :: oidc
  rk_bind :: string

text \<open>\<open>main\<close> after the configuration is loaded, up to the listener.\<close>

definition start_app :: "app_config \<Rightarrow> string + running_app" where
  "start_app config =
     (case new_app_state (ac_nodes config) (ac_ui_defaults config) of
        Inl e \<Rightarrow> Inl e
      | Inr S \<Rightarrow> Inr \<lparr>rk_state = S, rk_setup = map_option (\<lambda>obp. (obp, ac_setup config)) (ac_obp_api config),
                       rk_oidc = new_oidc, rk_bind = ac_bind config\<rparr>)"

end
