(* ===== verification/Sql_Rows.thy ===== *)
theory Sql_Rows
  imports Sql_Table "HOL-Library.Sublist"
begin

text \<open>
  SQLite below the typed rows of the stores: a table has columns with their constraints and rows of
  untyped cells, and the statements the three stores send to it are \<open>CREATE TABLE\<close>, \<open>ALTER TABLE\<close>,
  \<open>CREATE INDEX\<close>, \<open>INSERT\<close>, \<open>UPDATE\<close> and \<open>SELECT\<close>. The locale \<open>row_codec\<close> is the contract between
  the cells of a row and the record that \<open>sqlx::FromRow\<close> makes of it; under it each statement is the
  operation of \<open>Sql_Table\<close> on the records.
\<close>

section \<open>Cells, columns and tables\<close>

datatype sql_value = SqlNull | SqlText string | SqlInt int

type_synonym sql_row = "string \<Rightarrow> sql_value"

record sql_column =
  co_name :: string
  co_not_null :: bool
  co_default :: sql_value

record sql_table =
  tb_columns :: "sql_column list"
  tb_rows :: "sql_row list"

record database =
  db_tables :: "(string \<times> sql_table) list"
  db_indexes :: "string list"

abbreviation column_names :: "sql_column list \<Rightarrow> string list" where
  "column_names cols \<equiv> map co_name cols"

text \<open>Column definitions: \<open>n TEXT\<close> (also \<open>TEXT PRIMARY KEY\<close>), \<open>n \<dots> NOT NULL\<close> and \<open>n INTEGER NOT NULL DEFAULT k\<close>.\<close>

definition nullable :: "string \<Rightarrow> sql_column" where
  "nullable n = \<lparr>co_name = n, co_not_null = False, co_default = SqlNull\<rparr>"

definition not_null :: "string \<Rightarrow> sql_column" where
  "not_null n = \<lparr>co_name = n, co_not_null = True, co_default = SqlNull\<rparr>"

definition default_int :: "string \<Rightarrow> int \<Rightarrow> sql_column" where
  "default_int n k = \<lparr>co_name = n, co_not_null = True, co_default = SqlInt k\<rparr>"

lemmas column_defs = nullable_def not_null_def default_int_def

lemma column_sel [simp]:
  "co_name (nullable n) = n" "co_name (not_null n) = n" "co_name (default_int n k) = n"
  "co_not_null (nullable n) = False" "co_not_null (not_null n) = True" "co_not_null (default_int n k) = True"
  "co_default (nullable n) = SqlNull" "co_default (not_null n) = SqlNull" "co_default (default_int n k) = SqlInt k"
  by (simp_all add: column_defs)

section \<open>Statements on the schema\<close>

definition create_table :: "string \<Rightarrow> sql_column list \<Rightarrow> database \<Rightarrow> string + database" where
  "create_table n cols db =
     (if n \<in> set (map fst (db_tables db)) then Inr db
      else Inr (db\<lparr>db_tables := db_tables db @ [(n, \<lparr>tb_columns = cols, tb_rows = []\<rparr>)]\<rparr>))"

text \<open>\<open>ALTER TABLE n ADD COLUMN c\<close>: the rows that are there read the default in the new column.\<close>

definition with_column :: "sql_column \<Rightarrow> sql_table \<Rightarrow> sql_table" where
  "with_column c t = \<lparr>tb_columns = tb_columns t @ [c],
     tb_rows = map (\<lambda>r. r(co_name c := co_default c)) (tb_rows t)\<rparr>"

definition sqlite_error :: "string \<Rightarrow> string" where
  "sqlite_error m = ''error returned from database: (code: 1) '' @ m"

definition duplicate_column :: "string \<Rightarrow> string" where
  "duplicate_column c = sqlite_error (''duplicate column name: '' @ c)"

definition add_column :: "string \<Rightarrow> sql_column \<Rightarrow> database \<Rightarrow> string + database" where
  "add_column n c db =
     (case map_of (db_tables db) n of
        None \<Rightarrow> Inl (sqlite_error (''no such table: '' @ n))
      | Some t \<Rightarrow>
          if co_name c \<in> set (column_names (tb_columns t))
          then Inl (duplicate_column (co_name c))
          else Inr (db\<lparr>db_tables := map (\<lambda>(m, u). (m, if m = n then with_column c u else u)) (db_tables db)\<rparr>))"

definition create_index :: "string \<Rightarrow> string \<Rightarrow> string list \<Rightarrow> database \<Rightarrow> string + database" where
  "create_index i n ns db =
     (case map_of (db_tables db) n of
        None \<Rightarrow> Inl (sqlite_error (''no such table: '' @ n))
      | Some t \<Rightarrow>
          if i \<in> set (db_indexes db) then Inr db
          else if set ns \<subseteq> set (column_names (tb_columns t)) then Inr (db\<lparr>db_indexes := db_indexes db @ [i]\<rparr>)
          else Inl (sqlite_error ''no such column''))"

fun run_ddl :: "dbcall \<Rightarrow> (database \<Rightarrow> string + database) \<Rightarrow> database \<Rightarrow> string + database" where
  "run_ddl (Fails e) stmt db = Inl e"
| "run_ddl (Runs now) stmt db = stmt db"

section \<open>Statements on rows\<close>

definition fresh_row :: "sql_column list \<Rightarrow> (string \<times> sql_value) list \<Rightarrow> sql_row" where
  "fresh_row cols assigns n =
     (case map_of assigns n of
        Some v \<Rightarrow> v
      | None \<Rightarrow> (case map_of (map (\<lambda>c. (co_name c, co_default c)) cols) n of Some v \<Rightarrow> v | None \<Rightarrow> SqlNull))"

definition set_cells :: "(string \<times> sql_value) list \<Rightarrow> sql_row \<Rightarrow> sql_row" where
  "set_cells assigns row n = (case map_of assigns n of Some v \<Rightarrow> v | None \<Rightarrow> row n)"

definition row_allowed :: "sql_column list \<Rightarrow> sql_row \<Rightarrow> bool" where
  "row_allowed cols row \<longleftrightarrow> list_all (\<lambda>c. co_not_null c \<longrightarrow> row (co_name c) \<noteq> SqlNull) cols"

definition key_taken :: "string \<Rightarrow> sql_row \<Rightarrow> sql_table \<Rightarrow> bool" where
  "key_taken key row t \<longleftrightarrow> row key \<noteq> SqlNull \<and> list_ex (\<lambda>r. r key = row key) (tb_rows t)"

definition not_null_failed :: db_error where
  "not_null_failed = Driver ''NOT NULL constraint failed''"

definition insert_row ::
  "string \<Rightarrow> (string \<times> sql_value) list \<Rightarrow> sql_table \<Rightarrow> db_error + sql_table" where
  "insert_row key assigns t =
     (let row = fresh_row (tb_columns t) assigns
      in if \<not> row_allowed (tb_columns t) row then Inl not_null_failed
         else if key_taken key row t then Inl UniqueViolation
         else Inr (t\<lparr>tb_rows := tb_rows t @ [row]\<rparr>))"

definition update_rows ::
  "(sql_row \<Rightarrow> bool) \<Rightarrow> (sql_row \<Rightarrow> (string \<times> sql_value) list) \<Rightarrow> sql_table \<Rightarrow> db_error + nat \<times> sql_table" where
  "update_rows cond assigns t =
     (let rows = map (\<lambda>r. if cond r then set_cells (assigns r) r else r) (tb_rows t)
      in if list_all (row_allowed (tb_columns t)) rows
         then Inr (length (filter cond (tb_rows t)), t\<lparr>tb_rows := rows\<rparr>)
         else Inl not_null_failed)"

text \<open>\<open>execute\<close> of an \<open>INSERT\<close> and of an \<open>UPDATE\<close>; the time is the caller's \<open>now\<close>.\<close>

fun exec_insert ::
  "dbcall \<Rightarrow> string \<Rightarrow> (string \<Rightarrow> (string \<times> sql_value) list) \<Rightarrow> sql_table \<Rightarrow> unit db_result \<times> sql_table" where
  "exec_insert (Fails e) key assigns t = (Inl (Db (Driver e)), t)"
| "exec_insert (Runs now) key assigns t =
     (case insert_row key (assigns now) t of Inl e \<Rightarrow> (Inl (Db e), t) | Inr t' \<Rightarrow> (Inr (), t'))"

fun exec_update_sql ::
  "dbcall \<Rightarrow> (sql_row \<Rightarrow> bool) \<Rightarrow> (string \<Rightarrow> sql_row \<Rightarrow> (string \<times> sql_value) list) \<Rightarrow> sql_table
   \<Rightarrow> nat db_result \<times> sql_table" where
  "exec_update_sql (Fails e) cond assigns t = (Inl (Db (Driver e)), t)"
| "exec_update_sql (Runs now) cond assigns t =
     (case update_rows cond (assigns now) t of
        Inl e \<Rightarrow> (Inl (Db e), t)
      | Inr (n, t') \<Rightarrow> (Inr n, t'))"

definition drop_count :: "nat db_result \<times> 't \<Rightarrow> unit db_result \<times> 't" where
  "drop_count p = (case p of (Inl e, t) \<Rightarrow> (Inl e, t) | (Inr _, t) \<Rightarrow> (Inr (), t))"

text \<open>\<open>query_as\<close>: the rows a query gives, each decoded; a row that does not decode fails the query.\<close>

definition decode_failed :: db_error where
  "decode_failed = Driver ''error occurred while decoding column''"

fun decode_rows :: "(sql_row \<Rightarrow> 'r option) \<Rightarrow> sql_row list \<Rightarrow> db_error + 'r list" where
  "decode_rows dec [] = Inr []"
| "decode_rows dec (r # rs) =
     (case dec r of
        None \<Rightarrow> Inl decode_failed
      | Some x \<Rightarrow> (case decode_rows dec rs of Inl e \<Rightarrow> Inl e | Inr xs \<Rightarrow> Inr (x # xs)))"

fun fetch_all :: "dbcall \<Rightarrow> (sql_row \<Rightarrow> 'r option) \<Rightarrow> (sql_row list \<Rightarrow> sql_row list) \<Rightarrow> sql_table \<Rightarrow> 'r list db_result" where
  "fetch_all (Fails e) dec q t = Inl (Db (Driver e))"
| "fetch_all (Runs now) dec q t =
     (case decode_rows dec (q (tb_rows t)) of Inl e \<Rightarrow> Inl (Db e) | Inr rs \<Rightarrow> Inr rs)"

text \<open>\<open>fetch_optional\<close> decodes the first row of the result only.\<close>

definition fetch_optional ::
  "dbcall \<Rightarrow> (sql_row \<Rightarrow> 'r option) \<Rightarrow> (sql_row list \<Rightarrow> sql_row list) \<Rightarrow> sql_table \<Rightarrow> 'r option db_result" where
  "fetch_optional c dec q t =
     (case fetch_all c dec (\<lambda>rows. take 1 (q rows)) t of
        Inl e \<Rightarrow> Inl e
      | Inr [] \<Rightarrow> Inr None
      | Inr (r # _) \<Rightarrow> Inr (Some r))"

section \<open>Reading cells\<close>

text \<open>How \<open>sqlx\<close> reads a \<open>String\<close>, an \<open>Option<String>\<close>, an integer and a \<open>bool\<close>.\<close>

fun get_text :: "sql_value \<Rightarrow> string option" where
  "get_text (SqlText s) = Some s"
| "get_text _ = None"

fun get_opt_text :: "sql_value \<Rightarrow> string option option" where
  "get_opt_text SqlNull = Some None"
| "get_opt_text (SqlText s) = Some (Some s)"
| "get_opt_text (SqlInt _) = None"

fun get_nat :: "sql_value \<Rightarrow> nat option" where
  "get_nat (SqlInt i) = (if 0 \<le> i then Some (nat i) else None)"
| "get_nat _ = None"

fun get_bool :: "sql_value \<Rightarrow> bool option" where
  "get_bool (SqlInt i) = Some (i \<noteq> 0)"
| "get_bool _ = None"

fun opt_cell :: "string option \<Rightarrow> sql_value" where
  "opt_cell None = SqlNull"
| "opt_cell (Some s) = SqlText s"

definition bool_cell :: "bool \<Rightarrow> sql_value" where
  "bool_cell b = SqlInt (if b then 1 else 0)"

lemma get_cell [simp]:
  "get_opt_text (opt_cell x) = Some x"
  "get_nat (SqlInt (int n)) = Some n"
  "get_bool (bool_cell b) = Some b"
  "opt_cell x = SqlNull \<longleftrightarrow> x = None"
  "SqlNull = opt_cell x \<longleftrightarrow> x = None"
  "opt_cell x = SqlText s \<longleftrightarrow> x = Some s"
  "opt_cell x = opt_cell y \<longleftrightarrow> x = y"
  "bool_cell b \<noteq> SqlNull"
  "bool_cell b = SqlInt 1 \<longleftrightarrow> b"
  "bool_cell b = bool_cell b' \<longleftrightarrow> b = b'"
  by (cases x; cases y; simp add: bool_cell_def)+

text \<open>Text for \<open>ORDER BY\<close> and \<open><\<close>; the columns it is used on hold text.\<close>

fun cell_text :: "sql_value \<Rightarrow> string" where
  "cell_text (SqlText s) = s"
| "cell_text _ = []"

section \<open>The contract between cells and records\<close>

definition row_rep :: "sql_column list \<Rightarrow> ('r \<Rightarrow> string \<Rightarrow> sql_value) \<Rightarrow> sql_row \<Rightarrow> 'r \<Rightarrow> bool" where
  "row_rep cols cell row r \<longleftrightarrow> list_all (\<lambda>n. row n = cell r n) (column_names cols)"

definition table_rep ::
  "sql_column list \<Rightarrow> ('r \<Rightarrow> string \<Rightarrow> sql_value) \<Rightarrow> sql_table \<Rightarrow> 'r list \<Rightarrow> bool" where
  "table_rep cols cell t rs \<longleftrightarrow>
     set (tb_columns t) = set cols \<and> distinct (column_names (tb_columns t))
     \<and> list_all2 (row_rep cols cell) (tb_rows t) rs"

text \<open>A statement on cells and an operation on records that agree: same answer, tables that fit.\<close>

definition agrees ::
  "sql_column list \<Rightarrow> ('r \<Rightarrow> string \<Rightarrow> sql_value) \<Rightarrow> 'a \<times> sql_table \<Rightarrow> 'a \<times> 'r list \<Rightarrow> bool" where
  "agrees cols cell x y \<longleftrightarrow> fst x = fst y \<and> table_rep cols cell (snd x) (snd y)"

lemma row_rep_cell: "row_rep cols cell row r \<Longrightarrow> n \<in> set (column_names cols) \<Longrightarrow> row n = cell r n"
  by (auto simp: row_rep_def list_all_iff)

lemma list_all2_sort_key:
  assumes "list_all2 R xs ys" and "\<And>x y. R x y \<Longrightarrow> f x = g y"
  shows "list_all2 R (sort_key f xs) (sort_key g ys)"
  using assms(1)
proof (induction rule: list_all2_induct)
  case (Cons x xs y ys)
  have "list_all2 R (insort_key f a us) (insort_key g b vs)" if "list_all2 R us vs" "R a b" for a b us vs
    using that(1) by (induction rule: list_all2_induct) (use that(2) assms(2) in auto)
  with Cons show ?case by simp
qed simp

lemma list_all2_filter:
  assumes "list_all2 R xs ys" and "\<And>x y. R x y \<Longrightarrow> P x = Q y"
  shows "list_all2 R (filter P xs) (filter Q ys)"
  using assms(1) by (induction rule: list_all2_induct) (use assms(2) in auto)

lemma list_all2_sql_limit: "list_all2 R xs ys \<Longrightarrow> list_all2 R (sql_limit n xs) (sql_limit n ys)"
  by (simp add: sql_limit_def list_all2_takeI)

lemma decode_rows_rep:
  assumes "list_all2 R rows rs" and "\<And>row r. R row r \<Longrightarrow> dec row = Some r"
  shows "decode_rows dec rows = Inr rs"
  using assms(1) by (induction rule: list_all2_induct) (simp_all add: assms(2))

lemma fresh_row_cols:
  assumes "set cols = set cols'" "distinct (column_names cols)" "distinct (column_names cols')"
  shows "fresh_row cols = fresh_row cols'"
proof -
  have "map_of (map (\<lambda>c. (co_name c, co_default c)) cols) = map_of (map (\<lambda>c. (co_name c, co_default c)) cols')"
    by (rule map_of_inject_set [THEN iffD2]) (use assms in \<open>simp_all add: comp_def\<close>)
  then show ?thesis by (auto simp: fresh_row_def fun_eq_iff split: option.splits)
qed

locale row_codec =
  fixes cols :: "sql_column list"
    and cell :: "'r \<Rightarrow> string \<Rightarrow> sql_value"
    and key_col :: string
    and key :: "'r \<Rightarrow> string"
    and dec :: "sql_row \<Rightarrow> 'r option"
  assumes cols_distinct: "distinct (column_names cols)"
    and key_col: "key_col \<in> set (column_names cols)"
    and key_cell: "cell r key_col = SqlText (key r)"
    and cell_not_null: "c \<in> set cols \<Longrightarrow> co_not_null c \<Longrightarrow> cell r (co_name c) \<noteq> SqlNull"
    and decodes: "row_rep cols cell row r \<Longrightarrow> dec row = Some r"
begin

lemma rep_allowed: "row_rep cols cell row r \<Longrightarrow> set cs = set cols \<Longrightarrow> row_allowed cs row"
  using cell_not_null by (auto simp: row_allowed_def row_rep_def list_all_iff)

lemma rep_key: "row_rep cols cell row r \<Longrightarrow> row key_col = SqlText (key r)"
  using row_rep_cell [of cols cell row r key_col] key_col key_cell by metis

lemma key_taken_iff:
  assumes "table_rep cols cell t rs" and "row_rep cols cell row r"
  shows "key_taken key_col row t = sql_has_key key (key r) rs"
proof -
  have "list_all2 (row_rep cols cell) (tb_rows t) rs" using assms(1) by (simp add: table_rep_def)
  then have "list_ex (\<lambda>r'. r' key_col = row key_col) (tb_rows t) = (key r \<in> set (map key rs))"
    by (induction rule: list_all2_induct) (auto dest!: rep_key simp: rep_key [OF assms(2)])
  then show ?thesis by (simp add: key_taken_def sql_has_key_def rep_key [OF assms(2)])
qed

text \<open>The row an \<open>INSERT\<close> makes is the record's when the columns it names and the defaults are.\<close>

lemma insert_row_rep:
  assumes t: "table_rep cols cell t rs" and r: "row_rep cols cell (fresh_row cols assigns) r"
  shows "if sql_has_key key (key r) rs then insert_row key_col assigns t = Inl UniqueViolation
    else \<exists>t'. insert_row key_col assigns t = Inr t' \<and> table_rep cols cell t' (rs @ [r])"
proof -
  have cs: "set (tb_columns t) = set cols" "distinct (column_names (tb_columns t))"
    and rows: "list_all2 (row_rep cols cell) (tb_rows t) rs" using t by (simp_all add: table_rep_def)
  have "fresh_row (tb_columns t) = fresh_row cols" by (rule fresh_row_cols [OF cs cols_distinct])
  with r rep_allowed [OF r cs(1)] key_taken_iff [OF t r] rows cs show ?thesis
    by (auto simp: insert_row_def table_rep_def Let_def intro: list_all2_appendI)
qed

lemma exec_insert_rep:
  assumes "table_rep cols cell t rs"
    and "\<And>now. row_rep cols cell (fresh_row cols (assigns now)) (mk now)" "\<And>now. key (mk now) = k"
  shows "agrees cols cell (exec_insert c key_col assigns t)
    (case c of Fails e \<Rightarrow> (Inl (Db (Driver e)), rs)
     | Runs now \<Rightarrow> if sql_has_key key k rs then (Inl (Db UniqueViolation), rs) else (Inr (), rs @ [mk now]))"
proof (cases c)
  case (Runs now)
  from insert_row_rep [OF assms(1,2), of now] assms(3) [of now] Runs show ?thesis
    by (auto simp: agrees_def assms(1) split: if_splits)
qed (simp add: agrees_def assms(1))

lemma update_rows_rep:
  assumes t: "table_rep cols cell t rs"
    and cond: "\<And>row r. row_rep cols cell row r \<Longrightarrow> cond row = P r"
    and upd: "\<And>row r. row_rep cols cell row r \<Longrightarrow> P r \<Longrightarrow> row_rep cols cell (set_cells (assigns row) row) (f r)"
  shows "\<exists>t'. update_rows cond assigns t = Inr (sql_affected P rs, t') \<and> table_rep cols cell t' (sql_update P f rs)"
proof -
  have cs: "set (tb_columns t) = set cols"
    and rows: "list_all2 (row_rep cols cell) (tb_rows t) rs" using t by (simp_all add: table_rep_def)
  let ?rows = "map (\<lambda>r. if cond r then set_cells (assigns r) r else r) (tb_rows t)"
  have rows': "list_all2 (row_rep cols cell) ?rows (sql_update P f rs)"
    using rows by (induction rule: list_all2_induct) (use cond upd in auto)
  then have "list_all (row_allowed (tb_columns t)) ?rows"
    by (induction rule: list_all2_induct) (use rep_allowed cs in auto)
  moreover have "length (filter cond (tb_rows t)) = sql_affected P rs"
    unfolding sql_affected_def using list_all2_lengthD [OF list_all2_filter [OF rows cond]] by simp
  ultimately show ?thesis using rows' t by (simp add: update_rows_def table_rep_def Let_def)
qed

lemma run_update_rep:
  assumes "table_rep cols cell t rs"
    and "\<And>row r. row_rep cols cell row r \<Longrightarrow> cond row = P r"
    and "\<And>now row r. row_rep cols cell row r \<Longrightarrow> P r \<Longrightarrow>
      row_rep cols cell (set_cells (assigns now row) row) (f now r)"
  shows "agrees cols cell (exec_update_sql c cond assigns t) (run_update c P f rs)"
proof (cases c)
  case (Runs now)
  have "\<exists>t'. update_rows cond (assigns now) t = Inr (sql_affected P rs, t') \<and>
      table_rep cols cell t' (sql_update P (f now) rs)"
    by (rule update_rows_rep) (fact assms)+
  with Runs show ?thesis by (auto simp: agrees_def)
qed (simp add: agrees_def assms(1))

lemma exec_update_rep:
  assumes "table_rep cols cell t rs"
    and "\<And>row r. row_rep cols cell row r \<Longrightarrow> cond row = P r"
    and "\<And>now row r. row_rep cols cell row r \<Longrightarrow> P r \<Longrightarrow>
      row_rep cols cell (set_cells (assigns now row) row) (f now r)"
  shows "agrees cols cell (drop_count (exec_update_sql c cond assigns t)) (exec_update c P f rs)"
proof -
  have "agrees cols cell (exec_update_sql c cond assigns t) (run_update c P f rs)"
    by (rule run_update_rep) (fact assms)+
  then show ?thesis by (auto simp: agrees_def drop_count_def exec_update_def split: prod.splits sum.splits)
qed

text \<open>A query on the cells and one on the records.\<close>

lemma fetch_all_rep:
  assumes "table_rep cols cell t rs"
    and "\<And>rows rs. list_all2 (row_rep cols cell) rows rs \<Longrightarrow> list_all2 (row_rep cols cell) (q rows) (q' rs)"
  shows "fetch_all c dec q t = run_query c q' rs"
proof (cases c)
  case (Runs now)
  have "list_all2 (row_rep cols cell) (q (tb_rows t)) (q' rs)"
    using assms by (simp add: table_rep_def)
  from decode_rows_rep [OF this decodes] Runs show ?thesis by simp
qed simp

lemma fetch_optional_rep:
  assumes "table_rep cols cell t rs"
    and "\<And>rows rs. list_all2 (row_rep cols cell) rows rs \<Longrightarrow> list_all2 (row_rep cols cell) (q rows) (q' rs)"
  shows "fetch_optional c dec q t =
    run_query c (\<lambda>rs. case q' rs of [] \<Rightarrow> None | r # _ \<Rightarrow> Some r) rs"
proof -
  have "fetch_all c dec (\<lambda>rows. take 1 (q rows)) t = run_query c (\<lambda>rs. take 1 (q' rs)) rs"
    using assms by (intro fetch_all_rep list_all2_takeI)
  then show ?thesis by (cases c; cases "q' rs") (simp_all add: fetch_optional_def)
qed

lemma find_rep:
  assumes "table_rep cols cell t rs"
  shows "fetch_optional c dec (filter (\<lambda>row. row key_col = SqlText k)) t = run_query c (sql_find key k) rs"
proof -
  have "fetch_optional c dec (filter (\<lambda>row. row key_col = SqlText k)) t =
      run_query c (\<lambda>rs. case filter (\<lambda>r. key r = k) rs of [] \<Rightarrow> None | r # _ \<Rightarrow> Some r) rs"
    by (rule fetch_optional_rep [OF assms], rule list_all2_filter) (auto dest: rep_key)
  moreover have "(case filter (\<lambda>r. key r = k) rs of [] \<Rightarrow> None | r # _ \<Rightarrow> Some r) = sql_find key k rs" for rs
    by (induction rs) auto
  ultimately show ?thesis by (cases c) simp_all
qed

end

end
