(* ===== verification/Outbox_Sql.thy ===== *)
theory Outbox_Sql
  imports Sql_Rows Outbox
begin

text \<open>
  The SQL of \<open>OutboxStore\<close> (\<open>crates/obp-bank-node/src/outbox.rs\<close>) on the cells of the table, statement
  by statement, and that each one is the operation of \<open>Outbox\<close> on the records: the answer is the same
  and the tables still fit, whatever call fails.
\<close>

section \<open>Columns and cells\<close>

fun show_outbox_status :: "outbox_status \<Rightarrow> string" where
  "show_outbox_status INITIATED = ''INITIATED''"
| "show_outbox_status SUBMITTED = ''SUBMITTED''"
| "show_outbox_status PROMISE_WRITTEN = ''PROMISE_WRITTEN''"
| "show_outbox_status REPORTED = ''REPORTED''"
| "show_outbox_status EXCEPTION = ''EXCEPTION''"

definition outbox_columns :: "sql_column list" where
  "outbox_columns =
     [not_null ''transaction_request_id'', not_null ''status'', not_null ''bank_id'', not_null ''account_id'',
      not_null ''request_payload'', not_null ''commitment_salt'', default_int ''attempt_count'' 0,
      nullable ''last_attempted_at'', nullable ''obp_transaction_request_id'', nullable ''promise_tx_id'',
      nullable ''promise_blockchain'', nullable ''exception_reason'', nullable ''settlement_id'',
      nullable ''settled_at'', not_null ''created_at'', not_null ''updated_at'']"

text \<open>The cells of a record, and the record of a row (\<open>FromRow\<close>); only the five status texts are written.\<close>

definition outbox_cell :: "outbox_record \<Rightarrow> string \<Rightarrow> sql_value" where
  "outbox_cell r = (\<lambda>n. case map_of
     [(''transaction_request_id'', SqlText (ob_transaction_request_id r)),
      (''status'', SqlText (show_outbox_status (ob_status r))),
      (''bank_id'', SqlText (ob_bank_id r)), (''account_id'', SqlText (ob_account_id r)),
      (''request_payload'', SqlText (ob_request_payload r)),
      (''commitment_salt'', SqlText (ob_commitment_salt r)),
      (''attempt_count'', SqlInt (int (ob_attempt_count r))),
      (''last_attempted_at'', opt_cell (ob_last_attempted_at r)),
      (''obp_transaction_request_id'', opt_cell (ob_obp_transaction_request_id r)),
      (''promise_tx_id'', opt_cell (ob_promise_tx_id r)),
      (''promise_blockchain'', opt_cell (ob_promise_blockchain r)),
      (''exception_reason'', opt_cell (ob_exception_reason r)),
      (''settlement_id'', opt_cell (ob_settlement_id r)), (''settled_at'', opt_cell (ob_settled_at r)),
      (''created_at'', SqlText (ob_created_at r)), (''updated_at'', SqlText (ob_updated_at r))] n of
     Some v \<Rightarrow> v | None \<Rightarrow> SqlNull)"

definition outbox_status_of :: "sql_value \<Rightarrow> outbox_status option" where
  "outbox_status_of v = find (\<lambda>s. v = SqlText (show_outbox_status s))
     [INITIATED, SUBMITTED, PROMISE_WRITTEN, REPORTED, EXCEPTION]"

definition outbox_of_row :: "sql_row \<Rightarrow> outbox_record option" where
  "outbox_of_row row =
     Option.bind (get_text (row ''transaction_request_id'')) (\<lambda>trid.
     Option.bind (outbox_status_of (row ''status'')) (\<lambda>status.
     Option.bind (get_text (row ''bank_id'')) (\<lambda>bank.
     Option.bind (get_text (row ''account_id'')) (\<lambda>account.
     Option.bind (get_text (row ''request_payload'')) (\<lambda>payload.
     Option.bind (get_text (row ''commitment_salt'')) (\<lambda>salt.
     Option.bind (get_nat (row ''attempt_count'')) (\<lambda>attempts.
     Option.bind (get_opt_text (row ''last_attempted_at'')) (\<lambda>attempted.
     Option.bind (get_opt_text (row ''obp_transaction_request_id'')) (\<lambda>oid.
     Option.bind (get_opt_text (row ''promise_tx_id'')) (\<lambda>ptx.
     Option.bind (get_opt_text (row ''promise_blockchain'')) (\<lambda>chain.
     Option.bind (get_opt_text (row ''exception_reason'')) (\<lambda>reason.
     Option.bind (get_opt_text (row ''settlement_id'')) (\<lambda>sid.
     Option.bind (get_opt_text (row ''settled_at'')) (\<lambda>settled.
     Option.bind (get_text (row ''created_at'')) (\<lambda>created.
     Option.bind (get_text (row ''updated_at'')) (\<lambda>updated.
       Some \<lparr>ob_transaction_request_id = trid, ob_status = status, ob_bank_id = bank, ob_account_id = account,
         ob_request_payload = payload, ob_commitment_salt = salt, ob_attempt_count = attempts,
         ob_last_attempted_at = attempted, ob_obp_transaction_request_id = oid, ob_promise_tx_id = ptx,
         ob_promise_blockchain = chain, ob_exception_reason = reason, ob_settlement_id = sid,
         ob_settled_at = settled, ob_created_at = created, ob_updated_at = updated\<rparr>))))))))))))))))"

section \<open>The statements\<close>

abbreviation trid_is :: "string \<Rightarrow> sql_row \<Rightarrow> bool" where
  "trid_is k row \<equiv> row ''transaction_request_id'' = SqlText k"

definition outbox_insert_sql :: "dbcall \<Rightarrow> outbox_entry \<Rightarrow> sql_table \<Rightarrow> unit db_result \<times> sql_table" where
  "outbox_insert_sql c e =
     exec_insert c ''transaction_request_id'' (\<lambda>now.
       [(''transaction_request_id'', SqlText (en_transaction_request_id e)),
        (''status'', SqlText (show_outbox_status INITIATED)), (''bank_id'', SqlText (en_bank_id e)),
        (''account_id'', SqlText (en_account_id e)), (''request_payload'', SqlText (en_request_payload e)),
        (''commitment_salt'', SqlText (en_commitment_salt e)), (''attempt_count'', SqlInt 0),
        (''created_at'', SqlText now), (''updated_at'', SqlText now)])"

definition outbox_get_sql :: "dbcall \<Rightarrow> string \<Rightarrow> sql_table \<Rightarrow> outbox_record option db_result" where
  "outbox_get_sql c k = fetch_optional c outbox_of_row (filter (trid_is k))"

definition outbox_list_sql :: "dbcall \<Rightarrow> int \<Rightarrow> sql_table \<Rightarrow> outbox_record list db_result" where
  "outbox_list_sql c limit =
     fetch_all c outbox_of_row (\<lambda>rows. sql_limit limit (rev (sort_key (\<lambda>r. cell_text (r ''created_at'')) (rev rows))))"

text \<open>A comparison with \<open>NULL\<close> is not true.\<close>

definition due_row :: "string \<Rightarrow> sql_row \<Rightarrow> bool" where
  "due_row cutoff row \<longleftrightarrow>
     row ''status'' \<in> (\<lambda>s. SqlText (show_outbox_status s)) ` {INITIATED, SUBMITTED, PROMISE_WRITTEN}
     \<and> (row ''last_attempted_at'' = SqlNull
        \<or> (case row ''last_attempted_at'' of SqlText a \<Rightarrow> a < cutoff | _ \<Rightarrow> False))"

definition outbox_claim_due_sql :: "dbcall \<Rightarrow> string \<Rightarrow> int \<Rightarrow> sql_table \<Rightarrow> outbox_record list db_result" where
  "outbox_claim_due_sql c cutoff limit =
     fetch_all c outbox_of_row (\<lambda>rows. sql_limit limit
       (sort_key (\<lambda>r. cell_text (r ''created_at'')) (filter (due_row cutoff) rows)))"

definition outbox_record_attempt_sql :: "dbcall \<Rightarrow> string \<Rightarrow> sql_table \<Rightarrow> unit db_result \<times> sql_table" where
  "outbox_record_attempt_sql c k t = drop_count (exec_update_sql c (trid_is k) (\<lambda>now row.
     [(''attempt_count'', (case row ''attempt_count'' of SqlInt n \<Rightarrow> SqlInt (n + 1) | _ \<Rightarrow> SqlNull)),
      (''last_attempted_at'', SqlText now), (''updated_at'', SqlText now)]) t)"

definition outbox_mark_submitted_sql ::
  "dbcall \<Rightarrow> string \<Rightarrow> string option \<Rightarrow> sql_table \<Rightarrow> unit db_result \<times> sql_table" where
  "outbox_mark_submitted_sql c k oid t = drop_count (exec_update_sql c (trid_is k) (\<lambda>now row.
     [(''status'', SqlText (show_outbox_status SUBMITTED)), (''obp_transaction_request_id'', opt_cell oid),
      (''updated_at'', SqlText now)]) t)"

definition outbox_set_status_sql ::
  "dbcall \<Rightarrow> string \<Rightarrow> outbox_status \<Rightarrow> sql_table \<Rightarrow> unit db_result \<times> sql_table" where
  "outbox_set_status_sql c k s t = drop_count (exec_update_sql c (trid_is k) (\<lambda>now row.
     [(''status'', SqlText (show_outbox_status s)), (''updated_at'', SqlText now)]) t)"

definition outbox_mark_reported_sql :: "dbcall \<Rightarrow> string \<Rightarrow> sql_table \<Rightarrow> unit db_result \<times> sql_table" where
  "outbox_mark_reported_sql c k t = outbox_set_status_sql c k REPORTED t"

definition outbox_mark_promise_written_sql ::
  "dbcall \<Rightarrow> string \<Rightarrow> string \<Rightarrow> string \<Rightarrow> sql_table \<Rightarrow> unit db_result \<times> sql_table" where
  "outbox_mark_promise_written_sql c k tx chain t = drop_count (exec_update_sql c (trid_is k) (\<lambda>now row.
     [(''status'', SqlText (show_outbox_status PROMISE_WRITTEN)), (''promise_tx_id'', SqlText tx),
      (''promise_blockchain'', SqlText chain), (''updated_at'', SqlText now)]) t)"

definition outbox_mark_settled_sql ::
  "dbcall \<Rightarrow> string list \<Rightarrow> string \<Rightarrow> sql_table \<Rightarrow> nat db_result \<times> sql_table" where
  "outbox_mark_settled_sql c covered sid t =
     (if covered = [] then (Inr 0, t)
      else exec_update_sql c
        (\<lambda>row. row ''settlement_id'' = SqlNull \<and> list_ex (\<lambda>i. row ''obp_transaction_request_id'' = SqlText i) covered)
        (\<lambda>now row. [(''settlement_id'', SqlText sid), (''settled_at'', SqlText now), (''updated_at'', SqlText now)]) t)"

definition outbox_mark_exception_sql ::
  "dbcall \<Rightarrow> string \<Rightarrow> string \<Rightarrow> sql_table \<Rightarrow> unit db_result \<times> sql_table" where
  "outbox_mark_exception_sql c k reason t = drop_count (exec_update_sql c (trid_is k) (\<lambda>now row.
     [(''status'', SqlText (show_outbox_status EXCEPTION)), (''exception_reason'', SqlText reason),
      (''updated_at'', SqlText now)]) t)"

lemmas outbox_update_sql_defs =
  outbox_record_attempt_sql_def outbox_mark_submitted_sql_def outbox_set_status_sql_def
  outbox_mark_reported_sql_def outbox_mark_promise_written_sql_def outbox_mark_exception_sql_def

section \<open>The cells fit the records\<close>

lemma show_outbox_status_inj [simp]: "show_outbox_status s = show_outbox_status s' \<longleftrightarrow> s = s'"
  by (cases s; cases s'; simp)

lemma outbox_status_of_show [simp]: "outbox_status_of (SqlText (show_outbox_status s)) = Some s"
  by (cases s) (simp_all add: outbox_status_of_def)

lemma outbox_cells [simp]:
  "outbox_cell r ''transaction_request_id'' = SqlText (ob_transaction_request_id r)"
  "outbox_cell r ''status'' = SqlText (show_outbox_status (ob_status r))"
  "outbox_cell r ''bank_id'' = SqlText (ob_bank_id r)"
  "outbox_cell r ''account_id'' = SqlText (ob_account_id r)"
  "outbox_cell r ''request_payload'' = SqlText (ob_request_payload r)"
  "outbox_cell r ''commitment_salt'' = SqlText (ob_commitment_salt r)"
  "outbox_cell r ''attempt_count'' = SqlInt (int (ob_attempt_count r))"
  "outbox_cell r ''last_attempted_at'' = opt_cell (ob_last_attempted_at r)"
  "outbox_cell r ''obp_transaction_request_id'' = opt_cell (ob_obp_transaction_request_id r)"
  "outbox_cell r ''promise_tx_id'' = opt_cell (ob_promise_tx_id r)"
  "outbox_cell r ''promise_blockchain'' = opt_cell (ob_promise_blockchain r)"
  "outbox_cell r ''exception_reason'' = opt_cell (ob_exception_reason r)"
  "outbox_cell r ''settlement_id'' = opt_cell (ob_settlement_id r)"
  "outbox_cell r ''settled_at'' = opt_cell (ob_settled_at r)"
  "outbox_cell r ''created_at'' = SqlText (ob_created_at r)"
  "outbox_cell r ''updated_at'' = SqlText (ob_updated_at r)"
  by (simp_all add: outbox_cell_def)

abbreviation outbox_rep :: "sql_row \<Rightarrow> outbox_record \<Rightarrow> bool" where
  "outbox_rep \<equiv> row_rep outbox_columns outbox_cell"

lemmas outbox_rep_unfold = row_rep_def outbox_columns_def

interpretation ob_sql: row_codec outbox_columns outbox_cell "''transaction_request_id''"
  ob_transaction_request_id outbox_of_row
proof
  show "distinct (column_names outbox_columns)"
    by (simp add: outbox_columns_def)
  show "''transaction_request_id'' \<in> set (column_names outbox_columns)"
    by (simp add: outbox_columns_def)
  show "outbox_cell r ''transaction_request_id'' = SqlText (ob_transaction_request_id r)" for r
    by simp
  show "outbox_cell r (co_name c) \<noteq> SqlNull" if "c \<in> set outbox_columns" "co_not_null c" for r c
    using that by (auto simp: outbox_columns_def)
  show "outbox_of_row row = Some r" if "outbox_rep row r" for row r
    using that by (simp add: outbox_rep_unfold outbox_of_row_def)
qed

section \<open>Each statement is the operation on the records\<close>

abbreviation outbox_agrees :: "'a \<times> sql_table \<Rightarrow> 'a \<times> outbox \<Rightarrow> bool" where
  "outbox_agrees \<equiv> agrees outbox_columns outbox_cell"

abbreviation outbox_table :: "sql_table \<Rightarrow> outbox \<Rightarrow> bool" where
  "outbox_table \<equiv> table_rep outbox_columns outbox_cell"

lemma outbox_insert_refines:
  assumes "outbox_table t rs"
  shows "outbox_agrees (outbox_insert_sql c e t) (outbox_insert c e rs)"
proof -
  have "outbox_agrees (outbox_insert_sql c e t)
    (case c of Fails err \<Rightarrow> (Inl (Db (Driver err)), rs)
     | Runs now \<Rightarrow> if sql_has_key ob_transaction_request_id (en_transaction_request_id e) rs
         then (Inl (Db UniqueViolation), rs) else (Inr (), rs @ [outbox_row now e]))"
    unfolding outbox_insert_sql_def
    by (rule ob_sql.exec_insert_rep [OF assms]) (simp_all add: outbox_rep_unfold outbox_row_def fresh_row_def)
  then show ?thesis by (cases c) simp_all
qed

lemma outbox_updates_refine:
  assumes "outbox_table t rs"
  shows "outbox_agrees (outbox_record_attempt_sql c k t) (outbox_record_attempt c k rs)"
    and "outbox_agrees (outbox_mark_submitted_sql c k oid t) (outbox_mark_submitted c k oid rs)"
    and "outbox_agrees (outbox_mark_promise_written_sql c k tx ch t) (outbox_mark_promise_written c k tx ch rs)"
    and "outbox_agrees (outbox_mark_reported_sql c k t) (outbox_mark_reported c k rs)"
    and "outbox_agrees (outbox_mark_exception_sql c k reason t) (outbox_mark_exception c k reason rs)"
  unfolding outbox_update_sql_defs outbox_op_defs
  by (rule ob_sql.exec_update_rep [OF assms]; auto simp: outbox_rep_unfold set_cells_def)+

lemma outbox_mark_settled_refines:
  assumes "outbox_table t rs"
  shows "outbox_agrees (outbox_mark_settled_sql c covered sid t) (outbox_mark_settled c covered sid rs)"
proof (cases "covered = []")
  case True
  with assms show ?thesis by (simp add: outbox_mark_settled_sql_def outbox_mark_settled_def agrees_def)
next
  case False
  then show ?thesis unfolding outbox_mark_settled_sql_def outbox_mark_settled_def if_False
    by (simp del: exec_update_sql.simps run_update.simps, intro ob_sql.run_update_rep [OF assms])
       (auto simp: outbox_rep_unfold set_cells_def settles_row_def list_ex_iff split: option.splits)
qed

lemma outbox_queries_refine:
  assumes "outbox_table t rs"
  shows "outbox_get_sql c k t = outbox_get c k rs"
    and "outbox_list_sql c limit t = outbox_list c limit rs"
    and "outbox_claim_due_sql c cutoff limit t = outbox_claim_due c cutoff limit rs"
proof -
  show "outbox_get_sql c k t = outbox_get c k rs"
    unfolding outbox_get_sql_def outbox_get_def by (rule ob_sql.find_rep [OF assms])
  have created: "outbox_rep row r \<Longrightarrow> cell_text (row ''created_at'') = ob_created_at r" for row r
    by (simp add: outbox_rep_unfold)
  have due: "outbox_rep row r \<Longrightarrow> due_row cutoff row = is_due cutoff r" for row r
    by (cases "ob_status r"; cases "ob_last_attempted_at r")
       (simp_all add: outbox_rep_unfold due_row_def is_due_def)
  show "outbox_list_sql c limit t = outbox_list c limit rs"
    unfolding outbox_list_sql_def outbox_list_def order_desc_def
    by (rule ob_sql.fetch_all_rep [OF assms])
       (intro list_all2_sql_limit list_all2_rev [THEN iffD2] list_all2_sort_key [OF _ created])
  show "outbox_claim_due_sql c cutoff limit t = outbox_claim_due c cutoff limit rs"
    unfolding outbox_claim_due_sql_def outbox_claim_due_def order_asc_def
    by (rule ob_sql.fetch_all_rep [OF assms])
       (intro list_all2_sql_limit list_all2_sort_key [OF _ created] list_all2_filter [OF _ due])
qed

end
