(* ===== verification/Settlement_Sql.thy ===== *)
theory Settlement_Sql
  imports Sql_Rows Settlement_Store
begin

text \<open>
  The SQL of \<open>SettlementStore\<close> (\<open>crates/obp-bank-node/src/settlement_store.rs\<close>) on the cells of the
  table, and that each statement is the operation of \<open>Settlement_Store\<close> on the records. The mutual
  exclusion of a claim is the \<open>INSERT OR IGNORE\<close> on the primary key.
\<close>

section \<open>Columns and cells\<close>

definition settlement_columns :: "sql_column list" where
  "settlement_columns =
     [not_null ''idempotency_key'', nullable ''settlement_id'', nullable ''snapshot_id'', not_null ''currency'',
      not_null ''net_amount_minor'', not_null ''creditor_address'', not_null ''status'', nullable ''tx_id'',
      nullable ''blockchain'', nullable ''asset'', nullable ''asset_amount'',
      nullable ''fx_minor_per_whole_asset'', nullable ''fx_source'', nullable ''fx_as_of'',
      default_int ''last_depth'' 0, nullable ''error_reason'', default_int ''retryable'' 0,
      not_null ''created_at'', not_null ''updated_at'', nullable ''finalized_at'', nullable ''purpose'']"

definition settlement_cell :: "settlement_row \<Rightarrow> string \<Rightarrow> sql_value" where
  "settlement_cell r = (\<lambda>n. case map_of
     [(''idempotency_key'', SqlText (sr_idempotency_key r)), (''settlement_id'', opt_cell (sr_settlement_id r)),
      (''snapshot_id'', opt_cell (sr_snapshot_id r)), (''currency'', SqlText (sr_currency r)),
      (''net_amount_minor'', SqlText (sr_net_amount_minor r)),
      (''creditor_address'', SqlText (sr_creditor_address r)),
      (''status'', SqlText (show_settlement_status (sr_status r))), (''tx_id'', opt_cell (sr_tx_id r)),
      (''blockchain'', opt_cell (sr_blockchain r)), (''asset'', opt_cell (sr_asset r)),
      (''asset_amount'', opt_cell (sr_asset_amount r)),
      (''fx_minor_per_whole_asset'', opt_cell (sr_fx_minor_per_whole_asset r)),
      (''fx_source'', opt_cell (sr_fx_source r)), (''fx_as_of'', opt_cell (sr_fx_as_of r)),
      (''last_depth'', SqlInt (int (sr_last_depth r))), (''error_reason'', opt_cell (sr_error_reason r)),
      (''retryable'', bool_cell (sr_retryable r)), (''created_at'', SqlText (sr_created_at r)),
      (''updated_at'', SqlText (sr_updated_at r)), (''finalized_at'', opt_cell (sr_finalized_at r)),
      (''purpose'', opt_cell (sr_purpose r))] n of Some v \<Rightarrow> v | None \<Rightarrow> SqlNull)"

definition settlement_status_of :: "sql_value \<Rightarrow> settlement_status option" where
  "settlement_status_of v = find (\<lambda>s. v = SqlText (show_settlement_status s)) [SETTLING, SETTLE_SUBMITTED, FINAL, ERROR]"

definition settlement_of_row :: "sql_row \<Rightarrow> settlement_row option" where
  "settlement_of_row row =
     Option.bind (get_text (row ''idempotency_key'')) (\<lambda>key.
     Option.bind (get_opt_text (row ''settlement_id'')) (\<lambda>sid.
     Option.bind (get_opt_text (row ''snapshot_id'')) (\<lambda>snapshot.
     Option.bind (get_text (row ''currency'')) (\<lambda>currency.
     Option.bind (get_text (row ''net_amount_minor'')) (\<lambda>amount.
     Option.bind (get_text (row ''creditor_address'')) (\<lambda>creditor.
     Option.bind (settlement_status_of (row ''status'')) (\<lambda>status.
     Option.bind (get_opt_text (row ''tx_id'')) (\<lambda>tx.
     Option.bind (get_opt_text (row ''blockchain'')) (\<lambda>chain.
     Option.bind (get_opt_text (row ''asset'')) (\<lambda>asset.
     Option.bind (get_opt_text (row ''asset_amount'')) (\<lambda>asset_amount.
     Option.bind (get_opt_text (row ''fx_minor_per_whole_asset'')) (\<lambda>fx_minor.
     Option.bind (get_opt_text (row ''fx_source'')) (\<lambda>fx_src.
     Option.bind (get_opt_text (row ''fx_as_of'')) (\<lambda>fx_at.
     Option.bind (get_nat (row ''last_depth'')) (\<lambda>depth.
     Option.bind (get_opt_text (row ''error_reason'')) (\<lambda>reason.
     Option.bind (get_bool (row ''retryable'')) (\<lambda>retryable.
     Option.bind (get_text (row ''created_at'')) (\<lambda>created.
     Option.bind (get_text (row ''updated_at'')) (\<lambda>updated.
     Option.bind (get_opt_text (row ''finalized_at'')) (\<lambda>finalized.
     Option.bind (get_opt_text (row ''purpose'')) (\<lambda>purpose.
       Some \<lparr>sr_idempotency_key = key, sr_settlement_id = sid, sr_snapshot_id = snapshot, sr_currency = currency,
         sr_net_amount_minor = amount, sr_creditor_address = creditor, sr_status = status, sr_tx_id = tx,
         sr_blockchain = chain, sr_asset = asset, sr_asset_amount = asset_amount,
         sr_fx_minor_per_whole_asset = fx_minor, sr_fx_source = fx_src, sr_fx_as_of = fx_at,
         sr_last_depth = depth, sr_error_reason = reason, sr_retryable = retryable, sr_created_at = created,
         sr_updated_at = updated, sr_finalized_at = finalized, sr_purpose = purpose\<rparr>)))))))))))))))))))))"

section \<open>The statements\<close>

abbreviation key_is :: "string \<Rightarrow> sql_row \<Rightarrow> bool" where
  "key_is k row \<equiv> row ''idempotency_key'' = SqlText k"

abbreviation status_is :: "settlement_status \<Rightarrow> sql_row \<Rightarrow> bool" where
  "status_is s row \<equiv> row ''status'' = SqlText (show_settlement_status s)"

definition store_get_sql :: "dbcall \<Rightarrow> string \<Rightarrow> sql_table \<Rightarrow> settlement_row option db_result" where
  "store_get_sql c k = fetch_optional c settlement_of_row (filter (key_is k))"

text \<open>\<open>INSERT OR IGNORE\<close>: a row that a constraint refuses is no error and affects no row.\<close>

definition claim_values :: "string \<Rightarrow> new_claim \<Rightarrow> (string \<times> sql_value) list" where
  "claim_values now n =
     [(''idempotency_key'', SqlText (nc_idempotency_key n)), (''settlement_id'', opt_cell (nc_settlement_id n)),
      (''snapshot_id'', opt_cell (nc_snapshot_id n)), (''currency'', SqlText (nc_currency n)),
      (''net_amount_minor'', SqlText (show_nat (nc_net_amount_minor n))),
      (''creditor_address'', SqlText (nc_creditor_address n)), (''purpose'', opt_cell (nc_purpose n)),
      (''status'', SqlText (show_settlement_status SETTLING)), (''created_at'', SqlText now),
      (''updated_at'', SqlText now)]"

definition insert_or_ignore ::
  "string \<Rightarrow> (string \<times> sql_value) list \<Rightarrow> sql_table \<Rightarrow> nat \<times> sql_table" where
  "insert_or_ignore key assigns t =
     (case insert_row key assigns t of Inl e \<Rightarrow> (0, t) | Inr t' \<Rightarrow> (1, t'))"

fun store_claim_sql ::
  "dbcall \<Rightarrow> dbcall \<Rightarrow> new_claim \<Rightarrow> sql_table \<Rightarrow> claim db_result \<times> sql_table" where
  "store_claim_sql (Fails e) c2 n t = (Inl (Db (Driver e)), t)"
| "store_claim_sql (Runs now) c2 n t =
     (case insert_or_ignore ''idempotency_key'' (claim_values now n) t of
        (inserted, t') \<Rightarrow>
          if inserted = 1 then (Inr Claimed, t')
          else (case store_get_sql c2 (nc_idempotency_key n) t' of
                  Inl e \<Rightarrow> (Inl e, t')
                | Inr None \<Rightarrow> (Inl (Db RowNotFound), t')
                | Inr (Some row) \<Rightarrow> (Inr (Existing row), t')))"

definition store_reclaim_for_retry_sql :: "dbcall \<Rightarrow> string \<Rightarrow> sql_table \<Rightarrow> unit db_result \<times> sql_table" where
  "store_reclaim_for_retry_sql c k t = drop_count (exec_update_sql c
     (\<lambda>row. key_is k row \<and> status_is ERROR row \<and> row ''retryable'' = SqlInt 1)
     (\<lambda>now row. [(''status'', SqlText (show_settlement_status SETTLING)), (''error_reason'', SqlNull),
        (''retryable'', SqlInt 0), (''updated_at'', SqlText now)]) t)"

definition store_mark_submitted_sql ::
  "dbcall \<Rightarrow> string \<Rightarrow> string \<Rightarrow> string \<Rightarrow> string \<Rightarrow> string \<Rightarrow> fx_quote option \<Rightarrow> sql_table
   \<Rightarrow> unit db_result \<times> sql_table" where
  "store_mark_submitted_sql c k tx chain asset amount fx t = drop_count (exec_update_sql c (key_is k)
     (\<lambda>now row. [(''status'', SqlText (show_settlement_status SETTLE_SUBMITTED)), (''tx_id'', SqlText tx),
        (''blockchain'', SqlText chain), (''asset'', SqlText asset), (''asset_amount'', SqlText amount),
        (''fx_minor_per_whole_asset'', opt_cell (map_option (\<lambda>q. show_nat (fx_minor_per_whole q)) fx)),
        (''fx_source'', opt_cell (map_option fx_quote_source fx)),
        (''fx_as_of'', opt_cell (map_option fx_as_of_text fx)), (''updated_at'', SqlText now)]) t)"

definition store_mark_error_sql ::
  "dbcall \<Rightarrow> string \<Rightarrow> string \<Rightarrow> bool \<Rightarrow> sql_table \<Rightarrow> unit db_result \<times> sql_table" where
  "store_mark_error_sql c k reason retryable t = drop_count (exec_update_sql c (key_is k)
     (\<lambda>now row. [(''status'', SqlText (show_settlement_status ERROR)), (''error_reason'', SqlText reason),
        (''retryable'', bool_cell retryable), (''updated_at'', SqlText now)]) t)"

definition store_record_depth_sql :: "dbcall \<Rightarrow> string \<Rightarrow> nat \<Rightarrow> sql_table \<Rightarrow> unit db_result \<times> sql_table" where
  "store_record_depth_sql c k depth t = drop_count (exec_update_sql c (key_is k)
     (\<lambda>now row. [(''last_depth'', SqlInt (int depth)), (''updated_at'', SqlText now)]) t)"

definition store_mark_final_sql :: "dbcall \<Rightarrow> string \<Rightarrow> nat \<Rightarrow> sql_table \<Rightarrow> unit db_result \<times> sql_table" where
  "store_mark_final_sql c k depth t = drop_count (exec_update_sql c
     (\<lambda>row. key_is k row \<and> status_is SETTLE_SUBMITTED row)
     (\<lambda>now row. [(''status'', SqlText (show_settlement_status FINAL)), (''last_depth'', SqlInt (int depth)),
        (''finalized_at'', SqlText now), (''updated_at'', SqlText now)]) t)"

text \<open>\<open>ORDER BY (idempotency_key = ?) DESC LIMIT 1\<close>: a true comparison is 1 and comes first.\<close>

definition store_find_sql :: "dbcall \<Rightarrow> string \<Rightarrow> sql_table \<Rightarrow> settlement_row option db_result" where
  "store_find_sql c k = fetch_optional c settlement_of_row (\<lambda>rows.
     sort_key (\<lambda>row. if key_is k row then 0 else 1 :: nat)
       (filter (\<lambda>row. key_is k row \<or> row ''settlement_id'' = SqlText k) rows))"

definition store_list_sql :: "dbcall \<Rightarrow> int \<Rightarrow> sql_table \<Rightarrow> settlement_row list db_result" where
  "store_list_sql c limit =
     fetch_all c settlement_of_row (\<lambda>rows. sql_limit limit (rev (sort_key (\<lambda>r. cell_text (r ''created_at'')) (rev rows))))"

definition store_list_submitted_sql :: "dbcall \<Rightarrow> int \<Rightarrow> sql_table \<Rightarrow> settlement_row list db_result" where
  "store_list_submitted_sql c limit =
     fetch_all c settlement_of_row (\<lambda>rows. sql_limit limit
       (sort_key (\<lambda>r. cell_text (r ''updated_at'')) (filter (status_is SETTLE_SUBMITTED) rows)))"

lemmas store_update_sql_defs =
  store_reclaim_for_retry_sql_def store_mark_submitted_sql_def store_mark_error_sql_def
  store_record_depth_sql_def store_mark_final_sql_def

section \<open>The cells fit the records\<close>

lemma show_settlement_status_inj [simp]:
  "show_settlement_status s = show_settlement_status s' \<longleftrightarrow> s = s'"
  by (cases s; cases s'; simp)

lemma settlement_status_of_show [simp]: "settlement_status_of (SqlText (show_settlement_status s)) = Some s"
  by (cases s) (simp_all add: settlement_status_of_def)

lemma settlement_cells [simp]:
  "settlement_cell r ''idempotency_key'' = SqlText (sr_idempotency_key r)"
  "settlement_cell r ''settlement_id'' = opt_cell (sr_settlement_id r)"
  "settlement_cell r ''snapshot_id'' = opt_cell (sr_snapshot_id r)"
  "settlement_cell r ''currency'' = SqlText (sr_currency r)"
  "settlement_cell r ''net_amount_minor'' = SqlText (sr_net_amount_minor r)"
  "settlement_cell r ''creditor_address'' = SqlText (sr_creditor_address r)"
  "settlement_cell r ''status'' = SqlText (show_settlement_status (sr_status r))"
  "settlement_cell r ''tx_id'' = opt_cell (sr_tx_id r)"
  "settlement_cell r ''blockchain'' = opt_cell (sr_blockchain r)"
  "settlement_cell r ''asset'' = opt_cell (sr_asset r)"
  "settlement_cell r ''asset_amount'' = opt_cell (sr_asset_amount r)"
  "settlement_cell r ''fx_minor_per_whole_asset'' = opt_cell (sr_fx_minor_per_whole_asset r)"
  "settlement_cell r ''fx_source'' = opt_cell (sr_fx_source r)"
  "settlement_cell r ''fx_as_of'' = opt_cell (sr_fx_as_of r)"
  "settlement_cell r ''last_depth'' = SqlInt (int (sr_last_depth r))"
  "settlement_cell r ''error_reason'' = opt_cell (sr_error_reason r)"
  "settlement_cell r ''retryable'' = bool_cell (sr_retryable r)"
  "settlement_cell r ''created_at'' = SqlText (sr_created_at r)"
  "settlement_cell r ''updated_at'' = SqlText (sr_updated_at r)"
  "settlement_cell r ''finalized_at'' = opt_cell (sr_finalized_at r)"
  "settlement_cell r ''purpose'' = opt_cell (sr_purpose r)"
  by (simp_all add: settlement_cell_def)

abbreviation settlement_rep :: "sql_row \<Rightarrow> settlement_row \<Rightarrow> bool" where
  "settlement_rep \<equiv> row_rep settlement_columns settlement_cell"

lemmas settlement_rep_unfold = row_rep_def settlement_columns_def

interpretation st_sql: row_codec settlement_columns settlement_cell "''idempotency_key''"
  sr_idempotency_key settlement_of_row
proof
  show "distinct (column_names settlement_columns)"
    by (simp add: settlement_columns_def)
  show "''idempotency_key'' \<in> set (column_names settlement_columns)"
    by (simp add: settlement_columns_def)
  show "settlement_cell r ''idempotency_key'' = SqlText (sr_idempotency_key r)" for r
    by simp
  show "settlement_cell r (co_name c) \<noteq> SqlNull" if "c \<in> set settlement_columns" "co_not_null c" for r c
    using that by (auto simp: settlement_columns_def)
  show "settlement_of_row row = Some r" if "settlement_rep row r" for row r
    using that by (simp add: settlement_rep_unfold settlement_of_row_def)
qed

section \<open>Each statement is the operation on the records\<close>

abbreviation settlement_agrees :: "'a \<times> sql_table \<Rightarrow> 'a \<times> settlements \<Rightarrow> bool" where
  "settlement_agrees \<equiv> agrees settlement_columns settlement_cell"

abbreviation settlement_table :: "sql_table \<Rightarrow> settlements \<Rightarrow> bool" where
  "settlement_table \<equiv> table_rep settlement_columns settlement_cell"

lemma store_get_refines: "settlement_table t rs \<Longrightarrow> store_get_sql c k t = store_get c k rs"
  unfolding store_get_sql_def store_get_def by (rule st_sql.find_rep)

lemma store_claim_refines:
  assumes "settlement_table t rs"
  shows "settlement_agrees (store_claim_sql c c2 n t) (store_claim c c2 n rs)"
proof (cases c)
  case (Runs now)
  have "settlement_rep (fresh_row settlement_columns (claim_values now n)) (settlement_row_of now n)"
    by (simp add: settlement_rep_unfold settlement_row_of_def claim_values_def fresh_row_def bool_cell_def)
  from st_sql.insert_row_rep [OF assms this] Runs store_get_refines [OF assms] show ?thesis
    by (auto simp: agrees_def assms insert_or_ignore_def settlement_row_of_def
        split: if_splits sum.splits option.splits)
qed (simp add: agrees_def assms)

lemma store_updates_refine:
  assumes "settlement_table t rs"
  shows "settlement_agrees (store_reclaim_for_retry_sql c k t) (store_reclaim_for_retry c k rs)"
    and "settlement_agrees (store_mark_submitted_sql c k tx ch a am fx t) (store_mark_submitted c k tx ch a am fx rs)"
    and "settlement_agrees (store_mark_error_sql c k reason b t) (store_mark_error c k reason b rs)"
    and "settlement_agrees (store_record_depth_sql c k d t) (store_record_depth c k d rs)"
    and "settlement_agrees (store_mark_final_sql c k d t) (store_mark_final c k d rs)"
  unfolding store_update_sql_defs store_op_defs
  by (rule st_sql.exec_update_rep [OF assms];
      auto simp: settlement_rep_unfold set_cells_def can_retry_def bool_cell_def
        simp del: show_settlement_status.simps)+

lemma sort_key_bool:
  "sort_key (\<lambda>x. if P x then 0 else 1 :: nat) xs = filter P xs @ filter (\<lambda>x. \<not> P x) xs"
proof (induction xs)
  case (Cons x xs)
  have "insort_key (\<lambda>x. if P x then 0 else 1 :: nat) x (us @ vs) = (if P x then x # us @ vs else us @ x # vs)"
    if "list_all P us" "list_all (\<lambda>x. \<not> P x) vs" for us vs
    using that by (induction us) (cases vs; auto)+
  with Cons show ?case by (simp add: list_all_iff)
qed simp

lemma store_queries_refine:
  assumes "settlement_table t rs"
  shows "store_find_sql c k t = store_find c k rs"
    and "store_list_sql c limit t = store_list c limit rs"
    and "store_list_submitted_sql c limit t = store_list_submitted c limit rs"
proof -
  have created: "settlement_rep row r \<Longrightarrow> cell_text (row ''created_at'') = sr_created_at r"
    and updated: "settlement_rep row r \<Longrightarrow> cell_text (row ''updated_at'') = sr_updated_at r"
    and submitted: "settlement_rep row r \<Longrightarrow> status_is SETTLE_SUBMITTED row = (sr_status r = SETTLE_SUBMITTED)"
    and first: "settlement_rep row r \<Longrightarrow>
      (if key_is k row then 0 else 1 :: nat) = (if sr_idempotency_key r = k then 0 else 1)"
    and hit: "settlement_rep row r \<Longrightarrow> (key_is k row \<or> row ''settlement_id'' = SqlText k) =
      (sr_idempotency_key r = k \<or> sr_settlement_id r = Some k)" for row r
    by (simp_all add: settlement_rep_unfold del: show_settlement_status.simps)
  have "store_find_sql c k t = run_query c (\<lambda>rs. case sort_key (\<lambda>r. if sr_idempotency_key r = k then 0 else 1 :: nat)
      (filter (\<lambda>r. sr_idempotency_key r = k \<or> sr_settlement_id r = Some k) rs) of [] \<Rightarrow> None | r # _ \<Rightarrow> Some r) rs"
    unfolding store_find_sql_def
    by (rule st_sql.fetch_optional_rep [OF assms]) (intro list_all2_sort_key [OF _ first] list_all2_filter [OF _ hit])
  then show "store_find_sql c k t = store_find c k rs"
    by (simp add: store_find_def sort_key_bool Let_def)
  show "store_list_sql c limit t = store_list c limit rs"
    unfolding store_list_sql_def store_list_def order_desc_def
    by (rule st_sql.fetch_all_rep [OF assms])
       (intro list_all2_sql_limit list_all2_rev [THEN iffD2] list_all2_sort_key [OF _ created])
  show "store_list_submitted_sql c limit t = store_list_submitted c limit rs"
    unfolding store_list_submitted_sql_def store_list_submitted_def order_asc_def
    by (rule st_sql.fetch_all_rep [OF assms])
       (intro list_all2_sql_limit list_all2_sort_key [OF _ updated] list_all2_filter [OF _ submitted])
qed

end
