(* ===== verification/Evidence_Sql.thy ===== *)
theory Evidence_Sql
  imports Sql_Rows Evidence
begin

text \<open>
  The SQL of \<open>EvidenceStore\<close> (\<open>crates/obp-bank-node/src/evidence.rs\<close>) on the cells of the table, and
  that each statement is the operation of \<open>Evidence\<close> on the records: the columns that
  \<open>ON CONFLICT DO UPDATE\<close> does not name keep their cells.
\<close>

section \<open>Columns and cells\<close>

definition evidence_columns :: "sql_column list" where
  "evidence_columns =
     [not_null ''transaction_request_id'', not_null ''promise_commitment'', not_null ''promise_salt'',
      not_null ''promise_preimage'', nullable ''promise_id'', nullable ''promise_blockchain'',
      not_null ''verified'', nullable ''currency'', nullable ''amount'', nullable ''originator_name'',
      nullable ''beneficiary_name'', nullable ''beneficiary_account_routing_scheme'',
      nullable ''beneficiary_account_routing_address'', nullable ''return_of_transaction_request_id'',
      nullable ''returned_by_transaction_request_id'', not_null ''raw_message'', not_null ''received_at'',
      nullable ''cbs_status'', nullable ''cbs_reference'', nullable ''cbs_recorded_at'',
      nullable ''settlement_id'', nullable ''settled_at'']"

definition evidence_cell :: "evidence_record \<Rightarrow> string \<Rightarrow> sql_value" where
  "evidence_cell r = (\<lambda>n. case map_of
     [(''transaction_request_id'', SqlText (ev_transaction_request_id r)),
      (''promise_commitment'', SqlText (ev_promise_commitment r)), (''promise_salt'', SqlText (ev_promise_salt r)),
      (''promise_preimage'', SqlText (ev_promise_preimage r)), (''promise_id'', opt_cell (ev_promise_id r)),
      (''promise_blockchain'', opt_cell (ev_promise_blockchain r)), (''verified'', bool_cell (ev_verified r)),
      (''currency'', opt_cell (ev_currency r)), (''amount'', opt_cell (ev_amount r)),
      (''originator_name'', opt_cell (ev_originator_name r)),
      (''beneficiary_name'', opt_cell (ev_beneficiary_name r)),
      (''beneficiary_account_routing_scheme'', opt_cell (ev_beneficiary_scheme r)),
      (''beneficiary_account_routing_address'', opt_cell (ev_beneficiary_address r)),
      (''return_of_transaction_request_id'', opt_cell (ev_return_of r)),
      (''returned_by_transaction_request_id'', opt_cell (ev_returned_by r)),
      (''raw_message'', SqlText (ev_raw_message r)), (''received_at'', SqlText (ev_received_at r)),
      (''cbs_status'', opt_cell (ev_cbs_status r)), (''cbs_reference'', opt_cell (ev_cbs_reference r)),
      (''cbs_recorded_at'', opt_cell (ev_cbs_recorded_at r)), (''settlement_id'', opt_cell (ev_settlement_id r)),
      (''settled_at'', opt_cell (ev_settled_at r))] n of Some v \<Rightarrow> v | None \<Rightarrow> SqlNull)"

definition evidence_of_row :: "sql_row \<Rightarrow> evidence_record option" where
  "evidence_of_row row =
     Option.bind (get_text (row ''transaction_request_id'')) (\<lambda>trid.
     Option.bind (get_text (row ''promise_commitment'')) (\<lambda>commitment.
     Option.bind (get_text (row ''promise_salt'')) (\<lambda>salt.
     Option.bind (get_text (row ''promise_preimage'')) (\<lambda>preimage.
     Option.bind (get_opt_text (row ''promise_id'')) (\<lambda>pid.
     Option.bind (get_opt_text (row ''promise_blockchain'')) (\<lambda>chain.
     Option.bind (get_bool (row ''verified'')) (\<lambda>verified.
     Option.bind (get_opt_text (row ''currency'')) (\<lambda>currency.
     Option.bind (get_opt_text (row ''amount'')) (\<lambda>amount.
     Option.bind (get_opt_text (row ''originator_name'')) (\<lambda>originator.
     Option.bind (get_opt_text (row ''beneficiary_name'')) (\<lambda>beneficiary.
     Option.bind (get_opt_text (row ''beneficiary_account_routing_scheme'')) (\<lambda>scheme.
     Option.bind (get_opt_text (row ''beneficiary_account_routing_address'')) (\<lambda>address.
     Option.bind (get_opt_text (row ''return_of_transaction_request_id'')) (\<lambda>return_of.
     Option.bind (get_opt_text (row ''returned_by_transaction_request_id'')) (\<lambda>returned_by.
     Option.bind (get_text (row ''raw_message'')) (\<lambda>raw.
     Option.bind (get_text (row ''received_at'')) (\<lambda>received.
     Option.bind (get_opt_text (row ''cbs_status'')) (\<lambda>cbs.
     Option.bind (get_opt_text (row ''cbs_reference'')) (\<lambda>cbs_ref.
     Option.bind (get_opt_text (row ''cbs_recorded_at'')) (\<lambda>cbs_at.
     Option.bind (get_opt_text (row ''settlement_id'')) (\<lambda>sid.
     Option.bind (get_opt_text (row ''settled_at'')) (\<lambda>settled.
       Some \<lparr>ev_transaction_request_id = trid, ev_promise_commitment = commitment, ev_promise_salt = salt,
         ev_promise_preimage = preimage, ev_promise_id = pid, ev_promise_blockchain = chain, ev_verified = verified,
         ev_currency = currency, ev_amount = amount, ev_originator_name = originator,
         ev_beneficiary_name = beneficiary, ev_beneficiary_scheme = scheme, ev_beneficiary_address = address,
         ev_return_of = return_of, ev_returned_by = returned_by, ev_raw_message = raw, ev_received_at = received,
         ev_cbs_status = cbs, ev_cbs_reference = cbs_ref, ev_cbs_recorded_at = cbs_at, ev_settlement_id = sid,
         ev_settled_at = settled\<rparr>))))))))))))))))))))))"

section \<open>The statements\<close>

abbreviation credit_is :: "string \<Rightarrow> sql_row \<Rightarrow> bool" where
  "credit_is k row \<equiv> row ''transaction_request_id'' = SqlText k"

text \<open>The values of the notification; \<open>excluded\<close> in the conflict clause is this row.\<close>

definition excluded_values :: "string \<Rightarrow> new_evidence \<Rightarrow> (string \<times> sql_value) list" where
  "excluded_values now e =
     [(''promise_commitment'', SqlText (ne_promise_commitment e)), (''promise_salt'', SqlText (ne_promise_salt e)),
      (''promise_preimage'', SqlText (ne_promise_preimage e)), (''promise_id'', opt_cell (ne_promise_id e)),
      (''promise_blockchain'', opt_cell (ne_promise_blockchain e)), (''verified'', bool_cell (ne_verified e)),
      (''currency'', opt_cell (ne_currency e)), (''amount'', opt_cell (ne_amount e)),
      (''originator_name'', opt_cell (ne_originator_name e)),
      (''beneficiary_name'', opt_cell (ne_beneficiary_name e)),
      (''beneficiary_account_routing_scheme'', opt_cell (ne_beneficiary_scheme e)),
      (''beneficiary_account_routing_address'', opt_cell (ne_beneficiary_address e)),
      (''return_of_transaction_request_id'', opt_cell (ne_return_of e)),
      (''raw_message'', SqlText (ne_raw_message e)), (''received_at'', SqlText now)]"

fun evidence_upsert_sql :: "dbcall \<Rightarrow> new_evidence \<Rightarrow> sql_table \<Rightarrow> unit db_result \<times> sql_table" where
  "evidence_upsert_sql (Fails err) e t = (Inl (Db (Driver err)), t)"
| "evidence_upsert_sql (Runs now) e t =
     (case insert_row ''transaction_request_id''
             ((''transaction_request_id'', SqlText (ne_transaction_request_id e)) # excluded_values now e) t of
        Inr t' \<Rightarrow> (Inr (), t')
      | Inl UniqueViolation \<Rightarrow>
          drop_count (exec_update_sql (Runs now) (credit_is (ne_transaction_request_id e))
            (\<lambda>now row. excluded_values now e) t)
      | Inl err \<Rightarrow> (Inl (Db err), t))"

definition evidence_record_cbs_result_sql ::
  "dbcall \<Rightarrow> string \<Rightarrow> string \<Rightarrow> string option \<Rightarrow> sql_table \<Rightarrow> unit db_result \<times> sql_table" where
  "evidence_record_cbs_result_sql c k status ref t = drop_count (exec_update_sql c (credit_is k)
     (\<lambda>now row. [(''cbs_status'', SqlText status), (''cbs_reference'', opt_cell ref),
        (''cbs_recorded_at'', SqlText now)]) t)"

definition evidence_record_return_sql ::
  "dbcall \<Rightarrow> string \<Rightarrow> string \<Rightarrow> sql_table \<Rightarrow> unit db_result \<times> sql_table" where
  "evidence_record_return_sql c k return_id t = drop_count (exec_update_sql c (credit_is k)
     (\<lambda>now row. [(''returned_by_transaction_request_id'', SqlText return_id)]) t)"

fun evidence_mark_settled_sql_from ::
  "(nat \<Rightarrow> string option) \<Rightarrow> string \<Rightarrow> string \<Rightarrow> nat \<Rightarrow> nat \<Rightarrow> string list \<Rightarrow> sql_table
   \<Rightarrow> nat db_result \<times> sql_table" where
  "evidence_mark_settled_sql_from fails now sid i stamped [] t = (Inr stamped, t)"
| "evidence_mark_settled_sql_from fails now sid i stamped (k # ids) t =
     (case exec_update_sql (case fails i of Some e \<Rightarrow> Fails e | None \<Rightarrow> Runs now)
             (\<lambda>row. credit_is k row \<and> row ''settled_at'' = SqlNull)
             (\<lambda>_ row. [(''settlement_id'', SqlText sid), (''settled_at'', SqlText now)]) t of
        (Inl e, t') \<Rightarrow> (Inl e, t')
      | (Inr n, t') \<Rightarrow> evidence_mark_settled_sql_from fails now sid (Suc i) (stamped + n) ids t')"

definition evidence_mark_settled_sql ::
  "(nat \<Rightarrow> string option) \<Rightarrow> string \<Rightarrow> string list \<Rightarrow> string \<Rightarrow> sql_table \<Rightarrow> nat db_result \<times> sql_table" where
  "evidence_mark_settled_sql fails now ids sid t = evidence_mark_settled_sql_from fails now sid 0 0 ids t"

definition evidence_get_sql :: "dbcall \<Rightarrow> string \<Rightarrow> sql_table \<Rightarrow> evidence_record option db_result" where
  "evidence_get_sql c k = fetch_optional c evidence_of_row (filter (credit_is k))"

definition evidence_list_sql :: "dbcall \<Rightarrow> int \<Rightarrow> sql_table \<Rightarrow> evidence_record list db_result" where
  "evidence_list_sql c limit =
     fetch_all c evidence_of_row (\<lambda>rows. sql_limit limit (rev (sort_key (\<lambda>r. cell_text (r ''received_at'')) (rev rows))))"

section \<open>The cells fit the records\<close>

lemma evidence_cells [simp]:
  "evidence_cell r ''transaction_request_id'' = SqlText (ev_transaction_request_id r)"
  "evidence_cell r ''promise_commitment'' = SqlText (ev_promise_commitment r)"
  "evidence_cell r ''promise_salt'' = SqlText (ev_promise_salt r)"
  "evidence_cell r ''promise_preimage'' = SqlText (ev_promise_preimage r)"
  "evidence_cell r ''promise_id'' = opt_cell (ev_promise_id r)"
  "evidence_cell r ''promise_blockchain'' = opt_cell (ev_promise_blockchain r)"
  "evidence_cell r ''verified'' = bool_cell (ev_verified r)"
  "evidence_cell r ''currency'' = opt_cell (ev_currency r)"
  "evidence_cell r ''amount'' = opt_cell (ev_amount r)"
  "evidence_cell r ''originator_name'' = opt_cell (ev_originator_name r)"
  "evidence_cell r ''beneficiary_name'' = opt_cell (ev_beneficiary_name r)"
  "evidence_cell r ''beneficiary_account_routing_scheme'' = opt_cell (ev_beneficiary_scheme r)"
  "evidence_cell r ''beneficiary_account_routing_address'' = opt_cell (ev_beneficiary_address r)"
  "evidence_cell r ''return_of_transaction_request_id'' = opt_cell (ev_return_of r)"
  "evidence_cell r ''returned_by_transaction_request_id'' = opt_cell (ev_returned_by r)"
  "evidence_cell r ''raw_message'' = SqlText (ev_raw_message r)"
  "evidence_cell r ''received_at'' = SqlText (ev_received_at r)"
  "evidence_cell r ''cbs_status'' = opt_cell (ev_cbs_status r)"
  "evidence_cell r ''cbs_reference'' = opt_cell (ev_cbs_reference r)"
  "evidence_cell r ''cbs_recorded_at'' = opt_cell (ev_cbs_recorded_at r)"
  "evidence_cell r ''settlement_id'' = opt_cell (ev_settlement_id r)"
  "evidence_cell r ''settled_at'' = opt_cell (ev_settled_at r)"
  by (simp_all add: evidence_cell_def)

abbreviation evidence_rep :: "sql_row \<Rightarrow> evidence_record \<Rightarrow> bool" where
  "evidence_rep \<equiv> row_rep evidence_columns evidence_cell"

lemmas evidence_rep_unfold = row_rep_def evidence_columns_def

interpretation ev_sql: row_codec evidence_columns evidence_cell "''transaction_request_id''"
  ev_transaction_request_id evidence_of_row
proof
  show "distinct (column_names evidence_columns)"
    by (simp add: evidence_columns_def)
  show "''transaction_request_id'' \<in> set (column_names evidence_columns)"
    by (simp add: evidence_columns_def)
  show "evidence_cell r ''transaction_request_id'' = SqlText (ev_transaction_request_id r)" for r
    by simp
  show "evidence_cell r (co_name c) \<noteq> SqlNull" if "c \<in> set evidence_columns" "co_not_null c" for r c
    using that by (auto simp: evidence_columns_def)
  show "evidence_of_row row = Some r" if "evidence_rep row r" for row r
    using that by (simp add: evidence_rep_unfold evidence_of_row_def)
qed

section \<open>Each statement is the operation on the records\<close>

abbreviation evidence_agrees :: "'a \<times> sql_table \<Rightarrow> 'a \<times> evidence \<Rightarrow> bool" where
  "evidence_agrees \<equiv> agrees evidence_columns evidence_cell"

abbreviation evidence_table :: "sql_table \<Rightarrow> evidence \<Rightarrow> bool" where
  "evidence_table \<equiv> table_rep evidence_columns evidence_cell"

lemma evidence_upsert_refines:
  assumes "evidence_table t rs"
  shows "evidence_agrees (evidence_upsert_sql c e t) (evidence_upsert c e rs)"
proof (cases c)
  case (Runs now)
  let ?cells = "(''transaction_request_id'', SqlText (ne_transaction_request_id e)) # excluded_values now e"
  have "evidence_rep (fresh_row evidence_columns ?cells) (evidence_row now e)"
    by (simp add: evidence_rep_unfold evidence_row_def excluded_values_def fresh_row_def)
  note ins = ev_sql.insert_row_rep [OF assms this]
  have upd: "evidence_agrees (drop_count (exec_update_sql (Runs now) (credit_is (ne_transaction_request_id e))
      (\<lambda>now row. excluded_values now e) t))
    (exec_update (Runs now) (\<lambda>r. ev_transaction_request_id r = ne_transaction_request_id e)
      (\<lambda>now. evidence_assign now e) rs)"
    by (rule ev_sql.exec_update_rep [OF assms];
        simp add: evidence_rep_unfold set_cells_def excluded_values_def evidence_assign_def)
  show ?thesis
  proof (cases "sql_has_key ev_transaction_request_id (ne_transaction_request_id e) rs")
    case True
    with ins upd Runs show ?thesis by (simp add: evidence_row_def exec_update_simps del: exec_update_sql.simps)
  next
    case False
    with ins Runs show ?thesis by (auto simp: evidence_row_def agrees_def)
  qed
qed (simp add: agrees_def assms)

lemma evidence_updates_refine:
  assumes "evidence_table t rs"
  shows "evidence_agrees (evidence_record_cbs_result_sql c k status ref t) (evidence_record_cbs_result c k status ref rs)"
    and "evidence_agrees (evidence_record_return_sql c k return_id t) (evidence_record_return c k return_id rs)"
  unfolding evidence_record_cbs_result_sql_def evidence_record_return_sql_def
    evidence_record_cbs_result_def evidence_record_return_def
  by (rule ev_sql.exec_update_rep [OF assms]; simp add: evidence_rep_unfold set_cells_def)+

lemma evidence_mark_settled_from_refines:
  "evidence_table t rs \<Longrightarrow>
   evidence_agrees (evidence_mark_settled_sql_from fails now sid i n ids t)
     (evidence_mark_settled_from fails now sid i n ids rs)"
proof (induction ids arbitrary: i n t rs)
  case (Cons k ids)
  let ?c = "case fails i of Some e \<Rightarrow> Fails e | None \<Rightarrow> Runs now"
  let ?cond = "\<lambda>row. credit_is k row \<and> row ''settled_at'' = SqlNull"
  let ?assign = "\<lambda>_ row. [(''settlement_id'', SqlText sid), (''settled_at'', SqlText now)]"
  have "evidence_agrees (exec_update_sql ?c ?cond ?assign t)
      (run_update ?c (unsettled k) (\<lambda>_ r. r\<lparr>ev_settlement_id := Some sid, ev_settled_at := Some now\<rparr>) rs)"
    by (rule ev_sql.run_update_rep [OF Cons.prems];
        simp add: evidence_rep_unfold set_cells_def unsettled_def)
  with Cons.prems Cons.IH show ?case
    by (cases "fails i"; cases "exec_update_sql ?c ?cond ?assign t")
       (auto simp: agrees_def simp del: exec_update_sql.simps)
qed (simp add: agrees_def)

lemma evidence_mark_settled_refines:
  "evidence_table t rs \<Longrightarrow>
   evidence_agrees (evidence_mark_settled_sql fails now ids sid t) (evidence_mark_settled fails now ids sid rs)"
  by (simp add: evidence_mark_settled_sql_def evidence_mark_settled_def evidence_mark_settled_from_refines)

lemma evidence_queries_refine:
  assumes "evidence_table t rs"
  shows "evidence_get_sql c k t = evidence_get c k rs"
    and "evidence_list_sql c limit t = evidence_list c limit rs"
proof -
  show "evidence_get_sql c k t = evidence_get c k rs"
    unfolding evidence_get_sql_def evidence_get_def by (rule ev_sql.find_rep [OF assms])
  have received: "evidence_rep row r \<Longrightarrow> cell_text (row ''received_at'') = ev_received_at r" for row r
    by (simp add: evidence_rep_unfold)
  show "evidence_list_sql c limit t = evidence_list c limit rs"
    unfolding evidence_list_sql_def evidence_list_def order_desc_def
    by (rule ev_sql.fetch_all_rep [OF assms])
       (intro list_all2_sql_limit list_all2_rev [THEN iffD2] list_all2_sort_key [OF _ received])
qed

end
