(* ===== verification/Schema.thy ===== *)
theory Schema
  imports Outbox_Sql Settlement_Sql Evidence_Sql
begin

text \<open>
  Opening the three databases (\<open>connect\<close> and \<open>init_schema\<close> of \<open>outbox.rs\<close>, \<open>settlement_store.rs\<close> and
  \<open>evidence.rs\<close> under \<open>crates/obp-bank-node/src/\<close>): the directory, the pool, the table when there is
  none, and the columns that older versions of the node did not have. A database that an older
  version left, or that an interrupted start left half migrated, holds the same records afterwards.
\<close>

section \<open>Paths\<close>

text \<open>\<open>Path::parent\<close> of the standard library on Unix; trailing slashes and dots are no components.\<close>

fun trim_rev :: "string \<Rightarrow> string" where
  "trim_rev [] = []"
| "trim_rev (c # s) =
     (if c = CHR ''/'' then trim_rev s
      else if c = CHR ''.'' \<and> (s = [] \<or> hd s = CHR ''/'') then trim_rev s
      else c # s)"

definition path_parent :: "string \<Rightarrow> string option" where
  "path_parent s =
     (let root = (take 1 s = ''/'');
          cur = (s = ''.'' \<or> take 2 s = ''./'');
          base = (if root \<or> cur then 1 else 0);
          body = trim_rev (rev (drop base s))
      in if body \<noteq> [] then Some (take base s @ rev (trim_rev (dropWhile (\<lambda>c. c \<noteq> CHR ''/'') body)))
         else if cur then Some [] else None)"

section \<open>The schema of a store\<close>

text \<open>A failed \<open>ALTER TABLE\<close> whose text names a duplicate column is taken for a column that is there.\<close>

definition is_duplicate_column :: "string \<Rightarrow> bool" where
  "is_duplicate_column e \<longleftrightarrow> sublist ''duplicate column name'' e"

fun add_columns ::
  "(nat \<Rightarrow> dbcall) \<Rightarrow> nat \<Rightarrow> string \<Rightarrow> string list \<Rightarrow> database \<Rightarrow> unit db_result \<times> database" where
  "add_columns C i n [] db = (Inr (), db)"
| "add_columns C i n (col # cols) db =
     (case run_ddl (C i) (add_column n (nullable col)) db of
        Inr db' \<Rightarrow> add_columns C (Suc i) n cols db'
      | Inl e \<Rightarrow>
          if is_duplicate_column e then add_columns C (Suc i) n cols db
          else (Inl (Db (Driver e)), db))"

definition init_table ::
  "string \<Rightarrow> sql_column list \<Rightarrow> string list \<Rightarrow> (nat \<Rightarrow> dbcall) \<Rightarrow> database \<Rightarrow> unit db_result \<times> database" where
  "init_table n cols added C db =
     (case run_ddl (C 0) (create_table n cols) db of
        Inl e \<Rightarrow> (Inl (Db (Driver e)), db)
      | Inr db1 \<Rightarrow> add_columns C 1 n added db1)"

definition outbox_added :: "string list" where
  "outbox_added = [''obp_transaction_request_id'', ''settlement_id'', ''settled_at'']"

definition settlement_added :: "string list" where
  "settlement_added = [''fx_minor_per_whole_asset'', ''fx_source'', ''fx_as_of'', ''purpose'']"

definition evidence_added :: "string list" where
  "evidence_added =
     [''cbs_status'', ''cbs_reference'', ''cbs_recorded_at'', ''settlement_id'', ''settled_at'',
      ''beneficiary_name'', ''beneficiary_account_routing_scheme'', ''beneficiary_account_routing_address'',
      ''return_of_transaction_request_id'', ''returned_by_transaction_request_id'']"

definition outbox_init_schema :: "(nat \<Rightarrow> dbcall) \<Rightarrow> database \<Rightarrow> unit db_result \<times> database" where
  "outbox_init_schema C db =
     (case init_table ''outbox'' outbox_columns outbox_added C db of
        (Inl e, db1) \<Rightarrow> (Inl e, db1)
      | (Inr _, db1) \<Rightarrow>
          (case run_ddl (C 4) (create_index ''idx_outbox_status_attempted'' ''outbox''
                  [''status'', ''last_attempted_at'']) db1 of
             Inl e \<Rightarrow> (Inl (Db (Driver e)), db1)
           | Inr db2 \<Rightarrow> (Inr (), db2)))"

definition settlement_init_schema :: "(nat \<Rightarrow> dbcall) \<Rightarrow> database \<Rightarrow> unit db_result \<times> database" where
  "settlement_init_schema = init_table ''settlements'' settlement_columns settlement_added"

definition evidence_init_schema :: "(nat \<Rightarrow> dbcall) \<Rightarrow> database \<Rightarrow> unit db_result \<times> database" where
  "evidence_init_schema = init_table ''evidence'' evidence_columns evidence_added"

section \<open>Opening a store\<close>

text \<open>What the environment answers: \<open>create_dir_all\<close>, the pool, and each statement of the schema.\<close>

record open_env =
  op_dir :: "string option"
  op_pool :: "string option"
  op_stmt :: "nat \<Rightarrow> dbcall"

definition dir_failure :: "open_env \<Rightarrow> string \<Rightarrow> outbox_error option" where
  "dir_failure E path =
     (case path_parent path of
        None \<Rightarrow> None
      | Some parent \<Rightarrow> if parent = [] then None else map_option (Dir parent) (op_dir E))"

definition store_connect ::
  "((nat \<Rightarrow> dbcall) \<Rightarrow> database \<Rightarrow> unit db_result \<times> database) \<Rightarrow> open_env \<Rightarrow> string \<Rightarrow> database
   \<Rightarrow> unit db_result \<times> database" where
  "store_connect init E path db =
     (case dir_failure E path of
        Some e \<Rightarrow> (Inl e, db)
      | None \<Rightarrow>
          (case op_pool E of
             Some e \<Rightarrow> (Inl (Db (Driver e)), db)
           | None \<Rightarrow> init (op_stmt E) db))"

definition outbox_connect :: "open_env \<Rightarrow> string \<Rightarrow> database \<Rightarrow> unit db_result \<times> database" where
  "outbox_connect = store_connect outbox_init_schema"

definition settlement_connect :: "open_env \<Rightarrow> string \<Rightarrow> database \<Rightarrow> unit db_result \<times> database" where
  "settlement_connect = store_connect settlement_init_schema"

definition evidence_connect :: "open_env \<Rightarrow> string \<Rightarrow> database \<Rightarrow> unit db_result \<times> database" where
  "evidence_connect = store_connect evidence_init_schema"

section \<open>Databases of older versions\<close>

text \<open>
  A table some version of the node made: it has the columns of the first version and perhaps some
  of the later ones; a missing column stands for NULL.
\<close>

definition outbox_first :: "string list" where
  "outbox_first =
     [''transaction_request_id'', ''status'', ''bank_id'', ''account_id'', ''request_payload'', ''commitment_salt'',
      ''attempt_count'', ''last_attempted_at'', ''promise_tx_id'', ''promise_blockchain'', ''exception_reason'',
      ''created_at'', ''updated_at'']"

definition settlement_first :: "string list" where
  "settlement_first =
     [''idempotency_key'', ''settlement_id'', ''snapshot_id'', ''currency'', ''net_amount_minor'', ''creditor_address'',
      ''status'', ''tx_id'', ''blockchain'', ''asset'', ''asset_amount'', ''last_depth'', ''error_reason'', ''retryable'',
      ''created_at'', ''updated_at'', ''finalized_at'']"

definition evidence_first :: "string list" where
  "evidence_first =
     [''transaction_request_id'', ''promise_commitment'', ''promise_salt'', ''promise_preimage'', ''promise_id'',
      ''promise_blockchain'', ''verified'', ''currency'', ''amount'', ''originator_name'', ''raw_message'',
      ''received_at'']"

definition older_columns :: "sql_column list \<Rightarrow> string list \<Rightarrow> sql_column list \<Rightarrow> bool" where
  "older_columns cols first cs \<longleftrightarrow>
     distinct (column_names cs) \<and> set cs \<subseteq> set cols \<and> set first \<subseteq> set (column_names cs)"

definition padded :: "sql_column list \<Rightarrow> sql_row \<Rightarrow> sql_row" where
  "padded cs row n = (if n \<in> set (column_names cs) then row n else SqlNull)"

definition older_table ::
  "sql_column list \<Rightarrow> ('r \<Rightarrow> string \<Rightarrow> sql_value) \<Rightarrow> string list \<Rightarrow> sql_table \<Rightarrow> 'r list \<Rightarrow> bool" where
  "older_table cols cell first t rs \<longleftrightarrow>
     older_columns cols first (tb_columns t)
     \<and> list_all2 (\<lambda>row r. row_rep cols cell (padded (tb_columns t) row) r) (tb_rows t) rs"

definition older_database ::
  "string \<Rightarrow> sql_column list \<Rightarrow> ('r \<Rightarrow> string \<Rightarrow> sql_value) \<Rightarrow> string list \<Rightarrow> database \<Rightarrow> 'r list \<Rightarrow> bool" where
  "older_database n cols cell first db rs \<longleftrightarrow>
     (case map_of (db_tables db) n of None \<Rightarrow> rs = [] | Some t \<Rightarrow> older_table cols cell first t rs)"

text \<open>The texts of other failures do not speak of duplicate columns.\<close>

definition honest :: "(nat \<Rightarrow> dbcall) \<Rightarrow> bool" where
  "honest C \<longleftrightarrow> (\<forall>i e. C i = Fails e \<longrightarrow> \<not> is_duplicate_column e)"

lemma duplicate_text [simp]: "is_duplicate_column (duplicate_column c)"
proof -
  have "duplicate_column c =
      ''error returned from database: (code: 1) '' @ ''duplicate column name'' @ '': '' @ c"
    by (simp add: sqlite_error_def duplicate_column_def)
  then show ?thesis unfolding is_duplicate_column_def by (metis sublist_appendI)
qed

lemma map_of_map_table:
  "map_of (map (\<lambda>(m, u). (m, if m = n then f u else u)) ts) n = map_option f (map_of ts n)"
  by (induction ts) auto

lemma older_tableD: "older_table cols cell first t rs \<Longrightarrow> older_columns cols first (tb_columns t)"
  by (simp add: older_table_def)

text \<open>A schema's columns are those of the first version and the added ones, which are nullable.\<close>

definition schema_complete :: "sql_column list \<Rightarrow> string list \<Rightarrow> string list \<Rightarrow> bool" where
  "schema_complete cols first added \<longleftrightarrow>
     distinct (column_names cols) \<and> set first \<subseteq> set (column_names cols) \<and> nullable ` set added \<subseteq> set cols
     \<and> set (column_names cols) \<subseteq> set first \<union> set added"

lemma older_table_full:
  assumes t: "older_table cols cell first t rs" and "set added \<subseteq> set (column_names (tb_columns t))"
    and "schema_complete cols first added"
  shows "table_rep cols cell t rs"
proof -
  from t have o: "older_columns cols first (tb_columns t)"
    and rows: "list_all2 (\<lambda>row r. row_rep cols cell (padded (tb_columns t) row) r) (tb_rows t) rs"
    by (simp_all add: older_table_def)
  have inj: "inj_on co_name (set cols)" using assms(3) by (simp add: schema_complete_def distinct_map)
  have "c \<in> set (tb_columns t)" if c: "c \<in> set cols" for c
  proof -
    from c assms(3) have "co_name c \<in> set first \<union> set added" by (auto simp: schema_complete_def)
    with o assms(2) have "co_name c \<in> set (column_names (tb_columns t))" by (auto simp: older_columns_def simp del: set_map)
    then obtain c' where "c' \<in> set (tb_columns t)" "co_name c' = co_name c" by auto
    moreover with o have "c' \<in> set cols" by (auto simp: older_columns_def)
    ultimately show ?thesis using inj c by (auto dest: inj_onD)
  qed
  with o have cs: "set (tb_columns t) = set cols" by (auto simp: older_columns_def)
  then have "row_rep cols cell (padded (tb_columns t) row) r = row_rep cols cell row r" for row r
    by (simp add: row_rep_def list_all_iff padded_def)
  with rows cs o show ?thesis by (simp add: table_rep_def older_columns_def)
qed

lemma table_rep_older:
  assumes "table_rep cols cell t rs" and "set first \<subseteq> set (column_names cols)"
  shows "older_table cols cell first t rs"
proof -
  from assms(1) have cs: "set (tb_columns t) = set cols" by (simp add: table_rep_def)
  then have "row_rep cols cell (padded (tb_columns t) row) r = row_rep cols cell row r" for row r
    by (simp add: row_rep_def list_all_iff padded_def)
  with assms cs show ?thesis by (simp add: older_table_def older_columns_def table_rep_def)
qed

lemma older_table_add:
  assumes t: "older_table cols cell first t rs" and m: "nullable m \<in> set cols"
    and new: "m \<notin> set (column_names (tb_columns t))"
  shows "older_table cols cell first (with_column (nullable m) t) rs"
proof -
  have "padded (tb_columns t @ [nullable m]) (row(m := SqlNull)) = padded (tb_columns t) row" for row
    using new by (auto simp: padded_def)
  moreover have "older_columns cols first (tb_columns t @ [nullable m])"
    using older_tableD [OF t] m new by (auto simp: older_columns_def)
  ultimately show ?thesis
    using t by (simp add: older_table_def with_column_def list_all2_map1)
qed

section \<open>The migration keeps the records\<close>

lemma add_columns_rep:
  assumes "map_of (db_tables db) n = Some t" "older_table cols cell first t rs"
    and "nullable ` set ms \<subseteq> set cols"
    and "add_columns C i n ms db = (x, db')"
  shows "\<exists>t'. map_of (db_tables db') n = Some t' \<and> older_table cols cell first t' rs
    \<and> set (column_names (tb_columns t)) \<subseteq> set (column_names (tb_columns t'))
    \<and> (x = Inr () \<longrightarrow> honest C \<longrightarrow> set ms \<subseteq> set (column_names (tb_columns t')))"
  using assms
proof (induction ms arbitrary: i db t)
  case (Cons m ms)
  show ?case
  proof (cases "C i")
    case (Fails e)
    show ?thesis
    proof (cases "is_duplicate_column e")
      case True
      with Fails Cons.prems(4) have "add_columns C (Suc i) n ms db = (x, db')" by simp
      from Cons.IH [OF Cons.prems(1,2) _ this] Cons.prems(3) True Fails show ?thesis
        by (auto simp: honest_def)
    next
      case False
      with Fails Cons.prems show ?thesis by auto
    qed
  next
    case (Runs now)
    show ?thesis
    proof (cases "m \<in> set (column_names (tb_columns t))")
      case True
      with Runs Cons.prems(1,4) have "add_columns C (Suc i) n ms db = (x, db')"
        by (simp add: add_column_def)
      from Cons.IH [OF Cons.prems(1,2) _ this] Cons.prems(3) True show ?thesis
        by (auto simp del: set_map dest: subsetD)
    next
      case False
      let ?db = "db\<lparr>db_tables := map (\<lambda>(m', u). (m', if m' = n then with_column (nullable m) u else u)) (db_tables db)\<rparr>"
      from False Runs Cons.prems(1,4) have run: "add_columns C (Suc i) n ms ?db = (x, db')"
        by (simp add: add_column_def)
      have t: "map_of (db_tables ?db) n = Some (with_column (nullable m) t)"
        using Cons.prems(1) by (simp add: map_of_map_table)
      have o: "older_table cols cell first (with_column (nullable m) t) rs"
        using Cons.prems(2,3) False by (intro older_table_add) auto
      from Cons.IH [OF t o _ run] Cons.prems(3) show ?thesis
        by (auto simp: with_column_def)
    qed
  qed
qed auto

lemma init_table_rep:
  assumes db: "older_database n cols cell first db rs"
    and cols: "schema_complete cols first added"
    and run: "init_table n cols added C db = (x, db')"
  shows "older_database n cols cell first db' rs"
    and "x = Inr () \<Longrightarrow> honest C \<Longrightarrow> \<exists>t. map_of (db_tables db') n = Some t \<and> table_rep cols cell t rs"
proof -
  have "older_database n cols cell first db' rs \<and>
    (x = Inr () \<longrightarrow> honest C \<longrightarrow> (\<exists>t. map_of (db_tables db') n = Some t \<and> table_rep cols cell t rs))"
  proof (cases "C 0")
    case (Fails e)
    with run db show ?thesis by (auto simp: init_table_def)
  next
    case (Runs now)
    obtain db1 t where 1: "create_table n cols db = Inr db1" "map_of (db_tables db1) n = Some t"
      "older_table cols cell first t rs"
    proof (cases "map_of (db_tables db) n")
      case None
      then have "n \<notin> set (map fst (db_tables db))" by (simp add: map_of_eq_None_iff)
      moreover have "older_table cols cell first \<lparr>tb_columns = cols, tb_rows = []\<rparr> rs"
        using db None cols by (auto simp: older_database_def older_table_def older_columns_def schema_complete_def)
      ultimately show thesis
        using None that [of "db\<lparr>db_tables := db_tables db @ [(n, \<lparr>tb_columns = cols, tb_rows = []\<rparr>)]\<rparr>"]
        by (simp add: create_table_def map_add_def)
    next
      case (Some t)
      then have "n \<in> set (map fst (db_tables db))" by (metis map_of_eq_None_iff option.distinct(1) set_map)
      with Some db show thesis using that [of db t] by (simp add: create_table_def older_database_def)
    qed
    with run Runs have "add_columns C 1 n added db1 = (x, db')" by (simp add: init_table_def)
    from add_columns_rep [OF 1(2,3) _ this] cols obtain t' where t':
      "map_of (db_tables db') n = Some t'" "older_table cols cell first t' rs"
      "x = Inr () \<longrightarrow> honest C \<longrightarrow> set added \<subseteq> set (column_names (tb_columns t'))"
      by (auto simp: schema_complete_def)
    with older_table_full [OF t'(2) _ cols] show ?thesis by (auto simp: older_database_def)
  qed
  then show "older_database n cols cell first db' rs"
    and "x = Inr () \<Longrightarrow> honest C \<Longrightarrow> \<exists>t. map_of (db_tables db') n = Some t \<and> table_rep cols cell t rs"
    by auto
qed

section \<open>An interrupted migration is resumed\<close>

abbreviation runs :: "string \<Rightarrow> nat \<Rightarrow> dbcall" where
  "runs now \<equiv> \<lambda>_. Runs now"

lemma add_columns_index: "add_columns (runs now) i n ms db = add_columns (runs now) j n ms db"
  by (induction ms arbitrary: i j db) (auto split: sum.splits)

lemma add_column_names:
  assumes "add_column n c db = Inr db'"
  shows "\<exists>t. map_of (db_tables db) n = Some t \<and> map_of (db_tables db') n = Some (with_column c t)"
  using assms by (auto simp: add_column_def map_of_map_table split: option.splits if_splits)

lemma add_columns_names:
  assumes "add_columns C i n ms db = (x, db')" and "map_of (db_tables db) n = Some t"
  shows "\<exists>t'. map_of (db_tables db') n = Some t' \<and>
    set (column_names (tb_columns t)) \<subseteq> set (column_names (tb_columns t')) \<and>
    (x = Inr () \<longrightarrow> honest C \<longrightarrow> set ms \<subseteq> set (column_names (tb_columns t')))"
  using assms
proof (induction ms arbitrary: i db t)
  case (Cons m ms)
  show ?case
  proof (cases "run_ddl (C i) (add_column n (nullable m)) db")
    case (Inl e)
    show ?thesis
    proof (cases "is_duplicate_column e")
      case True
      with Inl Cons.prems(1) have rest: "add_columns C (Suc i) n ms db = (x, db')" by simp
      from True Inl Cons.prems(2) have "honest C \<Longrightarrow> m \<in> set (column_names (tb_columns t))"
        by (cases "C i") (auto simp: honest_def add_column_def split: if_splits)
      with Cons.IH [OF rest Cons.prems(2)] show ?thesis by (auto simp del: set_map dest: subsetD)
    next
      case False
      with Inl Cons.prems show ?thesis by auto
    qed
  next
    case (Inr db1)
    then have "add_column n (nullable m) db = Inr db1" by (cases "C i") auto
    from add_column_names [OF this] Cons.prems(2)
    have 1: "map_of (db_tables db1) n = Some (with_column (nullable m) t)" by simp
    from Inr Cons.prems(1) have "add_columns C (Suc i) n ms db1 = (x, db')" by simp
    from Cons.IH [OF this 1] show ?thesis by (auto simp: with_column_def)
  qed
qed simp

lemma add_column_again:
  assumes "map_of (db_tables db) n = Some t" "m \<in> set (column_names (tb_columns t))"
  shows "add_columns (runs now) i n (m # ms) db = add_columns (runs now) i n ms db"
  using assms add_columns_index [of now "Suc i" n ms db i] by (simp add: add_column_def)

lemma add_columns_resume:
  assumes "honest C" and "map_of (db_tables db) n = Some t" and "add_columns C i n ms db = (x, db')"
  shows "add_columns (runs now) j n ms db' = add_columns (runs now) j n ms db"
  using assms(2,3)
proof (induction ms arbitrary: i db t)
  case (Cons m ms)
  show ?case
  proof (cases "C i")
    case (Fails e)
    with assms(1) have "\<not> is_duplicate_column e" by (simp add: honest_def)
    with Fails Cons.prems show ?thesis by auto
  next
    case (Runs at)
    show ?thesis
    proof (cases "m \<in> set (column_names (tb_columns t))")
      case True
      with Runs Cons.prems have rest: "add_columns C (Suc i) n ms db = (x, db')" by (simp add: add_column_def)
      from add_columns_names [OF this Cons.prems(1)] True obtain t' where
        "map_of (db_tables db') n = Some t'" "m \<in> set (column_names (tb_columns t'))" by blast
      from add_column_again [OF this] add_column_again [OF Cons.prems(1) True] Cons.IH [OF Cons.prems(1) rest]
      show ?thesis by simp
    next
      case False
      with Cons.prems(1) obtain db1 where 1: "add_column n (nullable m) db = Inr db1"
        by (auto simp: add_column_def)
      with Runs Cons.prems have rest: "add_columns C (Suc i) n ms db1 = (x, db')" by simp
      from add_column_names [OF 1] obtain t1 where
        t1: "map_of (db_tables db1) n = Some t1" "m \<in> set (column_names (tb_columns t1))"
        by (auto simp: with_column_def)
      from add_columns_names [OF rest t1(1)] t1(2) obtain t' where
        "map_of (db_tables db') n = Some t'" "m \<in> set (column_names (tb_columns t'))" by blast
      from add_column_again [OF this] Cons.IH [OF t1(1) rest]
      have "add_columns (runs now) j n (m # ms) db' = add_columns (runs now) j n ms db1" by simp
      with 1 add_columns_index [of now "Suc j" n ms db1 j] show ?thesis by simp
    qed
  qed
qed simp

lemma create_table_there:
  assumes "create_table n cols db = Inr db1"
  shows "\<exists>t. map_of (db_tables db1) n = Some t" and "map_of (db_tables db1) n = Some t \<Longrightarrow> create_table n cols' db1 = Inr db1"
proof -
  have "n \<in> set (map fst (db_tables db1))"
    using assms by (auto simp: create_table_def split: if_splits)
  then show "\<exists>t. map_of (db_tables db1) n = Some t"
    by (metis map_of_eq_None_iff not_Some_eq set_map)
  from \<open>n \<in> _\<close> show "create_table n cols' db1 = Inr db1" by (simp add: create_table_def)
qed

lemma init_table_resume:
  assumes "honest C" and "init_table n cols added C db = (x, db')"
  shows "init_table n cols added (runs now) db' = init_table n cols added (runs now) db"
proof (cases "C 0")
  case (Fails e)
  with assms show ?thesis by (auto simp: init_table_def)
next
  case (Runs at)
  obtain db1 where 1: "create_table n cols db = Inr db1"
    by (cases "n \<in> set (map fst (db_tables db))") (simp_all add: create_table_def)
  from create_table_there(1) [OF 1] obtain t where t: "map_of (db_tables db1) n = Some t" ..
  from 1 Runs assms(2) have run: "add_columns C 1 n added db1 = (x, db')" by (simp add: init_table_def)
  from add_columns_names [OF run t] obtain t' where "map_of (db_tables db') n = Some t'" by blast
  then have "n \<in> set (map fst (db_tables db'))" by (metis map_of_eq_None_iff option.distinct(1) set_map)
  then have "create_table n cols db' = Inr db'" by (simp add: create_table_def)
  with add_columns_resume [OF assms(1) t run] 1 show ?thesis by (simp add: init_table_def)
qed

lemma add_columns_done:
  "map_of (db_tables db) n = Some t \<Longrightarrow> set ms \<subseteq> set (column_names (tb_columns t)) \<Longrightarrow>
   add_columns (runs now) i n ms db = (Inr (), db)"
  by (induction ms arbitrary: i) (auto simp: add_column_def)

lemma init_table_done:
  assumes "honest C" and "init_table n cols added C db = (Inr (), db1)" and "db_tables db' = db_tables db1"
  shows "init_table n cols added (runs now) db' = (Inr (), db')"
proof (cases "C 0")
  case (Fails e)
  with assms(2) show ?thesis by (simp add: init_table_def)
next
  case (Runs at)
  obtain db0 where 1: "create_table n cols db = Inr db0"
    by (cases "n \<in> set (map fst (db_tables db))") (simp_all add: create_table_def)
  from create_table_there(1) [OF 1] obtain t where t: "map_of (db_tables db0) n = Some t" ..
  from 1 Runs assms(2) have run: "add_columns C 1 n added db0 = (Inr (), db1)" by (simp add: init_table_def)
  from add_columns_names [OF run t] assms(1,3) obtain t' where
    t': "map_of (db_tables db') n = Some t'" "set added \<subseteq> set (column_names (tb_columns t'))" by auto
  then have "n \<in> set (map fst (db_tables db'))" by (metis map_of_eq_None_iff option.distinct(1) set_map)
  then have "create_table n cols db' = Inr db'" by (simp add: create_table_def)
  with add_columns_done [OF t'] show ?thesis by (simp add: init_table_def)
qed

lemma outbox_init_resume:
  assumes "honest C" and "outbox_init_schema C db = (x, db')"
  shows "outbox_init_schema (runs now) db' = outbox_init_schema (runs now) db"
proof -
  obtain y db1 where 1: "init_table ''outbox'' outbox_columns outbox_added C db = (y, db1)" by fastforce
  note again = init_table_resume [OF assms(1) 1, of now]
  show ?thesis
  proof (cases "db' = db1")
    case True
    with again show ?thesis by (simp add: outbox_init_schema_def)
  next
    case False
    let ?index = "create_index ''idx_outbox_status_attempted'' ''outbox'' [''status'', ''last_attempted_at'']"
    from False assms(2) 1 have y: "y = Inr ()" "?index db1 = Inr db'"
      by (cases "C 4"; auto simp: outbox_init_schema_def split: sum.splits)+
    with False have idx: "db' = db1\<lparr>db_indexes := db_indexes db1 @ [''idx_outbox_status_attempted'']\<rparr>"
      "map_of (db_tables db1) ''outbox'' \<noteq> None"
      by (auto simp: create_index_def split: option.splits if_splits)
    note full = init_table_done [OF assms(1) 1 [unfolded y(1)], of _ now]
    from idx have "?index db' = Inr db'" by (auto simp: create_index_def)
    with full [of db1] full [of db'] idx(1) again y(2) show ?thesis
      by (simp add: outbox_init_schema_def)
  qed
qed

end
