(* ===== verification/Sql_Sessions.thy ===== *)
theory Sql_Sessions
  imports Schema
begin

text \<open>
  The life of a database file over restarts of the node: a start opens the store (and may fail or be
  interrupted anywhere), a session sends statements. The locale \<open>sql_store\<close> is what a store promises:
  opening keeps the records, and every statement is a step of the record store. Under it, whatever
  holds of the steps on records holds of the database over any number of sessions.
\<close>

section \<open>Sessions\<close>

definition put_table :: "string \<Rightarrow> sql_table \<Rightarrow> database \<Rightarrow> database" where
  "put_table n t db = db\<lparr>db_tables := map (\<lambda>(m, u). (m, if m = n then t else u)) (db_tables db)\<rparr>"

lemma put_table_same: "map_of (db_tables db) n = Some u \<Longrightarrow> map_of (db_tables (put_table n t db)) n = Some t"
  using map_of_map_table [of n "\<lambda>_. t" "db_tables db"] by (simp add: put_table_def)

inductive store_session ::
  "(open_env \<Rightarrow> string \<Rightarrow> database \<Rightarrow> unit db_result \<times> database) \<Rightarrow> string \<Rightarrow> (sql_table \<Rightarrow> sql_table \<Rightarrow> bool)
   \<Rightarrow> database \<Rightarrow> database \<Rightarrow> bool"
  for connect :: "open_env \<Rightarrow> string \<Rightarrow> database \<Rightarrow> unit db_result \<times> database"
    and n :: string and sql_step :: "sql_table \<Rightarrow> sql_table \<Rightarrow> bool" where
  failed_start: "honest (op_stmt E) \<Longrightarrow> connect E path db = (Inl e, db') \<Longrightarrow> store_session connect n sql_step db db'"
| served: "honest (op_stmt E) \<Longrightarrow> connect E path db = (Inr (), db1) \<Longrightarrow> map_of (db_tables db1) n = Some t \<Longrightarrow>
    sql_step\<^sup>*\<^sup>* t t' \<Longrightarrow> store_session connect n sql_step db (put_table n t' db1)"

locale sql_store = row_codec cols cell key_col key dec
  for cols :: "sql_column list" and cell :: "'r \<Rightarrow> string \<Rightarrow> sql_value" and key_col :: string
    and key :: "'r \<Rightarrow> string" and dec :: "sql_row \<Rightarrow> 'r option" +
  fixes n :: string and first :: "string list"
    and connect :: "open_env \<Rightarrow> string \<Rightarrow> database \<Rightarrow> unit db_result \<times> database"
    and sql_step :: "sql_table \<Rightarrow> sql_table \<Rightarrow> bool"
    and step :: "'r list \<Rightarrow> 'r list \<Rightarrow> bool"
  assumes first_columns: "set first \<subseteq> set (column_names cols)"
    and connect_keeps: "older_database n cols cell first db rs \<Longrightarrow> connect E path db = (x, db') \<Longrightarrow>
      older_database n cols cell first db' rs"
    and connect_migrates: "older_database n cols cell first db rs \<Longrightarrow> honest (op_stmt E) \<Longrightarrow>
      connect E path db = (Inr (), db') \<Longrightarrow> \<exists>t. map_of (db_tables db') n = Some t \<and> table_rep cols cell t rs"
    and simulates: "sql_step t t' \<Longrightarrow> table_rep cols cell t rs \<Longrightarrow> \<exists>rs'. step rs rs' \<and> table_rep cols cell t' rs'"
begin

lemma steps_simulate:
  assumes "sql_step\<^sup>*\<^sup>* t t'" and "table_rep cols cell t rs"
  shows "\<exists>rs'. step\<^sup>*\<^sup>* rs rs' \<and> table_rep cols cell t' rs'"
  using assms(1)
proof (induction rule: rtranclp_induct)
  case base
  with assms(2) show ?case by blast
next
  case (step u v)
  then obtain ru where "step\<^sup>*\<^sup>* rs ru" "table_rep cols cell u ru" by blast
  with simulates [OF step.hyps(2)] show ?case by (meson rtranclp.rtrancl_into_rtrancl)
qed

lemma session_simulates:
  assumes "store_session connect n sql_step db db'" and "older_database n cols cell first db rs"
  shows "\<exists>rs'. step\<^sup>*\<^sup>* rs rs' \<and> older_database n cols cell first db' rs'"
  using assms(1)
proof cases
  case (failed_start E path e)
  with connect_keeps [OF assms(2)] show ?thesis by blast
next
  case (served E path db1 t t')
  from connect_migrates [OF assms(2) served(2,3)] served(4) have "table_rep cols cell t rs" by simp
  from steps_simulate [OF served(5) this] obtain rs' where rs': "step\<^sup>*\<^sup>* rs rs'" "table_rep cols cell t' rs'"
    by blast
  from put_table_same [OF served(4), of t'] table_rep_older [OF rs'(2) first_columns] served(1) rs'(1) show ?thesis
    by (auto simp: older_database_def)
qed

lemma sessions_simulate:
  assumes "(store_session connect n sql_step)\<^sup>*\<^sup>* db db'" and "older_database n cols cell first db rs"
  shows "\<exists>rs'. step\<^sup>*\<^sup>* rs rs' \<and> older_database n cols cell first db' rs'"
  using assms(1)
proof (induction rule: rtranclp_induct)
  case base
  with assms(2) show ?case by blast
next
  case (step u v)
  then obtain ru where ru: "step\<^sup>*\<^sup>* rs ru" "older_database n cols cell first u ru" by blast
  from session_simulates [OF step.hyps(2) ru(2)] ru(1) show ?case by (meson rtranclp_trans)
qed

text \<open>What the next start finds.\<close>

lemma reopened:
  assumes "(store_session connect n sql_step)\<^sup>*\<^sup>* db db'" and "older_database n cols cell first db rs"
    and "honest (op_stmt E)" and "connect E path db' = (Inr (), db1)"
  shows "\<exists>t rs'. map_of (db_tables db1) n = Some t \<and> table_rep cols cell t rs' \<and> step\<^sup>*\<^sup>* rs rs'"
proof -
  from sessions_simulate [OF assms(1,2)] obtain rs' where
    "step\<^sup>*\<^sup>* rs rs'" "older_database n cols cell first db' rs'" by blast
  with connect_migrates [OF _ assms(3,4)] show ?thesis by blast
qed

end

lemma store_connect_cases:
  assumes "store_connect init E path db = (x, db')"
  shows "(\<exists>e. x = Inl e) \<and> db' = db \<or> init (op_stmt E) db = (x, db')"
  using assms by (auto simp: store_connect_def split: option.splits)

section \<open>The outbox\<close>

inductive outbox_sql_step :: "sql_table \<Rightarrow> sql_table \<Rightarrow> bool" where
  sql_insert: "outbox_sql_step t (snd (outbox_insert_sql c e t))"
| sql_attempt: "outbox_sql_step t (snd (outbox_record_attempt_sql c k t))"
| sql_submitted: "outbox_sql_step t (snd (outbox_mark_submitted_sql c k oid t))"
| sql_reported: "outbox_sql_step t (snd (outbox_mark_reported_sql c k t))"
| sql_promise_written: "outbox_sql_step t (snd (outbox_mark_promise_written_sql c k tx ch t))"
| sql_settled: "outbox_sql_step t (snd (outbox_mark_settled_sql c covered sid t))"
| sql_exception: "outbox_sql_step t (snd (outbox_mark_exception_sql c k reason t))"

lemma agrees_table: "agrees cols cell x y \<Longrightarrow> table_rep cols cell (snd x) (snd y)"
  by (simp add: agrees_def)

lemma outbox_sql_simulates:
  assumes "outbox_sql_step t t'" and "outbox_table t rs"
  shows "\<exists>rs'. outbox_step rs rs' \<and> outbox_table t' rs'"
  using assms(1)
proof cases
  case (sql_insert c e)
  with agrees_table [OF outbox_insert_refines [OF assms(2)]] show ?thesis by (blast intro: outbox_step.intros)
next
  case (sql_attempt c k)
  with agrees_table [OF outbox_updates_refine(1) [OF assms(2)]] show ?thesis by (blast intro: outbox_step.intros)
next
  case (sql_submitted c k oid)
  with agrees_table [OF outbox_updates_refine(2) [OF assms(2)]] show ?thesis by (blast intro: outbox_step.intros)
next
  case (sql_reported c k)
  with agrees_table [OF outbox_updates_refine(4) [OF assms(2)]] show ?thesis by (blast intro: outbox_step.intros)
next
  case (sql_promise_written c k tx ch)
  with agrees_table [OF outbox_updates_refine(3) [OF assms(2)]] show ?thesis by (blast intro: outbox_step.intros)
next
  case (sql_settled c covered sid)
  with agrees_table [OF outbox_mark_settled_refines [OF assms(2)]] show ?thesis by (blast intro: outbox_step.intros)
next
  case (sql_exception c k reason)
  with agrees_table [OF outbox_updates_refine(5) [OF assms(2)]] show ?thesis by (blast intro: outbox_step.intros)
qed

abbreviation outbox_database :: "database \<Rightarrow> outbox \<Rightarrow> bool" where
  "outbox_database \<equiv> older_database ''outbox'' outbox_columns outbox_cell outbox_first"

lemma outbox_schema_complete: "schema_complete outbox_columns outbox_first outbox_added"
  by (simp add: schema_complete_def outbox_added_def outbox_first_def outbox_columns_def)

lemma create_index_tables: "create_index i n ns db = Inr db' \<Longrightarrow> db_tables db' = db_tables db"
  by (auto simp: create_index_def split: option.splits if_splits)

lemma outbox_init_rep:
  assumes "outbox_database db rs" and "outbox_init_schema C db = (x, db')"
  shows "outbox_database db' rs"
    and "x = Inr () \<Longrightarrow> honest C \<Longrightarrow> \<exists>t. map_of (db_tables db') ''outbox'' = Some t \<and> outbox_table t rs"
proof -
  obtain y db1 where 1: "init_table ''outbox'' outbox_columns outbox_added C db = (y, db1)" by fastforce
  note rep = init_table_rep [OF assms(1) outbox_schema_complete 1]
  have t: "db_tables db' = db_tables db1" and y: "x = Inr () \<Longrightarrow> y = Inr ()"
    using assms(2) 1
    by (cases "C 4"; auto simp: outbox_init_schema_def dest: create_index_tables split: sum.splits)+
  from rep t y show "outbox_database db' rs"
    and "x = Inr () \<Longrightarrow> honest C \<Longrightarrow> \<exists>t. map_of (db_tables db') ''outbox'' = Some t \<and> outbox_table t rs"
    by (simp_all add: older_database_def)
qed

interpretation ob_db: sql_store outbox_columns outbox_cell "''transaction_request_id''"
  ob_transaction_request_id outbox_of_row "''outbox''" outbox_first outbox_connect outbox_sql_step outbox_step
proof unfold_locales
  show "set outbox_first \<subseteq> set (column_names outbox_columns)"
    using outbox_schema_complete by (simp add: schema_complete_def)
next
  fix db db' :: database and rs E path x
  assume db: "outbox_database db rs" and c: "outbox_connect E path db = (x, db')"
  from store_connect_cases [OF c [unfolded outbox_connect_def]] outbox_init_rep(1) [OF db] db
  show "outbox_database db' rs" by auto
next
  fix db db' :: database and rs E path
  assume "outbox_database db rs" "honest (op_stmt E)" "outbox_connect E path db = (Inr (), db')"
  then show "\<exists>t. map_of (db_tables db') ''outbox'' = Some t \<and> outbox_table t rs"
    using store_connect_cases [of outbox_init_schema E path db] outbox_init_rep(2) [of db rs "op_stmt E"]
    by (fastforce simp: outbox_connect_def)
qed (rule outbox_sql_simulates)

section \<open>The settlements\<close>

inductive store_sql_step :: "sql_table \<Rightarrow> sql_table \<Rightarrow> bool" where
  sql_claim: "store_sql_step t (snd (store_claim_sql c c2 n t))"
| sql_reclaim: "store_sql_step t (snd (store_reclaim_for_retry_sql c k t))"
| sql_mark_submitted: "store_sql_step t (snd (store_mark_submitted_sql c k tx ch a am fx t))"
| sql_mark_error: "store_sql_step t (snd (store_mark_error_sql c k reason b t))"
| sql_record_depth: "store_sql_step t (snd (store_record_depth_sql c k d t))"
| sql_mark_final: "store_sql_step t (snd (store_mark_final_sql c k d t))"

lemma store_sql_simulates:
  assumes "store_sql_step t t'" and "settlement_table t rs"
  shows "\<exists>rs'. store_step rs rs' \<and> settlement_table t' rs'"
  using assms(1)
proof cases
  case (sql_claim c c2 n)
  with agrees_table [OF store_claim_refines [OF assms(2)]] show ?thesis by (blast intro: store_step.intros)
next
  case (sql_reclaim c k)
  with agrees_table [OF store_updates_refine(1) [OF assms(2)]] show ?thesis by (blast intro: store_step.intros)
next
  case (sql_mark_submitted c k tx ch a am fx)
  with agrees_table [OF store_updates_refine(2) [OF assms(2)]] show ?thesis by (blast intro: store_step.intros)
next
  case (sql_mark_error c k reason b)
  with agrees_table [OF store_updates_refine(3) [OF assms(2)]] show ?thesis by (blast intro: store_step.intros)
next
  case (sql_record_depth c k d)
  with agrees_table [OF store_updates_refine(4) [OF assms(2)]] show ?thesis by (blast intro: store_step.intros)
next
  case (sql_mark_final c k d)
  with agrees_table [OF store_updates_refine(5) [OF assms(2)]] show ?thesis by (blast intro: store_step.intros)
qed

abbreviation settlement_database :: "database \<Rightarrow> settlements \<Rightarrow> bool" where
  "settlement_database \<equiv> older_database ''settlements'' settlement_columns settlement_cell settlement_first"

lemma settlement_schema_complete: "schema_complete settlement_columns settlement_first settlement_added"
  by (simp add: schema_complete_def settlement_added_def settlement_first_def settlement_columns_def)

interpretation st_db: sql_store settlement_columns settlement_cell "''idempotency_key''"
  sr_idempotency_key settlement_of_row "''settlements''" settlement_first settlement_connect
  store_sql_step store_step
proof unfold_locales
  show "set settlement_first \<subseteq> set (column_names settlement_columns)"
    using settlement_schema_complete by (simp add: schema_complete_def)
next
  fix db db' :: database and rs E path x
  assume db: "settlement_database db rs" and c: "settlement_connect E path db = (x, db')"
  from store_connect_cases [OF c [unfolded settlement_connect_def settlement_init_schema_def]]
    init_table_rep(1) [OF db settlement_schema_complete] db
  show "settlement_database db' rs" by auto
next
  fix db db' :: database and rs E path
  assume db: "settlement_database db rs" and h: "honest (op_stmt E)"
    and c: "settlement_connect E path db = (Inr (), db')"
  from store_connect_cases [OF c [unfolded settlement_connect_def settlement_init_schema_def]]
    init_table_rep(2) [OF db settlement_schema_complete _ refl h]
  show "\<exists>t. map_of (db_tables db') ''settlements'' = Some t \<and> settlement_table t rs" by auto
qed (rule store_sql_simulates)

section \<open>The evidence\<close>

inductive evidence_sql_step :: "sql_table \<Rightarrow> sql_table \<Rightarrow> bool" where
  sql_upsert: "evidence_sql_step t (snd (evidence_upsert_sql c e t))"
| sql_cbs: "evidence_sql_step t (snd (evidence_record_cbs_result_sql c k s ref t))"
| sql_return: "evidence_sql_step t (snd (evidence_record_return_sql c k rid t))"
| sql_settle: "evidence_sql_step t (snd (evidence_mark_settled_sql fails now ids sid t))"

lemma evidence_sql_simulates:
  assumes "evidence_sql_step t t'" and "evidence_table t rs"
  shows "\<exists>rs'. evidence_step rs rs' \<and> evidence_table t' rs'"
  using assms(1)
proof cases
  case (sql_upsert c e)
  with agrees_table [OF evidence_upsert_refines [OF assms(2)]] show ?thesis by (blast intro: evidence_step.intros)
next
  case (sql_cbs c k s ref)
  with agrees_table [OF evidence_updates_refine(1) [OF assms(2)]] show ?thesis by (blast intro: evidence_step.intros)
next
  case (sql_return c k rid)
  with agrees_table [OF evidence_updates_refine(2) [OF assms(2)]] show ?thesis by (blast intro: evidence_step.intros)
next
  case (sql_settle fails now ids sid)
  with agrees_table [OF evidence_mark_settled_refines [OF assms(2)]] show ?thesis by (blast intro: evidence_step.intros)
qed

abbreviation evidence_database :: "database \<Rightarrow> evidence \<Rightarrow> bool" where
  "evidence_database \<equiv> older_database ''evidence'' evidence_columns evidence_cell evidence_first"

lemma evidence_schema_complete: "schema_complete evidence_columns evidence_first evidence_added"
  by (simp add: schema_complete_def evidence_added_def evidence_first_def evidence_columns_def)

interpretation ev_db: sql_store evidence_columns evidence_cell "''transaction_request_id''"
  ev_transaction_request_id evidence_of_row "''evidence''" evidence_first evidence_connect
  evidence_sql_step evidence_step
proof unfold_locales
  show "set evidence_first \<subseteq> set (column_names evidence_columns)"
    using evidence_schema_complete by (simp add: schema_complete_def)
next
  fix db db' :: database and rs E path x
  assume db: "evidence_database db rs" and c: "evidence_connect E path db = (x, db')"
  from store_connect_cases [OF c [unfolded evidence_connect_def evidence_init_schema_def]]
    init_table_rep(1) [OF db evidence_schema_complete] db
  show "evidence_database db' rs" by auto
next
  fix db db' :: database and rs E path
  assume db: "evidence_database db rs" and h: "honest (op_stmt E)"
    and c: "evidence_connect E path db = (Inr (), db')"
  from store_connect_cases [OF c [unfolded evidence_connect_def evidence_init_schema_def]]
    init_table_rep(2) [OF db evidence_schema_complete _ refl h]
  show "\<exists>t. map_of (db_tables db') ''evidence'' = Some t \<and> evidence_table t rs" by auto
qed (rule evidence_sql_simulates)

end
