(* ===== verification/Node_Main.thy ===== *)
theory Node_Main
  imports Startup Sql_Sessions
begin

text \<open>
  The start of the node (\<open>main\<close> and \<open>load_config\<close> in \<open>crates/obp-bank-node/src/main.rs\<close>): the layers
  of the configuration, the backends, the three databases, then the tasks in the order they are
  spawned, with every early return. The three databases are three files. The configuration loader
  (figment), the reading of addresses, the listener and the HTTP clients are the environment.
\<close>

section \<open>The configuration\<close>

text \<open>What is merged, the later over the earlier; \<open>extract\<close> of the loader is a parameter.\<close>

datatype 'c provider = Defaults 'c | YamlFile string | EnvPrefix string string

record config_libs =
  cl_extract :: "config provider list \<Rightarrow> string + config"
  cl_yaml_network :: "string \<Rightarrow> string option"

record config_env =
  ce_path :: "string option"
  ce_exists :: "string \<Rightarrow> bool"
  ce_network :: "string option"

definition config_path :: "config_env \<Rightarrow> string" where
  "config_path E = unwrap_or (ce_path E) ''./obp-bank-node-config.yaml''"

definition yaml_network :: "config_libs \<Rightarrow> config_env \<Rightarrow> string option" where
  "yaml_network L E = (if ce_exists E (config_path E) then cl_yaml_network L (config_path E) else None)"

definition network_fixed_message :: "string \<Rightarrow> string \<Rightarrow> string \<Rightarrow> string" where
  "network_fixed_message env path yaml =
     ''this build is fixed to Cardano network '' @ [CHR 0x27] @ env @ [CHR 0x27]
     @ '' (OBP_BN_BLOCKCHAIN__CARDANO__NETWORK), but '' @ path
     @ '' sets `blockchain.cardano.network: '' @ [CHR 0x22] @ yaml @ [CHR 0x22] @ ''` '' @ em_dash
     @ '' remove the YAML setting or use the '' @ [CHR 0x27] @ yaml @ [CHR 0x27] @ '' image''"

definition load_config :: "config_libs \<Rightarrow> config_env \<Rightarrow> string + config" where
  "load_config L E =
     (let path = config_path E;
          layers = [Defaults default_config] @ (if ce_exists E path then [YamlFile path] else [])
                   @ [EnvPrefix ''OBP_BN_'' ''__'']
      in if network_conflict (ce_network E) (yaml_network L E)
         then Inl (network_fixed_message (unwrap_or (ce_network E) []) path (unwrap_or (yaml_network L E) []))
         else (case cl_extract L layers of
                 Inl e \<Rightarrow> Inl ''failed to parse config''
               | Inr c \<Rightarrow> Inr c))"

section \<open>The tasks, one by one\<close>

definition obp_of :: "config \<Rightarrow> obp_client" where
  "obp_of c = new_client (oa_base_url (cf_obp_api c)) (build_obp_auth (cf_obp_api c))"

definition dispatcher_task :: "config \<Rightarrow> task" where
  "dispatcher_task c = RunDispatcher \<lparr>di_obp = obp_of c, di_blockchain_label = blockchain_label c\<rparr> default_dispatcher"

definition watcher_tasks :: "config \<Rightarrow> string option \<Rightarrow> task list" where
  "watcher_tasks c rail =
     (case rail of
        None \<Rightarrow> []
      | Some _ \<Rightarrow> [RunWatcher (sc_finality_depth (cf_settlement c)) (sc_finality_poll_secs (cf_settlement c))])"

definition consumer_tasks :: "config \<Rightarrow> string option \<Rightarrow> task list" where
  "consumer_tasks c rail =
     (if rq_enabled (cf_rabbitmq c)
      then [RunConsumer (consumer_config_of c)
              \<lparr>rt_bank_id = cf_bank_id c, rt_account_id = cf_account_id c,
               rt_settlement = map_option (\<lambda>account. \<lparr>ss_settles_from = account,
                 ss_finality_depth = sc_finality_depth (cf_settlement c)\<rparr>) rail\<rparr>
              (cbs_new (cw_url (cf_cbs c)) (cf_local_secret c) (cw_timeout_seconds (cf_cbs c)))]
      else [])"

definition refresher_tasks :: "config \<Rightarrow> task list" where
  "refresher_tasks c =
     (if 0 < oa_routing_refresh_secs (cf_obp_api c)
      then [RunRefresher (oa_routing_refresh_secs (cf_obp_api c))] else [])"

definition serve_task :: "config \<Rightarrow> task" where
  "serve_task c = Serve (cf_bind c)
     \<lparr>rn_bank_id = cf_bank_id c, rn_account_id = cf_account_id c, rn_blockchain_label = blockchain_label c,
      rn_finality_depth = sc_finality_depth (cf_settlement c), rn_obp = obp_of c\<rparr>
     (if rq_enabled (cf_rabbitmq c) then new_status else set_status DISABLED None)"

section \<open>The start\<close>

record node_libs =
  nl_config :: config_libs
  nl_ogmios :: ogmios_libs
  nl_wallet :: wallet_libs

text \<open>What the environment answers; an error text where a call fails.\<close>

record node_env =
  nd_config :: config_env
  nd_probe :: socket_run
  nd_keyfile :: "string + string"
  nd_outbox :: open_env
  nd_obp_http :: "string option"
  nd_settlements :: open_env
  nd_evidence :: open_env
  nd_cbs_http :: "string option"
  nd_addr :: "string option"
  nd_bind :: "string option"
  nd_serve :: "string option"

record node_files =
  nf_outbox :: database
  nf_settlements :: database
  nf_evidence :: database

text \<open>Dropping out of \<open>main\<close> ends the process and with it the tasks started so far.\<close>

definition node_listen ::
  "node_env \<Rightarrow> config \<Rightarrow> task list \<Rightarrow> node_files \<Rightarrow> (string + unit) \<times> task list \<times> node_files" where
  "node_listen E c tasks F =
     (case nd_addr E of
        None \<Rightarrow> (Inl (''invalid server.bind: '' @ cf_bind c), tasks, F)
      | Some addr \<Rightarrow>
          (case nd_bind E of
             Some e \<Rightarrow> (Inl (''failed to bind '' @ addr), tasks, F)
           | None \<Rightarrow>
               ((case nd_serve E of Some e \<Rightarrow> Inl ''axum::serve failed'' | None \<Rightarrow> Inr ()),
                tasks @ [serve_task c], F)))"

definition node_tasks_from ::
  "node_env \<Rightarrow> config \<Rightarrow> string option \<Rightarrow> task list \<Rightarrow> node_files \<Rightarrow> (string + unit) \<times> task list \<times> node_files" where
  "node_tasks_from E c rail tasks F =
     (if rq_enabled (cf_rabbitmq c) \<and> nd_cbs_http E \<noteq> None
      then (Inl ''failed to build CBS client'', tasks @ watcher_tasks c rail, F)
      else node_listen E c (tasks @ watcher_tasks c rail @ consumer_tasks c rail @ refresher_tasks c) F)"

definition node_stores ::
  "node_env \<Rightarrow> config \<Rightarrow> string option \<Rightarrow> node_files \<Rightarrow> (string + unit) \<times> task list \<times> node_files" where
  "node_stores E c rail F =
     (case outbox_connect (nd_outbox E) (cf_outbox_path c) (nf_outbox F) of
        (Inl e, ob) \<Rightarrow> (Inl (''failed to open outbox at '' @ cf_outbox_path c), [], F\<lparr>nf_outbox := ob\<rparr>)
      | (Inr _, ob) \<Rightarrow>
          if nd_obp_http E \<noteq> None then (Inl ''failed to build OBP API client'', [], F\<lparr>nf_outbox := ob\<rparr>)
          else
            (let path = sc_store_path (cf_settlement c); F1 = F\<lparr>nf_outbox := ob\<rparr>; started = [dispatcher_task c]
             in (case settlement_connect (nd_settlements E) path (nf_settlements F1) of
                   (Inl e, s) \<Rightarrow> (Inl (''failed to open settlement store at '' @ path), started, F1\<lparr>nf_settlements := s\<rparr>)
                 | (Inr _, s) \<Rightarrow>
                     (let F2 = F1\<lparr>nf_settlements := s\<rparr>
                      in (case evidence_connect (nd_evidence E) (cf_evidence_path c) (nf_evidence F2) of
                            (Inl e, v) \<Rightarrow> (Inl (''failed to open evidence store at '' @ cf_evidence_path c), started,
                                           F2\<lparr>nf_evidence := v\<rparr>)
                          | (Inr _, v) \<Rightarrow> node_tasks_from E c rail started (F2\<lparr>nf_evidence := v\<rparr>))))))"

text \<open>The account the rail pays from.\<close>

definition rail_account :: "(cardano \<times> fx_source) option \<Rightarrow> string option" where
  "rail_account = map_option (\<lambda>(C, fx). wa_address (cd_wallet C))"

definition node_main ::
  "node_libs \<Rightarrow> node_env \<Rightarrow> node_files \<Rightarrow> (string + unit) \<times> task list \<times> node_files" where
  "node_main L E F =
     (case load_config (nl_config L) (nd_config E) of
        Inl e \<Rightarrow> (Inl e, [], F)
      | Inr c \<Rightarrow>
          (case build_backend (nl_ogmios L) (nl_wallet L) (nd_probe E) (nd_keyfile E) c of
             Inl e \<Rightarrow> (Inl e, [], F)
           | Inr (notary, rail) \<Rightarrow> node_stores E c (rail_account rail) F))"

section \<open>Facts\<close>

lemma node_tasks_list:
  "node_tasks c rail = [dispatcher_task c] @ watcher_tasks c rail @ consumer_tasks c rail
     @ refresher_tasks c @ [serve_task c]"
  by (cases rail) (simp_all add: node_tasks_def dispatcher_task_def watcher_tasks_def consumer_tasks_def
      refresher_tasks_def serve_task_def obp_of_def Let_def)

lemma load_config_conflict:
  "network_conflict (ce_network E) (yaml_network L E) \<Longrightarrow> \<exists>e. load_config L E = Inl e"
  by (simp add: load_config_def Let_def)

lemma load_config_no_conflict:
  "load_config L E = Inr c \<Longrightarrow> \<not> network_conflict (ce_network E) (yaml_network L E)"
  by (auto simp: load_config_def Let_def split: if_splits)

text \<open>Only the listener serves, so a list of tasks with a server is complete.\<close>

fun is_serve :: "task \<Rightarrow> bool" where
  "is_serve (Serve bind rc st) = True"
| "is_serve _ = False"

abbreviation serving :: "task list \<Rightarrow> bool" where
  "serving tasks \<equiv> list_ex is_serve tasks"

lemma not_serving [simp]:
  "\<not> is_serve (dispatcher_task c)" "\<not> serving (watcher_tasks c rail)" "\<not> serving (consumer_tasks c rail)"
  "\<not> serving (refresher_tasks c)"
  by (simp_all add: dispatcher_task_def watcher_tasks_def consumer_tasks_def refresher_tasks_def split: option.splits)

lemma node_tasks_from_result:
  assumes "node_tasks_from E c rail [dispatcher_task c] F = (r, tasks, F')"
  shows "F' = F \<and> (\<exists>later. node_tasks c rail = tasks @ later) \<and> (serving tasks \<longrightarrow> tasks = node_tasks c rail)"
  using assms
  by (auto simp: node_tasks_from_def node_listen_def node_tasks_list split: if_splits option.splits)

lemma node_stores_result:
  assumes "node_stores E c rail F = (r, tasks, F')"
  shows "(\<exists>later. node_tasks c rail = tasks @ later)
    \<and> nf_outbox F' = snd (outbox_connect (nd_outbox E) (cf_outbox_path c) (nf_outbox F))
    \<and> (tasks \<noteq> [] \<longrightarrow> fst (outbox_connect (nd_outbox E) (cf_outbox_path c) (nf_outbox F)) = Inr ())
    \<and> (serving tasks \<longrightarrow> tasks = node_tasks c rail
      \<and> settlement_connect (nd_settlements E) (sc_store_path (cf_settlement c)) (nf_settlements F) = (Inr (), nf_settlements F')
      \<and> evidence_connect (nd_evidence E) (cf_evidence_path c) (nf_evidence F) = (Inr (), nf_evidence F'))"
proof -
  obtain x o1 where 1: "outbox_connect (nd_outbox E) (cf_outbox_path c) (nf_outbox F) = (x, o1)" by fastforce
  obtain y s1 where 2: "settlement_connect (nd_settlements E) (sc_store_path (cf_settlement c))
      (nf_settlements F) = (y, s1)" by fastforce
  obtain z v1 where 3: "evidence_connect (nd_evidence E) (cf_evidence_path c) (nf_evidence F) = (z, v1)"
    by fastforce
  have started: "\<exists>later. node_tasks c rail = dispatcher_task c # later"
    by (simp add: node_tasks_list)
  show ?thesis
  proof (cases "\<exists>u w. x = Inr u \<and> y = Inr u \<and> z = Inr w \<and> nd_obp_http E = None")
    case True
    with assms 1 2 3 have "node_tasks_from E c rail [dispatcher_task c]
        (F\<lparr>nf_outbox := o1, nf_settlements := s1, nf_evidence := v1\<rparr>) = (r, tasks, F')"
      by (auto simp: node_stores_def Let_def)
    from node_tasks_from_result [OF this] True 1 2 3 show ?thesis by auto
  next
    case False
    with assms 1 2 3 started show ?thesis
      by (cases x; cases y; cases z) (auto simp: node_stores_def Let_def split: if_splits)
  qed
qed

text \<open>What a start does, whatever fails: the tasks are a beginning of the full list.\<close>

lemma node_main_result:
  assumes "node_main L E F = (r, tasks, F')"
  shows "tasks = [] \<and> F' = F \<and> \<not> serving tasks \<or>
    (\<exists>c notary rail. load_config (nl_config L) (nd_config E) = Inr c
      \<and> build_backend (nl_ogmios L) (nl_wallet L) (nd_probe E) (nd_keyfile E) c = Inr (notary, rail)
      \<and> node_stores E c (rail_account rail) F = (r, tasks, F'))"
  using assms by (auto simp: node_main_def split: sum.splits prod.splits)

end
