(* ===== verification/App_Main.thy ===== *)
theory App_Main
  imports Setup_Session Node_Main
begin

text \<open>
  The start of the app (\<open>main\<close> and \<open>load_config\<close> in \<open>crates/obp-bank-node-app/src/main.rs\<close>): the
  layers of its configuration, then every step up to the listener with its early return.
\<close>

definition app_load_config ::
  "(app_config provider list \<Rightarrow> string + app_config) \<Rightarrow> string option \<Rightarrow> string + app_config" where
  "app_load_config extract path =
     (case extract [Defaults default_app_config, YamlFile (unwrap_or path ''obp-bank-node-app-config.yaml''),
                    EnvPrefix ''OBP_BN_APP_'' ''__''] of
        Inl e \<Rightarrow> Inl ''failed to load app config''
      | Inr c \<Rightarrow> Inr c)"

text \<open>What the environment answers; an error text where a call fails.\<close>

record app_env =
  ae_path :: "string option"
  ae_setup_http :: "string option"
  ae_proxy_http :: "string option"
  ae_addr :: "string option"
  ae_bind :: "string option"
  ae_serve :: "string option"

definition app_listen :: "app_env \<Rightarrow> running_app \<Rightarrow> (string + unit) \<times> running_app option" where
  "app_listen E app =
     (case ae_addr E of
        None \<Rightarrow> (Inl (''invalid server.bind: '' @ rk_bind app), None)
      | Some addr \<Rightarrow>
          (case ae_bind E of
             Some e \<Rightarrow> (Inl (''failed to bind '' @ addr), None)
           | None \<Rightarrow>
               ((case ae_serve E of Some e \<Rightarrow> Inl ''axum::serve failed'' | None \<Rightarrow> Inr ()), Some app)))"

text \<open>The second part of the result is the app that was served, if it came to that.\<close>

definition app_main ::
  "(app_config provider list \<Rightarrow> string + app_config) \<Rightarrow> app_env \<Rightarrow> (string + unit) \<times> running_app option" where
  "app_main extract E =
     (case app_load_config extract (ae_path E) of
        Inl e \<Rightarrow> (Inl e, None)
      | Inr c \<Rightarrow>
          (case if ac_obp_api c = None then None else ae_setup_http E of
             Some e \<Rightarrow> (Inl e, None)
           | None \<Rightarrow>
               (case start_app c of
                  Inl e \<Rightarrow> (Inl e, None)
                | Inr app \<Rightarrow>
                    (case ae_proxy_http E of
                       Some e \<Rightarrow> (Inl e, None)
                     | None \<Rightarrow> app_listen E app))))"

lemma app_main_served:
  assumes "app_main extract E = (r, Some app)"
  shows "\<exists>c. app_load_config extract (ae_path E) = Inr c \<and> start_app c = Inr app"
  using assms by (auto simp: app_main_def app_listen_def split: sum.splits option.splits if_splits)

text \<open>An app that serves proxies every node of its configuration under its own name.\<close>

lemma start_app_nodes:
  assumes "start_app c = Inr app" and "n \<in> set (ac_nodes c)"
  shows "ax_nodes (rk_state app) (nd_name n) = Some n"
proof -
  let ?pairs = "map (\<lambda>n. (nd_name n, n)) (ac_nodes c)"
  from assms(1) have "distinct (map fst ?pairs)"
    and nodes: "ax_nodes (rk_state app) = map_of (rev ?pairs)"
    by (auto simp: start_app_def new_app_state_def Let_def comp_def length_remdups_eq split: if_splits)
  then have "distinct (map fst (rev ?pairs))" by (simp add: rev_map [symmetric])
  moreover have "(nd_name n, n) \<in> set (rev ?pairs)" using assms(2) by simp
  ultimately show ?thesis unfolding nodes by (rule map_of_is_SomeI)
qed

lemma served_app_proxies:
  assumes "app_main extract E = (r, Some app)"
  shows "\<exists>c. app_load_config extract (ae_path E) = Inr c
    \<and> (\<forall>n \<in> set (ac_nodes c). ax_nodes (rk_state app) (nd_name n) = Some n)"
  using app_main_served [OF assms] start_app_nodes by blast

end
