(* ===== verification/Oidc_Safety.thy ===== *)
theory Oidc_Safety
  imports Oidc
begin

text \<open>
  The login as a step relation over the parts of \<open>Oidc\<close>, in any interleaving: several callbacks
  and refreshes may be waiting for the network at the same time. The tokens of the random
  generator (32 random bytes) are taken to be new. What was minted, the callbacks that arrived
  and the calls in flight are ghosts.
\<close>

record login_run =
  lr_oidc :: oidc
  lr_minted :: "(string \<times> string) list"
  lr_callbacks :: "(string \<times> string) list"
  lr_exchanging :: "(string \<times> string \<times> pending_login) list"
  lr_refreshing :: "(string \<times> string) list"
  lr_opened :: "string list"

definition login_start :: login_run where
  "login_start = \<lparr>lr_oidc = new_oidc, lr_minted = [], lr_callbacks = [], lr_exchanging = [],
     lr_refreshing = [], lr_opened = []\<rparr>"

inductive login_step :: "oidc_libs \<Rightarrow> app_obp_config \<Rightarrow> login_run \<Rightarrow> login_run \<Rightarrow> bool" for L C where
  Begin: "begin_login L C E next_path (lr_oidc R) = (r, s)
    \<Longrightarrow> random_token (lg_state_bytes E) \<notin> fst ` set (lr_minted R)
    \<Longrightarrow> random_token (lg_verifier_bytes E) \<notin> snd ` set (lr_minted R)
    \<Longrightarrow> login_step L C R (R\<lparr>lr_oidc := s, lr_minted := lr_minted R
          @ [(random_token (lg_state_bytes E), random_token (lg_verifier_bytes E))]\<rparr>)"
| Callback: "take_pending st now (lr_oidc R) = (Inr p, s)
    \<Longrightarrow> login_step L C R (R\<lparr>lr_oidc := s, lr_callbacks := lr_callbacks R @ [(st, code)],
          lr_exchanging := (st, code, p) # lr_exchanging R\<rparr>)"
| Refused: "take_pending st now (lr_oidc R) = (Inl e, s)
    \<Longrightarrow> login_step L C R (R\<lparr>lr_oidc := s, lr_callbacks := lr_callbacks R @ [(st, code)]\<rparr>)"
| Exchanged: "lr_exchanging R = xs @ (st, code, p) # ys
    \<Longrightarrow> random_token (xe_session_bytes E) \<notin> set (lr_opened R)
    \<Longrightarrow> finish_login L C E p code (lr_oidc R) = (r', s)
    \<Longrightarrow> login_step L C R (R\<lparr>lr_oidc := s, lr_exchanging := xs @ ys,
          lr_opened := random_token (xe_session_bytes E) # lr_opened R\<rparr>)"
| Expired: "look_session sid now (lr_oidc R) = Some (Refresh tok)
    \<Longrightarrow> login_step L C R (R\<lparr>lr_refreshing := (sid, tok) # lr_refreshing R\<rparr>)"
| Refreshed: "lr_refreshing R = xs @ (sid, tok) # ys
    \<Longrightarrow> finish_refresh L C E sid tok (lr_oidc R) = (r'', s)
    \<Longrightarrow> login_step L C R (R\<lparr>lr_oidc := s, lr_refreshing := xs @ ys\<rparr>)"
| Logout: "logout sid (lr_oidc R) = (u, s) \<Longrightarrow> login_step L C R (R\<lparr>lr_oidc := s\<rparr>)"

definition code_of_form :: "form \<Rightarrow> (string \<times> string) option" where
  "code_of_form f = (case (map_of f ''code'', map_of f ''code_verifier'') of
     (Some c, Some v) \<Rightarrow> Some (c, v) | _ \<Rightarrow> None)"

text \<open>The codes sent to the token endpoint, each with the verifier sent along.\<close>

definition exchanged :: "oidc \<Rightarrow> (string \<times> string) list" where
  "exchanged s = List.map_filter (\<lambda>(url, f). code_of_form f) (oi_posts s)"

section \<open>What each part changes\<close>

named_theorems oidc_frame

lemma get_endpoints_frame [oidc_frame]:
  assumes "get_endpoints L C E s = (r, t)"
  shows "oi_pending t = oi_pending s \<and> oi_sessions t = oi_sessions s \<and> oi_poisoned t = oi_poisoned s
    \<and> oi_posts t = oi_posts s"
  using assms by (auto simp: get_endpoints_def split: option.splits sum.splits)

lemma token_request_frame [oidc_frame]:
  assumes "token_request L ep form answer s = (r, t)"
  shows "oi_pending t = oi_pending s \<and> oi_sessions t = oi_sessions s \<and> oi_poisoned t = oi_poisoned s
    \<and> oi_posts t = oi_posts s @ [(ep_token ep, form)]"
  using assms by (auto simp: token_request_def)

lemma insert_session_frame [oidc_frame]:
  assumes "insert_session sid tokens refresh now s = (r, t)"
  shows "oi_pending t = oi_pending s \<and> oi_posts t = oi_posts s
    \<and> (\<forall>sid'. sid' \<noteq> sid \<longrightarrow> oi_sessions t sid' = oi_sessions s sid')"
  using assms by (auto simp: insert_session_def split: option.splits if_splits)

lemma drop_session_frame [oidc_frame]:
  assumes "drop_session sid s = (r, t)"
  shows "oi_pending t = oi_pending s \<and> oi_posts t = oi_posts s
    \<and> (\<forall>sid'. sid' \<noteq> sid \<longrightarrow> oi_sessions t sid' = oi_sessions s sid')"
  using assms by (auto simp: drop_session_def split: if_splits)

lemma code_of_form_simps [simp]:
  "code_of_form (code_form C code v) = Some (code, v)" "code_of_form (refresh_form C tok) = None"
  by (simp_all add: code_of_form_def code_form_def refresh_form_def)

lemma exchanged_add [simp]:
  "exchanged (s\<lparr>oi_posts := oi_posts s @ [(url, f)]\<rparr>)
   = exchanged s @ (case code_of_form f of None \<Rightarrow> [] | Some x \<Rightarrow> [x])"
  by (simp add: exchanged_def map_filter_def split: option.splits)

lemma exchanged_posts: "oi_posts t = oi_posts s @ [(url, f)]
  \<Longrightarrow> exchanged t = exchanged s @ (case code_of_form f of None \<Rightarrow> [] | Some x \<Rightarrow> [x])"
  by (simp add: exchanged_def map_filter_def split: option.splits)

lemma exchanged_cong: "oi_posts t = oi_posts s \<Longrightarrow> exchanged t = exchanged s"
  by (simp add: exchanged_def)

lemma finish_login_frame:
  assumes "finish_login L C E p code s = (r, t)"
  shows "oi_pending t = oi_pending s"
    and "exchanged t = exchanged s \<or> exchanged t = exchanged s @ [(code, pl_code_verifier p)]"
proof -
  have "oi_pending t = oi_pending s \<and>
    (oi_posts t = oi_posts s \<or> (\<exists>url. oi_posts t = oi_posts s @ [(url, code_form C code (pl_code_verifier p))]))"
    using assms by (auto simp: finish_login_def Let_def split: prod.splits sum.splits option.splits
        dest!: oidc_frame)
  then show "oi_pending t = oi_pending s"
    and "exchanged t = exchanged s \<or> exchanged t = exchanged s @ [(code, pl_code_verifier p)]"
    by (auto dest: exchanged_cong exchanged_posts)
qed

lemma finish_refresh_frame:
  assumes "finish_refresh L C E sid tok s = (r, t)"
  shows "oi_pending t = oi_pending s" and "exchanged t = exchanged s"
proof -
  have "oi_pending t = oi_pending s \<and>
    (oi_posts t = oi_posts s \<or> (\<exists>url. oi_posts t = oi_posts s @ [(url, refresh_form C tok)]))"
    using assms by (auto simp: finish_refresh_def Let_def split: prod.splits sum.splits option.splits
        dest!: oidc_frame)
  then show "oi_pending t = oi_pending s" and "exchanged t = exchanged s"
    by (auto dest: exchanged_cong exchanged_posts)
qed

lemma begin_login_frame:
  assumes "begin_login L C E nxt s = (r, t)"
  shows "oi_posts t = oi_posts s" and "oi_sessions t = oi_sessions s"
    and "oi_pending t k = Some p \<Longrightarrow> oi_pending s k = Some p
      \<or> k = random_token (lg_state_bytes E) \<and> pl_code_verifier p = random_token (lg_verifier_bytes E)"
  using assms by (auto simp: begin_login_def register_login_def filter_opt_def Let_def
      split: prod.splits sum.splits option.splits if_splits dest!: oidc_frame)

lemma take_pending_frame:
  assumes "take_pending st now s = (r, t)"
  shows "oi_posts t = oi_posts s" and "oi_sessions t = oi_sessions s"
    and "oi_pending t k = Some p \<Longrightarrow> oi_pending s k = Some p \<and> k \<noteq> st"
  using assms by (auto simp: take_pending_def split: option.splits if_splits)

lemma take_pending_Inr:
  "take_pending st now s = (Inr p, t) \<Longrightarrow> oi_pending s st = Some p \<and> now - pl_created p < PENDING_TTL"
  by (auto simp: take_pending_def split: option.splits if_splits)

section \<open>The cookie\<close>

definition graphic :: "char \<Rightarrow> bool" where
  "graphic c \<longleftrightarrow> 32 < byte_val c \<and> byte_val c < 127"

lemma white_space_not_graphic:
  "list_all (\<lambda>p. p \<noteq> [] \<and> \<not> graphic (hd p) \<and> \<not> graphic (last p)) white_space"
  by code_simp

lemma trim_graphic:
  assumes "s \<noteq> []" and "graphic (hd s)" and "graphic (last s)"
  shows "trim s = s"
proof -
  have "hd s \<notin> hd ` (set white_space - {[]})"
    using assms(2) white_space_not_graphic by (auto simp: list_all_iff)
  then have "trim_start s = s" unfolding trim_start_def by (rule strip_while_id [OF assms(1)])
  moreover have "hd (rev s) \<notin> hd ` (set (map rev white_space) - {[]})"
    using assms(3) white_space_not_graphic by (auto simp: list_all_iff hd_rev)
  then have "strip_while (map rev white_space) (rev s) = rev s"
    using assms(1) by (intro strip_while_id) simp_all
  ultimately show ?thesis by (simp add: trim_def trim_end_def)
qed

text \<open>The identifier that the answer to a login sets is the one that is read back.\<close>

lemma session_cookie_read:
  assumes "sid \<noteq> []" and "list_all (\<lambda>c. graphic c \<and> c \<noteq> CHR '';'') sid"
  shows "session_id_from_cookies (Some (SESSION_COOKIE @ ''='' @ sid)) = Some sid"
proof -
  let ?c = "SESSION_COOKIE @ ''='' @ sid"
  have name: "list_all (\<lambda>c. graphic c \<and> c \<noteq> CHR '';'' \<and> c \<noteq> CHR ''='') SESSION_COOKIE" by code_simp
  have eq: "graphic CHR ''=''" by code_simp
  have all: "list_all (\<lambda>c. graphic c \<and> c \<noteq> CHR '';'') ?c"
    using name assms(2) eq by (auto simp: list_all_iff)
  then have "graphic (hd ?c)" "graphic (last ?c)"
    using assms(1) by (simp_all add: SESSION_COOKIE_def list_all_iff)
  then have trim: "trim ?c = ?c" by (intro trim_graphic) simp_all
  have "graphic c" if "c \<in> set ?c" for c using all that unfolding list_all_iff by blast
  then have "32 \<le> byte_val c \<and> byte_val c < 127 \<or> byte_val c = 9" if "c \<in> set ?c" for c
    using that unfolding graphic_def by (meson less_imp_le)
  then have "header_to_str ?c = Some ?c"
    unfolding header_to_str_def by (intro if_P ballI)
  moreover have "CHR '';'' \<notin> set ?c" using all unfolding list_all_iff by blast
  then have "split_char CHR '';'' ?c = [?c]" by (rule split_char_unsplit)
  moreover have "session_of_part ?c = Some sid"
  proof -
    have "CHR ''='' \<notin> set SESSION_COOKIE" using name unfolding list_all_iff by blast
    then have "split_once CHR ''='' (SESSION_COOKIE @ ''='' @ sid) = Some (SESSION_COOKIE, sid)"
      using split_once_append [of "CHR ''=''" SESSION_COOKIE sid] by simp
    then show ?thesis unfolding session_of_part_def trim by simp
  qed
  ultimately show ?thesis by (simp add: session_id_from_cookies_def)
qed

section \<open>Each login is exchanged once\<close>

definition login_ok :: "login_run \<Rightarrow> bool" where
  "login_ok R \<longleftrightarrow>
     distinct (map fst (lr_minted R)) \<and> distinct (map snd (lr_minted R))
     \<and> distinct (map snd (exchanged (lr_oidc R)) @ map (\<lambda>(st, c, p). pl_code_verifier p) (lr_exchanging R))
     \<and> (\<forall>k p. oi_pending (lr_oidc R) k = Some p \<longrightarrow> (k, pl_code_verifier p) \<in> set (lr_minted R))
     \<and> (\<forall>k p c. oi_pending (lr_oidc R) k = Some p \<longrightarrow> (c, pl_code_verifier p) \<notin> set (exchanged (lr_oidc R)))
     \<and> (\<forall>k p st c q. oi_pending (lr_oidc R) k = Some p \<longrightarrow> (st, c, q) \<in> set (lr_exchanging R)
           \<longrightarrow> pl_code_verifier q \<noteq> pl_code_verifier p)
     \<and> (\<forall>st c p. (st, c, p) \<in> set (lr_exchanging R) \<longrightarrow> (st, pl_code_verifier p) \<in> set (lr_minted R))
     \<and> (\<forall>st c p. (st, c, p) \<in> set (lr_exchanging R) \<longrightarrow> (st, c) \<in> set (lr_callbacks R))
     \<and> (\<forall>c v. (c, v) \<in> set (exchanged (lr_oidc R)) \<longrightarrow>
           (\<exists>st. (st, v) \<in> set (lr_minted R) \<and> (st, c) \<in> set (lr_callbacks R)))"

lemma login_ok_start: "login_ok login_start"
  by (simp add: login_ok_def login_start_def new_oidc_def exchanged_def map_filter_def)

lemma distinct_snd_unique: "distinct (map snd xs) \<Longrightarrow> (a, v) \<in> set xs \<Longrightarrow> (b, v) \<in> set xs \<Longrightarrow> a = b"
  by (induction xs) (auto simp: image_iff)

lemma login_okI:
  assumes "distinct (map fst (lr_minted R))" "distinct (map snd (lr_minted R))"
    "distinct (map snd (exchanged (lr_oidc R)) @ map (\<lambda>(st, c, p). pl_code_verifier p) (lr_exchanging R))"
    "\<And>k p. oi_pending (lr_oidc R) k = Some p \<Longrightarrow> (k, pl_code_verifier p) \<in> set (lr_minted R)"
    "\<And>k p c. oi_pending (lr_oidc R) k = Some p \<Longrightarrow> (c, pl_code_verifier p) \<notin> set (exchanged (lr_oidc R))"
    "\<And>k p st c q. oi_pending (lr_oidc R) k = Some p \<Longrightarrow> (st, c, q) \<in> set (lr_exchanging R)
       \<Longrightarrow> pl_code_verifier q \<noteq> pl_code_verifier p"
    "\<And>st c p. (st, c, p) \<in> set (lr_exchanging R) \<Longrightarrow> (st, pl_code_verifier p) \<in> set (lr_minted R)"
    "\<And>st c p. (st, c, p) \<in> set (lr_exchanging R) \<Longrightarrow> (st, c) \<in> set (lr_callbacks R)"
    "\<And>c v. (c, v) \<in> set (exchanged (lr_oidc R))
       \<Longrightarrow> \<exists>st. (st, v) \<in> set (lr_minted R) \<and> (st, c) \<in> set (lr_callbacks R)"
  shows "login_ok R"
  unfolding login_ok_def by (intro conjI allI impI assms)

lemma login_okD:
  assumes "login_ok R"
  shows "distinct (map fst (lr_minted R))" "distinct (map snd (lr_minted R))"
    "distinct (map snd (exchanged (lr_oidc R)) @ map (\<lambda>(st, c, p). pl_code_verifier p) (lr_exchanging R))"
    "oi_pending (lr_oidc R) k = Some p \<Longrightarrow> (k, pl_code_verifier p) \<in> set (lr_minted R)"
    "oi_pending (lr_oidc R) k = Some p \<Longrightarrow> (c, pl_code_verifier p) \<notin> set (exchanged (lr_oidc R))"
    "oi_pending (lr_oidc R) k = Some p \<Longrightarrow> (st, c, q) \<in> set (lr_exchanging R)
       \<Longrightarrow> pl_code_verifier q \<noteq> pl_code_verifier p"
    "(st, c, p) \<in> set (lr_exchanging R) \<Longrightarrow> (st, pl_code_verifier p) \<in> set (lr_minted R)"
    "(st, c, p) \<in> set (lr_exchanging R) \<Longrightarrow> (st, c) \<in> set (lr_callbacks R)"
    "(c, v) \<in> set (exchanged (lr_oidc R))
       \<Longrightarrow> \<exists>st. (st, v) \<in> set (lr_minted R) \<and> (st, c) \<in> set (lr_callbacks R)"
  using assms unfolding login_ok_def by blast+

text \<open>A fresh login: verifiers already used were minted before, so the new one is not among them.\<close>

lemma login_ok_begin:
  assumes ok: "login_ok R" and bl: "begin_login L C E nxt (lr_oidc R) = (r, s)"
    and st: "random_token (lg_state_bytes E) \<notin> fst ` set (lr_minted R)"
    and ve: "random_token (lg_verifier_bytes E) \<notin> snd ` set (lr_minted R)"
  shows "login_ok (R\<lparr>lr_oidc := s, lr_minted := lr_minted R
          @ [(random_token (lg_state_bytes E), random_token (lg_verifier_bytes E))]\<rparr>)"
proof -
  let ?v = "random_token (lg_verifier_bytes E)"
  have ex: "exchanged s = exchanged (lr_oidc R)"
    using begin_login_frame(1) [OF bl] by (rule exchanged_cong)
  have used: "(c, ?v) \<notin> set (exchanged (lr_oidc R))" for c
    using login_okD(9) [OF ok] ve by force
  have flying: "(a, c, q) \<in> set (lr_exchanging R) \<Longrightarrow> pl_code_verifier q \<noteq> ?v" for a c q
    using login_okD(7) [OF ok] ve by force
  note pend = begin_login_frame(3) [OF bl]
  show ?thesis
  proof (rule login_okI, goal_cases)
    case (4 k p)
    then show ?case using pend [of k p] login_okD(4) [OF ok] by auto
  next
    case (5 k p c)
    then show ?case using pend [of k p] login_okD(5) [OF ok] used by (auto simp: ex)
  next
    case (6 k p a c q)
    then show ?case using pend [of k p] login_okD(6) [OF ok] flying by auto
  next
    case (9 c v)
    then show ?case using login_okD(9) [OF ok] by (force simp: ex)
  qed (use st ve login_okD [OF ok] in \<open>auto simp: ex\<close>)
qed

lemma login_ok_taken:
  assumes ok: "login_ok R" and tp: "take_pending st now (lr_oidc R) = (Inr p, s)"
  shows "login_ok (R\<lparr>lr_oidc := s, lr_callbacks := lr_callbacks R @ [(st, code)],
          lr_exchanging := (st, code, p) # lr_exchanging R\<rparr>)"
proof -
  have ex: "exchanged s = exchanged (lr_oidc R)"
    using take_pending_frame(1) [OF tp] by (rule exchanged_cong)
  have p: "oi_pending (lr_oidc R) st = Some p" using take_pending_Inr [OF tp] by simp
  note minted = login_okD(4) [OF ok p]
  note pend = take_pending_frame(3) [OF tp]
  have other: "pl_code_verifier q \<noteq> pl_code_verifier p" if "oi_pending s k = Some q" for k q
    using login_okD(4) [OF ok] pend [OF that] minted distinct_snd_unique [OF login_okD(2) [OF ok]] by metis
  show ?thesis
  proof (rule login_okI, goal_cases)
    case 3
    have "pl_code_verifier p \<notin> snd ` set (exchanged (lr_oidc R))" using login_okD(5) [OF ok p] by auto
    moreover have "pl_code_verifier p \<notin> (\<lambda>(st, c, p). pl_code_verifier p) ` set (lr_exchanging R)"
      using login_okD(6) [OF ok p] by fastforce
    ultimately show ?case using login_okD(3) [OF ok] by (simp add: ex)
  next
    case (4 k q)
    then show ?case using pend login_okD(4) [OF ok] by simp
  next
    case (5 k q c)
    then show ?case using pend [of k q] login_okD(5) [OF ok, of k q c] by (simp add: ex)
  next
    case (6 k q a c q')
    then show ?case using pend [of k q] login_okD(6) [OF ok] other [of k q] by auto
  next
    case (9 c v)
    then show ?case using login_okD(9) [OF ok, of c v] by (auto simp: ex)
  qed (use minted login_okD [OF ok] in \<open>auto simp: ex\<close>)
qed

lemma login_ok_refused:
  assumes ok: "login_ok R" and tp: "take_pending st now (lr_oidc R) = (r, s)"
  shows "login_ok (R\<lparr>lr_oidc := s, lr_callbacks := lr_callbacks R @ [(st, code)]\<rparr>)"
proof -
  have ex: "exchanged s = exchanged (lr_oidc R)"
    using take_pending_frame(1) [OF tp] by (rule exchanged_cong)
  note pend = take_pending_frame(3) [OF tp]
  show ?thesis
  proof (rule login_okI, goal_cases)
    case (4 k q)
    then show ?case using pend login_okD(4) [OF ok] by simp
  next
    case (5 k q c)
    then show ?case using pend [of k q] login_okD(5) [OF ok, of k q c] by (simp add: ex)
  next
    case (6 k q a c q')
    then show ?case using pend [of k q] login_okD(6) [OF ok, of k q a c q'] by simp
  next
    case (9 c v)
    then show ?case using login_okD(9) [OF ok, of c v] by (auto simp: ex)
  qed (use login_okD [OF ok] in \<open>auto simp: ex\<close>)
qed

lemma distinct_move:
  "distinct (A @ B @ v # C) \<Longrightarrow> distinct (A @ B @ C) \<and> distinct ((A @ [v]) @ B @ C)"
  by auto

lemma login_ok_exchanged:
  assumes ok: "login_ok R" and fl: "lr_exchanging R = xs @ (st, code, p) # ys"
    and pend: "oi_pending s = oi_pending (lr_oidc R)"
    and ex: "exchanged s = exchanged (lr_oidc R)
      \<or> exchanged s = exchanged (lr_oidc R) @ [(code, pl_code_verifier p)]"
  shows "login_ok (R\<lparr>lr_oidc := s, lr_exchanging := xs @ ys, lr_opened := os\<rparr>)"
proof (rule login_okI, goal_cases)
  case 3
  have "distinct (map snd (exchanged (lr_oidc R)) @ map (\<lambda>(st, c, p). pl_code_verifier p) xs
      @ pl_code_verifier p # map (\<lambda>(st, c, p). pl_code_verifier p) ys)"
    using login_okD(3) [OF ok] by (simp add: fl)
  from distinct_move [OF this] show ?case using ex by fastforce
next
  case (5 k q c)
  then show ?case
    using ex pend login_okD(5) [OF ok, of k q] login_okD(6) [OF ok, of k q st code p] by (auto simp: fl)
next
  case (6 k q a c q')
  then show ?case using pend login_okD(6) [OF ok, of k q a c q'] by (auto simp: fl)
next
  case (9 c v)
  then show ?case
    using ex login_okD(9) [OF ok, of c v] login_okD(7,8) [OF ok, of st code p] by (auto simp: fl)
next
  case (7 a c q)
  then show ?case using login_okD(7) [OF ok, of a c q] by (auto simp: fl)
next
  case (8 a c q)
  then show ?case using login_okD(8) [OF ok, of a c q] by (auto simp: fl)
qed (use pend login_okD(1,2,4) [OF ok] in auto)

lemma login_ok_frame:
  assumes ok: "login_ok R" and "oi_pending (lr_oidc R') = oi_pending (lr_oidc R)"
    and "exchanged (lr_oidc R') = exchanged (lr_oidc R)" and "lr_minted R' = lr_minted R"
    and "lr_callbacks R' = lr_callbacks R" and "lr_exchanging R' = lr_exchanging R"
  shows "login_ok R'"
  using assms by (simp add: login_ok_def)

lemma login_step_ok: "login_step L C R R' \<Longrightarrow> login_ok R \<Longrightarrow> login_ok R'"
proof (induction rule: login_step.induct)
  case Begin
  then show ?case by (intro login_ok_begin)
next
  case Callback
  then show ?case by (intro login_ok_taken)
next
  case Refused
  then show ?case by (intro login_ok_refused)
next
  case (Exchanged R xs st code p ys E r s)
  then show ?case by (intro login_ok_exchanged finish_login_frame)
next
  case Expired
  then show ?case by (elim login_ok_frame) simp_all
next
  case (Refreshed R xs sid tok ys E r s)
  then show ?case by (elim login_ok_frame) (simp_all add: finish_refresh_frame)
next
  case (Logout sid R r s)
  then show ?case by (elim login_ok_frame) (auto simp: logout_def exchanged_def dest: drop_session_frame)
qed

lemma login_reachable_ok: "(login_step L C)\<^sup>*\<^sup>* login_start R \<Longrightarrow> login_ok R"
  by (induction rule: rtranclp_induct) (auto intro: login_ok_start login_step_ok)

section \<open>A logout lasts\<close>

text \<open>
  A session that is gone, of an identifier that was given out and with no refresh in flight, stays
  gone. A refresh in flight puts it back (\<open>logout_undone\<close> below).
\<close>

definition session_over :: "string \<Rightarrow> login_run \<Rightarrow> bool" where
  "session_over sid R \<longleftrightarrow> oi_sessions (lr_oidc R) sid = None \<and> sid \<notin> fst ` set (lr_refreshing R)
     \<and> sid \<in> set (lr_opened R)"

lemma finish_login_sessions:
  assumes "finish_login L C E p code s = (r, t)" and "sid \<noteq> random_token (xe_session_bytes E)"
  shows "oi_sessions t sid = oi_sessions s sid"
  using assms by (auto simp: finish_login_def Let_def split: prod.splits sum.splits option.splits
      dest!: oidc_frame)

lemma finish_refresh_sessions:
  assumes "finish_refresh L C E sid tok s = (r, t)" and "sid' \<noteq> sid"
  shows "oi_sessions t sid' = oi_sessions s sid'"
  using assms by (auto simp: finish_refresh_def Let_def split: prod.splits sum.splits option.splits
      dest!: oidc_frame)

lemma session_over_step: "login_step L C R R' \<Longrightarrow> session_over sid R \<Longrightarrow> session_over sid R'"
proof (induction rule: login_step.induct)
  case Begin
  then show ?case by (simp add: session_over_def begin_login_frame)
next
  case Callback
  then show ?case by (simp add: session_over_def take_pending_frame)
next
  case Refused
  then show ?case by (simp add: session_over_def take_pending_frame)
next
  case (Exchanged R xs st code p ys E r s)
  then have "sid \<noteq> random_token (xe_session_bytes E)" by (auto simp: session_over_def)
  with Exchanged finish_login_sessions [OF Exchanged(3)] show ?case by (auto simp: session_over_def)
next
  case (Expired sid' now R tok)
  then show ?case by (auto simp: session_over_def look_session_def split: option.splits if_splits)
next
  case (Refreshed R xs sid' tok ys E r s)
  then have "sid \<noteq> sid'" by (auto simp: session_over_def)
  with Refreshed finish_refresh_sessions [OF Refreshed(2)] show ?case by (auto simp: session_over_def)
next
  case (Logout sid' R r s)
  then show ?case by (auto simp: session_over_def logout_def drop_session_def split: if_splits)
qed

lemma session_over_steps:
  "(login_step L C)\<^sup>*\<^sup>* R R' \<Longrightarrow> session_over sid R \<Longrightarrow> session_over sid R'"
  by (induction rule: rtranclp_induct) (auto intro: session_over_step)

lemma session_over_login_again:
  "session_over sid R \<Longrightarrow> look_session sid now (lr_oidc R) \<in> {None, Some LoginAgain}"
  by (auto simp: session_over_def look_session_def)

lemma logout_over:
  assumes "logout sid s = (Some u, t)"
  shows "oi_sessions t sid = None"
  using assms by (auto simp: logout_def drop_session_def split: if_splits)

text \<open>The lost logout: a request is waiting for the new token while the operator logs out.\<close>

lemma logout_undone:
  assumes "look_session sid now s = Some (Refresh tok)" and "logout sid s = (Some u, s1)"
    and "oi_endpoints s = Some ep" and "xe_answer E = Response 200 body"
    and "dl_token_response L body = Inr tokens" and "expiry (xe_now E) tokens = Some t"
  shows "\<exists>s2 x. finish_refresh L C E sid tok s1 = (Some (Some (tr_access_token tokens)), s2)
    \<and> oi_sessions s2 sid = Some x \<and> sn_access_token x = tr_access_token tokens"
proof -
  have np: "\<not> oi_poisoned s" using assms(1) by (auto simp: look_session_def split: if_splits)
  then have s1: "s1 = s\<lparr>oi_sessions := (oi_sessions s)(sid := None)\<rparr>"
    using assms(2) by (simp add: logout_def drop_session_def)
  show ?thesis
    using assms(3-) np by (simp add: s1 finish_refresh_def get_endpoints_def token_request_def
        insert_session_def is_success_def)
qed

end
