(* ===== verification/Setup_Safety.thy ===== *)
theory Setup_Safety
  imports Setup_Session
begin

text \<open>
  What the operator page sends to OBP-API: its checks only read, and applying an item only writes
  what the configuration declares, for the users that OBP-API gave for the configured names.
\<close>

section \<open>Reads\<close>

definition reads :: "obp_call \<Rightarrow> bool" where
  "reads c \<longleftrightarrow> bc_method c = ''GET'' \<and> bc_body c = None"

lemma reads_get [simp]: "reads \<lparr>bc_method = ''GET'', bc_url = url, bc_token = token, bc_body = None\<rparr>"
  by (simp add: reads_def)

lemma fetch_me_reads [calls]: "only_calls reads (fetch_me K token)"
  unfolding fetch_me_def by (intro calls) simp

lemma check_scheme_reads [calls]: "only_calls reads (check_scheme K token scheme)"
  unfolding check_scheme_def Let_def by (intro calls) simp

lemma check_bank_reads [calls]: "only_calls reads (check_bank K token bank)"
  unfolding check_bank_def Let_def by (intro calls) simp

lemma check_fx_reads [calls]: "only_calls reads (check_fx K token bank fx)"
  unfolding check_fx_def Let_def by (intro calls) simp

lemma check_broker_reads [calls]: "only_calls reads (check_broker K token bank broker)"
  unfolding check_broker_def Let_def by (intro calls) simp

lemma check_grant_reads [calls]: "only_calls reads (check_grant K token bank grant)"
  unfolding check_grant_def Let_def by (intro calls) simp

lemma check_bank_items_reads [calls]: "only_calls reads (check_bank_items K token bank)"
  unfolding check_bank_items_def by (intro calls) simp

lemma api_status_reads [calls]: "only_calls reads (api_status K)"
  unfolding api_status_def by (intro calls) simp

lemma status_page_reads: "only_calls reads (status_page K token)"
  unfolding status_page_def by (intro calls)

lemma with_session_sent:
  assumes "with_session L K now E cookie page s = (r, s', sent)" and "c \<in> set sent"
  obtains token t where "require_token L K now E cookie s = (Some (Inr token), t)"
    and "\<exists>answer. run_state (page token) [] = (answer, sent)"
  using assms by (auto simp: with_session_def split: prod.splits option.splits sum.splits)

section \<open>Declared calls\<close>

definition asks :: "setup_ctx \<Rightarrow> string \<Rightarrow> string \<Rightarrow> obp_call" where
  "asks K token path = \<lparr>bc_method = ''GET'', bc_url = obp_url K path, bc_token = Some token, bc_body = None\<rparr>"

definition sends :: "setup_ctx \<Rightarrow> string \<Rightarrow> string \<Rightarrow> string \<Rightarrow> json \<Rightarrow> obp_call" where
  "sends K token meth path body =
     \<lparr>bc_method = meth, bc_url = obp_url K path, bc_token = Some token, bc_body = Some body\<rparr>"

text \<open>A call before, for this path, was answered with success and this body.\<close>

definition answered :: "setup_ctx \<Rightarrow> string \<Rightarrow> obp_call list \<Rightarrow> string \<Rightarrow> json \<Rightarrow> bool" where
  "answered K token before path body \<longleftrightarrow>
     (\<exists>n status. n < length before \<and> before ! n = asks K token path
        \<and> read_answer K (obp_url K path) (sq_answer K n) = Inr (status, body) \<and> is_success status)"

definition me_path :: string where
  "me_path = ''/obp/v6.0.0/users/current''"

text \<open>
  The identifier that OBP-API gave for a configured user name, or for the logged-in user when the
  configuration names nobody.
\<close>

definition user_is :: "setup_ctx \<Rightarrow> string \<Rightarrow> obp_call list \<Rightarrow> string option \<Rightarrow> string \<Rightarrow> bool" where
  "user_is K token before username user_id \<longleftrightarrow>
     (case username of
        Some name \<Rightarrow> \<exists>body. answered K token before (user_path name) body \<and> str_at ''user_id'' body = Some user_id
      | None \<Rightarrow> \<exists>body. answered K token before me_path body \<and> user_id = text_at ''user_id'' body)"

text \<open>The writes that a configuration declares, for a token and the calls answered before.\<close>

inductive declared_write :: "setup_ctx \<Rightarrow> string \<Rightarrow> obp_call list \<Rightarrow> obp_call \<Rightarrow> bool" for K token before where
  Scheme: "scheme \<in> set (us_routing_schemes (sq_setup K))
    \<Longrightarrow> declared_write K token before (sends K token ''POST'' ''/obp/v7.0.0/routing-schemes'' scheme)"
| Bank: "us_bank (sq_setup K) = Some bank
    \<Longrightarrow> declared_write K token before (sends K token ''POST'' ''/obp/v5.0.0/banks'' (bank_body bank))"
| Account: "us_bank (sq_setup K) = Some bank \<Longrightarrow> account \<in> set (ub_accounts bank)
    \<Longrightarrow> user_is K token before (ua_owner_username account) owner
    \<Longrightarrow> declared_write K token before (sends K token ''PUT'' (accounts_path (ub_id bank) @ ''/'' @ ua_id account)
          (account_body owner (ua_label account) (ua_currency account) (ua_routings account)))"
| AccountRoutings: "us_bank (sq_setup K) = Some bank \<Longrightarrow> account \<in> set (ub_accounts bank)
    \<Longrightarrow> ua_routings account \<noteq> []
    \<Longrightarrow> declared_write K token before (sends K token ''PUT'' (account_update_path (ub_id bank) (ua_id account))
          (account_update_body (ua_label account) (ua_routings account)))"
| Fx: "us_bank (sq_setup K) = Some bank \<Longrightarrow> fx \<in> set (ub_fx bank)
    \<Longrightarrow> declared_write K token before (sends K token ''PUT'' (fx_path bank) (fx_body K bank fx))"
| Broker: "us_bank (sq_setup K) = Some bank \<Longrightarrow> ub_broker bank = Some broker
    \<Longrightarrow> declared_write K token before (sends K token ''PUT'' (broker_path bank) broker)"
| Grant: "us_bank (sq_setup K) = Some bank \<Longrightarrow> grant \<in> set (ub_role_grants bank)
    \<Longrightarrow> user_is K token before (Some (ug_username grant)) user_id
    \<Longrightarrow> declared_write K token before (sends K token ''POST'' (entitlements_path user_id)
          (role_body (ub_id bank) (ug_role grant)))"
| MyRole: "(bank_id, role) \<in> set (required_admin_roles (sq_setup K))
    \<Longrightarrow> user_is K token before None user_id
    \<Longrightarrow> declared_write K token before (sends K token ''POST'' (entitlements_path user_id)
          (role_body bank_id role))"

text \<open>The users that a configuration names.\<close>

definition configured_users :: "setup_config \<Rightarrow> string set" where
  "configured_users setup =
     (case us_bank setup of
        None \<Rightarrow> {}
      | Some bank \<Rightarrow> {user. Some user \<in> ua_owner_username ` set (ub_accounts bank)}
                      \<union> ug_username ` set (ub_role_grants bank))"

definition declared :: "setup_ctx \<Rightarrow> string \<Rightarrow> obp_call list \<Rightarrow> obp_call \<Rightarrow> bool" where
  "declared K token before c \<longleftrightarrow>
     c \<in> asks K token ` ({me_path} \<union> user_path ` configured_users (sq_setup K)) \<or> declared_write K token before c"

text \<open>What an item's identifier resolves to is part of the configuration.\<close>

fun action_declared :: "setup_config \<Rightarrow> setup_action \<Rightarrow> bool" where
  "action_declared setup (ApplyScheme scheme) \<longleftrightarrow> scheme \<in> set (us_routing_schemes setup)"
| "action_declared setup (ApplyBank bank) \<longleftrightarrow> us_bank setup = Some bank"
| "action_declared setup (ApplyAccount bank account) \<longleftrightarrow>
     us_bank setup = Some bank \<and> account \<in> set (ub_accounts bank)"
| "action_declared setup (ApplyFx bank fx) \<longleftrightarrow> us_bank setup = Some bank \<and> fx \<in> set (ub_fx bank)"
| "action_declared setup (ApplyBroker bank broker) \<longleftrightarrow> us_bank setup = Some bank \<and> ub_broker bank = Some broker"
| "action_declared setup (ApplyGrant bank grant) \<longleftrightarrow>
     us_bank setup = Some bank \<and> grant \<in> set (ub_role_grants bank)"
| "action_declared setup (ApplyMyRole bank_id role) \<longleftrightarrow> (bank_id, role) \<in> set (required_admin_roles setup)"

lemmas resolve_defs = resolve_scheme_def resolve_bank_def resolve_account_def resolve_fx_def
  resolve_broker_def resolve_grant_def resolve_my_role_def

lemma own_bank_Some: "own_bank setup bank_id = Some bank \<longleftrightarrow> us_bank setup = Some bank \<and> ub_id bank = bank_id"
  by (auto simp: own_bank_def filter_opt_def split: option.splits if_splits)

lemma resolve_declared:
  "resolve_scheme setup x = Inr act \<Longrightarrow> action_declared setup act"
  "resolve_bank setup x = Inr act \<Longrightarrow> action_declared setup act"
  "resolve_account setup x = Inr act \<Longrightarrow> action_declared setup act"
  "resolve_fx setup x = Inr act \<Longrightarrow> action_declared setup act"
  "resolve_broker setup x = Inr act \<Longrightarrow> action_declared setup act"
  "resolve_grant setup x = Inr act \<Longrightarrow> action_declared setup act"
  "resolve_my_role setup x = Inr act \<Longrightarrow> action_declared setup act"
  by (auto simp: resolve_defs Let_def own_bank_Some find_Some_iff bind_eq_Some_conv
      split: option.splits prod.splits list.splits if_splits)

lemma resolve_action_declared:
  assumes "resolve_action setup x = Inr act"
  shows "action_declared setup act"
  using assms unfolding resolve_action_def
  by (auto split: option.splits prod.splits if_splits intro: resolve_declared)

section \<open>What applying an item sends\<close>

lemma declared_asks: "path = me_path \<or> path \<in> user_path ` configured_users (sq_setup K) \<Longrightarrow>
    declared K token before (asks K token path)"
  by (auto simp: declared_def)

lemma answered_more: "answered K token before path body \<Longrightarrow> answered K token (before @ later) path body"
  unfolding answered_def by (metis length_append nth_append trans_less_add1)

lemma user_is_more: "user_is K token before name u \<Longrightarrow> user_is K token (before @ later) name u"
  unfolding user_is_def by (auto split: option.splits dest: answered_more)

lemma answered_now:
  "read_answer K (obp_url K path) (sq_answer K (length before)) = Inr (status, body) \<Longrightarrow> is_success status
   \<Longrightarrow> answered K token (before @ [asks K token path]) path body"
  unfolding answered_def by (intro exI [of _ "length before"] exI [of _ status]) simp

lemma fetch_me_guarded:
  "guarded A (declared K token) (fetch_me K token)
     (\<lambda>r sent. \<forall>u. r = Inr u \<longrightarrow> user_is K token sent None (mu_user_id u))"
  unfolding fetch_me_def
proof (rule guarded_bind [OF guarded_obp [where Q = "\<lambda>a sent. \<forall>status body. a = Inr (status, body) \<longrightarrow>
      is_success status \<longrightarrow> answered K token sent me_path body"]])
  fix before
  show "declared K token before \<lparr>bc_method = ''GET'', bc_url = obp_url K ''/obp/v6.0.0/users/current'',
        bc_token = Some token, bc_body = None\<rparr> \<and>
      (\<forall>status body. read_answer K (obp_url K ''/obp/v6.0.0/users/current'') (sq_answer K (length before)) = Inr (status, body)
        \<longrightarrow> is_success status \<longrightarrow> answered K token (before @ [\<lparr>bc_method = ''GET'',
          bc_url = obp_url K ''/obp/v6.0.0/users/current'', bc_token = Some token, bc_body = None\<rparr>]) me_path body)"
    using declared_asks [of me_path K token before] answered_now [of K me_path before]
    by (auto simp: asks_def me_path_def)
qed (auto intro!: guarded_return simp: user_is_def split: sum.splits prod.splits if_splits)

lemma resolve_user_id_guarded:
  assumes "username \<in> configured_users (sq_setup K)"
  shows "guarded A (declared K token) (resolve_user_id K token username)
    (\<lambda>r sent. \<forall>user_id. r = Inr user_id \<longrightarrow> user_is K token sent (Some username) user_id)"
  unfolding resolve_user_id_def
proof (rule guarded_bind [OF guarded_obp [where Q = "\<lambda>a sent. \<forall>status body. a = Inr (status, body) \<longrightarrow>
      is_success status \<longrightarrow> answered K token sent (user_path username) body"]])
  fix before
  show "declared K token before \<lparr>bc_method = ''GET'', bc_url = obp_url K (user_path username),
        bc_token = Some token, bc_body = None\<rparr> \<and>
      (\<forall>status body. read_answer K (obp_url K (user_path username)) (sq_answer K (length before)) = Inr (status, body)
        \<longrightarrow> is_success status \<longrightarrow> answered K token (before @ [\<lparr>bc_method = ''GET'',
          bc_url = obp_url K (user_path username), bc_token = Some token, bc_body = None\<rparr>]) (user_path username) body)"
    using declared_asks [of "user_path username" K token before] assms answered_now [of K "user_path username" before]
    by (auto simp: asks_def)
qed (auto intro!: guarded_return simp: user_is_def split: sum.splits prod.splits if_splits option.splits)

lemma guarded_send:
  assumes "\<And>before. A before \<Longrightarrow> declared_write K token before (sends K token meth path body)"
  shows "guarded A (declared K token) (obp K meth path (Some token) (Some body)) (\<lambda>_ _. True)"
  using assms by (intro guarded_obp) (simp add: declared_def sends_def)

lemma guarded_done: "guarded A P (State_Monad.return x) (\<lambda>_ _. True)"
  by (rule guarded_return) simp

lemma create_account_guarded:
  assumes "us_bank (sq_setup K) = Some bank" and "account \<in> set (ub_accounts bank)"
  shows "guarded (\<lambda>before. user_is K token before None (mu_user_id u)) (declared K token)
    (create_account K token u (ub_id bank) (Some (ua_id account)) (ua_label account) (ua_currency account)
       (ua_owner_username account) (ua_routings account)) (\<lambda>_ _. True)"
  unfolding create_account_def
proof (rule guarded_bind [where R = "\<lambda>r sent. \<forall>owner. r = Inr owner \<longrightarrow>
      user_is K token sent (ua_owner_username account) owner"], goal_cases)
  case 1
  show ?case
  proof (cases "ua_owner_username account")
    case None
    then show ?thesis by (auto intro: guarded_return)
  next
    case (Some name)
    with assms have "name \<in> configured_users (sq_setup K)" by (force simp: configured_users_def)
    from resolve_user_id_guarded [OF this] Some show ?thesis by simp
  qed
next
  case (2 owner)
  show ?case
  proof (cases owner)
    case (Inr owner_id)
    have put: "guarded (\<lambda>sent. user_is K token sent (ua_owner_username account) owner_id)
      (declared K token) (obp K ''PUT'' (accounts_path (ub_id bank) @ CHR ''/'' # ua_id account) (Some token)
        (Some (account_body owner_id (ua_label account) (ua_currency account) (ua_routings account)))) (\<lambda>_ _. True)"
      by (rule guarded_send) (use assms in \<open>auto intro: Account [simplified]\<close>)
    show ?thesis
      unfolding Inr
      by (simp, rule guarded_bind [OF put])
         (auto intro!: guarded_done guarded_send AccountRoutings [OF assms] split: sum.split prod.split)
  qed (simp add: guarded_done)
qed

lemma run_action_guarded:
  assumes "action_declared (sq_setup K) act"
  shows "guarded (\<lambda>before. user_is K token before None (mu_user_id u)) (declared K token)
    (run_action K token u act) (\<lambda>_ _. True)"
proof (cases act)
  case (ApplyAccount bank account)
  with assms create_account_guarded show ?thesis by (simp add: run_action_def)
next
  case (ApplyGrant bank grant)
  with assms have user: "ug_username grant \<in> configured_users (sq_setup K)"
    by (auto simp: configured_users_def)
  have "guarded (\<lambda>sent. \<forall>user_id. r = Inr user_id \<longrightarrow> user_is K token sent (Some (ug_username grant)) user_id)
      (declared K token) (case r of Inr user_id \<Rightarrow> grant_role K token user_id (ub_id bank) (ug_role grant)
         | Inl e \<Rightarrow> State_Monad.return (Inl e)) (\<lambda>_ _. True)" for r
    using assms ApplyGrant
    by (cases r) (auto simp: grant_role_def guarded_done intro!: guarded_send Grant)
  from guarded_bind [OF resolve_user_id_guarded [OF user] this] ApplyGrant show ?thesis
    by (simp add: run_action_def)
qed (use assms in \<open>auto intro!: guarded_send declared_write.intros simp: run_action_def grant_role_def\<close>)

lemma apply_page_declared:
  assumes "run_state (apply_page K item_id token) [] = (answer, sent)"
  shows "each_after (declared K token) [] sent"
proof -
  have rest: "guarded (\<lambda>before. user_is K token before None (mu_user_id u)) (declared K token)
      (case resolve_action (sq_setup K) item_id of
         Inl e \<Rightarrow> State_Monad.return (Inl e) | Inr act \<Rightarrow> run_action K token u act) (\<lambda>_ _. True)" for u
    using run_action_guarded resolve_action_declared by (auto simp: guarded_done split: sum.split)
  have "guarded (\<lambda>_. True) (declared K token) (apply_page K item_id token) (\<lambda>_ _. True)"
    unfolding apply_page_def
  proof (rule guarded_bind [OF fetch_me_guarded], goal_cases)
    case (1 r)
    show ?case
      by (cases r) (auto intro!: guarded_done guarded_bind [OF rest])
  qed
  from guardedD [OF this _ assms] show ?thesis by simp
qed

end
