(* ===== verification/Setup_Items.thy ===== *)
theory Setup_Items
  imports Setup_Safety
begin

text \<open>
  The items of the status page and what applying them does: the page lists the identifiers of the
  configuration's parts and no others, and an identifier is refused exactly when no part has it
  that can be named: a separator in its names hides the others. \<open>gives\<close> is about the value of a
  computation, whatever was sent before.
\<close>

definition gives :: "('a \<Rightarrow> bool) \<Rightarrow> 'a calls \<Rightarrow> bool" where
  "gives Q m \<longleftrightarrow> (\<forall>sent. Q (fst (run_state m sent)))"

lemma gives_return: "Q x \<Longrightarrow> gives Q (State_Monad.return x)"
  by (simp add: gives_def)

lemma gives_bind: "gives P m \<Longrightarrow> (\<And>x. P x \<Longrightarrow> gives Q (f x)) \<Longrightarrow> gives Q (State_Monad.bind m f)"
  by (simp add: gives_def split_beta)

lemma gives_after: "(\<And>x. gives Q (f x)) \<Longrightarrow> gives Q (State_Monad.bind m f)"
  by (simp add: gives_def split_beta)

lemma gives_traverse:
  assumes "\<And>x. gives (\<lambda>y. g y = h x) (f x)"
  shows "gives (\<lambda>ys. map g ys = map h xs) (State_Monad.traverse_list f xs)"
proof (induction xs)
  case Nil
  then show ?case by (simp add: gives_def)
next
  case (Cons x xs)
  show ?case unfolding State_Monad.traverse_list.simps
  proof (rule gives_bind [OF assms])
    fix y assume y: "g y = h x"
    show "gives (\<lambda>ys. map g ys = map h (x # xs))
      (State_Monad.bind (State_Monad.traverse_list f xs) (\<lambda>ys. State_Monad.return (y # ys)))"
      by (rule gives_bind [OF Cons.IH]) (simp add: y gives_return)
  qed
qed

lemma givesD: "gives Q m \<Longrightarrow> run_state m s = (x, s') \<Longrightarrow> Q x"
  by (metis fst_conv gives_def)

section \<open>Identifiers on the page\<close>

abbreviation id_of :: "json \<Rightarrow> json" where
  "id_of item \<equiv> jindex ''id'' item"

lemma id_of_setup_item [simp]: "id_of (setup_item i p t s d r) = JStr i"
  by (simp add: setup_item_def)

text \<open>The identifiers of a bank's items, in the order of the page.\<close>

definition bank_ids :: "setup_bank \<Rightarrow> string list" where
  "bank_ids bank =
     [bank_item_id bank] @ map (account_item_id bank) (ub_accounts bank) @ map (fx_item_id bank) (ub_fx bank)
     @ (case ub_broker bank of None \<Rightarrow> [] | Some _ \<Rightarrow> [broker_item_id bank])
     @ map (grant_item_id bank) (ub_role_grants bank)"

definition listed_ids :: "setup_config \<Rightarrow> string list" where
  "listed_ids setup =
     map (\<lambda>(b, r). my_role_id b r) (required_admin_roles setup) @ map scheme_id (us_routing_schemes setup)
     @ (case us_bank setup of None \<Rightarrow> [] | Some bank \<Rightarrow> bank_ids bank)"

lemma check_my_role_id: "id_of (check_my_role u need) = JStr (case need of (b, r) \<Rightarrow> my_role_id b r)"
  by (cases need) (simp add: check_my_role_def Let_def)

lemma check_account_id: "id_of (check_account bank d a) = JStr (account_item_id bank a)"
  by (simp add: check_account_def Let_def split: prod.splits)

lemma check_ids:
  "gives (\<lambda>i. id_of i = JStr (scheme_id scheme)) (check_scheme K token scheme)"
  "gives (\<lambda>i. id_of i = JStr (bank_item_id bank)) (check_bank K token bank)"
  "gives (\<lambda>i. id_of i = JStr (fx_item_id bank fx)) (check_fx K token bank fx)"
  "gives (\<lambda>i. id_of i = JStr (broker_item_id bank)) (check_broker K token bank broker)"
  "gives (\<lambda>i. id_of i = JStr (grant_item_id bank grant)) (check_grant K token bank grant)"
  unfolding check_scheme_def check_bank_def check_fx_def check_broker_def check_grant_def Let_def
  by (rule gives_after, simp add: gives_def split: prod.splits)+

lemma check_bank_items_ids: "gives (\<lambda>is. map id_of is = map JStr (bank_ids bank)) (check_bank_items K token bank)"
  unfolding check_bank_items_def
proof (rule gives_bind [OF check_ids(2)], rule gives_after,
    rule gives_bind [OF gives_traverse [OF check_ids(3)]], rule gives_bind)
  show "gives (\<lambda>is. map id_of is = map JStr (case ub_broker bank of None \<Rightarrow> [] | Some _ \<Rightarrow> [broker_item_id bank]))
    (case ub_broker bank of None \<Rightarrow> State_Monad.return []
     | Some broker \<Rightarrow> State_Monad.bind (check_broker K token bank broker) (\<lambda>i. State_Monad.return [i]))"
    using check_ids(4) [of bank K token]
    by (cases "ub_broker bank") (auto simp: gives_def split_beta)
next
  fix b d fs bs
  assume b: "id_of b = JStr (bank_item_id bank)" and f: "map id_of fs = map (\<lambda>fx. JStr (fx_item_id bank fx)) (ub_fx bank)"
    and br: "map id_of bs = map JStr (case ub_broker bank of None \<Rightarrow> [] | Some _ \<Rightarrow> [broker_item_id bank])"
  show "gives (\<lambda>is. map id_of is = map JStr (bank_ids bank))
     (State_Monad.bind (State_Monad.traverse_list (check_grant K token bank) (ub_role_grants bank))
       (\<lambda>gs. State_Monad.return ([b] @ map (check_account bank d) (ub_accounts bank) @ fs @ bs @ gs)))"
    by (rule gives_bind [OF gives_traverse [OF check_ids(5)]], rule gives_return)
       (simp add: b f br bank_ids_def check_account_id)
qed

lemma status_page_ids:
  assumes "run_state (status_page K token) s = (answer, s')" and "an_status answer = 200"
    and "an_content answer = AppJson v" and "jindex ''items'' v = JArr items"
  shows "map id_of items = map JStr (listed_ids (sq_setup K))"
proof -
  have "gives (\<lambda>answer. \<forall>v items. an_status answer = 200 \<longrightarrow> an_content answer = AppJson v
      \<longrightarrow> jindex ''items'' v = JArr items \<longrightarrow> map id_of items = map JStr (listed_ids (sq_setup K)))
    (status_page K token)" (is "gives ?Q _")
    unfolding status_page_def
    apply (rule gives_after, rule gives_after)
    subgoal for api fetched
    proof (cases fetched)
      case (Inl e)
      then show ?thesis by (simp add: gives_def app_error_def app_answer_def)
    next
      case (Inr u)
      have bank: "gives (\<lambda>is. map id_of is = map JStr (case us_bank (sq_setup K) of None \<Rightarrow> [] | Some bank \<Rightarrow> bank_ids bank))
        (case us_bank (sq_setup K) of None \<Rightarrow> State_Monad.return [] | Some bank \<Rightarrow> check_bank_items K token bank)"
        by (auto simp: check_bank_items_ids intro: gives_return split: option.splits)
      show ?thesis unfolding Inr sum.case
        by (rule gives_bind [OF gives_traverse [OF check_ids(1)]], rule gives_bind [OF bank], rule gives_return)
           (auto simp: app_answer_def listed_ids_def check_my_role_id comp_def split: prod.splits)
    qed
    done
  from givesD [OF this assms(1)] assms(2-) show ?thesis by blast
qed

section \<open>From an identifier back to its item\<close>

fun action_item_id :: "setup_action \<Rightarrow> string" where
  "action_item_id (ApplyScheme scheme) = scheme_id scheme"
| "action_item_id (ApplyBank bank) = bank_item_id bank"
| "action_item_id (ApplyAccount bank account) = account_item_id bank account"
| "action_item_id (ApplyFx bank fx) = fx_item_id bank fx"
| "action_item_id (ApplyBroker bank broker) = broker_item_id bank"
| "action_item_id (ApplyGrant bank grant) = grant_item_id bank grant"
| "action_item_id (ApplyMyRole bank_id role) = my_role_id bank_id role"

text \<open>
  The actions that their identifiers name: no separator in the parts that a separator ends, and no
  scheme without a name.
\<close>

fun separable :: "setup_action \<Rightarrow> bool" where
  "separable (ApplyScheme scheme) \<longleftrightarrow> str_at ''scheme'' scheme \<noteq> None"
| "separable (ApplyBank bank) \<longleftrightarrow> True"
| "separable (ApplyAccount bank account) \<longleftrightarrow> CHR ''/'' \<notin> set (ub_id bank)"
| "separable (ApplyFx bank fx) \<longleftrightarrow>
     CHR '':'' \<notin> set (ub_id bank) \<and> CHR '':'' \<notin> set (uf_from_currency fx) \<and> CHR '':'' \<notin> set (uf_to_currency fx)"
| "separable (ApplyBroker bank broker) \<longleftrightarrow> True"
| "separable (ApplyGrant bank grant) \<longleftrightarrow> CHR ''@'' \<notin> set (ug_username grant) \<and> CHR '':'' \<notin> set (ub_id bank)"
| "separable (ApplyMyRole bank_id role) \<longleftrightarrow> CHR '':'' \<notin> set bank_id"

lemma resolve_kinds:
  "resolve_action setup (''scheme:'' @ x) = resolve_scheme setup x"
  "resolve_action setup (''bank:'' @ x) = resolve_bank setup x"
  "resolve_action setup (''account:'' @ x) = resolve_account setup x"
  "resolve_action setup (''fx:'' @ x) = resolve_fx setup x"
  "resolve_action setup (''broker:'' @ x) = resolve_broker setup x"
  "resolve_action setup (''grant:'' @ x) = resolve_grant setup x"
  "resolve_action setup (''myrole:'' @ x) = resolve_my_role setup x"
  by (simp_all add: resolve_action_def split_once_def)

lemma own_bank_own [simp]: "us_bank setup = Some bank \<Longrightarrow> own_bank setup (ub_id bank) = Some bank"
  by (simp add: own_bank_Some)

lemma split_once_append_string: "c \<notin> set a \<Longrightarrow> split_once c (a @ [c] @ b) = Some (a, b)"
  using split_once_append [of c a b] by simp

lemma split_char_join: "join_with [c] (split_char c s) = s"
proof (induction s)
  case (Cons x s)
  obtain p ps where "split_char c s = p # ps" by (meson list.exhaust split_char_nonempty)
  with Cons show ?case by (cases ps) auto
qed simp

lemma split_char_rejoin3:
  assumes "split_char c s = [a, b, d]"
  shows "s = a @ [c] @ b @ [c] @ d \<and> c \<notin> set a \<and> c \<notin> set b \<and> c \<notin> set d"
  using split_char_join [of c s] split_char_free [of _ c s] by (simp add: assms)

text \<open>
  What an identifier resolves to is a part of the configuration with this identifier, and
  separable.
\<close>

abbreviation names :: "setup_config \<Rightarrow> string \<Rightarrow> setup_action \<Rightarrow> bool" where
  "names setup x act \<equiv> action_declared setup act \<and> action_item_id act = x \<and> separable act"

lemmas item_id_defs = scheme_id_def bank_item_id_def account_item_id_def fx_item_id_def broker_item_id_def
  grant_item_id_def my_role_id_def

lemma resolved_kinds:
  "resolve_scheme setup r = Inr act \<Longrightarrow> names setup (''scheme:'' @ r) act"
  "resolve_bank setup r = Inr act \<Longrightarrow> names setup (''bank:'' @ r) act"
  "resolve_account setup r = Inr act \<Longrightarrow> names setup (''account:'' @ r) act"
  "resolve_fx setup r = Inr act \<Longrightarrow> names setup (''fx:'' @ r) act"
  "resolve_broker setup r = Inr act \<Longrightarrow> names setup (''broker:'' @ r) act"
  "resolve_grant setup r = Inr act \<Longrightarrow> names setup (''grant:'' @ r) act"
  "resolve_my_role setup r = Inr act \<Longrightarrow> names setup (''myrole:'' @ r) act"
  by (auto simp: resolve_defs Let_def own_bank_Some find_Some_iff bind_eq_Some_conv item_id_defs unwrap_or_def
        split_once_Some dest!: split_char_rejoin3 split: option.splits prod.splits list.splits if_splits)

lemma resolved_names:
  assumes "resolve_action setup x = Inr act"
  shows "names setup x act"
proof -
  from assms obtain kind r where x: "x = kind @ '':'' @ r" "CHR '':'' \<notin> set kind"
    by (auto simp: resolve_action_def split_once_Some split: option.splits)
  have once: "split_once CHR '':'' x = Some (kind, r)"
    unfolding x(1) using x(2) by (rule split_once_append_string)
  have "kind \<in> {''scheme'', ''bank'', ''account'', ''fx'', ''broker'', ''grant'', ''myrole''}"
    using assms by (auto simp: resolve_action_def once split: if_splits)
  then show ?thesis
    using assms x(1) resolved_kinds [where act = act and r = r] by (elim insertE emptyE) (simp_all add: resolve_kinds [simplified])
qed

text \<open>And every separable part of the configuration is what its identifier, or an equal one, names.\<close>

lemma find_not_None: "x \<in> set xs \<Longrightarrow> P x \<Longrightarrow> \<exists>y. find P xs = Some y"
  by (metis find_None_iff not_None_eq)

lemma separable_resolves:
  assumes "action_declared setup act" and "separable act"
  shows "\<exists>act'. resolve_action setup (action_item_id act) = Inr act'"
proof (cases act)
  case (ApplyScheme scheme)
  with assms obtain name where name: "str_at ''scheme'' scheme = Some name" by auto
  with assms ApplyScheme find_not_None [of scheme "us_routing_schemes setup" "\<lambda>s. str_at ''scheme'' s = Some name"]
  show ?thesis
    by (auto simp: scheme_id_def unwrap_or_def resolve_kinds(1) [simplified] resolve_scheme_def)
next
  case (ApplyBank bank)
  with assms show ?thesis
    by (simp add: bank_item_id_def resolve_kinds(2) [simplified] resolve_bank_def)
next
  case (ApplyAccount bank account)
  with assms have "split_once CHR ''/'' (ub_id bank @ ''/'' @ ua_id account) = Some (ub_id bank, ua_id account)"
    by (intro split_once_append_string) simp
  with assms ApplyAccount find_not_None [of account "ub_accounts bank" "\<lambda>a. ua_id a = ua_id account"]
  show ?thesis
    by (auto simp: account_item_id_def resolve_kinds(3) [simplified] resolve_account_def)
next
  case (ApplyFx bank fx)
  with assms have "split_char CHR '':'' (ub_id bank @ '':'' @ uf_from_currency fx @ '':'' @ uf_to_currency fx)
      = [ub_id bank, uf_from_currency fx, uf_to_currency fx]"
    by (simp add: split_char_append split_char_unsplit)
  with assms ApplyFx find_not_None [of fx "ub_fx bank"
      "\<lambda>f. uf_from_currency f = uf_from_currency fx \<and> uf_to_currency f = uf_to_currency fx"]
  show ?thesis
    by (auto simp: fx_item_id_def resolve_kinds(4) [simplified] resolve_fx_def)
next
  case (ApplyBroker bank broker)
  with assms show ?thesis
    by (simp add: broker_item_id_def resolve_kinds(5) [simplified] resolve_broker_def)
next
  case (ApplyGrant bank grant)
  with assms have "split_once CHR ''@'' (ug_username grant @ ''@'' @ ub_id bank @ '':'' @ ug_role grant)
      = Some (ug_username grant, ub_id bank @ '':'' @ ug_role grant)"
    by (intro split_once_append_string) simp
  moreover from assms ApplyGrant have "split_once CHR '':'' (ub_id bank @ '':'' @ ug_role grant) = Some (ub_id bank, ug_role grant)"
    by (intro split_once_append_string) simp
  ultimately show ?thesis
    using assms ApplyGrant find_not_None [of grant "ub_role_grants bank"
      "\<lambda>g. ug_username g = ug_username grant \<and> ug_role g = ug_role grant"]
    by (auto simp: grant_item_id_def resolve_kinds(6) [simplified] resolve_grant_def)
next
  case (ApplyMyRole bank_id role)
  with assms have "split_once CHR '':'' (bank_id @ '':'' @ role) = Some (bank_id, role)"
    by (intro split_once_append_string) simp
  with assms ApplyMyRole show ?thesis
    by (simp add: my_role_id_def resolve_kinds(7) [simplified] resolve_my_role_def)
qed

text \<open>So an identifier is refused exactly when nothing that can be named has it.\<close>

lemma resolve_action_spec:
  "case resolve_action setup x of
     Inr act \<Rightarrow> names setup x act
   | Inl e \<Rightarrow> \<forall>act. action_declared setup act \<and> action_item_id act = x \<longrightarrow> \<not> separable act"
proof (cases "resolve_action setup x")
  case (Inl e)
  then show ?thesis using separable_resolves by fastforce
next
  case (Inr act)
  with resolved_names [OF Inr] show ?thesis by simp
qed

text \<open>The page lists the identifiers of all parts of the configuration, and no others.\<close>

lemma listed_ids_declared: "set (listed_ids setup) = action_item_id ` {act. action_declared setup act}"
proof (intro set_eqI iffI)
  fix x assume "x \<in> set (listed_ids setup)"
  then show "x \<in> action_item_id ` {act. action_declared setup act}"
    by (auto simp: listed_ids_def bank_ids_def image_iff split: option.splits prod.splits)
       (metis action_declared.simps action_item_id.simps)+
next
  fix x assume "x \<in> action_item_id ` {act. action_declared setup act}"
  then obtain act where "x = action_item_id act" "action_declared setup act" by blast
  then show "x \<in> set (listed_ids setup)"
    by (cases act) (force simp: listed_ids_def bank_ids_def)+
qed

end
