(* ===== verification/App_Properties.thy ===== *)
theory App_Properties
  imports Oidc_Safety Setup_Items
begin

text \<open>
  Properties of the operator's web app: the login, what its pages may write to OBP-API, which
  items can be applied, and what the proxy forwards.
\<close>

section \<open>The login\<close>

definition demo_app_obp :: app_obp_config where
  "demo_app_obp =
     \<lparr>ao_base_url = ''http://obp/'', ao_oauth_provider = ''obp-oidc'', ao_oauth_client_id = ''app'',
      ao_oauth_client_secret = ''secret'', ao_callback_url = ''http://app/setup/callback'',
      ao_discovery_url = Some ''http://oidc/discovery''\<rparr>"

definition demo_oidc_libs :: oidc_libs where
  "demo_oidc_libs =
     \<lparr>dl_well_known = (\<lambda>s. Inl ''bad''),
      dl_endpoints = (\<lambda>s. Inr \<lparr>ep_authorization = ''http://oidc/auth'', ep_token = ''http://oidc/token''\<rparr>),
      dl_token_response = (\<lambda>s. Inr \<lparr>tr_access_token = s, tr_refresh_token = None, tr_expires_in = Some 60\<rparr>),
      dl_status_error = (\<lambda>u n. ''status''), dl_show_status = show_nat,
      dl_url_with_pairs = (\<lambda>u ps. Inr (u @ ''?'')), dl_sha256 = rev, dl_base64_url = rev,
      dl_header_value = (\<lambda>s. True)\<rparr>"

definition demo_discovery :: discovery_env where
  "demo_discovery = \<lparr>dv_well_known = NoResponse ''down'', dv_document = Response 200 ''doc''\<rparr>"

definition demo_login_env :: login_env where
  "demo_login_env = \<lparr>lg_discovery = demo_discovery, lg_state_bytes = [18], lg_verifier_bytes = [35],
     lg_now = 0, lg_created = 0\<rparr>"

definition demo_exchange_env :: exchange_env where
  "demo_exchange_env = \<lparr>xe_discovery = demo_discovery, xe_answer = Response 200 ''token-1'',
     xe_session_bytes = [52], xe_now = 0\<rparr>"

text \<open>The same login after its three steps: begun, called back, exchanged.\<close>

definition demo_begun :: login_run where
  "demo_begun = login_start
     \<lparr>lr_oidc := snd (begin_login demo_oidc_libs demo_app_obp demo_login_env ''/setup'' new_oidc),
      lr_minted := [(''12'', ''23'')]\<rparr>"

definition demo_pending :: pending_login where
  "demo_pending = \<lparr>pl_code_verifier = ''23'', pl_next = ''/setup'', pl_created = 0\<rparr>"

definition demo_called_back :: login_run where
  "demo_called_back = demo_begun
     \<lparr>lr_oidc := snd (take_pending ''12'' 5 (lr_oidc demo_begun)), lr_callbacks := [(''12'', ''code-7'')],
      lr_exchanging := [(''12'', ''code-7'', demo_pending)]\<rparr>"

definition demo_logged_in :: login_run where
  "demo_logged_in = demo_called_back
     \<lparr>lr_oidc := snd (finish_login demo_oidc_libs demo_app_obp demo_exchange_env demo_pending ''code-7''
          (lr_oidc demo_called_back)), lr_exchanging := [], lr_opened := [''34'']\<rparr>"

lemma demo_tokens: "random_token [18] = ''12''" "random_token [35] = ''23''" "random_token [52] = ''34''"
  by code_simp+

lemma demo_begin_step: "login_step demo_oidc_libs demo_app_obp login_start demo_begun"
proof -
  let ?r = "begin_login demo_oidc_libs demo_app_obp demo_login_env ''/setup'' (lr_oidc login_start)"
  have "login_step demo_oidc_libs demo_app_obp login_start (login_start\<lparr>lr_oidc := snd ?r,
      lr_minted := lr_minted login_start
        @ [(random_token (lg_state_bytes demo_login_env), random_token (lg_verifier_bytes demo_login_env))]\<rparr>)"
    by (rule login_step.Begin [where r = "fst ?r"]) (simp_all add: login_start_def)
  then show ?thesis by (simp add: demo_begun_def demo_login_env_def demo_tokens login_start_def)
qed

lemma demo_take: "take_pending ''12'' 5 (lr_oidc demo_begun) = (Inr demo_pending, lr_oidc demo_called_back)"
  by (simp add: demo_called_back_def demo_begun_def take_pending_def begin_login_def get_endpoints_def
      discovery_url_def fetch_document_def register_login_def new_oidc_def demo_login_env_def demo_tokens
      demo_pending_def demo_oidc_libs_def demo_app_obp_def demo_discovery_def PENDING_TTL_def Let_def)

lemma demo_callback_step: "login_step demo_oidc_libs demo_app_obp demo_begun demo_called_back"
proof -
  have "login_step demo_oidc_libs demo_app_obp demo_begun (demo_begun\<lparr>lr_oidc := lr_oidc demo_called_back,
      lr_callbacks := lr_callbacks demo_begun @ [(''12'', ''code-7'')],
      lr_exchanging := (''12'', ''code-7'', demo_pending) # lr_exchanging demo_begun\<rparr>)"
    by (rule login_step.Callback [OF demo_take])
  then show ?thesis by (simp add: demo_called_back_def demo_begun_def login_start_def)
qed

lemma demo_exchange_step: "login_step demo_oidc_libs demo_app_obp demo_called_back demo_logged_in"
proof -
  let ?r = "finish_login demo_oidc_libs demo_app_obp demo_exchange_env demo_pending ''code-7'' (lr_oidc demo_called_back)"
  have "login_step demo_oidc_libs demo_app_obp demo_called_back (demo_called_back\<lparr>lr_oidc := snd ?r,
      lr_exchanging := [] @ [],
      lr_opened := random_token (xe_session_bytes demo_exchange_env) # lr_opened demo_called_back\<rparr>)"
    by (rule login_step.Exchanged [where st = "''12''" and code = "''code-7''" and p = demo_pending
          and r' = "fst ?r" and E = demo_exchange_env])
       (simp_all add: demo_called_back_def demo_begun_def login_start_def)
  then show ?thesis
    by (simp add: demo_logged_in_def demo_called_back_def demo_begun_def login_start_def
        demo_exchange_env_def demo_tokens)
qed

lemma demo_logged_in_reached: "(login_step demo_oidc_libs demo_app_obp)\<^sup>*\<^sup>* login_start demo_logged_in"
  by (meson demo_begin_step demo_callback_step demo_exchange_step converse_rtranclp_into_rtranclp rtranclp.rtrancl_refl)

lemma demo_exchanged: "exchanged (lr_oidc demo_logged_in) = [(''code-7'', ''23'')]"
  by (simp add: demo_logged_in_def demo_called_back_def demo_begun_def take_pending_def begin_login_def
      get_endpoints_def discovery_url_def fetch_document_def register_login_def new_oidc_def demo_login_env_def
      demo_tokens demo_pending_def demo_oidc_libs_def demo_app_obp_def demo_discovery_def PENDING_TTL_def Let_def
      finish_login_def token_request_def insert_session_def expiry_def add_seconds_def demo_exchange_env_def
      is_success_def exchanged_def map_filter_def code_of_form_def code_form_def unwrap_or_def)

text \<open>
  C37. A login is exchanged at most once: in any interleaving of logins, callbacks, refreshes and
  logouts, no two requests to the token endpoint carry the same PKCE verifier, and a code goes out
  only with the verifier minted together with the state that the callback brought with it.
\<close>

theorem login_exchanged_once:
  assumes "(login_step L C)\<^sup>*\<^sup>* login_start R"
  shows "distinct (map snd (exchanged (lr_oidc R))) \<and>
    (\<forall>(code, verifier) \<in> set (exchanged (lr_oidc R)).
       \<exists>st. (st, verifier) \<in> set (lr_minted R) \<and> (st, code) \<in> set (lr_callbacks R))"
  using login_okD(3,9) [OF login_reachable_ok [OF assms]] by auto

theorem login_exchanged_once_witness:
  "exchanged (lr_oidc demo_logged_in) = [(''code-7'', ''23'')] \<and>
   (\<exists>st. (st, ''23'') \<in> set (lr_minted demo_logged_in) \<and> (st, ''code-7'') \<in> set (lr_callbacks demo_logged_in))"
  using login_exchanged_once [OF demo_logged_in_reached] demo_exchanged by simp

section \<open>The operator page\<close>

text \<open>
  C38. The operator page writes only what the configuration declares: its checks send GET requests
  without a body, and applying an item, whatever identifier the browser sends, calls OBP-API only
  with the token of the session, to read the current and the configured users or to make one of the
  declared writes. A role and an account go to the user that the configuration names, under the
  identifier that OBP-API gave for this name in an answer before; only a role for the operator, and an
  account without an owner, go to the user that OBP-API reported as logged in.
\<close>

theorem setup_writes_declared:
  "(\<forall>c \<in> set (snd (snd (setup_status L K now E cookie s))). reads c) \<and>
   (snd (snd (setup_apply L K now E cookie item_id s)) = [] \<or>
    (\<exists>token. fst (require_token L K now E cookie s) = Some (Inr token) \<and>
       each_after (declared K token) [] (snd (snd (setup_apply L K now E cookie item_id s)))))"
proof (intro conjI ballI)
  fix c assume c: "c \<in> set (snd (snd (setup_status L K now E cookie s)))"
  obtain r s' sent where r: "with_session L K now E cookie (status_page K) s = (r, s', sent)"
    by (metis prod_cases3)
  with c have "c \<in> set sent" by (simp add: setup_status_def)
  with r show "reads c" by (auto elim!: with_session_sent intro: only_callsD [OF status_page_reads])
next
  obtain r s' sent where r: "with_session L K now E cookie (apply_page K item_id) s = (r, s', sent)"
    by (metis prod_cases3)
  then have sent: "snd (snd (setup_apply L K now E cookie item_id s)) = sent" by (simp add: setup_apply_def)
  show "snd (snd (setup_apply L K now E cookie item_id s)) = [] \<or>
    (\<exists>token. fst (require_token L K now E cookie s) = Some (Inr token) \<and>
       each_after (declared K token) [] (snd (snd (setup_apply L K now E cookie item_id s))))"
  proof (cases sent)
    case (Cons c cs)
    then have "c \<in> set sent" by simp
    with r obtain token t answer where "require_token L K now E cookie s = (Some (Inr token), t)"
      and "run_state (apply_page K item_id token) [] = (answer, sent)"
      by (rule with_session_sent) blast
    with apply_page_declared sent show ?thesis by fastforce
  qed (simp add: sent)
qed

definition demo_setup :: setup_config where
  "demo_setup =
     \<lparr>us_routing_schemes = [JObj [(''scheme'', JStr ''IBAN'')]],
      us_bank = Some \<lparr>ub_id = ''bank.a'', ub_full_name = None, ub_accounts = [], ub_fx = [], ub_broker = None,
        ub_role_grants = [\<lparr>ug_username = ''bob'', ug_role = ''CanGetUser''\<rparr>,
                          \<lparr>ug_username = ''node@bank.a'', ug_role = ''CanGetUser''\<rparr>]\<rparr>\<rparr>"

definition demo_setup_ctx :: setup_ctx where
  "demo_setup_ctx =
     \<lparr>sq_obp = demo_app_obp, sq_setup = demo_setup,
      sq_json = (\<lambda>t. Some (JObj (if t = ''me'' then [(''user_id'', JStr ''u-1''), (''username'', JStr ''admin'')]
                                 else [(''user_id'', JStr ''u-2''), (''username'', JStr ''bob'')]))),
      sq_show_json = (\<lambda>v. ''json''), sq_float_eq = (=), sq_show_status = show_nat,
      sq_answer = (\<lambda>n. Response 200 (if n = 0 then ''me'' else ''bob'')), sq_now = ''now'', sq_today = ''2026-08-09''\<rparr>"

definition demo_cookie :: "string option" where
  "demo_cookie = Some (SESSION_COOKIE @ ''=34'')"

lemma demo_session:
  "look_session ''34'' 7 (lr_oidc demo_logged_in) = Some (Valid ''token-1'')"
  by (simp add: demo_logged_in_def demo_called_back_def demo_begun_def take_pending_def begin_login_def
      get_endpoints_def discovery_url_def fetch_document_def register_login_def new_oidc_def demo_login_env_def
      demo_tokens demo_pending_def demo_oidc_libs_def demo_app_obp_def demo_discovery_def PENDING_TTL_def Let_def
      finish_login_def token_request_def insert_session_def expiry_def add_seconds_def demo_exchange_env_def
      is_success_def unwrap_or_def look_session_def)

lemma demo_token:
  "require_token demo_oidc_libs demo_setup_ctx 7 demo_exchange_env demo_cookie (lr_oidc demo_logged_in)
   = (Some (Inr ''token-1''), lr_oidc demo_logged_in)"
proof -
  have "list_all (\<lambda>c. graphic c \<and> c \<noteq> CHR '';'') ''34''" by code_simp
  from session_cookie_read [OF _ this] have "session_id_from_cookies demo_cookie = Some ''34''"
    by (simp add: demo_cookie_def)
  then show ?thesis by (simp add: require_token_def access_token_def demo_session)
qed

text \<open>
  Applying the role grant for \<open>bob\<close>: the logged-in user is read, then \<open>bob\<close>, and the role goes to the
  identifier of \<open>bob\<close>.
\<close>

definition demo_apply_sent :: "obp_call list" where
  "demo_apply_sent =
     [asks demo_setup_ctx ''token-1'' me_path, asks demo_setup_ctx ''token-1'' (user_path ''bob''),
      sends demo_setup_ctx ''token-1'' ''POST'' (entitlements_path ''u-2'') (role_body ''bank.a'' ''CanGetUser'')]"

lemma demo_apply:
  "snd (snd (setup_apply demo_oidc_libs demo_setup_ctx 7 demo_exchange_env demo_cookie ''grant:bob@bank.a:CanGetUser''
     (lr_oidc demo_logged_in))) = demo_apply_sent"
proof -
  have "snd (run_state (apply_page demo_setup_ctx ''grant:bob@bank.a:CanGetUser'' ''token-1'') []) = demo_apply_sent"
    by code_simp
  then show ?thesis by (simp add: setup_apply_def with_session_def demo_token split_beta)
qed

theorem setup_writes_declared_witness: "each_after (declared demo_setup_ctx ''token-1'') [] demo_apply_sent"
  using setup_writes_declared [THEN conjunct2, of demo_oidc_libs demo_setup_ctx 7 demo_exchange_env demo_cookie
      "''grant:bob@bank.a:CanGetUser''" "lr_oidc demo_logged_in"]
  unfolding demo_apply demo_token by (auto simp: demo_apply_sent_def)

text \<open>
  C39. The status page lists the parts of the configuration and the roles that it needs, each under its
  identifier, and nothing else. An identifier, listed or not, resolves only to a part of the
  configuration that has this identifier itself; it is refused exactly when no part that has it is
  separable: when a bank or user name contains the character that ends it in the identifier (\<open>/\<close> in the
  bank of an account; \<open>:\<close> in the bank or a currency of a rate, in the bank of a grant or role; \<open>@\<close> in the
  user name of a grant), or a routing scheme has no name. Such items are listed and cannot be applied.
\<close>

theorem listed_item_applies:
  assumes "run_state (status_page K token) [] = (answer, sent)" and "an_status answer = 200"
    and "an_content answer = AppJson v" and "jindex ''items'' v = JArr items"
  shows "jindex ''id'' ` set items = (\<lambda>act. JStr (action_item_id act)) ` {act. action_declared (sq_setup K) act} \<and>
    (\<forall>x. case resolve_action (sq_setup K) x of
       Inr act \<Rightarrow> action_declared (sq_setup K) act \<and> action_item_id act = x \<and> separable act
     | Inl e \<Rightarrow> \<forall>act. action_declared (sq_setup K) act \<and> action_item_id act = x \<longrightarrow> \<not> separable act)"
proof (intro conjI allI)
  have "map (jindex ''id'') items = map JStr (listed_ids (sq_setup K))"
    by (rule status_page_ids [OF assms])
  then have "jindex ''id'' ` set items = JStr ` set (listed_ids (sq_setup K))" by (metis list.set_map)
  then show "jindex ''id'' ` set items = (\<lambda>act. JStr (action_item_id act)) ` {act. action_declared (sq_setup K) act}"
    by (simp add: listed_ids_declared image_image)
qed (rule resolve_action_spec)

definition demo_status :: app_response where
  "demo_status = fst (run_state (status_page demo_setup_ctx ''token-1'') [])"

definition demo_page :: json where
  "demo_page = (case an_content demo_status of AppJson v \<Rightarrow> v | _ \<Rightarrow> JNull)"

definition demo_items :: "json list" where
  "demo_items = unwrap_or (as_array (jindex ''items'' demo_page)) []"

lemma demo_status_facts:
  "an_status demo_status = 200" "an_content demo_status = AppJson demo_page"
  "jindex ''items'' demo_page = JArr demo_items"
  by code_simp+

text \<open>
  On it, the identifier of the grant to \<open>bob\<close> leads to this grant, and that of the grant to the user
  name with an at sign is refused.
\<close>

theorem listed_item_applies_witness:
  "jindex ''id'' ` set demo_items = (\<lambda>act. JStr (action_item_id act)) ` {act. action_declared demo_setup act} \<and>
   (\<exists>act. resolve_action demo_setup ''grant:bob@bank.a:CanGetUser'' = Inr act \<and> action_declared demo_setup act
     \<and> action_item_id act = ''grant:bob@bank.a:CanGetUser'') \<and>
   \<not> (\<exists>act. action_declared demo_setup act \<and> action_item_id act = ''grant:node@bank.a@bank.a:CanGetUser''
     \<and> separable act)"
proof -
  have conf: "sq_setup demo_setup_ctx = demo_setup" by (simp add: demo_setup_ctx_def)
  have "run_state (status_page demo_setup_ctx ''token-1'') []
    = (demo_status, snd (run_state (status_page demo_setup_ctx ''token-1'') []))"
    by (simp add: demo_status_def)
  from listed_item_applies [OF this demo_status_facts]
  have ids: "jindex ''id'' ` set demo_items
      = (\<lambda>act. JStr (action_item_id act)) ` {act. action_declared demo_setup act}"
    and resolved: "case resolve_action demo_setup x of
        Inr act \<Rightarrow> action_declared demo_setup act \<and> action_item_id act = x \<and> separable act
      | Inl e \<Rightarrow> \<forall>act. action_declared demo_setup act \<and> action_item_id act = x \<longrightarrow> \<not> separable act" for x
    unfolding conf by blast+
  have "\<not> isl (resolve_action demo_setup ''grant:bob@bank.a:CanGetUser'')"
    "isl (resolve_action demo_setup ''grant:node@bank.a@bank.a:CanGetUser'')"
    by code_simp+
  with ids resolved [of "''grant:bob@bank.a:CanGetUser''"]
    resolved [of "''grant:node@bank.a@bank.a:CanGetUser''"]
  show ?thesis by (auto split: sum.splits)
qed

section \<open>The proxy\<close>

text \<open>
  C40. The proxy forwards a request exactly when the node is configured and the method and the
  segments of the path match one of the ten endpoints of the whitelist; what goes out carries that
  node's address and token and the path as it came. (A wildcard matches any segment, also dots
  or backslashes, which the URL parser of the client resolves.)
\<close>

theorem proxy_forwards_listed:
  assumes "new_app_state nodes ui_defaults = Inr S"
  shows "snd (proxy S answer node path meth body) = Some req \<longleftrightarrow>
    (\<exists>n \<in> set nodes. nd_name n = node \<and>
       (\<exists>(m, ps) \<in> set whitelist. m = meth \<and> list_all2 seg_matches ps (path_segments path)) \<and>
       req = \<lparr>px_method = meth,
              px_url = trim_end_slashes (nd_base_url n) @ NODE_API_PREFIX @ ''/'' @ path,
              px_bearer = nd_bearer_token n, px_body = body\<rparr>)"
proof -
  note nodes = new_app_state_nodes [OF assms, of node]
  show ?thesis
  proof (cases "ax_nodes S node")
    case None
    with nodes have "nd_name n \<noteq> node" if "n \<in> set nodes" for n using that by auto
    with None show ?thesis by (auto simp: proxy_def)
  next
    case (Some n)
    with nodes [of n] have n: "n \<in> set nodes" "nd_name n = node" by simp_all
    have one: "n' = n" if "n' \<in> set nodes" "nd_name n' = node" for n'
      using nodes [of n'] Some that by simp
    have only: "(\<exists>n' \<in> set nodes. nd_name n' = node \<and> P n') \<longleftrightarrow> P n" for P
      using n one by blast
    show ?thesis unfolding allowed_iff_listed [symmetric] only
      using Some by (auto simp: proxy_def Let_def)
  qed
qed

definition demo_node :: app_node where
  "demo_node = \<lparr>nd_name = ''node-a'', nd_base_url = ''http://localhost:8088/'', nd_bearer_token = Some ''t''\<rparr>"

text \<open>A path that climbs out of the listed endpoints is a listed one with a strange segment.\<close>

theorem proxy_forwards_listed_witness:
  "\<exists>S. new_app_state [demo_node] [] = Inr S \<and>
     snd (proxy S (\<lambda>r. NoResponse ''down'') ''node-a'' (''evidence/..'' @ [CHR 0x5C] @ ''..'') ''GET'' None)
     = Some \<lparr>px_method = ''GET'',
             px_url = ''http://localhost:8088/obp-bank-node/v5.1.0/evidence/..'' @ [CHR 0x5C] @ ''..'',
             px_bearer = Some ''t'', px_body = None\<rparr>"
proof -
  obtain S where S: "new_app_state [demo_node] [] = Inr S"
    by (simp add: new_app_state_def Let_def)
  moreover have "snd (proxy S (\<lambda>r. NoResponse ''down'') ''node-a'' (''evidence/..'' @ [CHR 0x5C] @ ''..'') ''GET'' None)
     = Some \<lparr>px_method = ''GET'',
             px_url = ''http://localhost:8088/obp-bank-node/v5.1.0/evidence/..'' @ [CHR 0x5C] @ ''..'',
             px_bearer = Some ''t'', px_body = None\<rparr>"
    unfolding proxy_forwards_listed [OF S]
    by (simp add: demo_node_def whitelist_def path_segments_def byte_def trim_end_slashes_def NODE_API_PREFIX_def)
  ultimately show ?thesis by blast
qed

end
