(* ===== verification/Store_Properties.thy ===== *)
theory Store_Properties
  imports Node_Main Task_Loops Examples
begin

text \<open>
  The properties of the database files and of the start of the node, with their witnesses. The
  example is an outbox of the first version with one row and a start that is interrupted in the
  middle of the migration.
\<close>

definition demo_old_outbox :: database where
  "demo_old_outbox =
     \<lparr>db_tables = [(''outbox'', \<lparr>tb_columns = filter (\<lambda>c. co_name c \<notin> set outbox_added) outbox_columns,
        tb_rows = [outbox_cell (outbox_row ''t0'' demo_entry)]\<rparr>)], db_indexes = []\<rparr>"

definition demo_open :: "(nat \<Rightarrow> dbcall) \<Rightarrow> open_env" where
  "demo_open C = \<lparr>op_dir = None, op_pool = None, op_stmt = C\<rparr>"

definition demo_interrupted :: open_env where
  "demo_interrupted = demo_open (\<lambda>i. if i = 2 then Fails ''disk I/O error'' else Runs ''t1'')"

lemma honest_runs: "honest (op_stmt (demo_open (runs now)))"
  by (simp add: honest_def demo_open_def)

lemma honest_interrupted: "honest (op_stmt demo_interrupted)"
proof -
  have "\<not> is_duplicate_column ''disk I/O error''" by code_simp
  then show ?thesis by (simp add: honest_def demo_interrupted_def demo_open_def)
qed

lemma demo_old_outbox_holds: "outbox_database demo_old_outbox [outbox_row ''t0'' demo_entry]"
  by (simp add: older_database_def older_table_def older_columns_def demo_old_outbox_def outbox_columns_def
      outbox_added_def outbox_first_def row_rep_def padded_def outbox_row_def)

definition demo_half :: database where
  "demo_half = snd (outbox_connect demo_interrupted ''./outbox/node.db'' demo_old_outbox)"

lemma demo_half_failed: "fst (outbox_connect demo_interrupted ''./outbox/node.db'' demo_old_outbox) =
    Inl (Db (Driver ''disk I/O error''))"
  by code_simp

lemma demo_half_session: "store_session outbox_connect ''outbox'' outbox_sql_step demo_old_outbox demo_half"
  by (rule failed_start [OF honest_interrupted, of _ "''./outbox/node.db''"])
     (simp add: prod_eq_iff demo_half_failed demo_half_def)

definition demo_full :: database where
  "demo_full = snd (outbox_connect (demo_open (runs ''t2'')) ''./outbox/node.db'' demo_half)"

lemma demo_full_opened: "outbox_connect (demo_open (runs ''t2'')) ''./outbox/node.db'' demo_half = (Inr (), demo_full)"
proof -
  have "fst (outbox_connect (demo_open (runs ''t2'')) ''./outbox/node.db'' demo_half) = Inr ()"
    by code_simp
  then show ?thesis by (simp add: prod_eq_iff demo_full_def)
qed

text \<open>
  C14. A payment in the outbox's database, of whatever version of the schema, is still there after any
  number of starts, of which some may fail or stop anywhere in the migration, and of statements of
  running nodes: after the next start that succeeds the table is there and \<open>get\<close> reads the payment's
  bank, account, payload, salt and time as they were.
\<close>

theorem payment_survives_restarts:
  assumes "(store_session outbox_connect ''outbox'' outbox_sql_step)\<^sup>*\<^sup>* db db'"
    and "outbox_database db rs" and "sql_find ob_transaction_request_id k rs = Some r"
    and "honest (op_stmt E)" and "outbox_connect E path db' = (Inr (), db1)"
  shows "\<exists>t r'. map_of (db_tables db1) ''outbox'' = Some t
    \<and> outbox_get_sql (Runs now) k t = Inr (Some r') \<and> payment_of r' = payment_of r"
proof -
  from ob_db.reopened [OF assms(1,2,4,5)] obtain t rs' where
    t: "map_of (db_tables db1) ''outbox'' = Some t" "outbox_table t rs'" "outbox_step\<^sup>*\<^sup>* rs rs'" by blast
  from ob.steps_durable [OF t(3) assms(3)] obtain r' where
    "sql_find ob_transaction_request_id k rs' = Some r'" "payment_of r' = payment_of r" by blast
  with t(1) outbox_queries_refine(1) [OF t(2), of "Runs now" k] show ?thesis by (simp add: outbox_get_def)
qed

lemma payment_survives_restarts_witness:
  "\<exists>t r'. map_of (db_tables demo_full) ''outbox'' = Some t \<and> outbox_get_sql (Runs ''q'') ''tr-7'' t = Inr (Some r')
    \<and> payment_of r' = payment_of (outbox_row ''t0'' demo_entry)"
  by (rule payment_survives_restarts [OF r_into_rtranclp [of "store_session _ _ _", OF demo_half_session]
        demo_old_outbox_holds _ honest_runs demo_full_opened])
     (simp add: demo_entry_def)

section \<open>Claims on disk\<close>

definition demo_settlements :: database where
  "demo_settlements = snd (settlement_connect (demo_open (runs ''t0'')) ''s.db'' \<lparr>db_tables = [], db_indexes = []\<rparr>)"

definition demo_claim :: new_claim where
  "demo_claim = \<lparr>nc_idempotency_key = ''k-1'', nc_settlement_id = Some ''s-1'', nc_snapshot_id = None,
     nc_currency = ''KES'', nc_net_amount_minor = 100, nc_creditor_address = ''addr1'', nc_purpose = None\<rparr>"

text \<open>The obligation a claim stands for.\<close>

definition claim_obligation ::
  "new_claim \<Rightarrow> string option \<times> string option \<times> string \<times> string \<times> string \<times> string option" where
  "claim_obligation n = (nc_settlement_id n, nc_snapshot_id n, nc_currency n, show_nat (nc_net_amount_minor n),
     nc_creditor_address n, nc_purpose n)"

lemma claimed_row:
  assumes "store_claim c c2 n rs = (Inr Claimed, rs')"
  shows "\<exists>r. sql_find sr_idempotency_key (nc_idempotency_key n) rs' = Some r \<and> obligation_of r = claim_obligation n"
proof (cases rule: store_claim_cases [of c c2 n rs])
  case (claimed now)
  from claimed(2) have "sql_find sr_idempotency_key (nc_idempotency_key n) rs = None"
    by (simp add: sql_find_None_iff)
  with claimed(3) assms show ?thesis
    by (auto simp: sql_find_append obligation_of_def claim_obligation_def settlement_row_of_def)
qed (use assms in auto)

lemma store_claim_found:
  assumes "sql_find sr_idempotency_key (nc_idempotency_key n) rs = Some row"
  shows "fst (store_claim c c2 n rs) \<noteq> Inr Claimed"
    and "store_claim (Runs a) (Runs b) n rs = (Inr (Existing row), rs)"
proof -
  from assms have key: "sql_has_key sr_idempotency_key (nc_idempotency_key n) rs" by (simp add: sql_has_key_iff)
  then show "fst (store_claim c c2 n rs) \<noteq> Inr Claimed"
    by (cases c) (auto split: sum.splits option.splits)
  from key assms show "store_claim (Runs a) (Runs b) n rs = (Inr (Existing row), rs)"
    by (simp add: store_get_def)
qed

text \<open>
  C20. On the database file too a settlement is claimed once: after a claim of a key, any number of
  statements and restarts of the node later, another claim of the key does not get it; when its
  statements run it reads the row of the first claim, with the first claim's obligation.
\<close>

theorem claimed_once_on_disk:
  assumes "settlement_database db rs" and "honest (op_stmt E0)"
    and "settlement_connect E0 path0 db = (Inr (), db0)" and "map_of (db_tables db0) ''settlements'' = Some t0"
    and "store_claim_sql c c2 n t0 = (Inr Claimed, t1)"
    and "(store_session settlement_connect ''settlements'' store_sql_step)\<^sup>*\<^sup>*
      (put_table ''settlements'' t1 db0) db'"
    and "honest (op_stmt E)" and "settlement_connect E path db' = (Inr (), db1)"
    and "map_of (db_tables db1) ''settlements'' = Some t2"
    and "nc_idempotency_key n' = nc_idempotency_key n"
  shows "fst (store_claim_sql c3 c4 n' t2) \<noteq> Inr Claimed \<and>
    (\<exists>row. fst (store_claim_sql (Runs a) (Runs b) n' t2) = Inr (Existing row)
      \<and> sr_idempotency_key row = nc_idempotency_key n \<and> obligation_of row = claim_obligation n)"
proof -
  from st_db.connect_migrates [OF assms(1-3)] assms(4) have t0: "settlement_table t0 rs" by simp
  from store_claim_refines [OF t0, of c c2 n] assms(5)
  obtain rs1 where rs1: "store_claim c c2 n rs = (Inr Claimed, rs1)" "settlement_table t1 rs1"
    by (cases "store_claim c c2 n rs") (auto simp: agrees_def)
  from put_table_same [OF assms(4), of t1] table_rep_older [OF rs1(2) st_db.first_columns]
  have "settlement_database (put_table ''settlements'' t1 db0) rs1" by (simp add: older_database_def)
  from st_db.reopened [OF assms(6) this assms(7,8)] assms(9) obtain rs2 where
    rs2: "settlement_table t2 rs2" "store_step\<^sup>*\<^sup>* rs1 rs2" by auto
  from st.steps_durable [OF rs2(2)] claimed_row [OF rs1(1)] obtain row where
    row: "sql_find sr_idempotency_key (nc_idempotency_key n') rs2 = Some row" "obligation_of row = claim_obligation n"
    using assms(10) by metis
  from store_claim_found [OF row(1)] store_claim_refines [OF rs2(1)] sql_find_SomeD [OF row(1)] row(2) assms(10)
  show ?thesis by (auto simp: agrees_def simp del: store_claim.simps store_claim_sql.simps)
qed

definition demo_settlements_table :: sql_table where
  "demo_settlements_table = the (map_of (db_tables demo_settlements) ''settlements'')"

definition demo_claimed :: sql_table where
  "demo_claimed = snd (store_claim_sql (Runs ''t1'') (Runs ''t1'') demo_claim demo_settlements_table)"

lemma demo_no_settlements: "settlement_database \<lparr>db_tables = [], db_indexes = []\<rparr> []"
  by (simp add: older_database_def)

lemma demo_settlements_opened:
  "settlement_connect (demo_open (runs ''t0'')) ''s.db'' \<lparr>db_tables = [], db_indexes = []\<rparr> =
     (Inr (), demo_settlements)"
proof -
  have "fst (settlement_connect (demo_open (runs ''t0'')) ''s.db'' \<lparr>db_tables = [], db_indexes = []\<rparr>) = Inr ()"
    by code_simp
  then show ?thesis by (simp add: prod_eq_iff demo_settlements_def)
qed

lemma demo_settlements_there:
  "map_of (db_tables demo_settlements) ''settlements'' = Some demo_settlements_table"
  "settlement_table demo_settlements_table []"
  using st_db.connect_migrates [OF demo_no_settlements honest_runs demo_settlements_opened]
  by (auto simp: demo_settlements_table_def)

lemma demo_claimed_eq:
  "store_claim_sql (Runs ''t1'') (Runs ''t1'') demo_claim demo_settlements_table = (Inr Claimed, demo_claimed)"
proof -
  have "fst (store_claim (Runs ''t1'') (Runs ''t1'') demo_claim []) = Inr Claimed"
    by (simp add: sql_has_key_def)
  with store_claim_refines [OF demo_settlements_there(2), of "Runs ''t1''" "Runs ''t1''" demo_claim] show ?thesis
    by (simp add: prod_eq_iff demo_claimed_def agrees_def del: store_claim.simps store_claim_sql.simps)
qed

lemma demo_reopened:
  "\<exists>db1 t2. settlement_connect (demo_open (runs ''t2'')) ''s.db'' (put_table ''settlements'' demo_claimed demo_settlements)
     = (Inr (), db1) \<and> map_of (db_tables db1) ''settlements'' = Some t2"
proof -
  let ?db = "put_table ''settlements'' demo_claimed demo_settlements"
  from store_claim_refines [OF demo_settlements_there(2), of "Runs ''t1''" "Runs ''t1''" demo_claim]
  have "\<exists>rs. settlement_table demo_claimed rs" by (auto simp: agrees_def demo_claimed_def)
  then obtain rs where "settlement_database ?db rs"
    using put_table_same [OF demo_settlements_there(1)] table_rep_older [OF _ st_db.first_columns]
    by (force simp: older_database_def)
  moreover have "fst (settlement_connect (demo_open (runs ''t2'')) ''s.db'' ?db) = Inr ()" by code_simp
  ultimately show ?thesis
    using st_db.connect_migrates [OF _ honest_runs, of ?db rs "''t2''" "''s.db''"] by (metis prod.collapse)
qed

lemma claimed_once_on_disk_witness:
  "\<exists>db1 t2. map_of (db_tables db1) ''settlements'' = Some t2 \<and>
     fst (store_claim_sql (Runs ''t3'') (Runs ''t3'') demo_claim t2) \<noteq> Inr Claimed \<and>
     settlement_connect (demo_open (runs ''t2'')) ''s.db'' (put_table ''settlements'' demo_claimed demo_settlements)
       = (Inr (), db1)"
proof -
  obtain db1 t2 where o: "settlement_connect (demo_open (runs ''t2'')) ''s.db''
      (put_table ''settlements'' demo_claimed demo_settlements) = (Inr (), db1)"
    "map_of (db_tables db1) ''settlements'' = Some t2" using demo_reopened by blast
  from claimed_once_on_disk [OF demo_no_settlements honest_runs demo_settlements_opened demo_settlements_there(1)
      demo_claimed_eq rtranclp.rtrancl_refl honest_runs o refl, of "Runs ''t3''" "Runs ''t3''"] o
  show ?thesis by blast
qed

section \<open>A serving node\<close>

text \<open>
  C25. A node that comes to serve has read a configuration whose Cardano network does not contradict its
  build, runs exactly the tasks that the configuration asks for, and has opened all three databases:
  each holds, under the present schema, the records it held when the process started.
\<close>

theorem serving_node_has_migrated:
  assumes "node_main L E F = (r, tasks, F')" and "serving tasks"
    and "honest (op_stmt (nd_outbox E))" "honest (op_stmt (nd_settlements E))" "honest (op_stmt (nd_evidence E))"
    and "outbox_database (nf_outbox F) os" "settlement_database (nf_settlements F) ss"
      "evidence_database (nf_evidence F) es"
  shows "\<exists>c notary rail. load_config (nl_config L) (nd_config E) = Inr c
    \<and> \<not> network_conflict (ce_network (nd_config E)) (yaml_network (nl_config L) (nd_config E))
    \<and> build_backend (nl_ogmios L) (nl_wallet L) (nd_probe E) (nd_keyfile E) c = Inr (notary, rail)
    \<and> tasks = node_tasks c (rail_account rail)
    \<and> (\<exists>t. map_of (db_tables (nf_outbox F')) ''outbox'' = Some t \<and> outbox_table t os)
    \<and> (\<exists>t. map_of (db_tables (nf_settlements F')) ''settlements'' = Some t \<and> settlement_table t ss)
    \<and> (\<exists>t. map_of (db_tables (nf_evidence F')) ''evidence'' = Some t \<and> evidence_table t es)"
proof -
  from node_main_result [OF assms(1)] assms(2) obtain c notary rail where
    c: "load_config (nl_config L) (nd_config E) = Inr c"
      "build_backend (nl_ogmios L) (nl_wallet L) (nd_probe E) (nd_keyfile E) c = Inr (notary, rail)"
      "node_stores E c (rail_account rail) F = (r, tasks, F')" by blast
  have "tasks \<noteq> []" using assms(2) by auto
  with node_stores_result [OF c(3)] assms(2) have open_stores:
    "tasks = node_tasks c (rail_account rail)"
    "outbox_connect (nd_outbox E) (cf_outbox_path c) (nf_outbox F) = (Inr (), nf_outbox F')"
    "settlement_connect (nd_settlements E) (sc_store_path (cf_settlement c)) (nf_settlements F) = (Inr (), nf_settlements F')"
    "evidence_connect (nd_evidence E) (cf_evidence_path c) (nf_evidence F) = (Inr (), nf_evidence F')"
    by (simp_all add: prod_eq_iff)
  from c load_config_no_conflict [OF c(1)] open_stores(1)
    ob_db.connect_migrates [OF assms(6,3) open_stores(2)]
    st_db.connect_migrates [OF assms(7,4) open_stores(3)]
    ev_db.connect_migrates [OF assms(8,5) open_stores(4)]
  show ?thesis by blast
qed

definition demo_node_libs :: node_libs where
  "demo_node_libs =
     \<lparr>nl_config = \<lparr>cl_extract = (\<lambda>layers. Inr default_config), cl_yaml_network = (\<lambda>path. None)\<rparr>,
      nl_ogmios = cl_ogmios demo_cardano_libs,
      nl_wallet = \<lparr>wl_envelope = (\<lambda>s. Inl s), wl_hex = (\<lambda>s. Inl s), wl_verifying_key = (\<lambda>s. s),
                   wl_bech32 = (\<lambda>n s. Inl s)\<rparr>\<rparr>"

definition demo_node_env :: node_env where
  "demo_node_env =
     \<lparr>nd_config = \<lparr>ce_path = None, ce_exists = (\<lambda>path. False), ce_network = Some ''preview''\<rparr>,
      nd_probe = demo_socket ''tip'', nd_keyfile = Inl ''none'',
      nd_outbox = demo_open (runs ''t1''), nd_obp_http = None, nd_settlements = demo_open (runs ''t1''),
      nd_evidence = demo_open (runs ''t1''), nd_cbs_http = None, nd_addr = Some ''0.0.0.0:8088'',
      nd_bind = None, nd_serve = None\<rparr>"

definition demo_files :: node_files where
  "demo_files = \<lparr>nf_outbox = demo_half, nf_settlements = \<lparr>db_tables = [], db_indexes = []\<rparr>,
     nf_evidence = \<lparr>db_tables = [], db_indexes = []\<rparr>\<rparr>"

lemma demo_node_serves: "serving (fst (snd (node_main demo_node_libs demo_node_env demo_files)))"
  by code_simp

lemma serving_node_has_migrated_witness:
  "\<exists>t. map_of (db_tables (nf_outbox (snd (snd (node_main demo_node_libs demo_node_env demo_files))))) ''outbox'' = Some t
    \<and> outbox_table t [outbox_row ''t0'' demo_entry]"
proof -
  have half: "outbox_database demo_half [outbox_row ''t0'' demo_entry]"
    using ob_db.connect_keeps [OF demo_old_outbox_holds, of demo_interrupted "''./outbox/node.db''"]
    by (simp add: demo_half_def prod_eq_iff)
  obtain r tasks F' where run: "node_main demo_node_libs demo_node_env demo_files = (r, tasks, F')"
    by (metis prod_cases3)
  with demo_node_serves have "serving tasks" by simp
  from serving_node_has_migrated [OF run this, of "[outbox_row ''t0'' demo_entry]" "[]" "[]"] half
    honest_runs [of "''t1''"] run
  show ?thesis by (auto simp: demo_node_env_def demo_files_def older_database_def)
qed

end
