(* ===== verification/Spec2Isabelle.thy ===== *)
theory Spec2Isabelle
  imports Outbox_Safety Interface_Properties Chain_Properties Fx_Properties Node_Routes App_Main App_Properties
    Store_Properties
begin

text \<open>
  A model of the OBP Bank Node (\<open>crates/obp-bank-node\<close>), of its chain library
  (\<open>crates/obp-blockchain\<close>) and of the operator's web app (\<open>crates/obp-bank-node-app\<close>), with the
  theorems that make them correct.

  \<^bold>\<open>The program.\<close> The node sits between a bank and the Open Bank Project. Southwards it takes payment
  requests over REST and delivers credits to the bank's core banking system (CBS); northwards it
  submits payments to OBP-API (Interface B) and takes messages from OBP-API over RabbitMQ
  (Interface C); it notarises a salted commitment of each payment on Cardano and settles netted
  positions there in ADA. The node's state is three SQLite tables: the outbox (own payments), the
  evidence (credits received), the settlements. The app shows the nodes' state through a proxy and
  lets an administrator, logged in through OpenID Connect, set up OBP-API.

  \<^bold>\<open>The model.\<close> One theory per component, below \<open>Prelude\<close> (bytes, Rust's string and integer
  operations) and \<open>Sql_Table\<close> (a table is the list of its rows; a statement either fails or runs at a
  given time; the locales \<open>durable_store\<close> and \<open>lifecycle_store\<close> state what every store promises):
  \<^item> \<open>Outbox\<close>, \<open>Settlement_Store\<close>, \<open>Evidence\<close>: the stores (\<open>outbox.rs\<close>, \<open>settlement_store.rs\<close>,
    \<open>evidence.rs\<close>), every operation on the records;
  \<^item> \<open>Sql_Rows\<close>: SQLite tables with columns and cells, and the statements that are sent; \<open>Outbox_Sql\<close>,
    \<open>Settlement_Sql\<close>, \<open>Evidence_Sql\<close>: each operation of the stores as its SQL statement, with the
    decoding of rows, and the proof (through the locale \<open>row_codec\<close>) that it is the operation on the
    records; \<open>Schema\<close>: \<open>connect\<close> and \<open>init_schema\<close> with their migrations, which keep the records of
    every older schema, may stop anywhere and are resumed; \<open>Sql_Sessions\<close>: starts and statements over
    the life of a database file (locale \<open>sql_store\<close>);
  \<^item> \<open>Commitment\<close>: records and commitments (\<open>obp-blockchain/src/lib.rs\<close>); \<open>Mock\<close>: the offline backends;
  \<^item> \<open>Amount\<close>, \<open>Cbs\<close>, \<open>Interface_C\<close>, \<open>Consumer\<close>: the messages of Interface C (\<open>interface_c/\<close>,
    \<open>cbs.rs\<close>). \<open>handle\<close> takes the libraries, the router, what the environment answers and the bank's
    state, and gives the reply and the new state; the state keeps the posts to the CBS and the calls
    of the settlement rail as ghosts;
  \<^item> \<open>Finality\<close>: the watcher that promotes settlements (\<open>finality.rs\<close>); \<open>Settlement_Safety\<close>: the node
    as a step relation (\<open>node_step\<close>: a delivery, a watcher pass or a write of the outbox) and the
    invariant that no key is paid twice; \<open>Credit_Safety\<close>: evidence before credit;
  \<^item> \<open>Obp_Client\<close>, \<open>Dispatcher\<close>, \<open>Routing\<close>: Interface B (\<open>obp_client.rs\<close>, \<open>dispatcher.rs\<close>,
    \<open>routing.rs\<close>); \<open>Outbox_Safety\<close>: the columns of the outbox; \<open>Float_Text\<close>, \<open>Rest_Types\<close>,
    \<open>Rest\<close>: the REST API (\<open>rest/\<close>);
  \<^item> \<open>Float64\<close>, \<open>Fx\<close>, \<open>Fx_Safety\<close>: doubles with their rounding, and the price sources over them
    (\<open>fx.rs\<close>); \<open>Config\<close>, \<open>Startup\<close>: how \<open>main.rs\<close> puts the node together, the defaults, the
    backends, the price source, the tasks it starts; \<open>Node_Main\<close>: \<open>load_config\<close> and \<open>main\<close> with
    every early return; \<open>Task_Loops\<close>: the loops of the tasks;
    \<open>Dispatch_Progress\<close>: a row whose calls succeed is reported (C26); \<open>Node_Routes\<close>: the routes of the REST
    API, which are the whitelist of the app;
  \<^item> \<open>Tx\<close>, \<open>Ogmios\<close>, \<open>Follower\<close>, \<open>Wallet\<close>, \<open>Cardano\<close>: the chain library (\<open>cardano/\<close>);
    \<open>Cardano_Safety\<close>: the ADA rail as an instance of the locale \<open>settlement_rail\<close>, which carries the
    guarantee of the node over to the transactions on the chain;
  \<^item> \<open>App_Base\<close>, \<open>Oidc\<close>, \<open>App_Proxy\<close>, \<open>App_Calls\<close>, \<open>Setup\<close>, \<open>Setup_Apply\<close>, \<open>Setup_Session\<close>: the app
    (\<open>main.rs\<close>, \<open>oidc.rs\<close>, \<open>proxy.rs\<close>, \<open>setup.rs\<close>); the handlers of the setup page run in a state
    monad over the calls sent to OBP-API. \<open>Oidc_Safety\<close>: the login as a step relation over the parts
    between its awaits; \<open>Setup_Safety\<close>, \<open>Setup_Items\<close>: what the page sends, and its items;
    \<open>App_Main\<close>: its configuration and start.

  A definition takes the source's name; strings are byte lists in UTF-8; integers are naturals with the
  checks of the source, or words of 64 bits in \<open>Tx\<close>, \<open>Ogmios\<close> and \<open>Follower\<close>. A failure is the left of
  a sum, a panic is the outer \<open>None\<close> or \<open>Panicked\<close>. Third-party code is a parameter: a record
  of libraries (serde, SHA-256, regular expressions, pallas) or a record of what the environment
  answers (SQLite, reqwest, lapin, the websocket, clocks, random identifiers).

  \<^bold>\<open>The properties.\<close> Here: settlements are paid at most once and final only when deep enough (C1 to
  C10), credits follow evidence (C11 to C13), the dispatcher reports what it notarised (C15), and the columns of
  the outbox fit the status of its rows (C16). In
  \<open>Interface_Properties\<close>: the outbox, the REST API, Interface B and the consumer (C17 to C26 but for C20 and
  C25). In \<open>Store_Properties\<close>: the database files and the start of the node (C14, C20, C25). In
  \<open>Chain_Properties\<close>: payments, amounts, the follower and the key file (C27 to C33). In
  \<open>Fx_Properties\<close>: the price a settlement is paid at (C34 to C36). In \<open>App_Properties\<close>: the
  app (C37 to C40). \<open>Examples\<close> and \<open>Examples_More\<close> hold the inputs of the witnesses.

  \<^bold>\<open>Loops.\<close> The loops that serve for ever are the repetition of one step, over a list of what the
  environment brings (follower, supervisor) or for any number of passes (dispatcher, watcher,
  refresher in \<open>Task_Loops\<close>). The fee loop has the eight rounds of the source as fuel (C28 says when
  they are enough); the page loop of the routing schemes is a partial function (C23 says when it
  returns).

  \<^bold>\<open>Not modelled.\<close> The rail of \<open>Cardano\<close> takes the quote as an answer of its environment,
  which \<open>Startup\<close> ties to \<open>Fx\<close>. The configuration loader (figment) is a parameter that gets the layers
  the code merges; SQLite is a table of rows, without its files, locks and transactions; the
  scheduling of the tasks is any interleaving of their steps. Logging, the pages and scripts of the
  app, tests and examples are left out: they carry no logic of the product.
\<close>

section \<open>Settlement: nothing is paid twice\<close>

text \<open>
  C1. For any sequence of deliveries (redeliveries, retries and crashes between statements
  included), watcher passes and outbox writes, and any pattern of database failures, at most one
  call to the settlement rail per idempotency key may have moved money.
\<close>

theorem no_key_paid_twice:
  assumes "node_step\<^sup>*\<^sup>* b b'" and "bk_rail_calls b = []"
  shows "length (transfers k b') \<le> 1"
proof -
  from assms(2) have "\<And>k. paid_guard k b" by (rule paid_guard_start)
  from node_steps_paid_guard [OF assms(1) this] show ?thesis by (simp add: paid_guard_def)
qed

lemma demo_paid_step: "node_step demo_bank demo_paid"
  unfolding demo_paid_def by (rule deliver)

lemma no_key_paid_twice_witness:
  "length (transfers ''k-1'' demo_paid) \<le> 1 \<and> transfers ''k-1'' demo_paid \<noteq> []"
proof
  show "length (transfers ''k-1'' demo_paid) \<le> 1"
    by (rule no_key_paid_twice [OF r_into_rtranclp [of node_step, OF demo_paid_step]])
       (simp add: demo_bank_def)
  show "transfers ''k-1'' demo_paid \<noteq> []" by code_simp
qed

text \<open>
  C2. On Cardano: while the node runs with the ADA rail, and the notary writes from the same
  wallet, the transactions that carry an idempotency key and that the Cardano node did not refuse
  are at most one per key. (A node's RPC error to \<open>submitTransaction\<close> is its refusal.)
\<close>

theorem no_key_transferred_twice:
  assumes "node_step\<^sup>*\<^sup>* b b'" and "bk_rail_calls b = []"
    and "rail_run (ada_call L C) settled_keys s (bk_rail_calls b') s'" and "settled_keys s = []"
  shows "length (filter (\<lambda>k'. k' = k) (settled_keys s')) \<le> 1"
proof -
  from assms(2) have "\<And>k. paid_guard k b" by (rule paid_guard_start)
  from node_steps_paid_guard [OF assms(1) this] have "length (transfers k b') \<le> 1"
    by (simp add: paid_guard_def)
  with ada.run_paid [OF assms(3), of k] assms(4) show ?thesis by (simp add: transfers_def)
qed

lemma demo_ada_paid_step: "node_step demo_bank demo_ada_paid"
  unfolding demo_ada_paid_def by (rule deliver)

lemma no_key_transferred_twice_witness:
  "length (filter (\<lambda>k'. k' = ''k-1'') (settled_keys (snd demo_transfer))) \<le> 1 \<and>
   settled_keys (snd demo_transfer) = [''k-1'']"
proof
  show "length (filter (\<lambda>k'. k' = ''k-1'') (settled_keys (snd demo_transfer))) \<le> 1"
    by (rule no_key_transferred_twice [OF r_into_rtranclp [of node_step, OF demo_ada_paid_step] _ demo_rail_run])
       (simp_all add: demo_bank_def demo_chain_start_def settled_keys_def map_filter_def)
qed (rule demo_transfer_keys)

text \<open>
  C3. A settlement row that is final, in doubt (still \<open>SETTLING\<close> after a crash) or in a
  non-retryable error keeps its status and its obligation for ever: no delivery and no watcher
  pass moves it.
\<close>

theorem settled_row_stays:
  assumes "settle_step\<^sup>*\<^sup>* t t'" and "distinct (map sr_idempotency_key t)"
    and "sql_find sr_idempotency_key k t = Some r" and "settle_terminal r"
  shows "\<exists>r'. sql_find sr_idempotency_key k t' = Some r' \<and> sr_status r' = sr_status r \<and>
    obligation_of r' = obligation_of r"
  using settle_terminal_stays [OF assms] life.steps_durable [OF assms(1,3)]
  by (auto simp: status_of_row_def)

lemma settled_row_stays_witness:
  "\<exists>r r'. sql_find sr_idempotency_key ''k-1'' demo_final = Some r \<and>
     sql_find sr_idempotency_key ''k-1'' (bk_store demo_again) = Some r' \<and> sr_status r' = sr_status r"
proof -
  have d: "distinct (map sr_idempotency_key demo_final)" by code_simp
  have "map_option sr_status (sql_find sr_idempotency_key ''k-1'' demo_final) = Some FINAL" by code_simp
  then obtain r where r: "sql_find sr_idempotency_key ''k-1'' demo_final = Some r" "sr_status r = FINAL"
    by (cases "sql_find sr_idempotency_key ''k-1'' demo_final") auto
  from settled_row_stays [OF r_into_rtranclp [of settle_step, OF demo_again_reached] d r(1)] r(2)
  show ?thesis using r(1) by (auto simp: settle_terminal_def)
qed

text \<open>
  C4. The watcher declares a settlement final only at the configured depth: in every state
  reachable from an empty store under any messages and confirmations, a \<open>FINAL\<close> row carries a
  recorded depth of at least \<open>fd\<close> and the time it became final.
\<close>

theorem final_rows_are_deep:
  assumes "(settle_step_at fd)\<^sup>*\<^sup>* [] t"
  shows "final_deep fd t"
  using assms by (rule settle_reachable_final_deep)

lemma final_rows_are_deep_witness:
  "final_deep 10 demo_final \<and> map sr_status demo_final = [FINAL]"
proof
  show "final_deep 10 demo_final" by (rule final_rows_are_deep [OF demo_final_reached])
  show "map sr_status demo_final = [FINAL]" by code_simp
qed

text \<open>
  C5. Depth is real: at a finality depth of two or more a row becomes final only when its
  transaction is in a block of the chain the follower has observed (rollbacks taken back), that
  many blocks deep under the last known tip.
\<close>

theorem final_from_observed_block:
  assumes "(sync (cl_lower L))\<^sup>*\<^sup>* ([], follower_start) (chain, ca_follower s)"
    and "tx_ref parse row = Some ref" and "we_confirm V = confirm L C K ref s" and "2 \<le> fd"
    and "sql_find sr_idempotency_key k t = Some r" and "sr_status r \<noteq> FINAL"
    and "sql_find sr_idempotency_key k (snd (watch_row parse fd V row t)) = Some r'"
    and "sr_status r' = FINAL"
  shows "\<exists>b. block_of (cl_lower L) chain (cl_lower L (tx_id ref)) = Some b \<and>
    fd \<le> depth_of (fo_tip (ca_follower s)) (bl_height b)"
proof -
  obtain d where d: "we_confirm V = Inr (Confirmed d)" "fd \<le> d"
    by (rule watch_row_cases [of parse fd V row t])
       (use assms(5-8) in \<open>auto simp: sql_find_update split: if_splits\<close>)
  with confirm_deep [OF assms(1), of C K ref d] assms(3,4) show ?thesis by auto
qed


lemma final_from_observed_block_witness:
  "\<exists>b. block_of to_ascii_lowercase demo_blocks ''tx-1'' = Some b \<and>
     3 \<le> depth_of (fo_tip demo_synced) (bl_height b)"
proof -
  let ?V = "\<lparr>we_confirm = confirm demo_cardano_libs demo_cardano (demo_socket ''utxos'') demo_ref demo_chain_state,
             we_write = Runs ''t9''\<rparr>"
  have lower: "cl_lower demo_cardano_libs = to_ascii_lowercase" by (simp add: demo_cardano_libs_def)
  have chain: "(sync (cl_lower demo_cardano_libs))\<^sup>*\<^sup>* ([], follower_start)
      (demo_blocks, ca_follower demo_chain_state)"
    using demo_synced_reached by (simp add: lower demo_chain_state_def)
  have "map_option sr_status (sql_find sr_idempotency_key ''k-1''
      (snd (watch_row (\<lambda>s. Some s) 3 ?V demo_row (bk_store demo_paid)))) = Some FINAL" by code_simp
  then obtain r' where r': "sql_find sr_idempotency_key ''k-1''
      (snd (watch_row (\<lambda>s. Some s) 3 ?V demo_row (bk_store demo_paid))) = Some r'" "sr_status r' = FINAL"
    by auto
  from final_from_observed_block [OF chain demo_row_facts(1), of ?V demo_cardano "demo_socket ''utxos''" 3,
      OF _ _ demo_row_facts(3) _ r'] demo_row_facts(2)
  show ?thesis by (simp add: lower demo_chain_state_def demo_ref_def to_ascii_lowercase_def
      to_ascii_lower_def byte_val_def)
qed

text \<open>
  C6. A settlement submitted by an earlier process is unknown to the follower, and then the UTxO
  fallback reports depth one at most: with a finality depth of two or more no pass of the watcher
  ever makes it final. (\<open>main.rs\<close> says that such rows must still be promoted.)
\<close>

theorem earlier_process_never_final:
  assumes "\<not> cd_followed C \<or> fo_watched (ca_follower s) (cl_lower L (tx_id ref)) = None"
    and "tx_ref parse row = Some ref" and "we_confirm V = confirm L C K ref s" and "2 \<le> fd"
    and "sql_find sr_idempotency_key k t = Some r" and "sr_status r \<noteq> FINAL"
  shows "\<exists>r'. sql_find sr_idempotency_key k (snd (watch_row parse fd V row t)) = Some r' \<and>
    sr_status r' \<noteq> FINAL"
proof (cases rule: watch_row_cases [of parse fd V row t])
  case (final now d)
  with confirm_unknown_depth [of L C K ref s d] assms(1,3,4) show ?thesis by auto
qed (use assms(5,6) in \<open>auto simp: sql_find_update\<close>)

lemma earlier_process_never_final_witness:
  "\<exists>r'. sql_find sr_idempotency_key ''k-1'' (snd (watch_row (\<lambda>s. Some s) 2
     \<lparr>we_confirm = confirm demo_cardano_libs demo_cardano (demo_socket ''utxos'') demo_ref demo_chain_start,
      we_write = Runs ''t9''\<rparr> demo_row (bk_store demo_paid))) = Some r' \<and> sr_status r' \<noteq> FINAL"
proof (rule earlier_process_never_final [OF _ demo_row_facts(1) _ _ demo_row_facts(3)])
  show "\<not> cd_followed demo_cardano \<or> fo_watched (ca_follower demo_chain_start)
      (cl_lower demo_cardano_libs (tx_id demo_ref)) = None"
    by (simp add: demo_chain_start_def follower_start_def)
qed (simp_all add: demo_row_facts)

text \<open>
  C7. Redelivery: an instruction whose key has a row that is not a retryable error gets that row's
  recorded outcome as the reply, and nothing happens: no rail call, no write.
\<close>

theorem redelivery_replies_recorded:
  assumes "lb_instruction L body = Inr si" and "rt_settlement R = Some svc"
    and "si_amount si = Some amount" and "parse_minor_units amount 2 = Some (Inr net)"
    and "si_creditor_address si = Some creditor" and "instruction_key si = Some key"
    and "ie_claim (me_instruction E) = Runs now" and "ie_claim_read (me_instruction E) = Runs now'"
    and "sql_find sr_idempotency_key key (bk_store b) = Some row" and "\<not> can_retry row"
  shows "handle L R E SETTLEMENT_INSTRUCTION corr body b =
    (Replied (reply_for_existing corr row (ss_finality_depth svc)), b)"
proof -
  let ?n = "\<lparr>nc_idempotency_key = key, nc_settlement_id = si_settlement_id si,
      nc_snapshot_id = si_snapshot_id si, nc_currency = unwrap_or (si_currency si) [],
      nc_net_amount_minor = net, nc_creditor_address = creditor, nc_purpose = si_purpose si\<rparr>"
  have "store_claim (Runs now) (Runs now') ?n (bk_store b) = (Inr (Existing row), bk_store b)"
    by (cases rule: store_claim_cases [of "Runs now" "Runs now'" ?n "bk_store b"])
       (use assms(9) in \<open>auto simp: store_get_def sql_has_key_iff\<close>)
  with assms show ?thesis
    by (simp add: handle_def message_ids settlement_instruction_def settle_claimed_def del: store_claim.simps)
qed

lemma redelivery_replies_recorded_witness:
  "handle demo_libs demo_router (demo_env (NoResponse ''x'') ''r-1'' (Inr demo_outcome))
     SETTLEMENT_INSTRUCTION ''c-2'' ''body'' demo_paid =
   (Replied (reply_for_existing ''c-2'' demo_row 10), demo_paid)"
proof -
  have "parse_minor_units ''12.50'' 2 = Some (Inr 1250)" by code_simp
  moreover have "instruction_key demo_instruction = Some ''k-1''" by code_simp
  ultimately show ?thesis
    using redelivery_replies_recorded [of demo_libs "''body''" demo_instruction demo_router
      "\<lparr>ss_settles_from = ''addr0'', ss_finality_depth = 10\<rparr>" "''12.50''" 1250 "''addr1''" "''k-1''"
      "demo_env (NoResponse ''x'') ''r-1'' (Inr demo_outcome)" "''t1''" "''t1''" demo_paid demo_row "''c-2''"]
      demo_row_facts(2,3)
    by (simp add: demo_libs_def demo_router_def demo_instruction_def demo_env_def demo_instruction_env_def
        can_retry_def)
qed

text \<open>
  C8. A retry of a refused settlement pays what the new delivery says: the rail is asked for the new
  amount and creditor, while the row keeps the obligation it was claimed with.
\<close>

theorem retry_pays_new_terms:
  assumes "lb_instruction L body = Inr si" and "rt_settlement R = Some svc"
    and "si_amount si = Some amount" and "parse_minor_units amount 2 = Some (Inr net)"
    and "si_creditor_address si = Some creditor" and "instruction_key si = Some key"
    and "me_instruction E = \<lparr>ie_claim = Runs t1, ie_claim_read = Runs t2, ie_reclaim = Runs t3,
           ie_settle = answer, ie_mark = c\<rparr>"
    and "sql_find sr_idempotency_key key (bk_store b) = Some row" and "can_retry row"
  shows "\<exists>reply b' row'. handle L R E SETTLEMENT_INSTRUCTION corr body b = (reply, b') \<and>
    bk_rail_calls b' = bk_rail_calls b @ [(rail_instruction_of R svc si creditor net key, answer)] \<and>
    sql_find sr_idempotency_key key (bk_store b') = Some row' \<and> obligation_of row' = obligation_of row"
proof -
  let ?n = "\<lparr>nc_idempotency_key = key, nc_settlement_id = si_settlement_id si,
      nc_snapshot_id = si_snapshot_id si, nc_currency = unwrap_or (si_currency si) [],
      nc_net_amount_minor = net, nc_creditor_address = creditor, nc_purpose = si_purpose si\<rparr>"
  have claim: "store_claim (Runs t1) (Runs t2) ?n (bk_store b) = (Inr (Existing row), bk_store b)"
    by (cases rule: store_claim_cases [of "Runs t1" "Runs t2" ?n "bk_store b"])
       (use assms(8) in \<open>auto simp: store_get_def sql_has_key_iff\<close>)
  obtain t where t: "store_reclaim_for_retry (Runs t3) key (bk_store b) = (Inr (), t)"
    by (simp add: store_reclaim_for_retry_def exec_update_simps)
  have "handle L R E SETTLEMENT_INSTRUCTION corr body b =
      settle_attempt R svc (me_instruction E) corr si creditor net key (b\<lparr>bk_store := t\<rparr>)"
    using assms claim t
    by (simp add: handle_def message_ids settlement_instruction_def settle_claimed_def del: store_claim.simps)
  then have "bk_rail_calls (snd (handle L R E SETTLEMENT_INSTRUCTION corr body b)) =
      bk_rail_calls b @ [(rail_instruction_of R svc si creditor net key, answer)]"
    by (simp add: settle_attempt_calls assms(7))
  moreover have "settle_step (bk_store b) (bk_store (snd (handle L R E SETTLEMENT_INSTRUCTION corr body b)))"
    by (rule delivered)
  from life.steps_durable [OF r_into_rtranclp [of settle_step, OF this] assms(8)]
  obtain row' where "sql_find sr_idempotency_key key
      (bk_store (snd (handle L R E SETTLEMENT_INSTRUCTION corr body b))) = Some row'"
    "obligation_of row' = obligation_of row" by blast
  ultimately show ?thesis by (metis prod.collapse)
qed

lemma retry_pays_new_terms_witness:
  "\<exists>reply b' i answer row'. handle demo_other_libs demo_router
       (demo_env (NoResponse ''x'') ''r-1'' (Inr demo_outcome)) SETTLEMENT_INSTRUCTION ''c-2'' ''body'' demo_refused =
         (reply, b') \<and>
     bk_rail_calls b' = bk_rail_calls demo_refused @ [(i, answer)] \<and> ri_net_amount_minor i = 9900 \<and>
     sql_find sr_idempotency_key ''k-1'' (bk_store b') = Some row' \<and>
     obligation_of row' = obligation_of demo_refused_row \<and> sr_net_amount_minor demo_refused_row = ''1250''"
proof -
  let ?E = "demo_env (NoResponse ''x'') ''r-1'' (Inr demo_outcome)"
  have E: "me_instruction ?E = \<lparr>ie_claim = Runs ''t1'', ie_claim_read = Runs ''t1'', ie_reclaim = Runs ''t2'',
      ie_settle = Inr demo_outcome, ie_mark = Runs ''t3''\<rparr>"
    by (simp add: demo_env_def demo_instruction_env_def)
  let ?svc = "\<lparr>ss_settles_from = ''addr0'', ss_finality_depth = 10\<rparr>"
  have "rt_settlement demo_router = Some ?svc" "lb_instruction demo_other_libs ''body'' = Inr demo_other_instruction"
    "si_amount demo_other_instruction = Some ''99''" "si_creditor_address demo_other_instruction = Some ''addr2''"
    by (simp_all add: demo_router_def demo_other_libs_def demo_other_instruction_def)
  from retry_pays_new_terms [OF this(2,1,3) demo_refused_facts(4) this(4) demo_refused_facts(5) E
      demo_refused_facts(1,2), of "''c-2''"]
  show ?thesis using demo_refused_facts(3) by (fastforce simp: rail_instruction_of_def)
qed

text \<open>
  C9. A message the node does not take (malformed, unknown, or an instruction without a rail) has
  no effect: the reply says so and evidence, outbox, settlements, CBS and rail are as before.
\<close>

theorem refused_message_changes_nothing:
  assumes "handle L R E mid corr body b = (Replied r, b')"
    and "re_error_code r \<in> {BAD_MESSAGE, NOT_IMPLEMENTED, SETTLEMENT_NOT_CONFIGURED}"
  shows "b' = b"
proof -
  note codes = BAD_MESSAGE_def NOT_IMPLEMENTED_def SETTLEMENT_NOT_CONFIGURED_def COMMITMENT_MISMATCH_def
    CBS_DELIVERY_FAILED_def CBS_REJECTED_def PLATFORM_def SETTLEMENT_FAILED_def
  have ne: "re_error_code r \<notin> {[], COMMITMENT_MISMATCH, CBS_DELIVERY_FAILED, CBS_REJECTED, PLATFORM,
      SETTLEMENT_FAILED}" using assms(2) by (auto simp: codes)
  have credit: "credit_notification L R E' corr body b = (Replied r, b') \<Longrightarrow> b' = b" for E'
    by (cases rule: credit_notification_cases [of L body R E' corr b])
       (use ne in \<open>auto simp: credit_deliver_def credit_refused_def Let_def
          split: option.splits sum.splits cbs_error.splits prod.splits if_splits\<close>)
  have claimed: "settle_claimed R svc E' corr si creditor net key b = (Replied r, b') \<Longrightarrow> b' = b"
    for svc E' si creditor net key
    using ne by (auto simp: settle_claimed_def settle_attempt_def reply_for_existing_def Let_def
        split: sum.splits claim.splits prod.splits if_splits settlement_status.splits)
  have instruction: "settlement_instruction L R E' corr body b = (Replied r, b') \<Longrightarrow> b' = b" for E'
    using claimed by (auto simp: settlement_instruction_def split: sum.splits option.splits)
  have advice: "settlement_advice L E' corr body b = (Replied r, b') \<Longrightarrow> b' = b" for E'
    using ne by (auto simp: settlement_advice_def Let_def split: sum.splits prod.splits)
  from assms(1) credit instruction advice show ?thesis
    by (auto simp: handle_def split: if_splits)
qed

lemma refused_message_changes_nothing_witness:
  "snd (handle demo_libs demo_router (demo_env (NoResponse ''x'') ''r-1'' (Inr demo_outcome))
     ''obp_unknown'' ''c-3'' ''body'' demo_paid) = demo_paid"
proof (rule refused_message_changes_nothing)
  show "handle demo_libs demo_router (demo_env (NoResponse ''x'') ''r-1'' (Inr demo_outcome))
      ''obp_unknown'' ''c-3'' ''body'' demo_paid =
    (Replied (reply_error ''c-3'' NOT_IMPLEMENTED ''unrecognised MessageId: obp_unknown''),
     snd (handle demo_libs demo_router (demo_env (NoResponse ''x'') ''r-1'' (Inr demo_outcome))
       ''obp_unknown'' ''c-3'' ''body'' demo_paid))"
    by (simp add: handle_def message_ids)
qed simp

text \<open>
  C10. The rail pays in integers what the obligation is worth at the settle-time rate: never more,
  and less than one lovelace short.
\<close>

theorem lovelace_is_the_rate:
  assumes "fiat_minor_to_lovelace net rate = Inr w"
  shows "unat w * rate \<le> net * 1000000 \<and> net * 1000000 < (unat w + 1) * rate \<and> 0 < unat w"
proof -
  have "0 < net * 1000000 div rate" "unat w = net * 1000000 div rate"
    using assms by (auto simp: fiat_to_lovelace_ok unat_of_nat)
  with fiat_to_lovelace_bounds [OF assms] show ?thesis by simp
qed

lemma lovelace_is_the_rate_witness:
  "unat (352907 :: u64) * 3542 \<le> 1250 * 1000000 \<and> 1250 * 1000000 < (unat (352907 :: u64) + 1) * 3542 \<and>
   0 < unat (352907 :: u64)"
  by (rule lovelace_is_the_rate) code_simp

section \<open>Credits: evidence before money\<close>

text \<open>
  C11. The core banking system is called at most once per delivery, and only when the evidence of
  this notification (commitment, salt, preimage, the raw message) is already stored, and the
  commitment, when the notification carries one, has verified.
\<close>

theorem evidence_before_credit:
  assumes "handle L R E CREDIT_NOTIFICATION corr body b = (r, b')"
  shows "bk_cbs_posts b' = bk_cbs_posts b \<or>
    (\<exists>cn. lb_credit L body = Inr cn \<and> bk_cbs_posts b' = bk_cbs_posts b @ [utf8_lossy body] \<and>
       (evidence_present cn \<longrightarrow> credit_verified (lb_hash L) cn) \<and>
       revealed (cn_transaction_request_id cn) (bk_evidence b') =
         Some (evidence_for (lb_hash L) cn (utf8_lossy body)))"
  using assms by (intro credit_post_evidence) (simp add: handle_def)

lemma evidence_before_credit_witness:
  "revealed ''tr-1'' (bk_evidence (snd (handle demo_libs demo_router (demo_refusal ''r-1'')
     CREDIT_NOTIFICATION ''c-1'' ''body'' demo_bank))) = Some (''saltpre'', ''salt'', ''pre'', True, ''body'')"
proof -
  let ?h = "handle demo_libs demo_router (demo_refusal ''r-1'') CREDIT_NOTIFICATION ''c-1'' ''body'' demo_bank"
  have "bk_cbs_posts (snd ?h) \<noteq> bk_cbs_posts demo_bank" by code_simp
  with evidence_before_credit [of demo_libs demo_router "demo_refusal ''r-1''" "''c-1''" "''body''" demo_bank
      "fst ?h" "snd ?h"]
  have "\<exists>cn. lb_credit demo_libs ''body'' = Inr cn \<and> revealed (cn_transaction_request_id cn) (bk_evidence (snd ?h)) =
      Some (evidence_for (lb_hash demo_libs) cn (utf8_lossy ''body''))" by auto
  moreover have "lb_credit demo_libs ''body'' = Inr demo_credit" by (simp add: demo_libs_def)
  moreover have "evidence_for (lb_hash demo_libs) demo_credit (utf8_lossy ''body'') =
      (''saltpre'', ''salt'', ''pre'', True, ''body'')" "cn_transaction_request_id demo_credit = ''tr-1''"
    by code_simp+
  ultimately show ?thesis by simp
qed

text \<open>
  C12. A notification whose revealed salt and preimage do not open its commitment is never credited
  and never returned; when the reply says so the evidence row says so too.
\<close>

theorem mismatch_never_credited:
  assumes "handle L R E CREDIT_NOTIFICATION corr body b = (r, b')" and "lb_credit L body = Inr cn"
    and "evidence_present cn" and "\<not> credit_verified (lb_hash L) cn"
  shows "bk_cbs_posts b' = bk_cbs_posts b \<and> bk_outbox b' = bk_outbox b \<and>
    (\<exists>rep. r = Replied rep \<and> \<not> reply_is_ok rep \<and>
       (re_error_code rep = COMMITMENT_MISMATCH \<longrightarrow>
          revealed (cn_transaction_request_id cn) (bk_evidence b') =
            Some (evidence_for (lb_hash L) cn (utf8_lossy body))))"
proof -
  from assms(1) have h: "credit_notification L R (me_credit E) corr body b = (r, b')" by (simp add: handle_def)
  show ?thesis
  proof (cases rule: credit_notification_cases [of L body R "me_credit E" corr b])
    case (mismatch cn' now ev)
    with upsert_revealed [OF mismatch(3,2)] h assms(2) show ?thesis
      by (auto simp: reply_is_ok_def COMMITMENT_MISMATCH_def)
  qed (use h assms(2-4) in \<open>auto simp: reply_is_ok_def COMMITMENT_MISMATCH_def PLATFORM_def\<close>)
qed

lemma mismatch_never_credited_witness:
  "bk_cbs_posts (snd (handle demo_forged_libs demo_router (demo_refusal ''r-1'') CREDIT_NOTIFICATION
     ''c-1'' ''body'' demo_bank)) = []"
proof -
  let ?h = "handle demo_forged_libs demo_router (demo_refusal ''r-1'') CREDIT_NOTIFICATION ''c-1'' ''body'' demo_bank"
  have "?h = (fst ?h, snd ?h)" "lb_credit demo_forged_libs ''body'' = Inr demo_forged"
    by (simp_all add: demo_forged_libs_def)
  from mismatch_never_credited [OF this demo_forged_facts] show ?thesis by (simp add: demo_bank_def)
qed

text \<open>
  C13. The node puts a payment of its own into the outbox only as the return of a credit that the CBS
  refused with a status below 500, that is not itself a return and whose commitment verified: one
  \<open>INITIATED\<close> row that pays the same value to the originator named in the preimage.
\<close>

theorem returns_only_refused_credits:
  assumes "handle L R E CREDIT_NOTIFICATION corr body b = (r, b')" and "bk_outbox b' \<noteq> bk_outbox b"
  shows "\<exists>cn status answer bank name scheme address payload now.
    lb_credit L body = Inr cn \<and> cn_return_of cn = None \<and>
    (evidence_present cn \<longrightarrow> credit_verified (lb_hash L) cn) \<and>
    deliver_credit (lb_ack L) (ce_cbs (me_credit E)) = Some (Inl (CbsRejected status answer)) \<and> status < 500 \<and>
    return_target L cn = Inr (bank, name, scheme, address) \<and>
    \<not> is_blank bank \<and> \<not> is_blank scheme \<and> \<not> is_blank address \<and>
    lb_ser_request L (return_request R cn bank name scheme address (take_chars 120 answer)) = Inr payload \<and>
    bk_outbox b' = bk_outbox b @ [outbox_row now
      \<lparr>en_transaction_request_id = ce_return_id (me_credit E), en_bank_id = rt_bank_id R,
       en_account_id = rt_account_id R, en_request_payload = payload,
       en_commitment_salt = ce_salt (me_credit E)\<rparr>]"
proof -
  let ?E = "me_credit E"
  from assms(1) have h: "credit_notification L R ?E corr body b = (r, b')" by (simp add: handle_def)
  show ?thesis
  proof (cases rule: credit_notification_cases [of L body R ?E corr b])
    case (delivers cn now ev)
    let ?b = "b\<lparr>bk_evidence := ev\<rparr>"
    from h delivers(5) have d: "credit_deliver L R ?E corr cn (credit_verified (lb_hash L) cn) (utf8_lossy body) ?b =
        (r, b')" by simp
    from credit_deliver_outbox [OF d] assms(2) obtain status answer where
      1: "deliver_credit (lb_ack L) (ce_cbs ?E) = Some (Inl (CbsRejected status answer))" "status < 500"
        "(r, b') = credit_refused L R ?E corr cn (credit_verified (lb_hash L) cn) status answer
           (?b\<lparr>bk_cbs_posts := bk_cbs_posts ?b @ [utf8_lossy body]\<rparr>)" by auto
    from credit_refused_outbox [OF 1(3) [symmetric]] assms(2) obtain bank name scheme address payload now where
      2: "cn_return_of cn = None" "return_target L cn = Inr (bank, name, scheme, address)"
        "lb_ser_request L (return_request R cn bank name scheme address (take_chars 120 answer)) = Inr payload"
        "bk_outbox b' = bk_outbox b @ [outbox_row now
          \<lparr>en_transaction_request_id = ce_return_id ?E, en_bank_id = rt_bank_id R,
           en_account_id = rt_account_id R, en_request_payload = payload, en_commitment_salt = ce_salt ?E\<rparr>]"
      by auto
    from delivers(1,4) 1(1,2) 2 return_target_nonblank [OF 2(2)] show ?thesis by blast
  qed (use h assms(2) in auto)
qed

lemma returns_only_refused_credits_witness:
  "\<exists>cn status answer. lb_credit demo_libs ''body'' = Inr cn \<and> cn_return_of cn = None \<and>
     deliver_credit (lb_ack demo_libs) (ce_cbs (me_credit (demo_refusal ''r-1''))) =
       Some (Inl (CbsRejected status answer))"
proof -
  let ?h = "handle demo_libs demo_router (demo_refusal ''r-1'') CREDIT_NOTIFICATION ''c-1'' ''body'' demo_bank"
  have "bk_outbox (snd ?h) \<noteq> bk_outbox demo_bank" by code_simp
  with returns_only_refused_credits [of demo_libs demo_router "demo_refusal ''r-1''" "''c-1''" "''body''"
      demo_bank "fst ?h" "snd ?h"]
  show ?thesis by auto
qed

text \<open>One delivery of a credit that the CBS refuses, when every write runs: the return it leaves.\<close>

lemma refused_delivery_outbox:
  assumes "lb_credit L body = Inr cn" and "cn_return_of cn = None"
    and "evidence_present cn \<longrightarrow> credit_verified (lb_hash L) cn"
    and "return_target L cn = Inr (bank, name, scheme, address)"
    and "lb_ser_request L (return_request R cn bank name scheme address (take_chars 120 answer)) = Inr payload"
    and "deliver_credit (lb_ack L) (ce_cbs (me_credit E)) = Some (Inl (CbsRejected status answer))"
    and "status < 500" and "ce_upsert (me_credit E) = Runs t0" and "ce_insert (me_credit E) = Runs now"
    and "ce_return_id (me_credit E) \<notin> ob_transaction_request_id ` set (bk_outbox b)"
  shows "bk_outbox (snd (handle L R E CREDIT_NOTIFICATION corr body b)) = bk_outbox b @ [outbox_row now
      \<lparr>en_transaction_request_id = ce_return_id (me_credit E), en_bank_id = rt_bank_id R,
       en_account_id = rt_account_id R, en_request_payload = payload,
       en_commitment_salt = ce_salt (me_credit E)\<rparr>]"
proof -
  let ?E = "me_credit E"
  have h: "handle L R E CREDIT_NOTIFICATION corr body b = credit_notification L R ?E corr body b"
    by (simp add: handle_def)
  have ins: "initiate_return L R ?E cn answer (bk_outbox b) = (Inr (ce_return_id ?E), bk_outbox b @
      [outbox_row now \<lparr>en_transaction_request_id = ce_return_id ?E, en_bank_id = rt_bank_id R,
       en_account_id = rt_account_id R, en_request_payload = payload, en_commitment_salt = ce_salt ?E\<rparr>])"
    using assms(4,5,9,10) by (auto simp: initiate_return_def sql_has_key_def)
  show ?thesis
  proof (cases rule: credit_notification_cases [of L body R ?E corr b])
    case (delivers cn' t ev)
    let ?v = "credit_verified (lb_hash L) cn" and ?b = "b\<lparr>bk_evidence := ev\<rparr>"
    have cn: "cn' = cn" using delivers(1) assms(1) by simp
    have "credit_deliver L R ?E corr cn ?v (utf8_lossy body) ?b =
        credit_refused L R ?E corr cn ?v status answer (?b\<lparr>bk_cbs_posts := bk_cbs_posts ?b @ [utf8_lossy body]\<rparr>)"
      unfolding credit_deliver_def Let_def assms(6) using assms(7) by simp
    with delivers(5) ins assms(2) show ?thesis by (simp add: h cn credit_refused_def Let_def)
  qed (use assms(1,3,8) in simp_all)
qed

text \<open>
  A redelivered notification whose credit is refused again initiates a second return: two
  deliveries of one message leave two payments to the same originator. (\<open>evidence.rs\<close> says that a
  redelivery is safe.)
\<close>

theorem redelivered_refusal_returns_twice:
  assumes "lb_credit L body = Inr cn" and "cn_return_of cn = None"
    and "evidence_present cn \<longrightarrow> credit_verified (lb_hash L) cn"
    and "return_target L cn = Inr (bank, name, scheme, address)"
    and "lb_ser_request L (return_request R cn bank name scheme address (take_chars 120 answer)) = Inr payload"
    and "\<And>E. E \<in> {E1, E2} \<Longrightarrow>
      deliver_credit (lb_ack L) (ce_cbs (me_credit E)) = Some (Inl (CbsRejected status answer))"
    and "status < 500"
    and "\<And>E. E \<in> {E1, E2} \<Longrightarrow> ce_upsert (me_credit E) = Runs t0 \<and> ce_insert (me_credit E) = Runs now"
    and "\<And>E. E \<in> {E1, E2} \<Longrightarrow> ce_return_id (me_credit E) \<notin> ob_transaction_request_id ` set (bk_outbox b)"
    and "ce_return_id (me_credit E1) \<noteq> ce_return_id (me_credit E2)"
    and "b1 = snd (handle L R E1 CREDIT_NOTIFICATION c1 body b)"
    and "b2 = snd (handle L R E2 CREDIT_NOTIFICATION c2 body b1)"
  shows "\<exists>r1 r2. bk_outbox b2 = bk_outbox b @ [r1, r2] \<and> ob_request_payload r1 = payload \<and>
    ob_request_payload r2 = payload \<and> ob_status r1 = INITIATED \<and> ob_status r2 = INITIATED"
proof -
  let ?row = "\<lambda>E. outbox_row now \<lparr>en_transaction_request_id = ce_return_id (me_credit E), en_bank_id = rt_bank_id R,
      en_account_id = rt_account_id R, en_request_payload = payload, en_commitment_salt = ce_salt (me_credit E)\<rparr>"
  have u: "ce_upsert (me_credit E) = Runs t0" "ce_insert (me_credit E) = Runs now" if "E \<in> {E1, E2}" for E
    using assms(8) [OF that] by simp_all
  note delivery = refused_delivery_outbox [OF assms(1-5) assms(6) assms(7) u]
  have 1: "bk_outbox b1 = bk_outbox b @ [?row E1]"
    unfolding assms(11) by (rule delivery [OF insertI1 insertI1 insertI1 assms(9) [OF insertI1]])
  have E2: "E2 \<in> {E1, E2}" by simp
  from assms(9) [OF E2] assms(10) 1
  have "ce_return_id (me_credit E2) \<notin> ob_transaction_request_id ` set (bk_outbox b1)" by simp
  then have "bk_outbox b2 = bk_outbox b1 @ [?row E2]"
    unfolding assms(12) by (rule delivery [OF E2 E2 E2])
  with 1 show ?thesis by (intro exI [of _ "?row E1"] exI [of _ "?row E2"]) simp
qed

lemma redelivered_refusal_returns_twice_witness:
  "\<exists>r1 r2. bk_outbox (snd (handle demo_libs demo_router (demo_refusal ''r-2'') CREDIT_NOTIFICATION ''c-2'' ''body''
       (snd (handle demo_libs demo_router (demo_refusal ''r-1'') CREDIT_NOTIFICATION ''c-1'' ''body'' demo_bank)))) =
     [r1, r2] \<and> ob_request_payload r1 = ob_request_payload r2"
proof -
  let ?b1 = "snd (handle demo_libs demo_router (demo_refusal ''r-1'') CREDIT_NOTIFICATION ''c-1'' ''body'' demo_bank)"
  have c: "lb_credit demo_libs ''body'' = Inr demo_credit" "cn_return_of demo_credit = None"
    "evidence_present demo_credit \<longrightarrow> credit_verified (lb_hash demo_libs) demo_credit"
    using demo_credit_facts(2) by (simp_all add: demo_libs_def demo_credit_def)
  have p: "lb_ser_request demo_libs (return_request demo_router demo_credit ''ke.02'' ''Ann'' ''IBAN'' ''KE02''
      (take_chars 120 ''closed account'')) = Inr ''payload''" by (simp add: demo_libs_def)
  have e: "ce_upsert (me_credit (demo_refusal rid)) = Runs ''t1''" "ce_insert (me_credit (demo_refusal rid)) = Runs ''t3''"
    "ce_return_id (me_credit (demo_refusal rid)) = rid" for rid
    by (simp_all add: demo_refusal_def demo_env_def demo_credit_env_def)
  have empty: "bk_outbox demo_bank = []" by (simp add: demo_bank_def)
  let ?E = "{demo_refusal ''r-1'', demo_refusal ''r-2''}"
  have d: "deliver_credit (lb_ack demo_libs) (ce_cbs (me_credit E)) = Some (Inl (CbsRejected 422 ''closed account''))"
    and w: "ce_upsert (me_credit E) = Runs ''t1'' \<and> ce_insert (me_credit E) = Runs ''t3''"
    and f: "ce_return_id (me_credit E) \<notin> ob_transaction_request_id ` set (bk_outbox demo_bank)" if "E \<in> ?E" for E
  proof -
    from that obtain rid where E: "E = demo_refusal rid" by blast
    show "deliver_credit (lb_ack demo_libs) (ce_cbs (me_credit E)) = Some (Inl (CbsRejected 422 ''closed account''))"
      unfolding E by (rule demo_credit_facts(4))
    show "ce_upsert (me_credit E) = Runs ''t1'' \<and> ce_insert (me_credit E) = Runs ''t3''" unfolding E e by simp
    show "ce_return_id (me_credit E) \<notin> ob_transaction_request_id ` set (bk_outbox demo_bank)" unfolding empty by simp
  qed
  have "ce_return_id (me_credit (demo_refusal ''r-1'')) \<noteq> ce_return_id (me_credit (demo_refusal ''r-2''))"
    unfolding e(3) by simp
  note redelivered_refusal_returns_twice [OF c demo_credit_facts(1) p d _ w f this refl refl, of "''c-2''" "''c-1''"]
  then show ?thesis unfolding empty by auto
qed

section \<open>The dispatcher\<close>

text \<open>
  C15. What is reported opens what was notarised: the evidence reported for a row, in any later state
  of the outbox, verifies against the commitment written to the chain for it, and a notification
  that carries the two passes the beneficiary bank's check.
\<close>

theorem reported_evidence_opens_commitment:
  assumes "outbox_step\<^sup>*\<^sup>* t t'" and "sql_find ob_transaction_request_id k t = Some r"
    and "sql_find ob_transaction_request_id k t' = Some r'"
    and "cn_promise_commitment cn = Some (pr_commitment (build_commitment L now r))"
    and "cn_promise_salt cn = Some (pe_salt (row_evidence L D r' tx))"
    and "cn_promise_preimage cn = Some (pe_preimage (row_evidence L D r' tx))"
  shows "pe_commitment (row_evidence L D r' tx) = pr_commitment (build_commitment L now r) \<and>
    credit_verified (dl_hash L) cn"
proof -
  from ob.steps_durable [OF assms(1,2)] assms(3) have "payment_of r' = payment_of r" by simp
  then have "ob_frame r = ob_frame r'"
    using sql_find_SomeD [OF assms(2)] sql_find_SomeD [OF assms(3)] by simp
  note agree = build_commitment_evidence [OF this]
  from agree(1) [of L now D tx] agree(2) [of L D tx now] assms(4-6) show ?thesis
    by (simp add: credit_verified_def)
qed

lemma reported_evidence_opens_commitment_witness:
  "\<exists>r r' cn. sql_find ob_transaction_request_id ''tr-7'' demo_inserted = Some r \<and> ob_status r = INITIATED \<and>
     sql_find ob_transaction_request_id ''tr-7'' demo_reported = Some r' \<and> ob_status r' = REPORTED \<and>
     credit_verified (dl_hash demo_dispatch_libs) cn"
proof -
  let ?find = "sql_find ob_transaction_request_id ''tr-7''"
  have "map_option ob_status (?find demo_inserted) = Some INITIATED"
    "map_option ob_status (?find demo_reported) = Some REPORTED" by code_simp+
  then obtain r r' where r: "?find demo_inserted = Some r" "ob_status r = INITIATED"
    "?find demo_reported = Some r'" "ob_status r' = REPORTED" by auto
  have "outbox_step\<^sup>*\<^sup>* (ds_outbox \<lparr>ds_outbox = demo_inserted, ds_token = None, ds_log = []\<rparr>) demo_reported"
    unfolding demo_reported_def demo_pass_def by (rule process_due_once_steps)
  then have steps: "outbox_step\<^sup>*\<^sup>* demo_inserted demo_reported" by simp
  let ?ev = "row_evidence demo_dispatch_libs demo_dispatcher r' ''p-1''"
  let ?cn = "demo_credit\<lparr>cn_promise_commitment := Some (pr_commitment (build_commitment demo_dispatch_libs ''t3'' r)),
      cn_promise_salt := Some (pe_salt ?ev), cn_promise_preimage := Some (pe_preimage ?ev)\<rparr>"
  from reported_evidence_opens_commitment [OF steps r(1,3), of ?cn demo_dispatch_libs _ demo_dispatcher "''p-1''"]
  have "credit_verified (dl_hash demo_dispatch_libs) ?cn" by simp
  with r show ?thesis by blast
qed

text \<open>A \<open>REPORTED\<close> row names OBP's transaction request and the promise transaction on the chain.\<close>

theorem reported_row_has_ids:
  assumes "outbox_life_step\<^sup>*\<^sup>* [] t" and "r \<in> set t" and "ob_status r = REPORTED"
  shows "ob_obp_transaction_request_id r \<noteq> None \<and> ob_promise_tx_id r \<noteq> None"
proof -
  from outbox_life_reported_ids [OF assms(1), of "ob_transaction_request_id r"] assms(2)
  have "reported_ids r" by (auto dest: sql_find_unique)
  with assms(3) show ?thesis by (simp add: reported_ids_def)
qed

lemma reported_row_has_ids_witness:
  "ob_obp_transaction_request_id (hd demo_reported) \<noteq> None \<and> ob_promise_tx_id (hd demo_reported) \<noteq> None"
proof (rule reported_row_has_ids [OF demo_reported_reached])
  have "demo_reported \<noteq> []" using demo_reported_rows by auto
  then show "hd demo_reported \<in> set demo_reported" by simp
  show "ob_status (hd demo_reported) = REPORTED" by code_simp
qed

text \<open>
  C16. In every state reachable from an empty outbox under inserts, settlement stamps and
  dispatcher passes (whatever call or statement fails), the columns of each row fit its status: an
  \<open>INITIATED\<close> row names nothing of OBP-API or of the chain, a \<open>PROMISE_WRITTEN\<close> or \<open>REPORTED\<close> row
  has its promise transaction together with the chain it is on, a \<open>REPORTED\<close> row also OBP's
  transaction request, only an \<open>EXCEPTION\<close> row has a reason, every row past \<open>INITIATED\<close> had an
  attempt, and a settlement stamp comes with its time and only on a row OBP has named. And the row
  is the only one with its key.
\<close>

theorem outbox_columns_fit:
  assumes "outbox_life_step\<^sup>*\<^sup>* [] t" and "r \<in> set t"
  shows "row_wf r \<and> sql_find ob_transaction_request_id (ob_transaction_request_id r) t = Some r"
proof -
  from outbox_life_wf [OF assms(1)] have wf: "outbox_wf t" by (simp add: outbox_wf_def)
  with assms(2) sql_find_unique [of ob_transaction_request_id t r] show ?thesis
    by (simp add: outbox_wf_def list_all_iff)
qed

lemma outbox_columns_fit_witness:
  "ob_status (hd demo_reported) = REPORTED \<and> row_wf (hd demo_reported)"
proof -
  have "demo_reported \<noteq> []" using demo_reported_rows by auto
  then have "hd demo_reported \<in> set demo_reported" by simp
  from outbox_columns_fit [OF demo_reported_reached this] have "row_wf (hd demo_reported)" by simp
  moreover have "ob_status (hd demo_reported) = REPORTED" by code_simp
  ultimately show ?thesis by simp
qed

end
